(* ===== verification/Prelude.thy ===== *)
theory Prelude
  imports Main "HOL-Library.AList" "HOL-Library.Multiset" "HOL-Library.List_Lexorder"
    "HOL-Library.Char_ord" "HOL-Library.More_List"
    "HOL-Library.Product_Lexorder"
begin

text \<open>
  Shared vocabulary of the development.

  Go values are modelled as follows.  A slice is a list.  A Go map is an association list
  with distinct keys: its order is the (unspecified) order in which one \<open>range\<close> loop visits
  the map, and no statement fixes that order, so each holds for whichever order the runtime
  picks.  A Go string is a \<open>string\<close> (a list of bytes), ordered byte-wise as Go's \<open><\<close> does.
  A 64-bit \<open>int\<close> is an \<open>int\<close>, with the wrap-around written out by \<open>wrap64\<close> where the program
  does arithmetic on values it does not control.
\<close>

section \<open>Fact collections\<close>

named_theorems go_map \<open>lookups in association lists that model Go maps\<close>
named_theorems join_spec \<open>what the results of a join satisfy\<close>
named_theorems row_ops \<open>the effect of the database primitives on the rows of a table\<close>

section \<open>Go maps\<close>

type_synonym ('k, 'v) gomap = "('k \<times> 'v) list"

abbreviation gget :: "('k, 'v) gomap \<Rightarrow> 'k \<Rightarrow> 'v option" where
  "gget m k \<equiv> map_of m k"

abbreviation gput :: "'k \<Rightarrow> 'v \<Rightarrow> ('k, 'v) gomap \<Rightarrow> ('k, 'v) gomap" where
  "gput k v m \<equiv> AList.update k v m"

abbreviation gdel :: "'k \<Rightarrow> ('k, 'v) gomap \<Rightarrow> ('k, 'v) gomap" where
  "gdel k m \<equiv> AList.delete k m"

abbreviation wf_gomap :: "('k, 'v) gomap \<Rightarrow> bool" where
  "wf_gomap m \<equiv> distinct (map fst m)"

text \<open>A Go set is a \<open>map[k]struct{}\<close>: a list without repetition.\<close>

definition sput :: "'k \<Rightarrow> 'k list \<Rightarrow> 'k list" where
  "sput k ks = (if k \<in> set ks then ks else ks @ [k])"

lemma set_sput [simp]: "set (sput k ks) = insert k (set ks)"
  by (auto simp: sput_def)

lemma distinct_sput [simp]: "distinct ks \<Longrightarrow> distinct (sput k ks)"
  by (auto simp: sput_def)

lemma gget_gput [go_map]: "gget (gput k v m) = (gget m)(k \<mapsto> v)"
  by (rule update_conv')

lemma gget_gdel [go_map]: "gget (gdel k m) = (gget m)(k := None)"
  by (rule delete_conv')

lemma wf_gput [simp]: "wf_gomap m \<Longrightarrow> wf_gomap (gput k v m)"
  by (rule distinct_update)

lemma wf_gdel [simp]: "wf_gomap m \<Longrightarrow> wf_gomap (gdel k m)"
  by (rule distinct_delete)

lemma gput_fresh: "k \<notin> fst ` set m \<Longrightarrow> gput k v m = m @ [(k, v)]"
  by (induction m) auto

lemma set_gput: "wf_gomap m \<Longrightarrow> set (gput k v m) = insert (k, v) {e \<in> set m. fst e \<noteq> k}"
  by (induction m) force+

lemma keys_gput: "fst ` set (gput k v m) = insert k (fst ` set m)"
  using arg_cong [OF update_keys, of set k v m] by (auto split: if_splits)

lemma set_gdel: "set (gdel k m) = {e \<in> set m. fst e \<noteq> k}"
  by (auto simp: AList.delete_eq)

section \<open>Multisets of list elements\<close>

lemma mset_map_split:
  "mset (map f xs) = mset (map f (filter P xs)) + mset (map f (filter (\<lambda>x. \<not> P x) xs))"
  by (induction xs) auto

section \<open>Integers\<close>

text \<open>Go's 64-bit two's complement \<open>int\<close>, and its truncated division and remainder.\<close>

definition wrap64 :: "int \<Rightarrow> int" where
  "wrap64 x = (x + 2 ^ 63) mod 2 ^ 64 - 2 ^ 63"

definition int64 :: "int \<Rightarrow> bool" where
  "int64 x \<longleftrightarrow> - (2 ^ 63) \<le> x \<and> x < 2 ^ 63"

lemma int64_wrap64 [simp]: "int64 (wrap64 x)"
  by (simp add: int64_def wrap64_def)

lemma wrap64_id [simp]: "int64 x \<Longrightarrow> wrap64 x = x"
  by (simp add: int64_def wrap64_def)

definition quot64 :: "int \<Rightarrow> int \<Rightarrow> int" where
  "quot64 a b = wrap64 (sgn a * sgn b * (\<bar>a\<bar> div \<bar>b\<bar>))"

definition rem64 :: "int \<Rightarrow> int \<Rightarrow> int" where
  "rem64 a b = sgn a * (\<bar>a\<bar> mod \<bar>b\<bar>)"

text \<open>The decimal rendering of \<open>%d\<close> and the inverse that \<open>strconv.Atoi\<close> computes on digits.\<close>

definition digitChar :: "nat \<Rightarrow> char" where
  "digitChar n = char_of (48 + n)"

definition isDigit :: "char \<Rightarrow> bool" where
  "isDigit c \<longleftrightarrow> 48 \<le> (of_char c :: nat) \<and> (of_char c :: nat) \<le> 57"

definition digitVal :: "char \<Rightarrow> nat" where
  "digitVal c = of_char c - 48"

fun natStr :: "nat \<Rightarrow> string" where
  "natStr n = (if n < 10 then [digitChar n] else natStr (n div 10) @ [digitChar (n mod 10)])"

declare natStr.simps [simp del]

definition itoa :: "int \<Rightarrow> string" where
  "itoa x = (if x < 0 then ''-'' @ natStr (nat (- x)) else natStr (nat x))"

definition digitsVal :: "string \<Rightarrow> nat" where
  "digitsVal s = foldl (\<lambda>n c. 10 * n + digitVal c) 0 s"

lemma digitChar_props [simp]:
  assumes "n < 10"
  shows "isDigit (digitChar n)" and "digitVal (digitChar n) = n"
  using assms by (simp_all add: isDigit_def digitVal_def digitChar_def of_char_of take_bit_nat_def)

lemma natStr_digits: "list_all isDigit (natStr n) \<and> natStr n \<noteq> []"
proof (induction n rule: natStr.induct)
  case (1 n)
  then show ?case by (subst (1 2) natStr.simps) simp
qed

lemma digitsVal_natStr [simp]: "digitsVal (natStr n) = n"
proof (induction n rule: natStr.induct)
  case (1 n)
  then show ?case by (subst natStr.simps) (simp add: digitsVal_def)
qed

lemma natStr_inject [simp]: "natStr m = natStr n \<longleftrightarrow> m = n"
  by (metis digitsVal_natStr)

section \<open>Strings\<close>

text \<open>\<open>strings.Join\<close>.\<close>

fun joinStr :: "string \<Rightarrow> string list \<Rightarrow> string" where
  "joinStr sep [] = ''''"
| "joinStr sep [s] = s"
| "joinStr sep (s # t # ss) = s @ sep @ joinStr sep (t # ss)"

text \<open>\<open>fmt.Sprint\<close> of a \<open>[]string\<close> and of a boolean.\<close>

definition sliceString :: "string list \<Rightarrow> string" where
  "sliceString xs = ''['' @ joinStr '' '' xs @ '']''"

definition boolString :: "bool \<Rightarrow> string" where
  "boolString b = (if b then ''true'' else ''false'')"

section \<open>Sorting\<close>

text \<open>
  \<open>sort.Sort\<close> by a \<open>Less\<close> function.  The algorithm of the library is unstable and unspecified;
  where \<open>lt\<close> is the strict order of a key that is injective on the slice the result is
  the only sorted permutation (locale \<open>sort_order\<close>), so an insertion sort stands for it.
\<close>

fun insertBy :: "('a \<Rightarrow> 'a \<Rightarrow> bool) \<Rightarrow> 'a \<Rightarrow> 'a list \<Rightarrow> 'a list" where
  "insertBy lt x [] = [x]"
| "insertBy lt x (y # ys) = (if lt y x then y # insertBy lt x ys else x # y # ys)"

definition goSort :: "('a \<Rightarrow> 'a \<Rightarrow> bool) \<Rightarrow> 'a list \<Rightarrow> 'a list" where
  "goSort lt xs = foldr (insertBy lt) xs []"

lemma mset_insertBy [simp]: "mset (insertBy lt x ys) = add_mset x (mset ys)"
  by (induction ys) auto

lemma mset_goSort [simp]: "mset (goSort lt xs) = mset xs"
  by (induction xs) (simp_all add: goSort_def)

lemma set_goSort [simp]: "set (goSort lt xs) = set xs"
  by (metis mset_goSort set_mset_mset)

locale sort_order =
  fixes lt :: "'a \<Rightarrow> 'a \<Rightarrow> bool" and key :: "'a \<Rightarrow> 'k::linorder"
  assumes lt_key: "lt a b \<longleftrightarrow> key a < key b"
begin

lemma insertBy_insort: "insertBy lt x ys = insort_key key x ys"
  by (induction ys) (auto simp: lt_key not_less)

lemma goSort_sort: "goSort lt xs = sort_key key xs"
  by (simp add: goSort_def sort_key_def insertBy_insort [abs_def])

lemma sorted: "sorted (map key (goSort lt xs))"
  by (simp add: goSort_sort)

lemma asym: "lt a b \<Longrightarrow> \<not> lt b a"
  by (simp add: lt_key)

text \<open>Whatever order the elements come in, and whatever sorting algorithm is used.\<close>

lemma unique:
  assumes "mset ys = mset xs" and "sorted (map key ys)" and "inj_on key (set xs)"
  shows "ys = goSort lt xs"
proof -
  have "mset (map key ys) = mset (map key (goSort lt xs))"
    using assms(1) by simp
  then have "map key ys = map key (goSort lt xs)"
    using assms(2) sorted by (metis properties_for_sort)
  then show ?thesis
    using assms by (metis inj_on_map_eq_map mset_eq_setD set_goSort sup.idem)
qed

end

end
