(* ===== verification/Join.thy ===== *)
theory Join
  imports Prelude
begin

text \<open>
  The matching algorithm of \<open>src/join/join.go\<close>.  Every reconciliation loop of the system
  (machines against the cloud, containers against docker, rules against iptables, \<dots>) is a
  call of \<open>Join\<close>, so the facts proved here carry the properties of all of them.

  \<open>innerLoop\<close> is the loop over \<open>lonelyRights\<close>, \<open>joinLoop\<close> the labelled outer loop, \<open>sliceDel\<close>
  the constant-time deletion that moves the last element into the hole.
\<close>

section \<open>The algorithm\<close>

definition sliceDel :: "'a list \<Rightarrow> nat \<Rightarrow> 'a list" where
  "sliceDel slice i = (let l = length slice in take (l - 1) (slice[i := slice ! (l - 1)]))"

text \<open>
  The scan of \<open>lonelyRights\<close> for one left element: \<open>i\<close> is the index of the head of the list
  still to visit.  The result is the index that gets paired (a zero score ends the scan at
  once), or -1.
\<close>

fun innerLoop :: "('l \<Rightarrow> 'r \<Rightarrow> int) \<Rightarrow> 'l \<Rightarrow> nat \<Rightarrow> 'r list \<Rightarrow> int \<Rightarrow> int \<Rightarrow> int" where
  "innerLoop score l i [] bestScore bestIndex = bestIndex"
| "innerLoop score l i (r # rs) bestScore bestIndex =
     (let s = score l r in
      if s < 0 then innerLoop score l (Suc i) rs bestScore bestIndex
      else if s = 0 then int i
      else if s < bestScore \<or> bestScore < 0 then innerLoop score l (Suc i) rs s (int i)
      else innerLoop score l (Suc i) rs bestScore bestIndex)"

fun joinLoop :: "('l \<Rightarrow> 'r \<Rightarrow> int) \<Rightarrow> 'l list \<Rightarrow> 'r list \<Rightarrow> ('l \<times> 'r) list \<Rightarrow> 'l list
    \<Rightarrow> ('l \<times> 'r) list \<times> 'l list \<times> 'r list" where
  "joinLoop score [] lonelyRights pairs lonelyLefts = (pairs, lonelyLefts, lonelyRights)"
| "joinLoop score (l # ls) lonelyRights pairs lonelyLefts =
     (let bestIndex = innerLoop score l 0 lonelyRights (-1) (-1) in
      if bestIndex \<ge> 0
      then joinLoop score ls (sliceDel lonelyRights (nat bestIndex))
             (pairs @ [(l, lonelyRights ! nat bestIndex)]) lonelyLefts
      else joinLoop score ls lonelyRights pairs (lonelyLefts @ [l]))"

definition Join :: "'l list \<Rightarrow> 'r list \<Rightarrow> ('l \<Rightarrow> 'r \<Rightarrow> int)
    \<Rightarrow> ('l \<times> 'r) list \<times> 'l list \<times> 'r list" where
  "Join lSlice rSlice score = joinLoop score lSlice rSlice [] []"

section \<open>Deleting from a slice\<close>

lemma mset_sliceDel [join_spec]:
  assumes "i < length xs"
  shows "mset xs = add_mset (xs ! i) (mset (sliceDel xs i))"
proof -
  obtain ys y where xs: "xs = ys @ [y]"
    using assms by (cases xs rule: rev_cases) auto
  show ?thesis
  proof (cases "i = length ys")
    case True
    then show ?thesis by (simp add: xs sliceDel_def Let_def)
  next
    case False
    with assms xs have i: "i < length ys" by simp
    then have "mset (sliceDel xs i) = add_mset y (mset ys - {#ys ! i#})"
      by (simp add: xs sliceDel_def Let_def list_update_append mset_update)
    with i show ?thesis by (simp add: xs nth_append)
  qed
qed

lemma length_sliceDel [simp]: "length (sliceDel xs i) = length xs - 1"
  by (simp add: sliceDel_def Let_def)

section \<open>One left element\<close>

text \<open>
  \<open>better\<close> says that the pair (score, index) in hand is the one a full scan of the list would
  prefer: no element has a smaller non-negative score.
\<close>

definition best_at :: "('l \<Rightarrow> 'r \<Rightarrow> int) \<Rightarrow> 'l \<Rightarrow> 'r list \<Rightarrow> nat \<Rightarrow> bool" where
  "best_at score l rs k \<longleftrightarrow> k < length rs \<and> 0 \<le> score l (rs ! k) \<and>
     (\<forall>r \<in> set rs. 0 \<le> score l r \<longrightarrow> score l (rs ! k) \<le> score l r)"

definition scan_inv :: "('l \<Rightarrow> 'r \<Rightarrow> int) \<Rightarrow> 'l \<Rightarrow> 'r list \<Rightarrow> int \<Rightarrow> int \<Rightarrow> bool" where
  "scan_inv score l pre bs bi \<longleftrightarrow>
     (if bi < 0 then bs < 0 \<and> (\<forall>r \<in> set pre. score l r < 0)
      else best_at score l pre (nat bi) \<and> bs = score l (pre ! nat bi) \<and> 0 < bs)"

lemma scan_inv_skip:
  "scan_inv score l pre bs bi \<Longrightarrow> score l r < 0 \<or> (0 \<le> bs \<and> bs \<le> score l r) \<Longrightarrow>
     scan_inv score l (pre @ [r]) bs bi"
  by (auto simp: scan_inv_def best_at_def nth_append split: if_splits)

lemma scan_inv_take:
  assumes "scan_inv score l pre bs bi" and "0 < score l r" and "score l r < bs \<or> bs < 0"
  shows "scan_inv score l (pre @ [r]) (score l r) (int (length pre))"
proof -
  have "score l r \<le> score l r'" if "r' \<in> set pre" "0 \<le> score l r'" for r'
    using assms that by (fastforce simp: scan_inv_def best_at_def split: if_splits)
  with assms(2) show ?thesis by (auto simp: scan_inv_def best_at_def)
qed

lemma innerLoop_scan:
  assumes "scan_inv score l pre bs bi" and "innerLoop score l (length pre) rs bs bi = k"
  shows "(k < 0 \<and> (\<forall>r \<in> set (pre @ rs). score l r < 0)) \<or>
         (0 \<le> k \<and> best_at score l (pre @ rs) (nat k))"
  using assms
proof (induction rs arbitrary: pre bs bi)
  case Nil
  then show ?case by (auto simp: scan_inv_def split: if_splits)
next
  case (Cons r rs)
  have step: "scan_inv score l (pre @ [r]) bs' bi' \<Longrightarrow>
      innerLoop score l (Suc (length pre)) rs bs' bi' = k \<Longrightarrow> ?case" for bs' bi'
    using Cons.IH [of "pre @ [r]" bs' bi'] by simp
  consider "score l r < 0" | "score l r = 0"
    | "0 < score l r" "score l r < bs \<or> bs < 0" | "0 < score l r" "\<not> (score l r < bs \<or> bs < 0)"
    by linarith
  then show ?case
  proof cases
    case 1
    with Cons.prems show ?thesis
      by (intro step [of bs bi] scan_inv_skip) simp_all
  next
    case 2
    with Cons.prems(2) show ?thesis by (auto simp: best_at_def)
  next
    case 3
    with Cons.prems show ?thesis
      by (intro step [of "score l r" "int (length pre)"] scan_inv_take) (simp_all add: Let_def)
  next
    case 4
    with Cons.prems show ?thesis
      by (intro step [of bs bi] scan_inv_skip) (simp_all add: Let_def)
  qed
qed

lemma innerLoop_best:
  assumes "innerLoop score l 0 rs (-1) (-1) = k"
  shows "(k < 0 \<and> (\<forall>r \<in> set rs. score l r < 0)) \<or> (0 \<le> k \<and> best_at score l rs (nat k))"
  using innerLoop_scan [of score l "[]" "-1" "-1" rs k] assms by (simp add: scan_inv_def)

section \<open>Greedy matching as a specification\<close>

text \<open>
  The contract of the package comment as a relation over multisets: the lefts are served in
  order, each takes some remaining right with the smallest non-negative score, and stays
  alone only when every remaining right scores negatively.  Which of several equally good
  rights is taken is left open.
\<close>

inductive greedy :: "('l \<Rightarrow> 'r \<Rightarrow> int) \<Rightarrow> 'l list \<Rightarrow> 'r multiset
    \<Rightarrow> ('l \<times> 'r) list \<Rightarrow> 'l list \<Rightarrow> 'r multiset \<Rightarrow> bool" for score where
  greedy_done: "greedy score [] rights [] [] rights"
| greedy_pair: "r \<in># rights \<Longrightarrow> 0 \<le> score l r \<Longrightarrow>
     (\<forall>r' \<in># rights. 0 \<le> score l r' \<longrightarrow> score l r \<le> score l r') \<Longrightarrow>
     greedy score ls (rights - {#r#}) pairs lefts rest \<Longrightarrow>
     greedy score (l # ls) rights ((l, r) # pairs) lefts rest"
| greedy_alone: "(\<forall>r \<in># rights. score l r < 0) \<Longrightarrow>
     greedy score ls rights pairs lefts rest \<Longrightarrow>
     greedy score (l # ls) rights pairs (l # lefts) rest"

lemma joinLoop_greedy:
  assumes "joinLoop score ls rights pairs lefts = (P, L, R)"
  shows "\<exists>pairs' lefts'. P = pairs @ pairs' \<and> L = lefts @ lefts' \<and>
     greedy score ls (mset rights) pairs' lefts' (mset R)"
  using assms
proof (induction ls arbitrary: rights pairs lefts)
  case Nil
  then show ?case by (auto intro: greedy_done)
next
  case (Cons l ls)
  define k where "k = innerLoop score l 0 rights (-1) (-1)"
  from innerLoop_best [OF k_def [symmetric]] consider
      (alone) "k < 0" "\<forall>r \<in> set rights. score l r < 0"
    | (pair) "0 \<le> k" "best_at score l rights (nat k)" by blast
  then show ?case
  proof cases
    case alone
    with Cons.prems have "joinLoop score ls rights pairs (lefts @ [l]) = (P, L, R)"
      by (simp add: k_def [symmetric] Let_def)
    from Cons.IH [OF this] obtain pairs' lefts' where "P = pairs @ pairs'" "L = lefts @ l # lefts'"
      "greedy score ls (mset rights) pairs' lefts' (mset R)" by auto
    moreover from this(3) alone(2) have "greedy score (l # ls) (mset rights) pairs' (l # lefts') (mset R)"
      by (intro greedy_alone) simp_all
    ultimately show ?thesis by blast
  next
    case pair
    let ?r = "rights ! nat k" and ?rs = "sliceDel rights (nat k)"
    from pair have k: "nat k < length rights" by (simp add: best_at_def)
    then have rs: "mset ?rs = mset rights - {#?r#}" and mem: "?r \<in> set rights"
      by (simp_all add: mset_sliceDel)
    from Cons.prems pair(1) have "joinLoop score ls ?rs (pairs @ [(l, ?r)]) lefts = (P, L, R)"
      by (simp add: k_def [symmetric] Let_def)
    from Cons.IH [OF this] obtain pairs' lefts' where eq: "P = pairs @ (l, ?r) # pairs'"
      "L = lefts @ lefts'" and g: "greedy score ls (mset ?rs) pairs' lefts' (mset R)" by auto
    have "greedy score (l # ls) (mset rights) ((l, ?r) # pairs') lefts' (mset R)"
      using pair(2) g mem by (intro greedy_pair) (simp_all add: rs best_at_def)
    with eq show ?thesis by blast
  qed
qed

lemma Join_greedy:
  "Join ls rs score = (pairs, lefts, rights) \<Longrightarrow> greedy score ls (mset rs) pairs lefts (mset rights)"
  using joinLoop_greedy [of score ls rs "[]" "[]"] by (fastforce simp: Join_def)

lemma greedy_partition:
  "greedy score ls rs pairs lefts rest \<Longrightarrow>
     mset ls = mset (map fst pairs) + mset lefts \<and> rs = mset (map snd pairs) + rest"
proof (induction rule: greedy.induct)
  case (greedy_pair r rights l ls pairs lefts rest)
  from greedy_pair.IH have "add_mset r (rights - {#r#}) = mset (map snd ((l, r) # pairs)) + rest"
    by simp
  with insert_DiffM [OF greedy_pair.hyps(1)] greedy_pair.IH show ?case by simp
qed simp_all

lemma greedy_rest_subset: "greedy score ls rs pairs lefts rest \<Longrightarrow> rest \<subseteq># rs"
  by (drule greedy_partition) simp

lemma greedy_nonneg:
  "greedy score ls rs pairs lefts rest \<Longrightarrow> (l, r) \<in> set pairs \<Longrightarrow> 0 \<le> score l r"
  by (induction rule: greedy.induct) auto

lemma greedy_maximal:
  "greedy score ls rs pairs lefts rest \<Longrightarrow> l \<in> set lefts \<Longrightarrow> r \<in># rest \<Longrightarrow> score l r < 0"
proof (induction rule: greedy.induct)
  case (greedy_alone rights l' ls pairs lefts rest)
  from greedy_rest_subset [OF greedy_alone.hyps(2)] greedy_alone.prems(2) have "r \<in># rights"
    by (rule mset_subset_eqD)
  with greedy_alone show ?case by auto
qed auto

section \<open>What clients of Join rely on\<close>

lemma Join_partition [join_spec]:
  assumes "Join ls rs score = (pairs, lefts, rights)"
  shows "mset ls = mset (map fst pairs) + mset lefts"
    and "mset rs = mset (map snd pairs) + mset rights"
  using greedy_partition [OF Join_greedy [OF assms]] by simp_all

lemma Join_nonneg [join_spec]:
  "Join ls rs score = (pairs, lefts, rights) \<Longrightarrow> (l, r) \<in> set pairs \<Longrightarrow> 0 \<le> score l r"
  by (rule greedy_nonneg [OF Join_greedy])

lemma Join_maximal [join_spec]:
  assumes "Join ls rs score = (pairs, lefts, rights)" and "l \<in> set lefts" and "r \<in> set rights"
  shows "score l r < 0"
  using greedy_maximal [OF Join_greedy [OF assms(1)] assms(2)] assms(3) by simp

lemma Join_set:
  assumes "Join ls rs score = (pairs, lefts, rights)"
  shows "set ls = fst ` set pairs \<union> set lefts" and "set rs = snd ` set pairs \<union> set rights"
  using Join_partition [OF assms, THEN arg_cong [where f = set_mset]] by simp_all

lemma Join_length:
  assumes "Join ls rs score = (pairs, lefts, rights)"
  shows "length ls = length pairs + length lefts" and "length rs = length pairs + length rights"
  using Join_partition [OF assms, THEN arg_cong [where f = size]] by simp_all

section \<open>Joins on a key\<close>

text \<open>
  Most clients accept a pair when both sides name the same thing and refuse it otherwise.  Such a
  join computes a multiset difference in both directions.  Some score functions have this
  property only for right elements whose fields have been filled in, which \<open>valid\<close> says.
\<close>

locale keyed_join =
  fixes score :: "'l \<Rightarrow> 'r \<Rightarrow> int" and keyL :: "'l \<Rightarrow> 'k" and keyR :: "'r \<Rightarrow> 'k" and valid :: "'r \<Rightarrow> bool"
  assumes score_key: "valid r \<Longrightarrow> 0 \<le> score l r \<longleftrightarrow> keyL l = keyR r"
begin

lemma pairs_agree:
  assumes "Join ls rs score = (pairs, lefts, rights)" and "list_all valid rs" and "(l, r) \<in> set pairs"
  shows "keyL l = keyR r"
proof -
  have "r \<in> set rs" using Join_set(2) [OF assms(1)] assms(3) by force
  with assms(2) have "valid r" by (simp add: list_all_iff)
  with score_key [of r l] Join_nonneg [OF assms(1,3)] show ?thesis by simp
qed

lemma pair_keys:
  "Join ls rs score = (pairs, lefts, rights) \<Longrightarrow> list_all valid rs \<Longrightarrow>
     map (keyL \<circ> fst) pairs = map (keyR \<circ> snd) pairs"
  using pairs_agree by fastforce

lemma keys_split:
  assumes "Join ls rs score = (pairs, lefts, rights)" and "list_all valid rs"
  shows "mset (map keyL ls) = mset (map (keyR \<circ> snd) pairs) + mset (map keyL lefts)"
    and "mset (map keyR rs) = mset (map (keyR \<circ> snd) pairs) + mset (map keyR rights)"
proof -
  have "image_mset keyL (mset ls) = mset (map (keyL \<circ> fst) pairs) + mset (map keyL lefts)"
    by (subst Join_partition(1) [OF assms(1)]) (simp add: multiset.map_comp)
  then show "mset (map keyL ls) = mset (map (keyR \<circ> snd) pairs) + mset (map keyL lefts)"
    by (simp add: pair_keys [OF assms])
  show "mset (map keyR rs) = mset (map (keyR \<circ> snd) pairs) + mset (map keyR rights)"
    using arg_cong [OF Join_partition(2) [OF assms(1)], of "image_mset keyR"]
    by (simp add: multiset.map_comp)
qed

lemma lonely_disjoint:
  assumes "Join ls rs score = (pairs, lefts, rights)" and "list_all valid rs"
  shows "mset (map keyL lefts) \<inter># mset (map keyR rights) = {#}"
proof -
  have "keyL l \<noteq> keyR r" if "l \<in> set lefts" "r \<in> set rights" for l r
  proof -
    have "valid r" using Join_set(2) [OF assms(1)] that(2) assms(2) by (simp add: list_all_iff)
    with Join_maximal [OF assms(1) that] score_key [of r l] show ?thesis by linarith
  qed
  then show ?thesis by (auto simp: disjunct_not_in)
qed

lemma lefts_keys:
  assumes "Join ls rs score = (pairs, lefts, rights)" and "list_all valid rs"
  shows "mset (map keyL lefts) = mset (map keyL ls) - mset (map keyR rs)"
  using lonely_disjoint [OF assms]
  unfolding keys_split [OF assms]
  by (metis add_diff_cancel_left diff_intersect_left_idem diff_zero)

lemma rights_keys:
  assumes "Join ls rs score = (pairs, lefts, rights)" and "list_all valid rs"
  shows "mset (map keyR rights) = mset (map keyR rs) - mset (map keyL ls)"
  using lonely_disjoint [OF assms]
  unfolding keys_split [OF assms]
  by (metis add_diff_cancel_left diff_intersect_right_idem diff_zero inter_mset_def
      subset_mset.inf_commute)

text \<open>Dropping the lonely lefts and adding the lonely rights turns one side into the other.\<close>

lemma reconciled:
  assumes "Join ls rs score = (pairs, lefts, rights)" and "list_all valid rs"
  shows "(mset (map keyL ls) - mset (map keyL lefts)) + mset (map keyR rights) = mset (map keyR rs)"
  unfolding keys_split [OF assms] by simp

lemma already_equal:
  assumes "Join ls rs score = (pairs, lefts, rights)" and "list_all valid rs"
    and "mset (map keyL ls) = mset (map keyR rs)"
  shows "lefts = []" and "rights = []"
  using lefts_keys [OF assms(1,2)] rights_keys [OF assms(1,2)] assms(3) by simp_all

end

section \<open>Joins that never refuse\<close>

text \<open>
  Two clients (the connection table and the label table) score every pair non-negatively: a
  row that matches nothing is recycled for another entry.
\<close>

locale total_join =
  fixes score :: "'l \<Rightarrow> 'r \<Rightarrow> int"
  assumes score_nonneg: "0 \<le> score l r"
begin

lemma one_side_empty:
  assumes "Join ls rs score = (pairs, lefts, rights)"
  shows "lefts = [] \<or> rights = []"
proof (rule ccontr)
  assume "\<not> (lefts = [] \<or> rights = [])"
  then obtain l r where "l \<in> set lefts" "r \<in> set rights"
    by (metis list.set_intros(1) neq_Nil_conv)
  with Join_maximal [OF assms] score_nonneg [of l r] show False by fastforce
qed

lemma pair_count:
  assumes "Join ls rs score = (pairs, lefts, rights)"
  shows "length pairs = min (length ls) (length rs)"
  using one_side_empty [OF assms] Join_length [OF assms] by auto

end

text \<open>
  When in addition a zero score means that both sides name the same thing, a side that already
  equals the other is matched exactly.
\<close>

locale exact_join = total_join score for score :: "'l \<Rightarrow> 'r \<Rightarrow> int" +
  fixes keyL :: "'l \<Rightarrow> 'k" and keyR :: "'r \<Rightarrow> 'k"
  assumes zero_key: "score l r = 0 \<longleftrightarrow> keyL l = keyR r"
begin

lemma greedy_exact:
  "greedy score ls rs pairs lefts rest \<Longrightarrow> mset (map keyL ls) = image_mset keyR rs \<Longrightarrow>
     list_all (\<lambda>(l, r). keyL l = keyR r) pairs \<and> lefts = [] \<and> rest = {#}"
proof (induction rule: greedy.induct)
  case (greedy_pair r rights l ls pairs lefts rest)
  from greedy_pair.prems have "keyL l \<in># image_mset keyR rights"
    by (metis list.set_intros(1) list.simps(9) set_mset_mset)
  then obtain r' where r': "r' \<in># rights" "keyL l = keyR r'" by auto
  then have "score l r' = 0" by (simp add: zero_key)
  with greedy_pair.hyps(3) r'(1) have "score l r \<le> 0" by auto
  with score_nonneg [of l r] have k: "keyL l = keyR r" by (simp flip: zero_key)
  have "mset (map keyL ls) = image_mset keyR (rights - {#r#})"
    using greedy_pair.prems greedy_pair.hyps(1) k
    by (simp add: image_mset_Diff) (metis add_mset_remove_trivial)
  from greedy_pair.IH [OF this] k show ?case by simp
next
  case (greedy_alone rights l ls pairs lefts rest)
  from greedy_alone.prems have "rights \<noteq> {#}" by auto
  then obtain r where "r \<in># rights" by auto
  with greedy_alone.hyps(1) score_nonneg [of l r] show ?case by fastforce
qed simp

lemma already_exact:
  assumes "Join ls rs score = (pairs, lefts, rights)" and "mset (map keyL ls) = mset (map keyR rs)"
  shows "list_all (\<lambda>(l, r). keyL l = keyR r) pairs \<and> lefts = [] \<and> rights = []"
  using greedy_exact [OF Join_greedy [OF assms(1)]] assms(2) by simp

end

section \<open>Properties\<close>

text \<open>C14: \<open>Join\<close> implements the greedy matching of its package comment: each left element, in
  order, takes a remaining right element with the non-negative score closest to zero, and is
  lonely only if all remaining ones score negatively.\<close>

theorem Join_refines_greedy:
  "Join lSlice rSlice score = (pairs, lonelyLefts, lonelyRights) \<Longrightarrow>
     greedy score lSlice (mset rSlice) pairs lonelyLefts (mset lonelyRights)"
  by (rule Join_greedy)

theorem Join_refines_greedy_witness:
  "Join [1, 2, 3] [3, 1, 9] (\<lambda>l r. if l = r then 0 else if r = 9 then 4 else - 1 :: int)
     = ([(1 :: int, 1 :: int), (2, 9), (3, 3)], [], []) \<and>
   greedy (\<lambda>l r. if l = r then 0 else if r = 9 then 4 else - 1 :: int) [1, 2, 3] (mset [3, 1, 9])
     [(1 :: int, 1 :: int), (2, 9), (3, 3)] [] (mset [])"
  using Join_refines_greedy [of "[1, 2, 3]" "[3, 1, 9]"
      "\<lambda>l r. if l = r then 0 else if r = 9 then 4 else - 1 :: int"
      "[(1 :: int, 1 :: int), (2, 9), (3, 3)]" "[]" "[]"]
  by (simp add: Join_def Let_def sliceDel_def)

text \<open>C1: a join loses and invents nothing: the pairs and the lonely elements are exactly the
  elements of the two slices, no pair has a negative score, and no two lonely elements could have
  been paired.\<close>

theorem Join_lossless:
  assumes "Join lSlice rSlice score = (pairs, lonelyLefts, lonelyRights)"
  shows "mset lSlice = mset (map fst pairs) + mset lonelyLefts \<and>
    mset rSlice = mset (map snd pairs) + mset lonelyRights \<and>
    (\<forall>(l, r) \<in> set pairs. 0 \<le> score l r) \<and>
    (\<forall>l \<in> set lonelyLefts. \<forall>r \<in> set lonelyRights. score l r < 0)"
  using Join_partition [OF assms] Join_nonneg [OF assms] Join_maximal [OF assms] by auto

theorem Join_lossless_witness:
  "Join [1, 2] [2, 3] (\<lambda>l r. if l = r then 0 else - 1 :: int) = ([(2 :: int, 2 :: int)], [1], [3]) \<and>
   mset [1, 2 :: int] = mset (map fst [(2 :: int, 2 :: int)]) + mset [1]"
  using Join_lossless [of "[1, 2]" "[2, 3]" "\<lambda>l r. if l = r then 0 else - 1 :: int"
      "[(2 :: int, 2 :: int)]" "[1]" "[3]"]
  by (simp add: Join_def Let_def sliceDel_def)

end
