(* ===== verification/Db.thy ===== *)
theory Db
  imports Prelude
begin

text \<open>
  The in-memory database of \<open>src/db\<close>: the seven row types, their tables, transactions and
  triggers.  A row is a value of \<open>row\<close>, a sum over the Go struct types, because the code keeps
  all rows behind one interface and finds their table and key by reflection.

  A Go \<open>panic\<close> is the value \<open>None\<close>.  Table sequence numbers and row IDs are unbounded integers
  (the code's 64-bit counters only ever count insertions and commits).
\<close>

section \<open>Roles and providers\<close>

text \<open>\<open>Role\<close> is a Go integer type, and \<open>minion/server.go\<close> converts wire values to it unchecked,
  so values other than the three constants exist.\<close>

type_synonym Role = int
type_synonym PBRole = int
type_synonym Provider = string

definition RoleNone :: Role where "RoleNone = 0"
definition Worker :: Role where "Worker = 1"
definition Master :: Role where "Master = 2"

definition PB_NONE :: PBRole where "PB_NONE = 0"
definition PB_WORKER :: PBRole where "PB_WORKER = 1"
definition PB_MASTER :: PBRole where "PB_MASTER = 2"

lemmas role_consts = RoleNone_def Worker_def Master_def PB_NONE_def PB_WORKER_def PB_MASTER_def

definition Role_String :: "Role \<Rightarrow> string option" where
  "Role_String r =
     (if r = RoleNone then Some ''''
      else if r = Worker then Some ''Worker''
      else if r = Master then Some ''Master''
      else None)"

definition RoleToPB :: "Role \<Rightarrow> PBRole option" where
  "RoleToPB r =
     (if r = RoleNone then Some PB_NONE
      else if r = Worker then Some PB_WORKER
      else if r = Master then Some PB_MASTER
      else None)"

definition PBToRole :: "PBRole \<Rightarrow> Role option" where
  "PBToRole p =
     (if p = PB_NONE then Some RoleNone
      else if p = PB_WORKER then Some Worker
      else if p = PB_MASTER then Some Master
      else None)"

definition AmazonSpot :: Provider where "AmazonSpot = ''AmazonSpot''"
definition Google :: Provider where "Google = ''Google''"
definition Vagrant :: Provider where "Vagrant = ''Vagrant''"
definition Azure :: Provider where "Azure = ''Azure''"

text \<open>The \<open>(value, error)\<close> results of the two parsers; \<open>None\<close> is the error.\<close>

definition ParseProvider :: "string \<Rightarrow> Provider option" where
  "ParseProvider name =
     (if name \<in> {''AmazonSpot'', ''Google'', ''Vagrant'', ''Azure''} then Some name else None)"

definition ParseRole :: "string \<Rightarrow> Role option" where
  "ParseRole role =
     (if role = ''Master'' then Some Master
      else if role = ''Worker'' then Some Worker
      else if role = '''' then Some RoleNone
      else None)"

section \<open>Rows\<close>

record Cluster =
  cl_ID :: int
  cl_Namespace :: string
  cl_Spec :: string
  cl_ACLs :: "string list"

record Machine =
  m_ID :: int
  m_ClusterID :: int
  m_Role :: Role
  m_Provider :: Provider
  m_Region :: string
  m_Size :: string
  m_DiskSize :: int
  m_SSHKeys :: "string list"
  m_CloudID :: string
  m_PublicIP :: string
  m_PrivateIP :: string

record Container =
  c_ID :: int
  c_Pid :: int
  c_IP :: string
  c_Mac :: string
  c_SchedID :: string
  c_Image :: string
  c_Command :: "string list"
  c_Labels :: "string list"
  c_Env :: "(string, string) gomap"
  c_Exclusive :: "(string \<times> string) list"

record Minion =
  mi_ID :: int
  mi_MinionID :: string
  mi_Role :: Role
  mi_PrivateIP :: string

record Connection =
  cn_ID :: int
  cn_From :: string
  cn_To :: string
  cn_MinPort :: int
  cn_MaxPort :: int

record Label =
  l_ID :: int
  l_Label :: string
  l_IP :: string
  l_MultiHost :: bool

record Etcd =
  e_ID :: int
  e_EtcdIPs :: "string list"
  e_Leader :: bool
  e_LeaderIP :: string

datatype row =
    ClusterRow Cluster
  | MachineRow Machine
  | ContainerRow Container
  | MinionRow Minion
  | ConnectionRow Connection
  | LabelRow Label
  | EtcdRow Etcd

datatype TableType =
    ClusterTable | MachineTable | ContainerTable | MinionTable
  | ConnectionTable | LabelTable | EtcdTable

definition allTables :: "TableType list" where
  "allTables = [ClusterTable, MachineTable, ContainerTable, MinionTable,
     ConnectionTable, LabelTable, EtcdTable]"

fun getID :: "row \<Rightarrow> int" where
  "getID (ClusterRow r) = cl_ID r"
| "getID (MachineRow r) = m_ID r"
| "getID (ContainerRow r) = c_ID r"
| "getID (MinionRow r) = mi_ID r"
| "getID (ConnectionRow r) = cn_ID r"
| "getID (LabelRow r) = l_ID r"
| "getID (EtcdRow r) = e_ID r"

fun getTableType :: "row \<Rightarrow> TableType" where
  "getTableType (ClusterRow r) = ClusterTable"
| "getTableType (MachineRow r) = MachineTable"
| "getTableType (ContainerRow r) = ContainerTable"
| "getTableType (MinionRow r) = MinionTable"
| "getTableType (ConnectionRow r) = ConnectionTable"
| "getTableType (LabelRow r) = LabelTable"
| "getTableType (EtcdRow r) = EtcdTable"

text \<open>
  \<open>reflect.DeepEqual\<close> on rows.  Struct fields are compared by value; the two map fields of a
  container are compared as maps, independently of iteration order.  (A nil and an empty slice, which
  \<open>reflect.DeepEqual\<close> tells apart, are identified: the difference is never visible to a reader of the row,
  only an additional wake-up can result from it.)
\<close>

definition gomap_eq :: "('k, 'v) gomap \<Rightarrow> ('k, 'v) gomap \<Rightarrow> bool" where
  "gomap_eq m m' \<longleftrightarrow> (\<forall>k \<in> fst ` (set m \<union> set m'). gget m k = gget m' k)"

fun DeepEqual :: "row \<Rightarrow> row \<Rightarrow> bool" where
  "DeepEqual (ContainerRow a) (ContainerRow b) \<longleftrightarrow>
     a\<lparr>c_Env := [], c_Exclusive := []\<rparr> = b\<lparr>c_Env := [], c_Exclusive := []\<rparr> \<and>
     gomap_eq (c_Env a) (c_Env b) \<and> set (c_Exclusive a) = set (c_Exclusive b)"
| "DeepEqual a b \<longleftrightarrow> a = b"

lemma DeepEqual_refl: "DeepEqual r r"
  by (cases r) (simp_all add: gomap_eq_def)

section \<open>Tables, triggers and the database\<close>

text \<open>
  A \<open>Trigger\<close> holds a channel \<open>C\<close> with room for one notification and a channel \<open>stop\<close> that is
  only ever closed: two booleans.  Triggers are shared between tables, so the database keeps
  them in one store and a table lists their addresses.
\<close>

record Trigger =
  pending :: bool
  stopped :: bool

record table =
  rows :: "(int, row) gomap"
  triggers :: "nat list"
  trigSeq :: int
  seq :: int

record Database =
  tables :: "TableType \<Rightarrow> table"
  idAlloc :: int
  chans :: "Trigger list"

definition newTable :: table where
  "newTable = \<lparr>rows = [], triggers = [], trigSeq = 0, seq = 0\<rparr>"

definition New :: Database where
  "New = \<lparr>tables = (\<lambda>_. newTable), idAlloc = 0, chans = []\<rparr>"

definition upd_table :: "TableType \<Rightarrow> (table \<Rightarrow> table) \<Rightarrow> Database \<Rightarrow> Database" where
  "upd_table t f db = db\<lparr>tables := (tables db)(t := f (tables db t))\<rparr>"

definition insert_db :: "row \<Rightarrow> Database \<Rightarrow> Database" where
  "insert_db r db = upd_table (getTableType r)
     (\<lambda>t. t\<lparr>seq := seq t + 1, rows := gput (getID r) r (rows t)\<rparr>) db"

text \<open>\<open>Commit\<close> panics when the table has no row of that ID, or one of another Go type.\<close>

definition Commit :: "row \<Rightarrow> Database \<Rightarrow> Database option" where
  "Commit r db =
     (let rid = getID r; t = tables db (getTableType r) in
      case gget (rows t) rid of
        None \<Rightarrow> None
      | Some old \<Rightarrow>
          if getTableType old \<noteq> getTableType r then None
          else if \<not> DeepEqual old r
          then Some (upd_table (getTableType r)
                 (\<lambda>t. t\<lparr>rows := gput rid r (rows t), seq := seq t + 1\<rparr>) db)
          else Some db)"

definition Remove :: "row \<Rightarrow> Database \<Rightarrow> Database" where
  "Remove r db = upd_table (getTableType r)
     (\<lambda>t. t\<lparr>rows := gdel (getID r) (rows t), seq := seq t + 1\<rparr>) db"

definition nextID :: "Database \<Rightarrow> int \<times> Database" where
  "nextID db = (idAlloc db + 1, db\<lparr>idAlloc := idAlloc db + 1\<rparr>)"

section \<open>Typed access\<close>

text \<open>The type assertions \<open>row.(T)\<close>.\<close>

fun asCluster :: "row \<Rightarrow> Cluster option" where
  "asCluster (ClusterRow r) = Some r" | "asCluster _ = None"
fun asMachine :: "row \<Rightarrow> Machine option" where
  "asMachine (MachineRow r) = Some r" | "asMachine _ = None"
fun asContainer :: "row \<Rightarrow> Container option" where
  "asContainer (ContainerRow r) = Some r" | "asContainer _ = None"
fun asMinion :: "row \<Rightarrow> Minion option" where
  "asMinion (MinionRow r) = Some r" | "asMinion _ = None"
fun asConnection :: "row \<Rightarrow> Connection option" where
  "asConnection (ConnectionRow r) = Some r" | "asConnection _ = None"
fun asLabel :: "row \<Rightarrow> Label option" where
  "asLabel (LabelRow r) = Some r" | "asLabel _ = None"
fun asEtcd :: "row \<Rightarrow> Etcd option" where
  "asEtcd (EtcdRow r) = Some r" | "asEtcd _ = None"

text \<open>
  The loop of every \<open>SelectFrom\<close> method.  A failing assertion would panic; \<open>db_inv\<close> below
  says that no table ever holds a row of another type, so dropping such a row here hides
  nothing (\<open>select_loses_nothing\<close>).
\<close>

definition selectRows :: "(row \<Rightarrow> 'r option) \<Rightarrow> TableType \<Rightarrow> Database \<Rightarrow> ('r \<Rightarrow> bool) \<Rightarrow> 'r list" where
  "selectRows as t db check = filter check (List.map_filter (as \<circ> snd) (rows (tables db t)))"

definition SelectFromCluster :: "Database \<Rightarrow> (Cluster \<Rightarrow> bool) \<Rightarrow> Cluster list" where
  "SelectFromCluster = selectRows asCluster ClusterTable"
definition SelectFromMachine :: "Database \<Rightarrow> (Machine \<Rightarrow> bool) \<Rightarrow> Machine list" where
  "SelectFromMachine = selectRows asMachine MachineTable"
definition SelectFromContainer :: "Database \<Rightarrow> (Container \<Rightarrow> bool) \<Rightarrow> Container list" where
  "SelectFromContainer = selectRows asContainer ContainerTable"
definition SelectFromMinion :: "Database \<Rightarrow> (Minion \<Rightarrow> bool) \<Rightarrow> Minion list" where
  "SelectFromMinion = selectRows asMinion MinionTable"
definition SelectFromConnection :: "Database \<Rightarrow> (Connection \<Rightarrow> bool) \<Rightarrow> Connection list" where
  "SelectFromConnection = selectRows asConnection ConnectionTable"
definition SelectFromLabel :: "Database \<Rightarrow> (Label \<Rightarrow> bool) \<Rightarrow> Label list" where
  "SelectFromLabel = selectRows asLabel LabelTable"
definition SelectFromEtcd :: "Database \<Rightarrow> (Etcd \<Rightarrow> bool) \<Rightarrow> Etcd list" where
  "SelectFromEtcd = selectRows asEtcd EtcdTable"

lemmas select_defs = SelectFromCluster_def SelectFromMachine_def SelectFromContainer_def
  SelectFromMinion_def SelectFromConnection_def SelectFromLabel_def SelectFromEtcd_def

text \<open>The passed \<open>check\<close> function may be \<open>nil\<close>, which selects every row.\<close>

abbreviation nilCheck :: "'r \<Rightarrow> bool" where
  "nilCheck \<equiv> \<lambda>_. True"

text \<open>The zero values with which rows are born.\<close>

definition zeroCluster :: "int \<Rightarrow> Cluster" where
  "zeroCluster i = \<lparr>cl_ID = i, cl_Namespace = '''', cl_Spec = '''', cl_ACLs = []\<rparr>"
definition zeroMachine :: "int \<Rightarrow> Machine" where
  "zeroMachine i = \<lparr>m_ID = i, m_ClusterID = 0, m_Role = 0, m_Provider = '''', m_Region = '''',
     m_Size = '''', m_DiskSize = 0, m_SSHKeys = [], m_CloudID = '''', m_PublicIP = '''',
     m_PrivateIP = ''''\<rparr>"
definition zeroContainer :: "int \<Rightarrow> Container" where
  "zeroContainer i = \<lparr>c_ID = i, c_Pid = 0, c_IP = '''', c_Mac = '''', c_SchedID = '''',
     c_Image = '''', c_Command = [], c_Labels = [], c_Env = [], c_Exclusive = []\<rparr>"
definition zeroMinion :: "int \<Rightarrow> Minion" where
  "zeroMinion i = \<lparr>mi_ID = i, mi_MinionID = '''', mi_Role = 0, mi_PrivateIP = ''''\<rparr>"
definition zeroConnection :: "int \<Rightarrow> Connection" where
  "zeroConnection i = \<lparr>cn_ID = i, cn_From = '''', cn_To = '''', cn_MinPort = 0, cn_MaxPort = 0\<rparr>"
definition zeroLabel :: "int \<Rightarrow> Label" where
  "zeroLabel i = \<lparr>l_ID = i, l_Label = '''', l_IP = '''', l_MultiHost = False\<rparr>"
definition zeroEtcd :: "int \<Rightarrow> Etcd" where
  "zeroEtcd i = \<lparr>e_ID = i, e_EtcdIPs = [], e_Leader = False, e_LeaderIP = ''''\<rparr>"

definition insertRow :: "('r \<Rightarrow> row) \<Rightarrow> (int \<Rightarrow> 'r) \<Rightarrow> Database \<Rightarrow> 'r \<times> Database" where
  "insertRow mk zero db =
     (let (i, db1) = nextID db; result = zero i in (result, insert_db (mk result) db1))"

definition InsertCluster :: "Database \<Rightarrow> Cluster \<times> Database" where
  "InsertCluster = insertRow ClusterRow zeroCluster"
definition InsertMachine :: "Database \<Rightarrow> Machine \<times> Database" where
  "InsertMachine = insertRow MachineRow zeroMachine"
definition InsertContainer :: "Database \<Rightarrow> Container \<times> Database" where
  "InsertContainer = insertRow ContainerRow zeroContainer"
definition InsertMinion :: "Database \<Rightarrow> Minion \<times> Database" where
  "InsertMinion = insertRow MinionRow zeroMinion"
definition InsertConnection :: "Database \<Rightarrow> Connection \<times> Database" where
  "InsertConnection = insertRow ConnectionRow zeroConnection"
definition InsertLabel :: "Database \<Rightarrow> Label \<times> Database" where
  "InsertLabel = insertRow LabelRow zeroLabel"
definition InsertEtcd :: "Database \<Rightarrow> Etcd \<times> Database" where
  "InsertEtcd = insertRow EtcdRow zeroEtcd"

lemmas insert_defs = InsertCluster_def InsertMachine_def InsertContainer_def InsertMinion_def
  InsertConnection_def InsertLabel_def InsertEtcd_def

section \<open>The invariant of the database\<close>

text \<open>
  Every row sits in the table of its Go type under its own ID, IDs were handed out by
  \<open>nextID\<close>, and no two rows of the whole database share one.
\<close>

definition keysOf :: "Database \<Rightarrow> TableType \<Rightarrow> int set" where
  "keysOf db t = fst ` set (rows (tables db t))"

definition tables_ok :: "Database \<Rightarrow> bool" where
  "tables_ok db \<longleftrightarrow> (\<forall>t. wf_gomap (rows (tables db t)) \<and>
     (\<forall>k r. (k, r) \<in> set (rows (tables db t)) \<longrightarrow> getID r = k \<and> getTableType r = t))"

definition ids_ok :: "Database \<Rightarrow> bool" where
  "ids_ok db \<longleftrightarrow> 0 \<le> idAlloc db \<and> (\<forall>t. keysOf db t \<subseteq> {1..idAlloc db}) \<and>
     (\<forall>t t'. t \<noteq> t' \<longrightarrow> keysOf db t \<inter> keysOf db t' = {})"

definition db_inv :: "Database \<Rightarrow> bool" where
  "db_inv db \<longleftrightarrow> tables_ok db \<and> ids_ok db"

lemma tables_upd_table [row_ops]:
  "tables (upd_table t f db) t' = (if t' = t then f (tables db t) else tables db t')"
  by (simp add: upd_table_def)

lemma idAlloc_upd_table [simp]: "idAlloc (upd_table t f db) = idAlloc db"
  by (simp add: upd_table_def)

lemma keysOf_upd_table [row_ops]:
  "keysOf (upd_table t f db) t' = (if t' = t then fst ` set (rows (f (tables db t))) else keysOf db t')"
  by (simp add: keysOf_def tables_upd_table)

lemma db_inv_New: "db_inv New"
  by (simp add: db_inv_def tables_ok_def ids_ok_def keysOf_def New_def newTable_def)

text \<open>Writing a row of the right type under an allocated ID keeps the invariant.\<close>

lemma db_inv_write:
  assumes inv: "db_inv db" and id: "getID r \<in> {1..idAlloc db}"
    and own: "\<And>t. getID r \<in> keysOf db t \<Longrightarrow> t = getTableType r"
    and f: "\<And>t. rows (f t) = gput (getID r) r (rows t)"
  shows "db_inv (upd_table (getTableType r) f db)"
proof -
  have "tables_ok (upd_table (getTableType r) f db)"
    using inv by (auto simp: db_inv_def tables_ok_def tables_upd_table f set_gput split: if_splits)
  moreover have "keysOf (upd_table (getTableType r) f db) =
      (keysOf db)(getTableType r := Set.insert (getID r) (keysOf db (getTableType r)))"
    by (simp add: fun_eq_iff keysOf_upd_table f dom_update) (simp add: keysOf_def)
  then have "ids_ok (upd_table (getTableType r) f db)"
    using inv id own by (auto simp: db_inv_def ids_ok_def)
  ultimately show ?thesis by (simp add: db_inv_def)
qed

lemma db_inv_insert:
  assumes "db_inv db" and "getID r \<in> {1..idAlloc db}" and "\<And>t. getID r \<notin> keysOf db t"
  shows "db_inv (insert_db r db)"
  unfolding insert_db_def by (rule db_inv_write) (use assms in auto)

lemma gget_keysOf: "gget (rows (tables db t)) k = Some r \<Longrightarrow> k \<in> keysOf db t"
  by (force simp: keysOf_def dest: map_of_SomeD)

lemma db_inv_Commit:
  assumes "db_inv db" and "Commit r db = Some db'"
  shows "db_inv db'"
proof -
  from assms(2) obtain old where old: "gget (rows (tables db (getTableType r))) (getID r) = Some old"
    by (auto simp: Commit_def Let_def split: option.splits)
  note mem = gget_keysOf [OF old]
  with assms(1) have id: "getID r \<in> {1..idAlloc db}"
    unfolding db_inv_def ids_ok_def by blast
  have "t = getTableType r" if "getID r \<in> keysOf db t" for t
    using assms(1) mem that unfolding db_inv_def ids_ok_def by blast
  with db_inv_write [OF assms(1) id] old assms show ?thesis
    by (auto simp: Commit_def Let_def split: if_splits)
qed

lemma ids_ok_mono:
  assumes "ids_ok db" and "idAlloc db' = idAlloc db" and "\<And>t. keysOf db' t \<subseteq> keysOf db t"
  shows "ids_ok db'"
  unfolding ids_ok_def
proof (intro conjI allI impI)
  show "0 \<le> idAlloc db'" using assms by (simp add: ids_ok_def)
  show "keysOf db' t \<subseteq> {1..idAlloc db'}" for t
  proof -
    have "keysOf db t \<subseteq> {1..idAlloc db}" using assms(1) by (simp add: ids_ok_def)
    with assms(3) [of t] show ?thesis unfolding assms(2) by (rule order_trans)
  qed
  show "keysOf db' t \<inter> keysOf db' t' = {}" if "t \<noteq> t'" for t t'
  proof -
    have "keysOf db t \<inter> keysOf db t' = {}" using assms(1) that unfolding ids_ok_def by metis
    with assms(3) [of t] assms(3) [of t'] show ?thesis by blast
  qed
qed

lemma rows_Remove:
  "rows (tables (Remove r db) t) =
     (if t = getTableType r then gdel (getID r) (rows (tables db t)) else rows (tables db t))"
  by (simp add: Remove_def tables_upd_table)

lemma set_rows_Remove: "set (rows (tables (Remove r db) t)) \<subseteq> set (rows (tables db t))"
  by (simp add: rows_Remove set_gdel)

lemma db_inv_Remove:
  assumes "db_inv db" shows "db_inv (Remove r db)"
proof -
  have "idAlloc (Remove r db) = idAlloc db" by (simp add: Remove_def)
  moreover have "keysOf (Remove r db) t \<subseteq> keysOf db t" for t
    unfolding keysOf_def by (rule image_mono) (rule set_rows_Remove)
  ultimately have "ids_ok (Remove r db)"
    using assms unfolding db_inv_def by (blast intro: ids_ok_mono)
  moreover have "wf_gomap (rows (tables (Remove r db) t))" for t
    using assms by (simp add: db_inv_def tables_ok_def rows_Remove)
  moreover have "getID x = k \<and> getTableType x = t"
    if "(k, x) \<in> set (rows (tables (Remove r db) t))" for k x t
    using assms subsetD [OF set_rows_Remove that] by (simp add: db_inv_def tables_ok_def)
  ultimately show ?thesis by (simp add: db_inv_def tables_ok_def)
qed

lemma db_inv_nextID: "db_inv db \<Longrightarrow> db_inv (snd (nextID db))"
  by (fastforce simp: db_inv_def tables_ok_def ids_ok_def keysOf_def nextID_def)

lemma nextID_fresh: "db_inv db \<Longrightarrow> idAlloc db < k \<Longrightarrow> k \<notin> keysOf db t"
  by (force simp: db_inv_def ids_ok_def)

section \<open>The loops of a reconciliation\<close>

text \<open>
  The three loops that follow a call of \<open>Join\<close> wherever the database is reconciled: remove the
  lonely rows, insert a row for each lonely target, commit every updated row (\<open>None\<close>: a
  \<open>Commit\<close> panicked).
\<close>

fun removeLoop :: "('r \<Rightarrow> row) \<Rightarrow> 'r list \<Rightarrow> Database \<Rightarrow> Database" where
  "removeLoop mk [] db = db"
| "removeLoop mk (r # rs) db = removeLoop mk rs (Remove (mk r) db)"

fun insertLoop :: "(Database \<Rightarrow> 'r \<times> Database) \<Rightarrow> 'l list \<Rightarrow> Database \<Rightarrow> ('l \<times> 'r) list \<times> Database" where
  "insertLoop ins [] db = ([], db)"
| "insertLoop ins (l # ls) db =
     (let (r, db1) = ins db; (ps, db2) = insertLoop ins ls db1 in ((l, r) # ps, db2))"

fun commitLoop :: "('r \<Rightarrow> row) \<Rightarrow> 'r list \<Rightarrow> Database \<Rightarrow> Database option" where
  "commitLoop mk [] db = Some db"
| "commitLoop mk (r # rs) db =
     (case Commit (mk r) db of None \<Rightarrow> None | Some db1 \<Rightarrow> commitLoop mk rs db1)"

text \<open>Operations on one table leave the others alone.\<close>

definition frame :: "TableType \<Rightarrow> Database \<Rightarrow> Database \<Rightarrow> bool" where
  "frame t db db' \<longleftrightarrow> (\<forall>t'. t' \<noteq> t \<longrightarrow> tables db' t' = tables db t')"

lemma frame_refl [simp]: "frame t db db"
  by (simp add: frame_def)

lemma frame_trans [trans]: "frame t db1 db2 \<Longrightarrow> frame t db2 db3 \<Longrightarrow> frame t db1 db3"
  by (simp add: frame_def)

lemma upd_table_fields [simp]:
  "idAlloc (upd_table t f db) = idAlloc db" "chans (upd_table t f db) = chans db"
  by (simp_all add: upd_table_def)

lemma frame_upd_table [simp]: "frame t db (upd_table t f db)"
  by (simp add: frame_def tables_upd_table)

section \<open>One kind of row\<close>

text \<open>
  Each Go row type comes with its constructor into \<open>row\<close>, its type assertion, its ID field,
  its zero value and its table.  The facts that the reconciliation loops need about \<open>Insert\<close>,
  \<open>Commit\<close> and \<open>Remove\<close> are the same for all of them and are proved once here.
\<close>

locale row_kind =
  fixes mk :: "'r \<Rightarrow> row" and as :: "row \<Rightarrow> 'r option" and rid :: "'r \<Rightarrow> int"
    and zero :: "int \<Rightarrow> 'r" and tt :: TableType
  assumes as_mk [simp]: "as (mk r) = Some r"
    and getID_mk [simp]: "getID (mk r) = rid r"
    and type_mk [simp]: "getTableType (mk r) = tt"
    and as_typed: "getTableType x = tt \<Longrightarrow> \<exists>r. x = mk r"
    and rid_zero [simp]: "rid (zero i) = i"
begin

definition allRows :: "Database \<Rightarrow> 'r list" where
  "allRows db = List.map_filter (as \<circ> snd) (rows (tables db tt))"

lemma select_allRows: "selectRows as tt db check = filter check (allRows db)"
  by (simp add: selectRows_def allRows_def)

lemma mk_inject [simp]: "mk a = mk b \<longleftrightarrow> a = b"
  by (metis as_mk option.inject)

lemma map_filter_typed:
  assumes "\<And>k x. (k, x) \<in> set m \<Longrightarrow> getID x = k \<and> getTableType x = tt"
  shows "m = map (\<lambda>r. (rid r, mk r)) (List.map_filter (as \<circ> snd) m)"
  using assms
proof (induction m)
  case (Cons e m)
  obtain k x where e: "e = (k, x)" by force
  with Cons.prems as_typed obtain r where r: "x = mk r" "rid r = k"
    by (metis getID_mk list.set_intros(1))
  have "map (\<lambda>r. (rid r, mk r)) (List.map_filter (as \<circ> snd) m) = m"
    by (rule Cons.IH [symmetric]) (use Cons.prems in auto)
  with r e show ?case by (simp add: List.map_filter_simps comp_def)
qed (simp add: List.map_filter_simps)

lemma rows_allRows: "db_inv db \<Longrightarrow> rows (tables db tt) = map (\<lambda>r. (rid r, mk r)) (allRows db)"
  unfolding allRows_def by (rule map_filter_typed) (auto simp: db_inv_def tables_ok_def)

lemma select_loses_nothing:
  "db_inv db \<Longrightarrow> length (selectRows as tt db nilCheck) = length (rows (tables db tt))"
  by (simp add: select_allRows rows_allRows)

lemma keysOf_allRows: "db_inv db \<Longrightarrow> keysOf db tt = rid ` set (allRows db)"
  by (simp add: keysOf_def rows_allRows image_image)

lemma distinct_rids:
  assumes "db_inv db" shows "distinct (map rid (allRows db))"
proof -
  have "wf_gomap (rows (tables db tt))" using assms by (simp add: db_inv_def tables_ok_def)
  then show ?thesis by (simp add: rows_allRows assms comp_def)
qed

lemma same_rid:
  "db_inv db \<Longrightarrow> a \<in> set (allRows db) \<Longrightarrow> b \<in> set (allRows db) \<Longrightarrow> rid a = rid b \<Longrightarrow> a = b"
  using distinct_rids [of db] by (simp add: distinct_map inj_on_def)

lemma map_filter_rows: "List.map_filter (as \<circ> snd) (map (\<lambda>r. (rid r, mk r)) xs) = xs"
  by (induction xs) (simp_all add: List.map_filter_simps)

lemma allRows_eqI: "rows (tables db tt) = map (\<lambda>r. (rid r, mk r)) xs \<Longrightarrow> allRows db = xs"
  by (simp add: allRows_def map_filter_rows)

lemma frame_allRows:
  assumes "frame t db db'" and "t \<noteq> tt"
  shows "allRows db' = allRows db"
proof -
  have "tables db' tt = tables db tt" using assms unfolding frame_def by metis
  then show ?thesis by (simp add: allRows_def)
qed

subsection \<open>Single operations\<close>

lemma allRows_insert [row_ops]:
  assumes "db_inv db" and "rid r \<notin> keysOf db tt"
  shows "allRows (insert_db (mk r) db) = allRows db @ [r]"
  using assms
  by (intro allRows_eqI)
    (simp add: insert_db_def tables_upd_table gput_fresh keysOf_def rows_allRows)

lemma allRows_Remove [row_ops]:
  assumes "db_inv db"
  shows "allRows (Remove (mk r) db) = filter (\<lambda>x. rid x \<noteq> rid r) (allRows db)"
  using assms
  by (intro allRows_eqI)
    (simp add: Remove_def tables_upd_table rows_allRows AList.delete_eq filter_map comp_def eq_commute)

lemma gput_rows:
  "distinct (map rid xs) \<Longrightarrow> rid r \<in> rid ` set xs \<Longrightarrow>
     gput (rid r) (mk r) (map (\<lambda>r. (rid r, mk r)) xs) =
     map (\<lambda>r. (rid r, mk r)) (map (\<lambda>x. if rid x = rid r then r else x) xs)"
proof (induction xs)
  case (Cons x xs)
  show ?case
  proof (cases "rid x = rid r")
    case True
    with Cons.prems have "map (\<lambda>x. if rid x = rid r then r else x) xs = xs"
      by (intro map_idI) (auto simp: image_iff)
    with True show ?thesis by simp
  next
    case False
    with Cons show ?thesis by auto
  qed
qed simp

lemma gget_rows:
  "distinct (map rid xs) \<Longrightarrow> x \<in> set xs \<Longrightarrow> gget (map (\<lambda>r. (rid r, mk r)) xs) (rid x) = Some (mk x)"
  by (intro map_of_is_SomeI) (auto simp: comp_def)

lemma Commit_effect:
  assumes inv: "db_inv db" and mem: "rid r \<in> rid ` set (allRows db)"
  obtains db' where "Commit (mk r) db = Some db'" "db_inv db'" "frame tt db db'"
    "idAlloc db' = idAlloc db" "chans db' = chans db"
    "allRows db' = map (\<lambda>x. if rid x = rid r \<and> \<not> DeepEqual (mk x) (mk r) then r else x) (allRows db)"
proof -
  from mem obtain x where x: "x \<in> set (allRows db)" "rid x = rid r" by auto
  note d = distinct_rids [OF inv]
  have get: "gget (rows (tables db tt)) (rid r) = Some (mk x)"
    using gget_rows [OF d x(1)] x(2) by (simp add: rows_allRows [OF inv])
  show ?thesis
  proof (cases "DeepEqual (mk x) (mk r)")
    case True
    with get have c: "Commit (mk r) db = Some db" by (simp add: Commit_def Let_def)
    moreover have "map (\<lambda>x. if rid x = rid r \<and> \<not> DeepEqual (mk x) (mk r) then r else x) (allRows db)
        = allRows db"
      using True x same_rid [OF inv] by (intro map_idI) metis
    ultimately show ?thesis using inv by (intro that) simp_all
  next
    case False
    let ?f = "\<lambda>t. t\<lparr>rows := gput (rid r) (mk r) (rows t), seq := seq t + 1\<rparr>"
    from False get have c: "Commit (mk r) db = Some (upd_table tt ?f db)"
      by (simp add: Commit_def Let_def)
    have "allRows (upd_table tt ?f db) = map (\<lambda>x. if rid x = rid r then r else x) (allRows db)"
      by (rule allRows_eqI)
        (simp add: tables_upd_table rows_allRows [OF inv] gput_rows [OF d mem] del: map_map)
    also have "\<dots> = map (\<lambda>x. if rid x = rid r \<and> \<not> DeepEqual (mk x) (mk r) then r else x) (allRows db)"
      using False x same_rid [OF inv] by (intro map_cong) metis+
    finally show ?thesis
      using c db_inv_Commit [OF inv c] by (intro that) simp_all
  qed
qed

lemma Commit_sole:
  assumes inv: "db_inv db" and x: "allRows db = [x]" and r: "rid r = rid x"
  shows "\<exists>db'. Commit (mk r) db = Some db' \<and> db_inv db' \<and> frame tt db db' \<and>
    allRows db' = [if DeepEqual (mk x) (mk r) then x else r]"
proof -
  have "rid r \<in> rid ` set (allRows db)" by (simp add: x r)
  then obtain db' where "Commit (mk r) db = Some db'" "db_inv db'" "frame tt db db'"
      "allRows db' = map (\<lambda>y. if rid y = rid r \<and> \<not> DeepEqual (mk y) (mk r) then r else y) (allRows db)"
    by (rule Commit_effect [OF inv])
  then show ?thesis by (auto simp: x r)
qed

lemma Commit_missing:
  assumes "db_inv db" and "rid r \<notin> rid ` set (allRows db)"
  shows "Commit (mk r) db = None"
proof -
  have "gget (rows (tables db tt)) (rid r) = None"
    using assms by (auto simp: rows_allRows map_of_eq_None_iff image_iff)
  then show ?thesis by (simp add: Commit_def Let_def)
qed

lemma insertRow_effect:
  assumes inv: "db_inv db" and ins: "insertRow mk zero db = (r, db')"
  shows "r = zero (idAlloc db + 1)" "allRows db' = allRows db @ [r]" "db_inv db'" "frame tt db db'"
    "idAlloc db' = idAlloc db + 1" "rid r \<notin> rid ` set (allRows db)"
proof -
  let ?db = "db\<lparr>idAlloc := idAlloc db + 1\<rparr>"
  from ins have r: "r = zero (idAlloc db + 1)" and db': "db' = insert_db (mk r) ?db"
    by (auto simp: insertRow_def nextID_def Let_def)
  have inv1: "db_inv ?db" using db_inv_nextID [OF inv] by (simp add: nextID_def)
  have keys: "keysOf ?db t = keysOf db t" for t by (simp add: keysOf_def)
  have fresh: "rid r \<notin> keysOf ?db t" for t
    by (simp add: keys r nextID_fresh [OF inv])
  have "0 \<le> idAlloc db" using inv by (simp add: db_inv_def ids_ok_def)
  then show "db_inv db'"
    unfolding db' by (intro db_inv_insert [OF inv1]) (use fresh r in auto)
  show "allRows db' = allRows db @ [r]"
    unfolding db' by (simp add: allRows_insert [OF inv1 fresh]) (simp add: allRows_def)
  show "frame tt db db'" by (simp add: db' insert_db_def frame_def tables_upd_table)
  show "idAlloc db' = idAlloc db + 1" by (simp add: db' insert_db_def)
  show "rid r \<notin> rid ` set (allRows db)"
    using fresh [of tt] keysOf_allRows [OF inv] keys by simp
  show "r = zero (idAlloc db + 1)" by (rule r)
qed

subsection \<open>The loops\<close>

lemma removeLoop_effect:
  "db_inv db \<Longrightarrow> db_inv (removeLoop mk rs db) \<and> frame tt db (removeLoop mk rs db) \<and>
     idAlloc (removeLoop mk rs db) = idAlloc db \<and>
     allRows (removeLoop mk rs db) = filter (\<lambda>x. rid x \<notin> rid ` set rs) (allRows db)"
proof (induction rs arbitrary: db)
  case (Cons r rs)
  note IH = Cons.IH [OF db_inv_Remove [OF Cons.prems], of "mk r"]
  have "frame tt db (removeLoop mk rs (Remove (mk r) db))"
    by (rule frame_trans [of _ _ "Remove (mk r) db"]) (use IH in \<open>simp_all add: Remove_def\<close>)
  with IH show ?case
    by (simp add: allRows_Remove [OF Cons.prems] conj_commute) (simp add: Remove_def)
qed simp

lemma insertLoop_effect:
  assumes "db_inv db" and "insertLoop (insertRow mk zero) ls db = (ps, db')"
  shows "db_inv db' \<and> frame tt db db' \<and> map fst ps = ls \<and> allRows db' = allRows db @ map snd ps"
  using assms
proof (induction ls arbitrary: db ps db')
  case (Cons l ls)
  obtain r db1 where 1: "insertRow mk zero db = (r, db1)" by force
  obtain ps1 db2 where 2: "insertLoop (insertRow mk zero) ls db1 = (ps1, db2)" by force
  note e = insertRow_effect [OF Cons.prems(1) 1]
  note IH = Cons.IH [OF e(3) 2]
  have "frame tt db db2" using frame_trans [OF e(4)] IH by blast
  with IH Cons.prems(2) 1 2 e show ?case by auto
qed simp

lemma insertLoop_fresh:
  assumes "db_inv db" and "insertLoop (insertRow mk zero) ls db = (ps, db')"
  shows "\<forall>r \<in> set (map snd ps). idAlloc db < rid r"
  using assms
proof (induction ls arbitrary: db ps db')
  case (Cons l ls)
  obtain r db1 where 1: "insertRow mk zero db = (r, db1)" by force
  obtain ps1 db2 where 2: "insertLoop (insertRow mk zero) ls db1 = (ps1, db2)" by force
  note e = insertRow_effect [OF Cons.prems(1) 1]
  from Cons.IH [OF e(3) 2] Cons.prems(2) 1 2 e show ?case by fastforce
qed simp

lemma rid_bound: "db_inv db \<Longrightarrow> x \<in> set (allRows db) \<Longrightarrow> rid x \<le> idAlloc db"
  using keysOf_allRows [of db] unfolding db_inv_def ids_ok_def by fastforce

text \<open>The row with which a loop of commits overwrites a given row.\<close>

definition newest :: "'r list \<Rightarrow> 'r \<Rightarrow> 'r" where
  "newest rs x = (case map_of (map (\<lambda>r. (rid r, r)) rs) (rid x) of
     None \<Rightarrow> x | Some r \<Rightarrow> if DeepEqual (mk x) (mk r) then x else r)"

lemma map_of_rid_None: "rid x \<notin> rid ` set rs \<Longrightarrow> map_of (map (\<lambda>r. (rid r, r)) rs) (rid x) = None"
  by (auto simp: map_of_eq_None_iff)

lemma map_of_rid_Some:
  "map_of (map (\<lambda>r. (rid r, r)) rs) i = Some r \<Longrightarrow> r \<in> set rs \<and> rid r = i"
  by (auto dest: map_of_SomeD)

lemma rid_newest [simp]: "rid (newest rs x) = rid x"
  by (auto simp: newest_def split: option.splits dest: map_of_rid_Some)

lemma newest_other: "rid x \<notin> rid ` set rs \<Longrightarrow> newest rs x = x"
  by (simp add: newest_def map_of_rid_None)

lemma newest_Cons:
  assumes "distinct (map rid (r # rs))"
  shows "newest (r # rs) x = newest rs (if rid x = rid r \<and> \<not> DeepEqual (mk x) (mk r) then r else x)"
proof -
  have "map_of (map (\<lambda>r. (rid r, r)) rs) (rid r) = None"
    using assms by (simp add: map_of_rid_None)
  then show ?thesis by (auto simp: newest_def)
qed

lemma commitLoop_effect:
  assumes "db_inv db" and "distinct (map rid rs)" and "rid ` set rs \<subseteq> rid ` set (allRows db)"
  shows "\<exists>db'. commitLoop mk rs db = Some db' \<and> db_inv db' \<and> frame tt db db' \<and>
    idAlloc db' = idAlloc db \<and> allRows db' = map (newest rs) (allRows db)"
  using assms
proof (induction rs arbitrary: db)
  case Nil
  then show ?case by (simp add: newest_def map_idI)
next
  case (Cons r rs)
  let ?u = "\<lambda>x. if rid x = rid r \<and> \<not> DeepEqual (mk x) (mk r) then r else x"
  from Cons.prems obtain db1 where 1: "Commit (mk r) db = Some db1" "db_inv db1" "frame tt db db1"
      "idAlloc db1 = idAlloc db" "allRows db1 = map ?u (allRows db)"
    by (auto elim: Commit_effect)
  have "map rid (allRows db1) = map rid (allRows db)"
    unfolding 1(5) by simp
  then have "rid ` set (allRows db1) = rid ` set (allRows db)"
    by (metis list.set_map)
  with Cons.IH [OF 1(2)] Cons.prems obtain db' where 2: "commitLoop mk rs db1 = Some db'" "db_inv db'"
      "frame tt db1 db'" "idAlloc db' = idAlloc db1" "allRows db' = map (newest rs) (allRows db1)"
    by auto
  have "map (newest rs) (allRows db1) = map (newest (r # rs)) (allRows db)"
    unfolding 1(5) by (simp add: newest_Cons [OF Cons.prems(2)])
  with 1 2 show ?case using frame_trans [OF 1(3) 2(3)] by simp
qed

lemma commitLoop_same:
  assumes "db_inv db" and "set rs \<subseteq> set (allRows db)"
  shows "commitLoop mk rs db = Some db"
  using assms(2)
proof (induction rs)
  case (Cons r rs)
  then have "gget (rows (tables db tt)) (rid r) = Some (mk r)"
    using gget_rows [OF distinct_rids [OF assms(1)]] by (simp add: rows_allRows [OF assms(1)])
  then have "Commit (mk r) db = Some db" by (simp add: Commit_def Let_def DeepEqual_refl)
  with Cons show ?case by simp
qed simp

lemma mset_newest:
  assumes d: "distinct (map rid xs)" "distinct (map rid rs)" and sub: "rid ` set rs \<subseteq> rid ` set xs"
    and proj: "\<And>a b. DeepEqual (mk a) (mk b) \<Longrightarrow> proj a = proj b"
  shows "mset (map proj (map (newest rs) xs)) =
    mset (map proj (filter (\<lambda>x. rid x \<notin> rid ` set rs) xs)) + mset (map proj rs)"
proof -
  let ?P = "\<lambda>x. rid x \<in> rid ` set rs" and ?m = "map_of (map (\<lambda>r. (rid r, r)) rs)"
  let ?f = "\<lambda>i. proj (the (?m i))"
  have some: "?m (rid r) = Some r" if "r \<in> set rs" for r
    using that d(2) by (intro map_of_is_SomeI) (auto simp: comp_def)
  have hit: "proj (newest rs x) = ?f (rid x)" if "?P x" for x
    using that some proj by (auto simp: newest_def)
  have hitm: "map (\<lambda>x. proj (newest rs x)) (filter ?P xs) = map ?f (map rid (filter ?P xs))"
    using hit by simp
  have "rid ` {x \<in> set xs. ?P x} = rid ` set rs"
  proof
    show "rid ` set rs \<subseteq> rid ` {x \<in> set xs. ?P x}"
      using sub by (auto simp: image_iff subset_iff) metis
  qed auto
  then have "mset (map rid (filter ?P xs)) = mset (map rid rs)"
    using d by (subst set_eq_iff_mset_eq_distinct [symmetric]) (simp_all add: distinct_map_filter)
  then have "image_mset ?f (mset (map rid (filter ?P xs))) = image_mset ?f (mset (map rid rs))"
    by simp
  also have "\<dots> = mset (map proj rs)"
    using some by (auto simp: image_mset.compositionality comp_def intro!: image_mset_cong)
  finally have a: "mset (map (\<lambda>x. proj (newest rs x)) (filter ?P xs)) = mset (map proj rs)"
    by (simp only: hitm mset_map)
  have b: "map (\<lambda>x. proj (newest rs x)) (filter (\<lambda>x. \<not> ?P x) xs) = map proj (filter (\<lambda>x. \<not> ?P x) xs)"
    by (auto simp: newest_other)
  have "mset (map (\<lambda>x. proj (newest rs x)) xs) =
      mset (map (\<lambda>x. proj (newest rs x)) (filter ?P xs)) +
      mset (map (\<lambda>x. proj (newest rs x)) (filter (\<lambda>x. \<not> ?P x) xs))"
    by (rule mset_map_split)
  also have "\<dots> = mset (map proj rs) + mset (map proj (filter (\<lambda>x. \<not> ?P x) xs))"
    by (simp only: a b)
  finally show ?thesis by (simp add: comp_def add.commute)
qed

subsection \<open>A whole reconciliation\<close>

text \<open>
  The rows that satisfy \<open>check\<close> were split into \<open>kept\<close> and \<open>lonely\<close> ones; the lonely ones are
  removed, fresh rows inserted, and a new version of every kept and every fresh row committed.
  No commit panics, and afterwards the table holds the committed rows next to the rows that
  did not satisfy \<open>check\<close>.
\<close>

lemma reconcile_effect:
  assumes inv: "db_inv db"
    and split: "mset (filter check (allRows db)) = mset kept + mset lonely"
    and ins: "insertLoop (insertRow mk zero) ls (removeLoop mk lonely db) = (ps, db2)"
    and rids: "mset (map rid rs) = mset (map rid kept) + mset (map (rid \<circ> snd) ps)"
    and proj: "\<And>a b. DeepEqual (mk a) (mk b) \<Longrightarrow> proj a = proj b"
  shows "\<exists>db3. commitLoop mk rs db2 = Some db3 \<and> db_inv db3 \<and> frame tt db db3 \<and>
    filter (\<lambda>x. rid x \<notin> rid ` set rs) (allRows db3) = filter (\<lambda>x. \<not> check x) (allRows db) \<and>
    mset (map proj (allRows db3)) =
      mset (map proj (filter (\<lambda>x. \<not> check x) (allRows db))) + mset (map proj rs)"
proof -
  let ?db1 = "removeLoop mk lonely db"
  have r: "db_inv ?db1" "frame tt db ?db1" "idAlloc ?db1 = idAlloc db"
    "allRows ?db1 = filter (\<lambda>x. rid x \<notin> rid ` set lonely) (allRows db)"
    using removeLoop_effect [OF inv, of lonely] by auto
  have i: "db_inv db2" "frame tt ?db1 db2" "allRows db2 = allRows ?db1 @ map snd ps"
    using insertLoop_effect [OF r(1) ins] by auto
  have fresh: "rid x \<notin> rid ` snd ` set ps" if "x \<in> set (allRows db)" for x
  proof
    assume "rid x \<in> rid ` snd ` set ps"
    then obtain y where "y \<in> set (map snd ps)" "rid x = rid y" by auto
    then show False using insertLoop_fresh [OF r(1) ins] rid_bound [OF inv that] r(3) by auto
  qed
  have sets: "{x \<in> set (allRows db). check x} = set kept \<union> set lonely"
    using arg_cong [OF split, of set_mset] by simp
  have "distinct (map rid (filter check (allRows db)))"
    using distinct_rids [OF inv] by (simp add: distinct_map_filter)
  moreover have "mset (map rid (filter check (allRows db))) = mset (map rid (kept @ lonely))"
    using arg_cong [OF split, of "image_mset rid"] by simp
  ultimately have "distinct (map rid (kept @ lonely))"
    using mset_eq_imp_distinct_iff by blast
  then have dis: "distinct (map rid kept)" "rid ` set kept \<inter> rid ` set lonely = {}" by auto
  have rset: "rid ` set rs = rid ` set kept \<union> rid ` snd ` set ps"
    using arg_cong [OF rids, of set_mset] by (simp add: image_image)
  have other: "rid x \<notin> rid ` set rs \<and> rid x \<notin> rid ` set lonely \<longleftrightarrow> \<not> check x"
    if x: "x \<in> set (allRows db)" for x
  proof -
    have "rid x \<in> rid ` {x \<in> set (allRows db). check x} \<longleftrightarrow> check x"
      using same_rid [OF inv x] x by auto
    with fresh [OF x] rset show ?thesis unfolding sets by blast
  qed
  have keptin: "rid ` set kept \<subseteq> rid ` set (allRows ?db1)"
    using dis(2) sets r(4) by auto
  have "mset (map rid rs) = mset (map rid (kept @ map snd ps))"
    using rids by (simp add: multiset.map_comp)
  moreover have "distinct (map rid (kept @ map snd ps))"
  proof -
    have "distinct (map rid (map snd ps))" using distinct_rids [OF i(1)] i(3) by simp
    moreover have "rid ` set kept \<inter> rid ` snd ` set ps = {}" using fresh sets by blast
    ultimately show ?thesis using dis by (simp add: image_image)
  qed
  ultimately have d: "distinct (map rid rs)"
    using mset_eq_imp_distinct_iff by blast
  have sub: "rid ` set rs \<subseteq> rid ` set (allRows db2)"
    using keptin i(3) rset by auto
  obtain db3 where 3: "commitLoop mk rs db2 = Some db3" "db_inv db3" "frame tt db2 db3"
      "allRows db3 = map (newest rs) (allRows db2)"
    using commitLoop_effect [OF i(1) d sub] by auto
  have rest: "filter (\<lambda>x. rid x \<notin> rid ` set rs) (allRows db2) = filter (\<lambda>x. \<not> check x) (allRows db)"
    using rset other by (auto simp: i(3) r(4) filter_empty_conv conj_commute cong: filter_cong)
  have "filter (\<lambda>x. rid x \<notin> rid ` set rs) (allRows db3) =
      map (newest rs) (filter (\<lambda>x. rid x \<notin> rid ` set rs) (allRows db2))"
    by (simp add: 3(4) filter_map comp_def)
  also have "\<dots> = filter (\<lambda>x. rid x \<notin> rid ` set rs) (allRows db2)"
    by (rule map_idI) (simp add: newest_other)
  finally have "filter (\<lambda>x. rid x \<notin> rid ` set rs) (allRows db3) = filter (\<lambda>x. \<not> check x) (allRows db)"
    using rest by simp
  moreover have "mset (map proj (allRows db3)) =
      mset (map proj (filter (\<lambda>x. \<not> check x) (allRows db))) + mset (map proj rs)"
    using mset_newest [OF distinct_rids [OF i(1)] d sub, of proj] proj rest
    by (simp only: 3(4))
  moreover have "frame tt db db3"
    by (rule frame_trans [OF r(2) frame_trans [OF i(2) 3(3)]])
  ultimately show ?thesis using 3(1,2) by (intro exI [of _ db3] conjI)
qed

end

section \<open>The seven kinds of rows\<close>

interpretation clusterK: row_kind ClusterRow asCluster cl_ID zeroCluster ClusterTable
proof (unfold_locales, goal_cases)
  case (4 x)
  then show ?case by (cases x) simp_all
qed (simp_all add: zeroCluster_def)

interpretation machineK: row_kind MachineRow asMachine m_ID zeroMachine MachineTable
proof (unfold_locales, goal_cases)
  case (4 x)
  then show ?case by (cases x) simp_all
qed (simp_all add: zeroMachine_def)

interpretation containerK: row_kind ContainerRow asContainer c_ID zeroContainer ContainerTable
proof (unfold_locales, goal_cases)
  case (4 x)
  then show ?case by (cases x) simp_all
qed (simp_all add: zeroContainer_def)

interpretation minionK: row_kind MinionRow asMinion mi_ID zeroMinion MinionTable
proof (unfold_locales, goal_cases)
  case (4 x)
  then show ?case by (cases x) simp_all
qed (simp_all add: zeroMinion_def)

interpretation connectionK: row_kind ConnectionRow asConnection cn_ID zeroConnection ConnectionTable
proof (unfold_locales, goal_cases)
  case (4 x)
  then show ?case by (cases x) simp_all
qed (simp_all add: zeroConnection_def)

interpretation labelK: row_kind LabelRow asLabel l_ID zeroLabel LabelTable
proof (unfold_locales, goal_cases)
  case (4 x)
  then show ?case by (cases x) simp_all
qed (simp_all add: zeroLabel_def)

interpretation etcdK: row_kind EtcdRow asEtcd e_ID zeroEtcd EtcdTable
proof (unfold_locales, goal_cases)
  case (4 x)
  then show ?case by (cases x) simp_all
qed (simp_all add: zeroEtcd_def)

text \<open>The typed selects in terms of the rows of a kind.\<close>

lemma select_rows:
  "SelectFromCluster db f = filter f (clusterK.allRows db)"
  "SelectFromMachine db g = filter g (machineK.allRows db)"
  "SelectFromContainer db h = filter h (containerK.allRows db)"
  "SelectFromMinion db k = filter k (minionK.allRows db)"
  "SelectFromConnection db l = filter l (connectionK.allRows db)"
  "SelectFromLabel db p = filter p (labelK.allRows db)"
  "SelectFromEtcd db q = filter q (etcdK.allRows db)"
  by (simp_all add: select_defs clusterK.select_allRows machineK.select_allRows
    containerK.select_allRows minionK.select_allRows connectionK.select_allRows
    labelK.select_allRows etcdK.select_allRows)

lemmas frame_rows = clusterK.frame_allRows machineK.frame_allRows containerK.frame_allRows
  minionK.frame_allRows connectionK.frame_allRows labelK.frame_allRows etcdK.frame_allRows

end
