(* ===== verification/Db_Txn.thy ===== *)
theory Db_Txn
  imports Db
begin

text \<open>
  What \<open>src/db\<close> builds on top of the tables: the default sort order of the rows and
  \<open>SortMachines\<close>, the rendering and logging of tables, and the connection that runs
  transactions one at a time and wakes the triggers of the tables they changed.
\<close>

section \<open>The default sort order\<close>

definition Machine_less :: "Machine \<Rightarrow> Machine \<Rightarrow> bool" where
  "Machine_less l r =
     (let upl = m_PublicIP l \<noteq> '''' \<and> m_PrivateIP l \<noteq> '''';
          upr = m_PublicIP r \<noteq> '''' \<and> m_PrivateIP r \<noteq> '''';
          downl = (m_PublicIP l = '''' \<and> m_PrivateIP l = '''');
          downr = (m_PublicIP r = '''' \<and> m_PrivateIP r = '''') in
      if m_Role l \<noteq> m_Role r then m_Role l > m_Role r
      else if upl \<noteq> upr then upl
      else if downl \<noteq> downr then \<not> downl
      else if m_CloudID l \<noteq> m_CloudID r then m_CloudID l < m_CloudID r
      else m_ID l < m_ID r)"

definition Connection_less :: "Connection \<Rightarrow> Connection \<Rightarrow> bool" where
  "Connection_less c o' =
     (if cn_From c \<noteq> cn_From o' then cn_From c < cn_From o'
      else if cn_To c \<noteq> cn_To o' then cn_To c < cn_To o'
      else if cn_MaxPort c \<noteq> cn_MaxPort o' then cn_MaxPort c < cn_MaxPort o'
      else if cn_MinPort c \<noteq> cn_MaxPort o' then cn_MinPort c < cn_MinPort o'
      else cn_ID c < cn_ID o')"

definition Label_less :: "Label \<Rightarrow> Label \<Rightarrow> bool" where
  "Label_less r r2 = (if l_Label r \<noteq> l_Label r2 then l_Label r < l_Label r2 else l_ID r < l_ID r2)"

definition Container_less :: "Container \<Rightarrow> Container \<Rightarrow> bool" where
  "Container_less c r = (c_ID c < c_ID r)"

definition Minion_less :: "Minion \<Rightarrow> Minion \<Rightarrow> bool" where
  "Minion_less m r = (mi_ID m < mi_ID r)"

definition Cluster_less :: "Cluster \<Rightarrow> Cluster \<Rightarrow> bool" where
  "Cluster_less c r = (cl_ID c < cl_ID r)"

text \<open>
  \<open>Etcd.less\<close> asserts that its argument is a \<open>Minion\<close>; on anything else the assertion panics.
\<close>

fun Etcd_less :: "Etcd \<Rightarrow> row \<Rightarrow> bool option" where
  "Etcd_less e (MinionRow m) = Some (e_ID e < mi_ID m)"
| "Etcd_less e _ = None"

fun row_less :: "row \<Rightarrow> row \<Rightarrow> bool option" where
  "row_less (ClusterRow a) r = map_option (Cluster_less a) (asCluster r)"
| "row_less (MachineRow a) r = map_option (Machine_less a) (asMachine r)"
| "row_less (ContainerRow a) r = map_option (Container_less a) (asContainer r)"
| "row_less (MinionRow a) r = map_option (Minion_less a) (asMinion r)"
| "row_less (ConnectionRow a) r = map_option (Connection_less a) (asConnection r)"
| "row_less (LabelRow a) r = map_option (Label_less a) (asLabel r)"
| "row_less (EtcdRow a) r = Etcd_less a r"

definition SortMachines :: "Machine list \<Rightarrow> Machine list" where
  "SortMachines machines = goSort Machine_less machines"

text \<open>Each order that is one, by the key it compares.\<close>

definition machineKey :: "Machine \<Rightarrow> int \<times> bool \<times> bool \<times> string \<times> int" where
  "machineKey m = (- m_Role m, \<not> (m_PublicIP m \<noteq> '''' \<and> m_PrivateIP m \<noteq> ''''),
     m_PublicIP m = '''' \<and> m_PrivateIP m = '''', m_CloudID m, m_ID m)"

lemma less_pair_if: "(a :: 'a :: linorder, x :: 'b :: linorder) < (b, y) \<longleftrightarrow> (if a \<noteq> b then a < b else x < y)"
  by auto

interpretation machineOrd: sort_order Machine_less machineKey
proof
  fix a b
  show "Machine_less a b \<longleftrightarrow> machineKey a < machineKey b"
    unfolding Machine_less_def machineKey_def Let_def less_pair_if
    by (cases "m_PublicIP a = ''''"; cases "m_PublicIP b = ''''";
        cases "m_PrivateIP a = ''''"; cases "m_PrivateIP b = ''''") simp_all
qed

interpretation labelOrd: sort_order Label_less "\<lambda>l. (l_Label l, l_ID l)"
  by unfold_locales (simp add: Label_less_def less_pair_if del: less_prod_simp split del: if_split)

interpretation containerOrd: sort_order Container_less c_ID
  by unfold_locales (simp add: Container_less_def)

interpretation minionOrd: sort_order Minion_less mi_ID
  by unfold_locales (simp add: Minion_less_def)

interpretation clusterOrd: sort_order Cluster_less cl_ID
  by unfold_locales (simp add: Cluster_less_def)

lemma inj_machineKey: "distinct (map m_ID xs) \<Longrightarrow> inj_on machineKey (set xs)"
  by (auto simp: inj_on_def machineKey_def distinct_map)

lemma SortMachines_unique:
  "distinct (map m_ID xs) \<Longrightarrow> mset ys = mset xs \<Longrightarrow> sorted (map machineKey ys) \<Longrightarrow> ys = SortMachines xs"
  unfolding SortMachines_def by (rule machineOrd.unique) (simp_all add: inj_machineKey)

lemma SortMachines_perm:
  assumes "distinct (map m_ID xs)" and "mset ys = mset xs"
  shows "SortMachines ys = SortMachines xs"
proof (rule SortMachines_unique [OF assms(1)])
  show "mset (SortMachines ys) = mset xs" by (simp add: SortMachines_def assms(2))
  show "sorted (map machineKey (SortMachines ys))"
    unfolding SortMachines_def by (rule machineOrd.sorted)
qed

section \<open>Rendering rows\<close>

text \<open>
  \<open>defaultString\<close> walks the struct by reflection: the fields in order, each with its
  \<open>rowStringer\<close> tag and its \<open>fmt.Sprint\<close>.  No row type uses a tag other than \<open>omit\<close>, so the
  format of a field that is shown is always \<open>Name=%s\<close>.
\<close>

definition defaultString :: "string \<Rightarrow> int \<Rightarrow> (string \<times> string \<times> string) list \<Rightarrow> string" where
  "defaultString tname i flds =
     (let shown = filter (\<lambda>(name, tag, v). name \<noteq> ''ID'' \<and> tag \<noteq> ''omit'' \<and> v \<noteq> '''' \<and> v \<noteq> ''0'') flds;
          tags = map (\<lambda>(name, tag, v). name @ ''='' @ v) shown in
      tname @ ''-'' @ itoa i @ ''{'' @ joinStr '', '' tags @ ''}'')"

text \<open>A panic inside a \<open>String\<close> method is caught by \<open>fmt\<close>, which prints it.\<close>

definition fmtRole :: "Role \<Rightarrow> string" where
  "fmtRole r = (case Role_String r of Some s \<Rightarrow> s | None \<Rightarrow> ''%!v(PANIC=Not Reached)'')"

definition Machine_String :: "Machine \<Rightarrow> string" where
  "Machine_String m = defaultString ''Machine'' (m_ID m)
     [(''ID'', '''', itoa (m_ID m)), (''ClusterID'', '''', itoa (m_ClusterID m)),
      (''Role'', '''', fmtRole (m_Role m)), (''Provider'', '''', m_Provider m),
      (''Region'', '''', m_Region m), (''Size'', '''', m_Size m),
      (''DiskSize'', '''', itoa (m_DiskSize m)), (''SSHKeys'', ''omit'', sliceString (m_SSHKeys m)),
      (''CloudID'', '''', m_CloudID m), (''PublicIP'', '''', m_PublicIP m),
      (''PrivateIP'', '''', m_PrivateIP m)]"

definition Minion_String :: "Minion \<Rightarrow> string" where
  "Minion_String m = defaultString ''Minion'' (mi_ID m)
     [(''ID'', '''', itoa (mi_ID m)), (''MinionID'', '''', mi_MinionID m),
      (''Role'', '''', fmtRole (mi_Role m)), (''PrivateIP'', '''', mi_PrivateIP m)]"

definition Label_String :: "Label \<Rightarrow> string" where
  "Label_String r = defaultString ''Label'' (l_ID r)
     [(''ID'', '''', itoa (l_ID r)), (''Label'', '''', l_Label r), (''IP'', '''', l_IP r),
      (''MultiHost'', '''', boolString (l_MultiHost r))]"

definition Etcd_String :: "Etcd \<Rightarrow> string" where
  "Etcd_String e = defaultString ''Etcd'' (e_ID e)
     [(''ID'', '''', itoa (e_ID e)), (''EtcdIPs'', '''', sliceString (e_EtcdIPs e)),
      (''Leader'', '''', boolString (e_Leader e)), (''LeaderIP'', '''', e_LeaderIP e)]"

definition Connection_String :: "Connection \<Rightarrow> string" where
  "Connection_String c =
     (let port = itoa (cn_MinPort c) @
            (if cn_MaxPort c \<noteq> cn_MinPort c then ''-'' @ itoa (cn_MaxPort c) else '''') in
      ''Connection-'' @ itoa (cn_ID c) @ ''{'' @ cn_From c @ ''->'' @ cn_To c @ '':'' @ port @ ''}'')"

definition Cluster_String :: "Cluster \<Rightarrow> string" where
  "Cluster_String c = ''Cluster-'' @ itoa (cl_ID c) @ ''{'' @ cl_Namespace c @ '', ACL: '' @
     sliceString (cl_ACLs c) @ ''}''"

definition ShortUUID :: "string \<Rightarrow> string" where
  "ShortUUID uuid = (if length uuid < 12 then uuid else take 12 uuid)"

definition Container_String :: "Container \<Rightarrow> string" where
  "Container_String c =
     (let cmdStr = joinStr '' '' ([''run'', c_Image c] @ c_Command c);
          tags = [cmdStr]
            @ (if c_SchedID c \<noteq> '''' then [''SchedID: '' @ ShortUUID (c_SchedID c)] else [])
            @ (if c_Pid c \<noteq> 0 then [''Pid: '' @ itoa (c_Pid c)] else [])
            @ (if c_IP c \<noteq> '''' then [''IP: '' @ c_IP c] else [])
            @ (if c_Mac c \<noteq> '''' then [''Mac: '' @ c_Mac c] else [])
            @ (if length (c_Labels c) > 0 then [''Labels: '' @ sliceString (c_Labels c)] else [])
            @ (if length (c_Exclusive c) > 0 then [''Placement: map['' @
                 joinStr '' '' (map (\<lambda>(a, b). sliceString [a, b] @ '':{}'') (c_Exclusive c)) @ '']''] else [])
            @ (if length (c_Env c) > 0 then [''Env: map['' @
                 joinStr '' '' (map (\<lambda>(k, v). k @ '':'' @ v) (c_Env c)) @ '']''] else [])
      in ''Container-'' @ itoa (c_ID c) @ ''{'' @ joinStr '', '' tags @ ''}'')"

fun row_String :: "row \<Rightarrow> string" where
  "row_String (ClusterRow r) = Cluster_String r"
| "row_String (MachineRow r) = Machine_String r"
| "row_String (ContainerRow r) = Container_String r"
| "row_String (MinionRow r) = Minion_String r"
| "row_String (ConnectionRow r) = Connection_String r"
| "row_String (LabelRow r) = Label_String r"
| "row_String (EtcdRow r) = Etcd_String r"

section \<open>Logging a table\<close>

text \<open>Sorting with a comparison that may panic.\<close>

fun insertByM :: "('a \<Rightarrow> 'a \<Rightarrow> bool option) \<Rightarrow> 'a \<Rightarrow> 'a list \<Rightarrow> 'a list option" where
  "insertByM lt x [] = Some [x]"
| "insertByM lt x (y # ys) =
     (case lt y x of
        None \<Rightarrow> None
      | Some True \<Rightarrow> map_option ((#) y) (insertByM lt x ys)
      | Some False \<Rightarrow> Some (x # y # ys))"

fun goSortM :: "('a \<Rightarrow> 'a \<Rightarrow> bool option) \<Rightarrow> 'a list \<Rightarrow> 'a list option" where
  "goSortM lt [] = Some []"
| "goSortM lt (x # xs) =
     (case goSortM lt xs of None \<Rightarrow> None | Some ys \<Rightarrow> insertByM lt x ys)"

text \<open>The lines that \<open>logTable\<close> prints: at most 51 rows, sorted, and a mark when there are more.\<close>

definition logTable :: "TableType \<Rightarrow> Database \<Rightarrow> string list option" where
  "logTable t db =
     (let rs = take 51 (map snd (rows (tables db t)));
          truncated = 51 < length (rows (tables db t)) in
      case goSortM row_less rs of
        None \<Rightarrow> None
      | Some rs' \<Rightarrow> Some (map row_String rs' @ (if truncated then [''Truncated ...''] else [])))"

lemma insertByM_total:
  "(\<And>y. y \<in> set ys \<Longrightarrow> lt y x \<noteq> None) \<Longrightarrow> \<exists>zs. insertByM lt x ys = Some zs \<and> mset zs = add_mset x (mset ys)"
proof (induction ys)
  case (Cons y ys)
  obtain zs where "insertByM lt x ys = Some zs" "mset zs = add_mset x (mset ys)"
    using Cons by auto
  moreover obtain b where "lt y x = Some b" using Cons.prems [of y] by auto
  ultimately show ?case by (cases b) auto
qed simp

lemma goSortM_total:
  "(\<And>x y. x \<in> set xs \<Longrightarrow> y \<in> set xs \<Longrightarrow> lt x y \<noteq> None) \<Longrightarrow> \<exists>zs. goSortM lt xs = Some zs \<and> mset zs = mset xs"
proof (induction xs)
  case (Cons x xs)
  obtain ys where ys: "goSortM lt xs = Some ys" "mset ys = mset xs" using Cons by auto
  then have "set ys = set xs" by (metis set_mset_mset)
  with Cons.prems have "\<exists>zs. insertByM lt x ys = Some zs \<and> mset zs = add_mset x (mset ys)"
    by (intro insertByM_total) auto
  with ys show ?case by auto
qed simp

lemma insertByM_stuck:
  assumes "\<And>x y. x \<in> set (z # ys) \<Longrightarrow> y \<in> set (z # ys) \<Longrightarrow> lt x y = None" and "ys \<noteq> []"
  shows "insertByM lt z ys = None"
  using assms by (cases ys) auto

lemma goSortM_stuck:
  "(\<And>x y. x \<in> set xs \<Longrightarrow> y \<in> set xs \<Longrightarrow> lt x y = None) \<Longrightarrow> 2 \<le> length xs \<Longrightarrow> goSortM lt xs = None"
proof (induction xs)
  case (Cons x xs)
  show ?case
  proof (cases "2 \<le> length xs")
    case True
    with Cons show ?thesis by simp
  next
    case False
    with Cons.prems(2) obtain y where "xs = [y]" by (cases xs) (auto simp: Suc_le_eq)
    with Cons.prems(1) show ?thesis by simp
  qed
qed simp

lemma row_less_total:
  "getTableType a = getTableType b \<Longrightarrow> getTableType a \<noteq> EtcdTable \<Longrightarrow> row_less a b \<noteq> None"
  by (cases a; cases b) simp_all

lemma row_type: "db_inv db \<Longrightarrow> x \<in> set (map snd (rows (tables db t))) \<Longrightarrow> getTableType x = t"
  by (auto simp: db_inv_def tables_ok_def)

lemma Etcd_less_None: "getTableType r = EtcdTable \<Longrightarrow> Etcd_less e r = None"
  by (cases r) simp_all

lemma row_less_etcd: "getTableType a = EtcdTable \<Longrightarrow> getTableType b = EtcdTable \<Longrightarrow> row_less a b = None"
  by (cases a) (simp_all add: Etcd_less_None)

section \<open>Transactions and triggers\<close>

definition notify :: "nat \<Rightarrow> Trigger list \<Rightarrow> Trigger list" where
  "notify i cs = cs[i := (cs ! i)\<lparr>pending := True\<rparr>]"

text \<open>
  \<open>alert\<close>: a stopped trigger leaves the table, and every trigger that was in it gets a
  notification unless one is already waiting in its channel.
\<close>

definition alert :: "TableType \<Rightarrow> Database \<Rightarrow> Database" where
  "alert t db =
     (let tb = tables db t in
      if seq tb = trigSeq tb then db
      else (upd_table t (\<lambda>tb. tb\<lparr>trigSeq := seq tb,
                                   triggers := filter (\<lambda>i. \<not> stopped (chans db ! i)) (triggers tb)\<rparr>) db)
             \<lparr>chans := fold notify (triggers tb) (chans db)\<rparr>)"

type_synonym 'e txn = "Database \<Rightarrow> ('e \<times> Database) option"

text \<open>One iteration of \<open>run\<close>, which is what \<open>Transact\<close> waits for; a panic takes the process down.\<close>

definition Transact :: "'e txn \<Rightarrow> Database \<Rightarrow> ('e \<times> Database) option" where
  "Transact f db = (case f db of None \<Rightarrow> None | Some (e, db1) \<Rightarrow> Some (e, fold alert allTables db1))"

text \<open>\<open>Conn.Trigger\<close>: a fresh trigger, registered with each table by a transaction.\<close>

definition ConnTrigger :: "TableType list \<Rightarrow> Database \<Rightarrow> (nat \<times> Database) option" where
  "ConnTrigger tts db = Transact
     (\<lambda>db. let i = length (chans db) in
       Some (i, fold (\<lambda>t. upd_table t (\<lambda>tb. tb\<lparr>triggers := sput i (triggers tb)\<rparr>)) tts
                  (db\<lparr>chans := chans db @ [\<lparr>pending = False, stopped = False\<rparr>]\<rparr>))) db"

text \<open>A tick of \<open>TriggerTick\<close>, \<open>Trigger.Stop\<close> (closing twice panics), and a receive on \<open>C\<close>.\<close>

definition tick :: "nat \<Rightarrow> Database \<Rightarrow> Database" where
  "tick i db = db\<lparr>chans := notify i (chans db)\<rparr>"

definition Stop :: "nat \<Rightarrow> Database \<Rightarrow> Database option" where
  "Stop i db = (if stopped (chans db ! i) then None
     else Some (db\<lparr>chans := (chans db)[i := (chans db ! i)\<lparr>stopped := True\<rparr>]\<rparr>))"

definition receive :: "nat \<Rightarrow> Database \<Rightarrow> Database option" where
  "receive i db = (if pending (chans db ! i)
     then Some (db\<lparr>chans := (chans db)[i := (chans db ! i)\<lparr>pending := False\<rparr>]\<rparr>) else None)"

text \<open>What a transaction may do to the tables.\<close>

inductive ops :: "Database \<Rightarrow> Database \<Rightarrow> bool" where
  ops_refl: "ops db db"
| ops_insert: "ops db db1 \<Longrightarrow> nextID db1 = (getID r, db2) \<Longrightarrow> ops db (insert_db r db2)"
| ops_commit: "ops db db1 \<Longrightarrow> Commit r db1 = Some db2 \<Longrightarrow> ops db db2"
| ops_remove: "ops db db1 \<Longrightarrow> ops db (Remove r db1)"

text \<open>The life of a connection: transactions, new triggers, ticks, stops and receives interleave.\<close>

inductive conn_step :: "Database \<Rightarrow> Database \<Rightarrow> bool" where
  step_txn: "(f :: string option txn) db = Some (e, db1) \<Longrightarrow> ops db db1 \<Longrightarrow> Transact f db = Some (e, db') \<Longrightarrow> conn_step db db'"
| step_trigger: "ConnTrigger tts db = Some (i, db') \<Longrightarrow> conn_step db db'"
| step_tick: "i < length (chans db) \<Longrightarrow> conn_step db (tick i db)"
| step_stop: "i < length (chans db) \<Longrightarrow> Stop i db = Some db' \<Longrightarrow> conn_step db db'"
| step_receive: "i < length (chans db) \<Longrightarrow> receive i db = Some db' \<Longrightarrow> conn_step db db'"

inductive conn_reach :: "Database \<Rightarrow> bool" where
  reach_New: "conn_reach New"
| reach_step: "conn_reach db \<Longrightarrow> conn_step db db' \<Longrightarrow> conn_reach db'"

inductive_cases conn_stepE: "conn_step db db'"

lemma ops_insertRow:
  assumes "ops db db1" and "\<And>i. getID (mk (zero i)) = i"
  shows "ops db (snd (insertRow mk zero db1))"
  using ops_insert [OF assms(1), of "mk (zero (idAlloc db1 + 1))"] assms(2)
  by (simp add: insertRow_def nextID_def Let_def)

section \<open>The invariant of a connection\<close>

definition triggers_ok :: "Database \<Rightarrow> bool" where
  "triggers_ok db \<longleftrightarrow> (\<forall>t. \<forall>i \<in> set (triggers (tables db t)). i < length (chans db))"

definition quiet :: "Database \<Rightarrow> bool" where
  "quiet db \<longleftrightarrow> (\<forall>t. seq (tables db t) = trigSeq (tables db t))"

definition conn_inv :: "Database \<Rightarrow> bool" where
  "conn_inv db \<longleftrightarrow> db_inv db \<and> triggers_ok db \<and> quiet db"

text \<open>Only the rows and the ID counter matter for \<open>db_inv\<close>.\<close>

lemma db_inv_cong:
  assumes "\<And>t. rows (tables db' t) = rows (tables db t)" and "idAlloc db' = idAlloc db"
  shows "db_inv db' = db_inv db"
  by (simp add: db_inv_def tables_ok_def ids_ok_def keysOf_def assms)

lemma length_notify [simp]: "length (notify i cs) = length cs"
  by (simp add: notify_def)

lemma length_fold_notify [simp]: "length (fold notify is cs) = length cs"
  by (induction "is" arbitrary: cs) simp_all

lemma pending_notify: "i < length cs \<Longrightarrow> pending (notify j cs ! i) \<longleftrightarrow> i = j \<or> pending (cs ! i)"
  by (cases "i = j") (simp_all add: notify_def)

lemma pending_fold_notify:
  "i < length cs \<Longrightarrow> pending (fold notify is cs ! i) \<longleftrightarrow> i \<in> set is \<or> pending (cs ! i)"
  by (induction "is" arbitrary: cs) (auto simp: pending_notify)

lemma alert_rows [simp]: "rows (tables (alert t db) t') = rows (tables db t')"
  "idAlloc (alert t db) = idAlloc db" "length (chans (alert t db)) = length (chans db)"
  "seq (tables (alert t db) t') = seq (tables db t')"
  by (simp_all add: alert_def Let_def tables_upd_table upd_table_def)

lemma alert_trigSeq:
  "trigSeq (tables (alert t db) t') = (if t' = t then seq (tables db t) else trigSeq (tables db t'))"
  by (auto simp: alert_def Let_def upd_table_def)

lemma alert_triggers:
  "set (triggers (tables (alert t db) t')) \<subseteq> set (triggers (tables db t'))"
  "t' \<noteq> t \<Longrightarrow> triggers (tables (alert t db) t') = triggers (tables db t')"
  by (auto simp: alert_def Let_def upd_table_def)

lemma alert_pending:
  assumes "i < length (chans db)"
  shows "pending (chans (alert t db) ! i) \<longleftrightarrow> pending (chans db ! i) \<or>
     seq (tables db t) \<noteq> trigSeq (tables db t) \<and> i \<in> set (triggers (tables db t))"
  using assms by (auto simp: alert_def Let_def pending_fold_notify)

lemma fold_alert_rows [simp]: "rows (tables (fold alert ts db) t') = rows (tables db t')"
  "idAlloc (fold alert ts db) = idAlloc db" "length (chans (fold alert ts db)) = length (chans db)"
  "seq (tables (fold alert ts db) t') = seq (tables db t')"
  by (induction ts arbitrary: db) simp_all

lemma fold_alert_selectRows: "selectRows as t (fold alert ts db) = selectRows as t db"
  by (simp add: selectRows_def [abs_def])

text \<open>Telling the triggers of a transaction changes nothing that a select sees.\<close>

lemma fold_alert_selects [simp]:
  "SelectFromCluster (fold alert ts db) = SelectFromCluster db"
  "SelectFromMachine (fold alert ts db) = SelectFromMachine db"
  "SelectFromContainer (fold alert ts db) = SelectFromContainer db"
  "SelectFromMinion (fold alert ts db) = SelectFromMinion db"
  "SelectFromConnection (fold alert ts db) = SelectFromConnection db"
  "SelectFromLabel (fold alert ts db) = SelectFromLabel db"
  "SelectFromEtcd (fold alert ts db) = SelectFromEtcd db"
  by (simp_all add: select_defs fold_alert_selectRows)

lemma fold_alert_trigSeq:
  "trigSeq (tables (fold alert ts db) t') = (if t' \<in> set ts then seq (tables db t') else trigSeq (tables db t'))"
  by (induction ts arbitrary: db) (auto simp: alert_trigSeq)

lemma fold_alert_triggers: "set (triggers (tables (fold alert ts db) t')) \<subseteq> set (triggers (tables db t'))"
proof (induction ts arbitrary: db)
  case (Cons t ts)
  from order_trans [OF Cons.IH alert_triggers(1)] show ?case by simp
qed simp

lemma fold_alert_pending:
  assumes "distinct ts" and "i < length (chans db)"
  shows "pending (chans (fold alert ts db) ! i) \<longleftrightarrow> pending (chans db ! i) \<or>
     (\<exists>t \<in> set ts. seq (tables db t) \<noteq> trigSeq (tables db t) \<and> i \<in> set (triggers (tables db t)))"
  using assms
proof (induction ts arbitrary: db)
  case (Cons t ts)
  have "seq (tables (alert t db) u) \<noteq> trigSeq (tables (alert t db) u) \<and> i \<in> set (triggers (tables (alert t db) u))
      \<longleftrightarrow> seq (tables db u) \<noteq> trigSeq (tables db u) \<and> i \<in> set (triggers (tables db u))"
    if "u \<in> set ts" for u
    using Cons.prems(1) that by (auto simp: alert_trigSeq alert_triggers(2))
  with Cons show ?case by (auto simp: alert_pending)
qed simp

lemma allTables_all [simp]: "set allTables = UNIV" "distinct allTables"
proof -
  show "set allTables = UNIV" using TableType.exhaust by (auto simp: allTables_def)
qed (simp add: allTables_def)

section \<open>Transactions keep the invariant and lose no wake-up\<close>

text \<open>
  Along the operations of a transaction, triggers and channels do not move, sequence numbers
  only grow, and a table whose sequence number did not grow has the rows it had.
\<close>

definition ops_rel :: "Database \<Rightarrow> Database \<Rightarrow> bool" where
  "ops_rel db db' \<longleftrightarrow> chans db' = chans db \<and>
     (\<forall>t. triggers (tables db' t) = triggers (tables db t) \<and> trigSeq (tables db' t) = trigSeq (tables db t) \<and>
        seq (tables db t) \<le> seq (tables db' t) \<and>
        (seq (tables db' t) = seq (tables db t) \<longrightarrow> rows (tables db' t) = rows (tables db t)))"

lemma ops_rel_refl: "ops_rel db db"
  by (simp add: ops_rel_def)

lemma ops_rel_trans: "ops_rel db1 db2 \<Longrightarrow> ops_rel db2 db3 \<Longrightarrow> ops_rel db1 db3"
  unfolding ops_rel_def by (metis order_antisym order_trans)

lemma ops_rel_upd:
  assumes "\<And>tb. triggers (f tb) = triggers tb" "\<And>tb. trigSeq (f tb) = trigSeq tb" "\<And>tb. seq (f tb) = seq tb + 1"
  shows "ops_rel db (upd_table t f db)"
  by (simp add: ops_rel_def tables_upd_table assms)

lemma ops_rel_insert: "ops_rel db (insert_db r db)"
  unfolding insert_db_def by (rule ops_rel_upd) simp_all

lemma ops_rel_Commit: "Commit r db = Some db' \<Longrightarrow> ops_rel db db'"
  by (auto simp: Commit_def Let_def ops_rel_refl intro!: ops_rel_upd split: option.splits if_splits)

lemma ops_rel_Remove: "ops_rel db (Remove r db)"
  unfolding Remove_def by (rule ops_rel_upd) simp_all

lemma ops_rel_nextID: "nextID db = (i, db') \<Longrightarrow> ops_rel db db'"
  by (auto simp: nextID_def ops_rel_def)

lemma ops_ops_rel: "ops db db' \<Longrightarrow> ops_rel db db'"
  by (induction rule: ops.induct)
    (blast intro: ops_rel_refl ops_rel_trans ops_rel_insert ops_rel_Commit ops_rel_Remove ops_rel_nextID)+

lemma ops_db_inv: "ops db db' \<Longrightarrow> db_inv db \<Longrightarrow> db_inv db'"
proof (induction rule: ops.induct)
  case (ops_insert db db1 r db2)
  from ops_insert have inv: "db_inv db1" and id: "getID r = idAlloc db1 + 1"
    and db2: "db2 = snd (nextID db1)" by (auto simp: nextID_def)
  have "0 \<le> idAlloc db1" using inv by (simp add: db_inv_def ids_ok_def)
  moreover have "keysOf db2 t = keysOf db1 t" for t by (simp add: db2 nextID_def keysOf_def)
  moreover have "idAlloc db2 = idAlloc db1 + 1" by (simp add: db2 nextID_def)
  ultimately show ?case
    using nextID_fresh [OF inv] id
    by (intro db_inv_insert) (simp_all add: db2 db_inv_nextID [OF inv])
qed (simp_all add: db_inv_Commit db_inv_Remove)

lemma fold_alert_db_inv [simp]: "db_inv (fold alert allTables db) = db_inv db"
  by (rule db_inv_cong) simp_all

lemma Transact_conn_inv:
  assumes inv: "conn_inv db" and o: "ops_rel db db1" and dbi: "db_inv db1"
    and T: "Transact f db = Some (e, db')" and f: "f db = Some (e, db1)"
  shows "conn_inv db'"
proof -
  have db': "db' = fold alert allTables db1" using T f by (simp add: Transact_def)
  have "db_inv db'" unfolding db' using dbi by (subst db_inv_cong [of _ db1]) simp_all
  moreover have "triggers_ok db'"
    unfolding triggers_ok_def db'
  proof (intro allI ballI)
    fix t i
    assume "i \<in> set (triggers (tables (fold alert allTables db1) t))"
    with fold_alert_triggers have "i \<in> set (triggers (tables db t))"
      using o unfolding ops_rel_def by fastforce
    then have "i < length (chans db)" using inv by (auto simp: conn_inv_def triggers_ok_def)
    then show "i < length (chans (fold alert allTables db1))" using o by (simp add: ops_rel_def)
  qed
  moreover have "quiet db'" by (simp add: quiet_def db' fold_alert_trigSeq)
  ultimately show ?thesis by (simp add: conn_inv_def)
qed

lemma Transact_wakes:
  assumes inv: "conn_inv db" and o: "ops_rel db db1" and f: "f db = Some (e, db1)"
    and T: "Transact f db = Some (e, db')"
    and ch: "rows (tables db' t) \<noteq> rows (tables db t)" and i: "i \<in> set (triggers (tables db t))"
  shows "pending (chans db' ! i)"
proof -
  have db': "db' = fold alert allTables db1" using T f by (simp add: Transact_def)
  have "i < length (chans db)" using inv i by (auto simp: conn_inv_def triggers_ok_def)
  moreover have "chans db1 = chans db" "triggers (tables db1 t) = triggers (tables db t)"
    "trigSeq (tables db1 t) = trigSeq (tables db t)" using o by (simp_all add: ops_rel_def)
  moreover have "seq (tables db1 t) \<noteq> seq (tables db t)"
    using o ch unfolding ops_rel_def db' by auto
  moreover have "seq (tables db t) = trigSeq (tables db t)" using inv by (simp add: conn_inv_def quiet_def)
  ultimately have "i < length (chans db1)"
    and "seq (tables db1 t) \<noteq> trigSeq (tables db1 t) \<and> i \<in> set (triggers (tables db1 t))"
    using i by auto
  then show ?thesis unfolding db' by (subst fold_alert_pending) auto
qed

lemma fold_register [simp]:
  "rows (tables (fold (\<lambda>t. upd_table t (\<lambda>tb. tb\<lparr>triggers := sput i (triggers tb)\<rparr>)) ts db) u) = rows (tables db u)"
  "idAlloc (fold (\<lambda>t. upd_table t (\<lambda>tb. tb\<lparr>triggers := sput i (triggers tb)\<rparr>)) ts db) = idAlloc db"
  "chans (fold (\<lambda>t. upd_table t (\<lambda>tb. tb\<lparr>triggers := sput i (triggers tb)\<rparr>)) ts db) = chans db"
  "seq (tables (fold (\<lambda>t. upd_table t (\<lambda>tb. tb\<lparr>triggers := sput i (triggers tb)\<rparr>)) ts db) u) = seq (tables db u)"
  "trigSeq (tables (fold (\<lambda>t. upd_table t (\<lambda>tb. tb\<lparr>triggers := sput i (triggers tb)\<rparr>)) ts db) u) = trigSeq (tables db u)"
  "set (triggers (tables (fold (\<lambda>t. upd_table t (\<lambda>tb. tb\<lparr>triggers := sput i (triggers tb)\<rparr>)) ts db) u)) =
     (if u \<in> set ts then Set.insert i (set (triggers (tables db u))) else set (triggers (tables db u)))"
  by (induction ts arbitrary: db) (auto simp: tables_upd_table)

lemma alert_quiet: "quiet db \<Longrightarrow> fold alert ts db = db"
  by (induction ts) (simp_all add: alert_def quiet_def)

lemma ConnTrigger_conn_inv:
  assumes "conn_inv db" and "ConnTrigger tts db = Some (i, db')"
  shows "conn_inv db'" and "\<forall>t \<in> set tts. i \<in> set (triggers (tables db' t))"
proof -
  let ?db1 = "db\<lparr>chans := chans db @ [\<lparr>pending = False, stopped = False\<rparr>]\<rparr>"
  let ?db2 = "fold (\<lambda>t. upd_table t (\<lambda>tb. tb\<lparr>triggers := sput (length (chans db)) (triggers tb)\<rparr>)) tts ?db1"
  have q: "quiet ?db2" using assms(1) by (simp add: conn_inv_def quiet_def)
  then have db': "db' = ?db2" and i: "i = length (chans db)"
    using assms(2) by (auto simp: ConnTrigger_def Transact_def Let_def alert_quiet)
  have "db_inv ?db2" using assms(1) by (subst db_inv_cong [of _ db]) (simp_all add: conn_inv_def)
  moreover have "triggers_ok ?db2"
    using assms(1) by (auto simp: conn_inv_def triggers_ok_def less_Suc_eq split: if_splits)
  ultimately show "conn_inv db'" using q by (simp add: conn_inv_def db')
  show "\<forall>t \<in> set tts. i \<in> set (triggers (tables db' t))" by (simp add: db' i)
qed

lemma conn_inv_chans:
  "conn_inv db \<Longrightarrow> length cs = length (chans db) \<Longrightarrow> conn_inv (db\<lparr>chans := cs\<rparr>)"
  by (simp add: conn_inv_def triggers_ok_def quiet_def db_inv_cong [of "db\<lparr>chans := cs\<rparr>" db])

lemma conn_inv_New: "conn_inv New"
  using db_inv_New by (simp add: conn_inv_def triggers_ok_def quiet_def New_def newTable_def)

lemma conn_step_inv: "conn_step db db' \<Longrightarrow> conn_inv db \<Longrightarrow> conn_inv db'"
proof (induction rule: conn_step.induct)
  case (step_txn f db e db1 db')
  then show ?case
    by (intro Transact_conn_inv [of db db1 f e db'] ops_ops_rel) (auto intro: ops_db_inv simp: conn_inv_def)
next
  case (step_trigger tts db i db')
  then show ?case by (rule ConnTrigger_conn_inv(1) [rotated])
qed (auto simp: tick_def Stop_def receive_def intro!: conn_inv_chans split: if_splits)

lemma conn_reach_inv: "conn_reach db \<Longrightarrow> conn_inv db"
  by (induction rule: conn_reach.induct) (auto intro: conn_inv_New conn_step_inv)

text \<open>A notification stays until it is received; only a receive on the same trigger takes it.\<close>

lemma pending_stable:
  assumes "conn_step db db'" and "conn_inv db" and "i < length (chans db)" and "pending (chans db ! i)"
    and "receive i db \<noteq> Some db'"
  shows "pending (chans db' ! i)"
  using assms
proof (induction rule: conn_step.induct)
  case (step_txn f db e db1 db')
  then have "chans db1 = chans db" using ops_ops_rel by (simp add: ops_rel_def)
  with step_txn show ?case
    by (auto simp: Transact_def fold_alert_pending)
next
  case (step_trigger tts db i db')
  then show ?case
    by (auto simp: ConnTrigger_def Transact_def Let_def fold_alert_pending nth_append)
next
  case (step_tick j db)
  then show ?case by (auto simp: tick_def pending_notify)
next
  case (step_stop j db db')
  then show ?case by (cases "i = j") (auto simp: Stop_def split: if_splits)
next
  case (step_receive j db db')
  then show ?case by (cases "i = j") (auto simp: receive_def split: if_splits)
qed

section \<open>Properties\<close>

text \<open>C6: in every state a connection can reach, by whatever interleaving of transactions, new
  triggers, ticks, stops and receives, each row is stored in the table of its type under its own
  ID, no two rows share an ID, and no ID exceeds the allocator's counter.\<close>

theorem conn_reach_db_inv: "conn_reach db \<Longrightarrow> db_inv db"
  using conn_reach_inv by (simp add: conn_inv_def)

definition sampleDb :: Database where
  "sampleDb = snd (InsertMinion (snd (InsertMachine New)))"

lemma sampleDb_ops: "ops New sampleDb"
  unfolding sampleDb_def InsertMinion_def InsertMachine_def
  by (intro ops_insertRow ops_refl) (simp_all add: zeroMinion_def zeroMachine_def)

lemma sampleDb_reach: "conn_reach (fold alert allTables sampleDb)"
  by (rule reach_step [OF reach_New],
      rule step_txn [of "\<lambda>_. Some (None, sampleDb)" _ None sampleDb])
    (simp_all add: sampleDb_ops Transact_def)

theorem conn_reach_db_inv_witness: "db_inv (fold alert allTables sampleDb)"
  by (rule conn_reach_db_inv [OF sampleDb_reach])

text \<open>C15: no lost wake-ups. When a transaction on a reachable connection changes the rows of a
  table, every trigger registered for that table has a notification pending afterwards.\<close>

theorem transact_wakes_triggers:
  assumes "conn_reach db" and "f db = Some (e, db1)" and "ops db db1"
    and "Transact f db = Some (e, db')"
    and "rows (tables db' t) \<noteq> rows (tables db t)" and "i \<in> set (triggers (tables db t))"
  shows "pending (chans db' ! i)"
  by (rule Transact_wakes [OF conn_reach_inv [OF assms(1)] ops_ops_rel [OF assms(3)] assms(2,4,5,6)])

definition watchedDb :: Database where
  "watchedDb = snd (the (ConnTrigger [MinionTable] New))"

lemma watchedDb_trigger: "ConnTrigger [MinionTable] New = Some (0, watchedDb)"
  by (simp add: watchedDb_def ConnTrigger_def Transact_def Let_def New_def)

lemma watchedDb_reach: "conn_reach watchedDb"
  by (rule reach_step [OF reach_New step_trigger [OF watchedDb_trigger]])

lemma watchedDb_rows: "rows (tables watchedDb t) = []"
  by (simp add: watchedDb_def ConnTrigger_def Transact_def Let_def tables_upd_table New_def newTable_def)

theorem transact_wakes_triggers_witness:
  "pending (chans (fold alert allTables (snd (InsertMinion watchedDb))) ! 0)"
proof (rule transact_wakes_triggers [of watchedDb "\<lambda>db. Some (None :: string option, snd (InsertMinion db))"
      None "snd (InsertMinion watchedDb)" _ MinionTable])
  show "ops watchedDb (snd (InsertMinion watchedDb))"
    unfolding InsertMinion_def by (intro ops_insertRow ops_refl) (simp add: zeroMinion_def)
  show "0 \<in> set (triggers (tables watchedDb MinionTable))"
    using ConnTrigger_conn_inv(2) [OF conn_inv_New watchedDb_trigger] by simp
  show "rows (tables (fold alert allTables (snd (InsertMinion watchedDb))) MinionTable)
      \<noteq> rows (tables watchedDb MinionTable)"
    by (simp add: watchedDb_rows InsertMinion_def insertRow_def nextID_def Let_def insert_db_def tables_upd_table)
qed (simp_all add: watchedDb_reach Transact_def)

text \<open>\<open>SortMachines\<close> returns the machines in the default order, and the result does not depend on
  the order in which the rows were visited: any permutation of rows with distinct IDs sorts to the
  same slice.\<close>

lemma SortMachines_canonical:
  assumes "distinct (map m_ID machines)" and "mset machines' = mset machines"
  shows "SortMachines machines' = SortMachines machines \<and> mset (SortMachines machines) = mset machines \<and>
    sorted_wrt (\<lambda>a b. \<not> Machine_less b a) (SortMachines machines)"
proof (intro conjI)
  have "sorted_wrt (\<lambda>a b. machineKey a \<le> machineKey b) (SortMachines machines)"
    using machineOrd.sorted unfolding SortMachines_def by (simp add: sorted_map)
  then show "sorted_wrt (\<lambda>a b. \<not> Machine_less b a) (SortMachines machines)"
    by (simp add: machineOrd.lt_key not_less)
qed (use SortMachines_perm [OF assms] in \<open>simp_all add: SortMachines_def\<close>)

text \<open>C24: logging the Etcd table panics as soon as it holds two rows, because \<open>Etcd.less\<close> asserts
  that its argument is a \<open>Minion\<close>; logging any other table never does.\<close>

theorem logTable_panics_iff_etcd:
  assumes "db_inv db"
  shows "logTable t db = None \<longleftrightarrow> t = EtcdTable \<and> 2 \<le> length (rows (tables db t))"
proof -
  let ?rs = "take 51 (map snd (rows (tables db t)))"
  have ty: "getTableType x = t" if "x \<in> set ?rs" for x
    using row_type [OF assms] in_set_takeD [OF that] by blast
  have len: "2 \<le> length ?rs \<longleftrightarrow> 2 \<le> length (rows (tables db t))" by simp
  show ?thesis
  proof (cases "t = EtcdTable \<and> 2 \<le> length (rows (tables db t))")
    case True
    then have "goSortM row_less ?rs = None"
      using ty len by (intro goSortM_stuck row_less_etcd) auto
    with True show ?thesis by (auto simp: logTable_def Let_def)
  next
    case False
    have "\<exists>zs. goSortM row_less ?rs = Some zs"
    proof (cases "t = EtcdTable")
      case True
      with False len have "length ?rs < 2" by linarith
      then obtain x where "?rs = [] \<or> ?rs = [x]" by (cases ?rs; cases "tl ?rs") auto
      then show ?thesis by (elim disjE) (simp_all only: goSortM.simps option.case insertByM.simps, blast+)
    next
      case other: False
      have "row_less a b \<noteq> None" if "a \<in> set ?rs" "b \<in> set ?rs" for a b
        using ty [OF that(1)] ty [OF that(2)] other by (intro row_less_total) simp_all
      then show ?thesis using goSortM_total [of ?rs row_less] by blast
    qed
    with False show ?thesis by (auto simp: logTable_def Let_def)
  qed
qed

theorem logTable_panics_iff_etcd_witness:
  "logTable EtcdTable (snd (InsertEtcd (snd (InsertEtcd New)))) = None"
proof -
  let ?db = "snd (InsertEtcd New)"
  have 1: "db_inv ?db" using etcdK.insertRow_effect(3) [OF db_inv_New, of "fst (InsertEtcd New)" ?db]
    by (simp add: InsertEtcd_def)
  have "db_inv (snd (InsertEtcd ?db))"
    using etcdK.insertRow_effect(3) [OF 1, of "fst (InsertEtcd ?db)" "snd (InsertEtcd ?db)"]
    by (simp add: InsertEtcd_def)
  from logTable_panics_iff_etcd [OF this, of EtcdTable] show ?thesis
    by (simp add: InsertEtcd_def insertRow_def Let_def nextID_def insert_db_def upd_table_def New_def newTable_def zeroEtcd_def)
qed

text \<open>\<open>Connection.less\<close> is not an order: it compares \<open>MinPort\<close> with the other's \<open>MaxPort\<close> before
  comparing the two \<open>MinPort\<close>s, so two connections can each be less than the other.\<close>

lemma Connection_less_not_asym:
  "Connection_less (zeroConnection 1\<lparr>cn_MinPort := 10, cn_MaxPort := 10\<rparr>)
     (zeroConnection 2\<lparr>cn_MinPort := 5, cn_MaxPort := 10\<rparr>) \<and>
   Connection_less (zeroConnection 2\<lparr>cn_MinPort := 5, cn_MaxPort := 10\<rparr>)
     (zeroConnection 1\<lparr>cn_MinPort := 10, cn_MaxPort := 10\<rparr>)"
  by (simp add: Connection_less_def zeroConnection_def)

end
