(* ===== verification/Dsl_Ast.thy ===== *)
theory Dsl_Ast
  imports Prelude
begin

text \<open>
  The values of the policy language (\<open>src/dsl/ast.go\<close>): one constructor for each Go type that
  implements the \<open>ast\<close> interface, the mutable objects they point to, and the text form.

  Go pointers are addresses.  An \<open>evalCtx\<close> holds three maps and two slice pointers, all shared
  between contexts, so it is a tuple of addresses into the heap \<open>st\<close> plus its parent; machines and
  containers are reached through addresses as well.  A nil slice and an empty one are different
  values of an \<open>astList\<close> (\<open>reflect.DeepEqual\<close>, which implements the language's \<open>=\<close>, tells them
  apart): \<open>ANil\<close> and \<open>AList []\<close>.
\<close>

section \<open>Floating point literals\<close>

text \<open>
  The language has no float arithmetic: floats are written as decimal literals or converted from
  integers, then compared and printed.  They are kept as exact decimals \<open>m * 10 ^ e\<close> in normal
  form; the rounding of literals with more digits than a \<open>float64\<close> holds is not modelled.
\<close>

datatype gofloat = Dec (mant: int) (expo: int)

function normDec :: "int \<Rightarrow> int \<Rightarrow> gofloat" where
  "normDec m e = (if m = 0 then Dec 0 0 else if m mod 10 = 0 then normDec (m div 10) (e + 1) else Dec m e)"
  by auto
termination
  by (relation "measure (\<lambda>(m, e). nat \<bar>m\<bar>)") auto

declare normDec.simps [simp del]

definition intFloat :: "int \<Rightarrow> gofloat" where
  "intFloat i = normDec i 0"

definition zeroFloat :: gofloat where
  "zeroFloat = Dec 0 0"

definition floatLe :: "gofloat \<Rightarrow> gofloat \<Rightarrow> bool" where
  "floatLe x y =
     (let e = min (expo x) (expo y) in
      mant x * 10 ^ nat (expo x - e) \<le> mant y * 10 ^ nat (expo y - e))"

text \<open>
  \<open>%g\<close> with the shortest precision: the digits, and the scientific form when the decimal
  exponent is below -4 or at least 6.
\<close>

definition fmtG :: "gofloat \<Rightarrow> string" where
  "fmtG x =
     (let ds = natStr (nat \<bar>mant x\<bar>);
          sign = (if mant x < 0 then ''-'' else '''');
          pt = expo x + int (length ds);
          ex = pt - 1 in
      if ex < -4 \<or> 6 \<le> ex then
        sign @ [hd ds] @ (if tl ds = [] then [] else ''.'' @ tl ds) @ ''e'' @
        (if ex < 0 then ''-'' else ''+'') @
        (if \<bar>ex\<bar> < 10 then ''0'' @ natStr (nat \<bar>ex\<bar>) else natStr (nat \<bar>ex\<bar>))
      else if pt \<le> 0 then sign @ ''0.'' @ replicate (nat (- pt)) (CHR ''0'') @ ds
      else if int (length ds) \<le> pt then sign @ ds @ replicate (nat (pt - int (length ds))) (CHR ''0'')
      else sign @ take (nat pt) ds @ ''.'' @ drop (nat pt) ds)"

section \<open>Abstract syntax and values\<close>

type_synonym astIdent = string

text \<open>\<open>scanner.Position\<close>; line 0 marks the zero value, an undefined position.\<close>

record Position =
  Filename :: string
  Offset :: nat
  Line :: nat
  Column :: nat

definition noPos :: Position where
  "noPos = \<lparr>Filename = '''', Offset = 0, Line = 0, Column = 0\<rparr>"

datatype evalCtx = EvalCtx
  (bindsR: nat) (labelsR: nat) (connectionsR: nat) (machinesR: nat) (containersR: nat)
  (parent: "evalCtx option")

text \<open>\<open>atom\<close> is implemented by pointers to machines and containers only.\<close>

datatype atom = MachineP nat | ContainerP nat

datatype key = GithubKey string | PlaintextKey string

datatype ast =
    ALambda "astIdent list" "ast list" evalCtx
  | ARange astIdent gofloat gofloat
  | ANil
  | AList "ast list"
  | AHmap "(ast \<times> ast) list"
  | ASexp "ast list" Position
  | ALabel string "atom list"
  | ARoot "ast list"
  | AModule string "ast list"
  | AIdent astIdent
  | AString string
  | AFloat gofloat
  | AInt int
  | ABool bool
  | AKey key
  | ASize string
  | AProvider string
  | ARole string
  | ARegion string
  | ADiskSize int
  | AAtom atom

text \<open>The type assertion \<open>.(astList)\<close>, and the list that a loop of \<open>append\<close>s on a nil slice yields.\<close>

fun asList :: "ast \<Rightarrow> ast list option" where
  "asList ANil = Some []"
| "asList (AList xs) = Some xs"
| "asList _ = None"

definition mkList :: "ast list \<Rightarrow> ast" where
  "mkList xs = (if xs = [] then ANil else AList xs)"

lemma asList_mkList [simp]: "asList (mkList xs) = Some xs"
  by (simp add: mkList_def)

record astMachine =
  am_provider :: string
  am_role :: string
  am_size :: string
  am_region :: string
  am_cpu :: "astIdent \<times> gofloat \<times> gofloat"
  am_ram :: "astIdent \<times> gofloat \<times> gofloat"
  am_diskSize :: int
  am_sshKeys :: "key list"
  am_labels :: "string list"

record astContainer =
  ac_image :: string
  ac_command :: "ast list"
  ac_env :: "(ast, ast) gomap"
  ac_Exclusive :: "(string \<times> string) list"
  ac_labels :: "string list"

record dslConnection =
  dc_From :: string
  dc_To :: string
  dc_MinPort :: int
  dc_MaxPort :: int

text \<open>The heap of an evaluation, and the lines written by \<open>log\<close>.\<close>

record st =
  bindsH :: "(astIdent, ast) gomap list"
  labelsH :: "(string, string \<times> atom list) gomap list"
  connsH :: "dslConnection list list"
  machsH :: "nat list list"
  contsH :: "nat list list"
  machineObjs :: "astMachine list"
  containerObjs :: "astContainer list"
  logged :: "(string \<times> string) list"

definition emptySt :: st where
  "emptySt = \<lparr>bindsH = [], labelsH = [], connsH = [], machsH = [], contsH = [],
     machineObjs = [], containerObjs = [], logged = []\<rparr>"

definition zeroRange :: "astIdent \<times> gofloat \<times> gofloat" where
  "zeroRange = ('''', zeroFloat, zeroFloat)"

definition zeroAstMachine :: astMachine where
  "zeroAstMachine = \<lparr>am_provider = '''', am_role = '''', am_size = '''', am_region = '''',
     am_cpu = zeroRange, am_ram = zeroRange, am_diskSize = 0, am_sshKeys = [], am_labels = []\<rparr>"

section \<open>The text form\<close>

text \<open>
  The \<open>String\<close> methods.  Machines and containers are printed from the heap.  \<open>%s\<close> on a slice
  of values prints them between brackets.
\<close>

fun key_String :: "key \<Rightarrow> string" where
  "key_String (GithubKey s) = ''(githubKey \"'' @ s @ ''\")''"
| "key_String (PlaintextKey s) = ''(plaintextKey \"'' @ s @ ''\")''"

definition quoted :: "string \<Rightarrow> string" where
  "quoted s = ''\"'' @ s @ ''\"''"

definition range_String :: "astIdent \<times> gofloat \<times> gofloat \<Rightarrow> string" where
  "range_String r = (case r of (i, mn, mx) \<Rightarrow>
     ''('' @ joinStr '' '' ([i, fmtG mn] @ (if mx \<noteq> zeroFloat then [fmtG mx] else [])) @ '')'')"

definition machine_String :: "astMachine \<Rightarrow> string" where
  "machine_String m =
     (let args =
        (if am_provider m \<noteq> '''' then [''(provider '' @ quoted (am_provider m) @ '')''] else []) @
        (if am_region m \<noteq> '''' then [''(region '' @ quoted (am_region m) @ '')''] else []) @
        (if am_size m \<noteq> '''' then [''(size '' @ quoted (am_size m) @ '')''] else []) @
        (if am_diskSize m \<noteq> 0 then [''(diskSize '' @ itoa (am_diskSize m) @ '')''] else []) @
        (if fst (am_ram m) \<noteq> '''' then [range_String (am_ram m)] else []) @
        (if fst (am_cpu m) \<noteq> '''' then [range_String (am_cpu m)] else []) @
        (if am_role m \<noteq> '''' then [''(role '' @ quoted (am_role m) @ '')''] else []) @
        map key_String (am_sshKeys m) in
      if args = [] then ''(machine)'' else ''(machine '' @ joinStr '' '' args @ '')'')"

text \<open>The containers' commands and environments hold strings only, which print without the heap.\<close>

fun atomStringWith :: "(ast \<Rightarrow> string) \<Rightarrow> st \<Rightarrow> atom \<Rightarrow> string" where
  "atomStringWith str s (MachineP p) = machine_String (machineObjs s ! p)"
| "atomStringWith str s (ContainerP p) =
     (let c = containerObjs s ! p; cmd = joinStr '' '' (map str (ac_command c));
          kvs = sort (map (\<lambda>(k, v). ''('' @ str k @ '' '' @ str v @ '')'') (ac_env c)) in
      if ac_command c = [] then ''(docker '' @ quoted (ac_image c) @ '')''
      else if ac_env c = [] then ''(docker '' @ quoted (ac_image c) @ '' '' @ cmd @ '')''
      else ''(docker '' @ quoted (ac_image c) @ '' '' @ cmd @ '' (hmap '' @ joinStr '' '' kvs @ ''))'')"

fun strAst :: "ast \<Rightarrow> string" where
  "strAst (AString x) = quoted x"
| "strAst _ = ''''"

definition atom_String :: "st \<Rightarrow> atom \<Rightarrow> string" where
  "atom_String s a = atomStringWith strAst s a"

primrec ast_String :: "st \<Rightarrow> ast \<Rightarrow> string" where
  "ast_String s (ALambda args body c) =
     ''(lambda ('' @ joinStr '' '' args @ '') ['' @ joinStr '' '' (map (ast_String s) body) @ ''])''"
| "ast_String s (ARange i mn mx) = range_String (i, mn, mx)"
| "ast_String s ANil = ''(list)''"
| "ast_String s (AList xs) =
     (if xs = [] then ''(list)'' else ''(list '' @ joinStr '' '' (map (ast_String s) xs) @ '')'')"
| "ast_String s (AHmap kvs) =
     (if kvs = [] then ''(hmap)''
      else ''(hmap '' @ joinStr '' '' (sort (map (\<lambda>(k, v). ''('' @ k @ '' '' @ v @ '')'')
             (map (map_prod (ast_String s) (ast_String s)) kvs))) @ '')'')"
| "ast_String s (ASexp xs p) = ''('' @ joinStr '' '' (map (ast_String s) xs) @ '')''"
| "ast_String s (ALabel i as) =
     ''(label '' @ quoted i @ '' '' @ joinStr '' '' (map (atom_String s) as) @ '')''"
| "ast_String s (ARoot xs) = joinStr [CHR 0x0A] (map (ast_String s) xs)"
| "ast_String s (AModule n xs) =
     ''(module '' @ quoted n @ '' '' @ joinStr [CHR 0x0A] (map (ast_String s) xs) @ '')''"
| "ast_String s (AIdent i) = i"
| "ast_String s (AString x) = quoted x"
| "ast_String s (AFloat x) = fmtG x"
| "ast_String s (AInt x) = itoa x"
| "ast_String s (ABool b) = boolString b"
| "ast_String s (AKey k) = key_String k"
| "ast_String s (ASize x) = ''(size '' @ quoted x @ '')''"
| "ast_String s (AProvider x) = ''(provider '' @ quoted x @ '')''"
| "ast_String s (ARole x) = ''(role '' @ quoted x @ '')''"
| "ast_String s (ARegion x) = ''(region '' @ quoted x @ '')''"
| "ast_String s (ADiskSize x) = ''(diskSize '' @ itoa x @ '')''"
| "ast_String s (AAtom a) = atom_String s a"

end
