(* ===== verification/Dsl_Monad.thy ===== *)
theory Dsl_Monad
  imports Dsl_Ast
begin

text \<open>
  The effects of an evaluation: the Go functions of \<open>src/dsl\<close> that return \<open>(value, error)\<close> and
  work on the heap are functions of type \<open>'a M\<close>.  Besides returning or raising an error they may
  panic (a failed type assertion, an index out of range, a division by zero), and, because
  policies are programs that need not terminate, run out of the fuel that bounds the depth of the
  evaluator's recursion.

  An error is kept as its format string with the values it mentions, or as its text, under the
  positions that \<open>astSexp.eval\<close> wraps around it.
\<close>

section \<open>Outcomes\<close>

text \<open>What the verbs of an error's format print: a value, a slice of values, or a Go string.\<close>

datatype errArg = Val ast | Vals "ast list" | Txt string

datatype dslErr = Errorf string "errArg list" | ErrorText string | DslError Position dslErr

datatype 'a res = Return 'a | Raise dslErr | Panic | Timeout

type_synonym 'a M = "st \<Rightarrow> ('a \<times> st) res"

definition retM :: "'a \<Rightarrow> 'a M" where
  "retM x s = Return (x, s)"

definition raiseM :: "dslErr \<Rightarrow> 'a M" where
  "raiseM e s = Raise e"

definition panicM :: "'a M" where
  "panicM s = Panic"

definition timeoutM :: "'a M" where
  "timeoutM s = Timeout"

definition bindM :: "'a M \<Rightarrow> ('a \<Rightarrow> 'b M) \<Rightarrow> 'b M" where
  "bindM m f s = (case m s of
     Return (x, s') \<Rightarrow> f x s' | Raise e \<Rightarrow> Raise e | Panic \<Rightarrow> Panic | Timeout \<Rightarrow> Timeout)"

definition getM :: "(st \<Rightarrow> 'a) \<Rightarrow> 'a M" where
  "getM f s = Return (f s, s)"

definition modM :: "(st \<Rightarrow> st) \<Rightarrow> unit M" where
  "modM f s = Return ((), f s)"

abbreviation errM :: "string \<Rightarrow> ast list \<Rightarrow> 'a M" where
  "errM msg args \<equiv> raiseM (Errorf msg (map Val args))"

text \<open>Loops over slices.\<close>

fun mapM :: "('a \<Rightarrow> 'b M) \<Rightarrow> 'a list \<Rightarrow> 'b list M" where
  "mapM f [] = retM []"
| "mapM f (x # xs) = bindM (f x) (\<lambda>y. bindM (mapM f xs) (\<lambda>ys. retM (y # ys)))"

fun forM :: "'a list \<Rightarrow> ('a \<Rightarrow> unit M) \<Rightarrow> unit M" where
  "forM [] f = retM ()"
| "forM (x # xs) f = bindM (f x) (\<lambda>_. forM xs f)"

fun foldM :: "('b \<Rightarrow> 'a \<Rightarrow> 'b M) \<Rightarrow> 'b \<Rightarrow> 'a list \<Rightarrow> 'b M" where
  "foldM f b [] = retM b"
| "foldM f b (x # xs) = bindM (f b x) (\<lambda>b'. foldM f b' xs)"

text \<open>\<open>args[i]\<close>, which panics out of range.\<close>

definition nthM :: "'a list \<Rightarrow> nat \<Rightarrow> 'a M" where
  "nthM xs i = (if i < length xs then retM (xs ! i) else panicM)"

text \<open>\<open>dslError{pos, err}\<close> around whatever error comes out.\<close>

definition wrapM :: "Position \<Rightarrow> 'a M \<Rightarrow> 'a M" where
  "wrapM p m s = (case m s of Raise e \<Rightarrow> Raise (DslError p e) | r \<Rightarrow> r)"

section \<open>Laws\<close>

lemma bindM_retM [simp]: "bindM (retM x) f = f x"
  by (simp add: fun_eq_iff bindM_def retM_def)

lemma bindM_raiseM [simp]: "bindM (raiseM e) f = raiseM e"
  by (simp add: fun_eq_iff bindM_def raiseM_def)

lemma bindM_panicM [simp]: "bindM panicM f = panicM"
  by (simp add: fun_eq_iff bindM_def panicM_def)

lemma bindM_assoc: "bindM (bindM m f) g = bindM m (\<lambda>x. bindM (f x) g)"
  by (auto simp: fun_eq_iff bindM_def split: res.split)

lemma bindM_Return_iff:
  "bindM m f s = Return r \<longleftrightarrow> (\<exists>x s'. m s = Return (x, s') \<and> f x s' = Return r)"
  by (auto simp: bindM_def split: res.split)

named_theorems run \<open>evaluation of computations on a given heap\<close>

lemmas [run] = bindM_def retM_def raiseM_def panicM_def timeoutM_def getM_def modM_def nthM_def wrapM_def

lemma mapM_length: "mapM f xs s = Return (ys, s') \<Longrightarrow> length ys = length xs"
  by (induction xs arbitrary: ys s s') (auto simp: bindM_Return_iff retM_def)

section \<open>Fuel order\<close>

text \<open>
  \<open>leM m m'\<close>: whenever \<open>m\<close> does not run out of fuel, \<open>m'\<close> does the same.  The rules collected in
  \<open>mono\<close> lift this order through every combinator.
\<close>

definition leM :: "'a M \<Rightarrow> 'a M \<Rightarrow> bool" where
  "leM m m' \<longleftrightarrow> (\<forall>s. m s = Timeout \<or> m s = m' s)"

named_theorems mono \<open>computations are monotone in their fuel\<close>

lemma leM_refl [mono, simp]: "leM m m"
  by (simp add: leM_def)

lemma leM_trans: "leM m m' \<Longrightarrow> leM m' m'' \<Longrightarrow> leM m m''"
  unfolding leM_def by metis

lemma leM_timeout [mono, simp]: "leM timeoutM m"
  by (simp add: leM_def timeoutM_def)

lemma leM_cases:
  assumes "leM m m'" obtains "m s = Timeout" | "m' s = m s"
  using assms unfolding leM_def by metis

lemma leM_bind [mono]:
  assumes "leM m m'" and "\<And>x. leM (f x) (f' x)"
  shows "leM (bindM m f) (bindM m' f')"
  unfolding leM_def
proof
  fix s
  show "bindM m f s = Timeout \<or> bindM m f s = bindM m' f' s"
  proof (rule leM_cases [OF assms(1), of s])
    assume eq: "m' s = m s"
    show ?thesis
    proof (cases "m s")
      case (Return r)
      then show ?thesis
        using assms(2) [of "fst r"] eq by (cases r) (simp add: bindM_def leM_def)
    qed (simp_all add: bindM_def eq)
  qed (simp add: bindM_def)
qed

lemma leM_mapM [mono]: "(\<And>x. leM (f x) (f' x)) \<Longrightarrow> leM (mapM f xs) (mapM f' xs)"
  by (induction xs) (simp_all add: leM_bind)

lemma leM_forM [mono]: "(\<And>x. leM (f x) (f' x)) \<Longrightarrow> leM (forM xs f) (forM xs f')"
  by (induction xs) (simp_all add: leM_bind)

lemma leM_foldM [mono]: "(\<And>b x. leM (f b x) (f' b x)) \<Longrightarrow> leM (foldM f b xs) (foldM f' b xs)"
  by (induction xs arbitrary: b) (simp_all add: leM_bind)

lemma leM_wrap [mono]:
  assumes "leM m m'" shows "leM (wrapM p m) (wrapM p m')"
  unfolding leM_def
proof
  fix s
  show "wrapM p m s = Timeout \<or> wrapM p m s = wrapM p m' s"
    by (rule leM_cases [OF assms, of s]) (simp_all add: wrapM_def)
qed

lemma leM_if [mono]: "(b \<Longrightarrow> leM m m') \<Longrightarrow> (\<not> b \<Longrightarrow> leM k k') \<Longrightarrow> leM (if b then m else k) (if b then m' else k')"
  by simp

lemma leM_option [mono]:
  "leM m m' \<Longrightarrow> (\<And>x. leM (f x) (f' x)) \<Longrightarrow> leM (case o' of None \<Rightarrow> m | Some x \<Rightarrow> f x) (case o' of None \<Rightarrow> m' | Some x \<Rightarrow> f' x)"
  by (cases o') simp_all

lemma leM_prod [mono]: "(\<And>a b. leM (f a b) (f' a b)) \<Longrightarrow> leM (case p of (a, b) \<Rightarrow> f a b) (case p of (a, b) \<Rightarrow> f' a b)"
  by (cases p) simp

end
