(* ===== verification/Dsl_Ctx.thy ===== *)
theory Dsl_Ctx
  imports Dsl_Monad
begin

text \<open>
  Evaluation contexts (\<open>src/dsl/eval.go\<close>) and the helpers the builtin functions share
  (\<open>src/dsl/func.go\<close>): scopes and their copies, label resolution, flattening, truth values,
  equality and formatting.
\<close>

section \<open>Type assertions\<close>

fun asInt :: "ast \<Rightarrow> int option" where
  "asInt (AInt i) = Some i" | "asInt _ = None"
fun asStr :: "ast \<Rightarrow> string option" where
  "asStr (AString x) = Some x" | "asStr _ = None"
fun asIdent :: "ast \<Rightarrow> astIdent option" where
  "asIdent (AIdent i) = Some i" | "asIdent _ = None"
fun asSexp :: "ast \<Rightarrow> ast list option" where
  "asSexp (ASexp xs p) = Some xs" | "asSexp _ = None"
fun sexpPos :: "ast \<Rightarrow> Position" where
  "sexpPos (ASexp xs p) = p" | "sexpPos _ = noPos"
fun asLabel :: "ast \<Rightarrow> (string \<times> atom list) option" where
  "asLabel (ALabel i as) = Some (i, as)" | "asLabel _ = None"
fun asHmap :: "ast \<Rightarrow> (ast, ast) gomap option" where
  "asHmap (AHmap m) = Some m" | "asHmap _ = None"
fun asAtom :: "ast \<Rightarrow> atom option" where
  "asAtom (AAtom a) = Some a" | "asAtom _ = None"
fun asMachineP :: "ast \<Rightarrow> nat option" where
  "asMachineP (AAtom (MachineP p)) = Some p" | "asMachineP _ = None"
fun asContainerP :: "atom \<Rightarrow> nat option" where
  "asContainerP (ContainerP p) = Some p" | "asContainerP _ = None"

section \<open>Contexts\<close>

fun globalCtx :: "evalCtx \<Rightarrow> evalCtx" where
  "globalCtx (EvalCtx b l c m k None) = EvalCtx b l c m k None"
| "globalCtx (EvalCtx b l c m k (Some p)) = globalCtx p"

definition newEvalCtx :: "evalCtx option \<Rightarrow> evalCtx M" where
  "newEvalCtx par s = Return
     (EvalCtx (length (bindsH s)) (length (labelsH s)) (length (connsH s)) (length (machsH s))
        (length (contsH s)) par,
      s\<lparr>bindsH := bindsH s @ [[]], labelsH := labelsH s @ [[]], connsH := connsH s @ [[]],
        machsH := machsH s @ [[]], contsH := contsH s @ [[]]\<rparr>)"

text \<open>A map with the given binds, freshly allocated.\<close>

definition allocBinds :: "(astIdent, ast) gomap \<Rightarrow> nat M" where
  "allocBinds m s = Return (length (bindsH s), s\<lparr>bindsH := bindsH s @ [m]\<rparr>)"

text \<open>\<open>deepCopy\<close> copies the binds of a context and of its ancestors; all else stays shared.\<close>

fun deepCopy :: "evalCtx \<Rightarrow> evalCtx M" where
  "deepCopy (EvalCtx b l c m k None) =
     bindM (getM (\<lambda>s. bindsH s ! b)) (\<lambda>bs. bindM (allocBinds bs) (\<lambda>b'. retM (EvalCtx b' l c m k None)))"
| "deepCopy (EvalCtx b l c m k (Some p)) =
     bindM (deepCopy p) (\<lambda>p'. bindM (getM (\<lambda>s. bindsH s ! b)) (\<lambda>bs.
       bindM (allocBinds bs) (\<lambda>b'. retM (EvalCtx b' l c m k (Some p')))))"

definition setBind :: "evalCtx \<Rightarrow> astIdent \<Rightarrow> ast \<Rightarrow> unit M" where
  "setBind ctx i v = modM (\<lambda>s. s\<lparr>bindsH := (bindsH s)[bindsR ctx := gput i v (bindsH s ! bindsR ctx)]\<rparr>)"

text \<open>The lookup of a variable through the chain of contexts (\<open>astIdent.eval\<close> without its first test).\<close>

fun lookupIdent :: "evalCtx \<Rightarrow> astIdent \<Rightarrow> ast M" where
  "lookupIdent (EvalCtx b l c m k par) i =
     bindM (getM (\<lambda>s. gget (bindsH s ! b) i)) (\<lambda>r.
       case r of
         Some v \<Rightarrow> retM v
       | None \<Rightarrow> (case par of
             None \<Rightarrow> errM ''unassigned variable: %s'' [AIdent i]
           | Some p \<Rightarrow> lookupIdent p i))"

section \<open>Labels\<close>

definition PublicInternetLabel :: string where
  "PublicInternetLabel = ''public''"

fun resolveLabel :: "evalCtx \<Rightarrow> ast \<Rightarrow> st \<Rightarrow> (string \<times> atom list) option" where
  "resolveLabel (EvalCtx b l c m k par) ref s =
     (let up = (case par of None \<Rightarrow> None | Some p \<Rightarrow> resolveLabel p ref s) in
      case asStr ref of
        Some x \<Rightarrow>
          if x = PublicInternetLabel then Some (x, [])
          else (case gget (labelsH s ! l) x of Some lab \<Rightarrow> Some lab | None \<Rightarrow> up)
      | None \<Rightarrow> (case asLabel ref of Some lab \<Rightarrow> Some lab | None \<Rightarrow> up))"

fun flatten :: "ast list \<Rightarrow> ast list" where
  "flatten [] = []"
| "flatten (ANil # ls) = flatten ls"
| "flatten (AList xs # ls) = flatten xs @ flatten ls"
| "flatten (l # ls) = l # flatten ls"

definition flattenString :: "ast list \<Rightarrow> string list M" where
  "flattenString lst = mapM (\<lambda>elem. case asStr elem of
       Some x \<Rightarrow> retM x | None \<Rightarrow> errM ''expected string, found: %v'' [elem]) (flatten lst)"

definition flattenLabel :: "evalCtx \<Rightarrow> ast list \<Rightarrow> (string \<times> atom list) list M" where
  "flattenLabel ctx lst = mapM (\<lambda>elem. bindM (getM (resolveLabel ctx elem)) (\<lambda>r. case r of
       Some lab \<Rightarrow> retM lab | None \<Rightarrow> errM ''expected label, found: %v'' [elem])) (flatten lst)"

definition astFunc :: "astIdent \<Rightarrow> ast list \<Rightarrow> ast" where
  "astFunc i args = ASexp (AIdent i # args) noPos"

section \<open>Truth, hashing, case\<close>

fun toBool :: "ast \<Rightarrow> bool" where
  "toBool ANil = False"
| "toBool (AList xs) = (xs \<noteq> [])"
| "toBool (AString x) = (x \<noteq> '''')"
| "toBool (AInt i) = (i \<noteq> 0)"
| "toBool (ABool b) = b"
| "toBool _ = True"

text \<open>The dynamic types that Go can hash; using any other as a map key panics.\<close>

fun hashable :: "ast \<Rightarrow> bool" where
  "hashable (ALambda _ _ _) = False"
| "hashable ANil = False"
| "hashable (AList _) = False"
| "hashable (AHmap _) = False"
| "hashable (ASexp _ _) = False"
| "hashable (ALabel _ _) = False"
| "hashable (ARoot _) = False"
| "hashable (AModule _ _) = False"
| "hashable _ = True"

definition isUpper :: "char \<Rightarrow> bool" where
  "isUpper c \<longleftrightarrow> 65 \<le> (of_char c :: nat) \<and> (of_char c :: nat) \<le> 90"

definition toLower :: "char \<Rightarrow> char" where
  "toLower c = (if isUpper c then char_of ((of_char c :: nat) + 32) else c)"

definition shouldExport :: "string \<Rightarrow> bool" where
  "shouldExport name = (case name of [] \<Rightarrow> False | c # _ \<Rightarrow> isUpper c)"

section \<open>Equality\<close>

text \<open>
  \<open>reflect.DeepEqual\<close> on values.  It follows pointers, so it reads the heap, and it compares the
  contexts of lambdas; \<open>n\<close> bounds the depth (\<open>None\<close>: exhausted).  Each step is given the comparison
  \<open>eq\<close> of the level below.
\<close>

fun allEq :: "('a \<Rightarrow> 'b \<Rightarrow> bool option) \<Rightarrow> 'a list \<Rightarrow> 'b list \<Rightarrow> bool option" where
  "allEq eq [] [] = Some True"
| "allEq eq (x # xs) (y # ys) =
     (case eq x y of None \<Rightarrow> None | Some False \<Rightarrow> Some False | Some True \<Rightarrow> allEq eq xs ys)"
| "allEq eq _ _ = Some False"

definition andO :: "bool option \<Rightarrow> bool option \<Rightarrow> bool option" where
  "andO a b = (case a of None \<Rightarrow> None | Some False \<Rightarrow> Some False | Some True \<Rightarrow> b)"

text \<open>Maps: as many keys, and every key of the first is in the second with an equal value.\<close>

definition mapEq :: "('v \<Rightarrow> 'v \<Rightarrow> bool option) \<Rightarrow> ('k, 'v) gomap \<Rightarrow> ('k, 'v) gomap \<Rightarrow> bool option" where
  "mapEq eq m m' = andO (Some (length m = length m'))
     (allEq (\<lambda>(k, v) r. case r of None \<Rightarrow> Some False | Some v' \<Rightarrow> eq v v') m (map (\<lambda>(k, v). gget m' k) m))"

definition machineEq :: "astMachine \<Rightarrow> astMachine \<Rightarrow> bool" where
  "machineEq a b \<longleftrightarrow> a = b"

definition containerEq :: "astContainer \<Rightarrow> astContainer \<Rightarrow> bool" where
  "containerEq a b \<longleftrightarrow> ac_image a = ac_image b \<and> ac_command a = ac_command b \<and>
     ac_labels a = ac_labels b \<and> set (ac_Exclusive a) = set (ac_Exclusive b) \<and>
     length (ac_env a) = length (ac_env b) \<and> (\<forall>(k, v) \<in> set (ac_env a). gget (ac_env b) k = Some v)"

fun atomEq :: "st \<Rightarrow> atom \<Rightarrow> atom \<Rightarrow> bool" where
  "atomEq s (MachineP p) (MachineP q) = machineEq (machineObjs s ! p) (machineObjs s ! q)"
| "atomEq s (ContainerP p) (ContainerP q) = containerEq (containerObjs s ! p) (containerObjs s ! q)"
| "atomEq s _ _ = False"

definition labelEq :: "st \<Rightarrow> string \<times> atom list \<Rightarrow> string \<times> atom list \<Rightarrow> bool" where
  "labelEq s l l' \<longleftrightarrow> fst l = fst l' \<and> list_all2 (atomEq s) (snd l) (snd l')"

fun ctxEq :: "(ast \<Rightarrow> ast \<Rightarrow> bool option) \<Rightarrow> st \<Rightarrow> evalCtx \<Rightarrow> evalCtx \<Rightarrow> bool option" where
  "ctxEq eq s (EvalCtx b l c m k par) (EvalCtx b' l' c' m' k' par') =
     andO (mapEq eq (bindsH s ! b) (bindsH s ! b'))
      (andO (mapEq (\<lambda>x y. Some (labelEq s x y)) (labelsH s ! l) (labelsH s ! l'))
       (andO (Some (set (connsH s ! c) = set (connsH s ! c') \<and>
                    list_all2 (\<lambda>p q. atomEq s (MachineP p) (MachineP q)) (machsH s ! m) (machsH s ! m') \<and>
                    list_all2 (\<lambda>p q. atomEq s (ContainerP p) (ContainerP q)) (contsH s ! k) (contsH s ! k')))
        (case (par, par') of
           (None, None) \<Rightarrow> Some True
         | (Some p, Some p') \<Rightarrow> ctxEq eq s p p'
         | _ \<Rightarrow> Some False)))"

fun asModule :: "ast \<Rightarrow> (string \<times> ast list) option" where
  "asModule (AModule n xs) = Some (n, xs)" | "asModule _ = None"
fun asRoot :: "ast \<Rightarrow> ast list option" where
  "asRoot (ARoot xs) = Some xs" | "asRoot _ = None"
fun asLambda :: "ast \<Rightarrow> (astIdent list \<times> ast list \<times> evalCtx) option" where
  "asLambda (ALambda a d c) = Some (a, d, c)" | "asLambda _ = None"

text \<open>Values of different dynamic types are never equal.\<close>

definition deepEqStep :: "(ast \<Rightarrow> ast \<Rightarrow> bool option) \<Rightarrow> st \<Rightarrow> ast \<Rightarrow> ast \<Rightarrow> bool option" where
  "deepEqStep eq s a b =
     (case a of
        ALambda x d c \<Rightarrow> (case asLambda b of None \<Rightarrow> Some False
          | Some (x', d', c') \<Rightarrow> andO (Some (x = x')) (andO (allEq eq d d') (ctxEq eq s c c')))
      | AList xs \<Rightarrow> (if b = ANil then Some False else case asList b of None \<Rightarrow> Some False | Some ys \<Rightarrow> allEq eq xs ys)
      | AHmap m \<Rightarrow> (case asHmap b of None \<Rightarrow> Some False | Some m' \<Rightarrow> mapEq eq m m')
      | ASexp xs p \<Rightarrow> (case asSexp b of None \<Rightarrow> Some False
          | Some ys \<Rightarrow> andO (allEq eq xs ys) (Some (sexpPos b = p)))
      | ALabel i as \<Rightarrow> (case asLabel b of None \<Rightarrow> Some False | Some l \<Rightarrow> Some (labelEq s (i, as) l))
      | ARoot xs \<Rightarrow> (case asRoot b of None \<Rightarrow> Some False | Some ys \<Rightarrow> allEq eq xs ys)
      | AModule n xs \<Rightarrow> (case asModule b of None \<Rightarrow> Some False
          | Some (n', ys) \<Rightarrow> andO (Some (n = n')) (allEq eq xs ys))
      | AAtom x \<Rightarrow> (case asAtom b of None \<Rightarrow> Some False | Some y \<Rightarrow> Some (atomEq s x y))
      | _ \<Rightarrow> Some (a = b))"

primrec deepEq :: "nat \<Rightarrow> st \<Rightarrow> ast \<Rightarrow> ast \<Rightarrow> bool option" where
  "deepEq 0 s = (\<lambda>a b. None)"
| "deepEq (Suc n) s = deepEqStep (deepEq n s) s"

end
