(* ===== verification/Dsl_Scan.thy ===== *)
theory Dsl_Scan
  imports Dsl_Ctx
begin

text \<open>
  The lexer under \<open>src/dsl/parse.go\<close>: the part of Go's \<open>text/scanner\<close> (of Go 1.5, which the
  repository builds with) that \<open>parseText\<close> uses, with the scanner's default mode.  The text is a list of
  ASCII characters without NUL; the list that remains starts with the scanner's lookahead character.
\<close>

datatype token = TRune char | TIdent | TInt | TFloat | TString | TCharLit | TEOF

record scan =
  scRest :: string
  scPos :: Position
  scErrs :: "string list"

definition isSpace :: "char \<Rightarrow> bool" where
  "isSpace c \<longleftrightarrow> c = CHR '' '' \<or> c = CHR 0x09 \<or> c = CHR 0x0A \<or> c = CHR 0x0D"

definition isLower :: "char \<Rightarrow> bool" where
  "isLower c \<longleftrightarrow> 97 \<le> (of_char c :: nat) \<and> (of_char c :: nat) \<le> 122"

definition isIdentStart :: "char \<Rightarrow> bool" where
  "isIdentStart c \<longleftrightarrow> c = CHR ''_'' \<or> isUpper c \<or> isLower c"

definition isIdentRune :: "char \<Rightarrow> bool" where
  "isIdentRune c \<longleftrightarrow> isIdentStart c \<or> isDigit c"

text \<open>The scanner's \<open>digitVal\<close>: 16 for what is not a hexadecimal digit.\<close>

definition hexVal :: "char \<Rightarrow> nat" where
  "hexVal c =
     (if isDigit c then digitVal c
      else if 97 \<le> (of_char c :: nat) \<and> (of_char c :: nat) \<le> 102 then of_char c - 87
      else if 65 \<le> (of_char c :: nat) \<and> (of_char c :: nat) \<le> 70 then of_char c - 55 else 16)"

text \<open>The position of the lookahead character after another one has been read.\<close>

definition advPos :: "Position \<Rightarrow> char \<Rightarrow> Position" where
  "advPos p c =
     (if c = CHR 0x0A then p\<lparr>Offset := Offset p + 1, Line := Line p + 1, Column := 1\<rparr>
      else p\<lparr>Offset := Offset p + 1, Column := Column p + 1\<rparr>)"

definition initScan :: "string \<Rightarrow> string \<Rightarrow> scan" where
  "initScan filename src =
     \<lparr>scRest = src, scPos = \<lparr>Filename = filename, Offset = 0, Line = 1, Column = 1\<rparr>, scErrs = []\<rparr>"

section \<open>White space and comments\<close>

fun generalComment :: "string \<Rightarrow> string \<times> string list" where
  "generalComment (c # d # r) = (if c = CHR ''*'' \<and> d = CHR ''/'' then (r, []) else generalComment (d # r))"
| "generalComment _ = ([], [''comment not terminated''])"

lemma generalComment_length: "length (fst (generalComment xs)) \<le> length xs"
  by (induction xs rule: generalComment.induct) auto

lemma dropWhile_length: "length (dropWhile P xs) \<le> length xs"
  by (induction xs) auto

lemma skip_tail: "dropWhile P xs = c # d # r \<Longrightarrow> length r < length xs"
  using dropWhile_length [of P xs] by simp

function skipBlank :: "string \<Rightarrow> string \<times> string list" where
  "skipBlank xs =
     (case dropWhile isSpace xs of
        c # d # r \<Rightarrow>
          if c = CHR ''/'' \<and> d = CHR ''/'' then skipBlank (dropWhile (\<lambda>c. c \<noteq> CHR 0x0A) r)
          else if c = CHR ''/'' \<and> d = CHR ''*'' then
            (fst (skipBlank (fst (generalComment r))), snd (generalComment r) @ snd (skipBlank (fst (generalComment r))))
          else (c # d # r, [])
      | ys \<Rightarrow> (ys, []))"
  by pat_completeness auto
termination
proof (relation "measure length", goal_cases)
  case (2 xs c ds d r)
  then have "dropWhile isSpace xs = c # d # r" by simp
  then show ?case by (simp only: in_measure) (rule le_less_trans [OF dropWhile_length skip_tail])
next
  case (3 xs c ds d r)
  then have "dropWhile isSpace xs = c # d # r" by simp
  then show ?case by (simp only: in_measure) (rule le_less_trans [OF generalComment_length skip_tail])
next
  case (4 xs c ds d r)
  then have "dropWhile isSpace xs = c # d # r" by simp
  then show ?case by (simp only: in_measure) (rule le_less_trans [OF generalComment_length skip_tail])
qed (rule wf_measure)

declare skipBlank.simps [simp del]

section \<open>Numbers\<close>

definition scanFraction :: "string \<Rightarrow> string" where
  "scanFraction xs = (case xs of c # r \<Rightarrow> if c = CHR ''.'' then dropWhile isDigit r else xs | [] \<Rightarrow> [])"

definition scanExponent :: "string \<Rightarrow> string" where
  "scanExponent xs =
     (case xs of
        c # r \<Rightarrow>
          if c = CHR ''e'' \<or> c = CHR ''E'' then
            dropWhile isDigit (case r of d # r' \<Rightarrow> if d = CHR ''-'' \<or> d = CHR ''+'' then r' else r | [] \<Rightarrow> [])
          else xs
      | [] \<Rightarrow> [])"

definition startsFloat :: "string \<Rightarrow> bool" where
  "startsFloat xs = (case xs of c # _ \<Rightarrow> c = CHR ''.'' \<or> c = CHR ''e'' \<or> c = CHR ''E'' | [] \<Rightarrow> False)"

definition scanNumber :: "string \<Rightarrow> token \<times> string \<times> string list" where
  "scanNumber xs =
     (case xs of
        c # x # r \<Rightarrow>
          if c = CHR ''0'' \<and> (x = CHR ''x'' \<or> x = CHR ''X'') then
            (TInt, dropWhile (\<lambda>c. hexVal c < 16) r,
             if takeWhile (\<lambda>c. hexVal c < 16) r = [] then [''illegal hexadecimal number''] else [])
          else
            (let ys = dropWhile isDigit xs in
             if startsFloat ys then (TFloat, scanExponent (scanFraction ys), [])
             else (TInt, ys,
               if c = CHR ''0'' \<and> list_ex (\<lambda>d. 7 < digitVal d) (takeWhile isDigit xs)
               then [''illegal octal number''] else []))
      | _ \<Rightarrow> (TInt, [], []))"

section \<open>Quoted literals\<close>

fun scanDigits :: "nat \<Rightarrow> nat \<Rightarrow> string \<Rightarrow> string \<times> string list" where
  "scanDigits base 0 xs = (xs, [])"
| "scanDigits base (Suc n) xs =
     (case xs of
        c # r \<Rightarrow> if hexVal c < base then scanDigits base n r else (xs, [''illegal char escape''])
      | [] \<Rightarrow> ([], [''illegal char escape'']))"

definition scanEscape :: "char \<Rightarrow> string \<Rightarrow> string \<times> string list" where
  "scanEscape q xs =
     (case xs of
        c # r \<Rightarrow>
          if c \<in> set ''abfnrtv'' \<or> c = CHR 0x5C \<or> c = q then (r, [])
          else if hexVal c < 8 then scanDigits 8 3 xs
          else if c = CHR ''x'' then scanDigits 16 2 r
          else if c = CHR ''u'' then scanDigits 16 4 r
          else if c = CHR ''U'' then scanDigits 16 8 r
          else (xs, [''illegal char escape''])
      | [] \<Rightarrow> ([], [''illegal char escape'']))"

lemma scanDigits_length: "length (fst (scanDigits b n xs)) \<le> length xs"
  by (induction b n xs rule: scanDigits.induct) (auto split: list.splits intro: le_SucI)

lemma if_intro: "(b \<Longrightarrow> P x) \<Longrightarrow> (\<not> b \<Longrightarrow> P y) \<Longrightarrow> P (if b then x else y)"
  by simp

lemma scanEscape_length: "length (fst (scanEscape q xs)) \<le> length xs"
proof (cases xs)
  case (Cons c r)
  have d: "length (fst (scanDigits b n r)) \<le> length (x # r)" for b n x
    using scanDigits_length [of b n r] by simp
  show ?thesis
    unfolding Cons scanEscape_def list.case
    by (intro if_intro [where P = "\<lambda>p. length (fst p) \<le> n" for n])
      (simp_all only: fst_conv d scanDigits_length order_refl, simp)
qed (simp add: scanEscape_def)

text \<open>
  \<open>scanString\<close>, from after the opening quote to the closing one, which is left as the lookahead; it
  counts the characters, for \<open>scanChar\<close>.
\<close>

function scanStr :: "char \<Rightarrow> string \<Rightarrow> nat \<times> string \<times> string list" where
  "scanStr q xs =
     (case xs of
        [] \<Rightarrow> (0, [], [''literal not terminated''])
      | c # r \<Rightarrow>
          if c = q then (0, xs, [])
          else if c = CHR 0x0A then (0, xs, [''literal not terminated''])
          else if c = CHR 0x5C then
            (case scanStr q (fst (scanEscape q r)) of (n, ys, es) \<Rightarrow> (Suc n, ys, snd (scanEscape q r) @ es))
          else (case scanStr q r of (n, ys, es) \<Rightarrow> (Suc n, ys, es)))"
  by pat_completeness auto
termination
  by (relation "measure (\<lambda>(q, xs). length xs)") (auto intro: le_imp_less_Suc scanEscape_length)

declare scanStr.simps [simp del]

definition scanRawString :: "string \<Rightarrow> string \<times> string list" where
  "scanRawString xs =
     (let ys = dropWhile (\<lambda>c. c \<noteq> CHR 0x60) xs in (ys, if ys = [] then [''literal not terminated''] else []))"

section \<open>Tokens\<close>

definition scanTok :: "string \<Rightarrow> token \<times> string \<times> string list" where
  "scanTok xs =
     (case xs of
        [] \<Rightarrow> (TEOF, [], [])
      | c # r \<Rightarrow>
          if isIdentStart c then (TIdent, dropWhile isIdentRune r, [])
          else if isDigit c then scanNumber xs
          else if c = CHR 0x22 then (case scanStr c r of (n, ys, es) \<Rightarrow> (TString, tl ys, es))
          else if c = CHR 0x27 then
            (case scanStr c r of (n, ys, es) \<Rightarrow>
               (TCharLit, tl ys, es @ (if n \<noteq> 1 then [''illegal char literal''] else [])))
          else if c = CHR ''.'' \<and> r \<noteq> [] \<and> isDigit (hd r) then (TFloat, scanExponent (dropWhile isDigit r), [])
          else if c = CHR 0x60 then (case scanRawString r of (ys, es) \<Rightarrow> (TString, tl ys, es))
          else (TRune c, r, []))"

text \<open>\<open>Scan\<close>, with the text of the token (\<open>TokenText\<close>).\<close>

definition moveTo :: "string \<Rightarrow> string list \<Rightarrow> scan \<Rightarrow> scan" where
  "moveTo ys es s = s\<lparr>scRest := ys, scPos := foldl advPos (scPos s) (take (length (scRest s) - length ys) (scRest s)),
     scErrs := scErrs s @ es\<rparr>"

definition Scan :: "scan \<Rightarrow> token \<times> string \<times> scan" where
  "Scan s =
     (case skipBlank (scRest s) of (xs, es) \<Rightarrow>
      case scanTok xs of (t, ys, es') \<Rightarrow> (t, take (length xs - length ys) xs, moveTo ys (es @ es') s))"

section \<open>Progress\<close>

lemma skipBlank_length: "length (fst (skipBlank xs)) \<le> length xs"
proof (induction xs rule: skipBlank.induct)
  case (1 xs)
  have d: "length (dropWhile isSpace xs) \<le> length xs" by (rule dropWhile_length)
  show ?case
  proof (cases "dropWhile isSpace xs" rule: generalComment.cases)
    case c: (1 c d r)
    note r = skip_tail [OF c] dropWhile_length [of "\<lambda>c. c \<noteq> CHR 0x0A" r] generalComment_length [of r]
    have "length (fst (skipBlank (dropWhile (\<lambda>c. c \<noteq> CHR 0x0A) r))) \<le> length xs" if "c = CHR ''/'' \<and> d = CHR ''/''"
      using 1(1) [OF c refl that] r by linarith
    moreover have "length (fst (skipBlank (fst (generalComment r)))) \<le> length xs"
      if "c = CHR ''/'' \<and> d = CHR ''*''"
      using 1(2) [OF c refl _ that] that r by auto
    ultimately show ?thesis using d unfolding skipBlank.simps [of xs] c list.case by (simp add: c)
  qed (use d in \<open>simp_all only: skipBlank.simps [of xs] list.case fst_conv\<close>)
qed

lemma scanStr_length: "length (fst (snd (scanStr q xs))) \<le> length xs"
proof (induction q xs rule: scanStr.induct)
  case (1 q xs)
  show ?case
  proof (cases xs)
    case (Cons c r)
    have "length (fst (snd (scanStr q (fst (scanEscape q r))))) \<le> length xs"
      if "c \<noteq> q" "c \<noteq> CHR 0x0A" "c = CHR 0x5C"
      using 1(1) [OF Cons that] scanEscape_length [of q r] Cons by simp
    moreover have "length (fst (snd (scanStr q r))) \<le> length xs"
      if "c \<noteq> q" "c \<noteq> CHR 0x0A" "c \<noteq> CHR 0x5C"
      using 1(2) [OF Cons that] Cons by simp
    ultimately show ?thesis by (subst scanStr.simps) (simp add: Cons case_prod_unfold)
  qed (subst scanStr.simps, simp)
qed

lemma scanFraction_length: "length (scanFraction xs) \<le> length xs"
  by (auto simp: scanFraction_def dropWhile_length le_SucI split: list.splits)

lemma scanExponent_length: "length (scanExponent xs) \<le> length xs"
  by (auto simp: scanExponent_def split: list.splits intro: le_SucI le_trans [OF dropWhile_length])

lemma scanNumber_length:
  assumes "isDigit c"
  shows "length (fst (snd (scanNumber (c # r)))) \<le> length r"
proof (cases r)
  case (Cons x r')
  have "length (dropWhile isDigit r) \<le> length r" "length (dropWhile (\<lambda>c. hexVal c < 16) r') \<le> length r'"
    by (rule dropWhile_length)+
  then show ?thesis
    using assms scanFraction_length [of "dropWhile isDigit r"] scanExponent_length [of "scanFraction (dropWhile isDigit r)"]
    by (auto simp: Cons scanNumber_def Let_def)
qed (simp add: scanNumber_def)

lemma scanTok_length: "length (fst (snd (scanTok xs))) \<le> length xs - 1"
proof (cases xs)
  case (Cons c r)
  have str: "length (tl (fst (snd (scanStr q r)))) \<le> length r" for q
    using scanStr_length [of q r] by simp
  have raw: "length (tl (fst (scanRawString r))) \<le> length r"
    using dropWhile_length [of "\<lambda>c. c \<noteq> CHR 0x60" r] by (simp add: scanRawString_def Let_def)
  show ?thesis
    unfolding Cons scanTok_def list.case case_prod_unfold
    by (intro if_intro [where P = "\<lambda>p. length (fst (snd p)) \<le> n" for n])
      (simp_all only: fst_conv snd_conv list.size add_diff_cancel_right' str raw dropWhile_length scanNumber_length
        le_trans [OF scanExponent_length dropWhile_length] One_nat_def)
qed (simp add: scanTok_def)

lemma scanNumber_tok: "fst (scanNumber xs) \<noteq> TEOF"
  unfolding scanNumber_def Let_def
  by (cases xs rule: generalComment.cases)
    (simp_all only: list.case if_distrib [of fst] fst_conv token.distinct if_cancel simp_thms split: if_split)

lemma scanTok_EOF: "fst (scanTok xs) = TEOF \<longleftrightarrow> xs = []"
proof (cases xs)
  case (Cons c r)
  have "fst (scanTok (c # r)) \<noteq> TEOF"
    unfolding scanTok_def list.case case_prod_unfold
    by (intro if_intro [where P = "\<lambda>p. fst p \<noteq> TEOF"]) (simp_all only: fst_conv token.distinct scanNumber_tok simp_thms)
  then show ?thesis by (simp add: Cons)
qed (simp add: scanTok_def)

lemma moveTo_sel [simp]: "scRest (moveTo ys es s) = ys" "scErrs (moveTo ys es s) = scErrs s @ es"
  by (simp_all add: moveTo_def)

lemma Scan_length:
  assumes "Scan s = (t, txt, s')"
  shows "length (scRest s') \<le> length (scRest s)" and "t \<noteq> TEOF \<Longrightarrow> length (scRest s') < length (scRest s)"
proof -
  obtain xs es where b: "skipBlank (scRest s) = (xs, es)" by (rule prod.exhaust)
  obtain t' ys es' where k': "scanTok xs = (t', ys, es')" by (rule prod_cases3)
  from assms have k: "scanTok xs = (t, ys, es')" "scRest s' = ys" by (auto simp: Scan_def b k')
  have l: "length xs \<le> length (scRest s)" "length ys \<le> length xs - 1"
    using skipBlank_length [of "scRest s"] scanTok_length [of xs] by (simp_all add: b k)
  then show "length (scRest s') \<le> length (scRest s)" by (simp add: k)
  assume "t \<noteq> TEOF"
  then have "xs \<noteq> []" using scanTok_EOF [of xs] k by auto
  then show "length (scRest s') < length (scRest s)" using l by (cases xs) (auto simp: k)
qed

end
