(* ===== verification/Dsl_Parse.thy ===== *)
theory Dsl_Parse
  imports Dsl_Scan
begin

text \<open>
  The parser (\<open>src/dsl/parse.go\<close>).  \<open>parseText\<close> takes fuel, one unit for every turn of its loop and
  every recursive call; \<open>parse\<close> gives it one unit more than the text has characters, which is
  enough, and \<open>parseFrom\<close> satisfies the equation of the Go function.
\<close>

section \<open>Literals\<close>

definition parseIdent :: "string \<Rightarrow> ast" where
  "parseIdent ident =
     (if ident = ''true'' then ABool True else if ident = ''false'' then ABool False else AIdent ident)"

text \<open>
  \<open>strconv.Atoi\<close> without its error: zero for what is not a decimal number (hexadecimal literals are
  scanned but not converted), the largest \<open>int\<close> when it does not fit.
\<close>

definition atoi :: "string \<Rightarrow> int" where
  "atoi s = (if s \<noteq> [] \<and> list_all isDigit s then min (int (digitsVal s)) (2 ^ 63 - 1) else 0)"

text \<open>\<open>strconv.ParseFloat\<close> on the text of a float token; an exponent without digits is an error, and the value zero.\<close>

definition parseFloat :: "string \<Rightarrow> gofloat" where
  "parseFloat s =
     (let ip = takeWhile isDigit s; r = dropWhile isDigit s;
          fp = (case r of c # r' \<Rightarrow> if c = CHR ''.'' then takeWhile isDigit r' else [] | [] \<Rightarrow> []);
          e = (case scanFraction r of _ # ds \<Rightarrow> ds | [] \<Rightarrow> ''0'');
          neg = (case e of c # _ \<Rightarrow> c = CHR ''-'' | [] \<Rightarrow> False);
          ds = (case e of c # ds \<Rightarrow> if c = CHR ''-'' \<or> c = CHR ''+'' then ds else e | [] \<Rightarrow> [])
      in if ds = [] then zeroFloat
         else normDec (int (digitsVal (ip @ fp))) ((if neg then - 1 else 1) * int (digitsVal ds) - int (length fp)))"

text \<open>\<open>strings.Trim(text, quote)\<close>.\<close>

definition trimQuotes :: "string \<Rightarrow> string" where
  "trimQuotes s = rev (dropWhile (\<lambda>c. c = CHR 0x22) (rev (dropWhile (\<lambda>c. c = CHR 0x22) s)))"

section \<open>The parser\<close>

datatype presult = POk "ast list" scan | PErr dslErr scan | PFuel

definition errUnbalancedParens :: dslErr where
  "errUnbalancedParens = ErrorText ''unbalanced Parenthesis''"

text \<open>The loop that reads the rest of a dotted identifier.\<close>

function dotted :: "string \<Rightarrow> scan \<Rightarrow> (string \<times> scan) + (dslErr \<times> scan)" where
  "dotted ident s =
     (case scRest s of
        c # r \<Rightarrow>
          if c = CHR ''.'' then
            (let (t, tx, s') = Scan (moveTo r [] s) in
             if t \<noteq> TIdent then Inr (DslError (scPos s') (ErrorText (''bad ident name: '' @ ident @ ''.'')), s')
             else dotted (ident @ ''.'' @ tx) s')
          else Inl (ident, s)
      | [] \<Rightarrow> Inl (ident, s))"
  by pat_completeness auto
termination
proof (relation "measure (length \<circ> scRest \<circ> snd)", goal_cases)
  case (2 ident s c r p t q tx s')
  then have "Scan (moveTo r [] s) = (t, tx, s')" by simp
  from Scan_length(1) [OF this] 2(1) show ?case by (simp del: Scan_length)
qed simp

declare dotted.simps [simp del]

definition isOperator :: "char \<Rightarrow> bool" where
  "isOperator c \<longleftrightarrow> c \<in> set ''+-/%*=<>!''"

text \<open>A turn of the loop, given the function for the turns and the calls that follow.\<close>

type_synonym parser = "scan \<Rightarrow> nat \<Rightarrow> ast list \<Rightarrow> presult"

definition parseSexp :: "parser \<Rightarrow> parser" where
  "parseSexp rec s depth slice =
     (case rec s (depth + 1) [] of
        POk sexp s' \<Rightarrow> rec s' depth (slice @ [ASexp sexp (scPos s)])
      | PErr e s' \<Rightarrow> PErr e s'
      | PFuel \<Rightarrow> PFuel)"

definition parseDotted :: "parser \<Rightarrow> string \<Rightarrow> parser" where
  "parseDotted rec tx s depth slice =
     (case dotted tx s of
        Inl (ident, s') \<Rightarrow> rec s' depth (slice @ [parseIdent ident])
      | Inr (e, s') \<Rightarrow> PErr e s')"

definition parseStep :: "parser \<Rightarrow> parser" where
  "parseStep rec s depth slice =
     (case Scan s of (t, tx, s') \<Rightarrow>
      case t of
        TRune c \<Rightarrow>
          if isOperator c then rec s' depth (slice @ [parseIdent tx])
          else if c = CHR ''('' then parseSexp rec s' depth slice
          else if c = CHR '')'' then
            (if depth = 0 then PErr (DslError (scPos s') errUnbalancedParens) s' else POk slice s')
          else PErr (DslError (scPos s') (ErrorText (''bad element: '' @ tx))) s'
      | TIdent \<Rightarrow> parseDotted rec tx s' depth slice
      | TFloat \<Rightarrow> rec s' depth (slice @ [AFloat (parseFloat tx)])
      | TInt \<Rightarrow> rec s' depth (slice @ [AInt (atoi tx)])
      | TString \<Rightarrow> rec s' depth (slice @ [AString (trimQuotes tx)])
      | TEOF \<Rightarrow>
          (if depth \<noteq> 0 then PErr (DslError (scPos s') errUnbalancedParens) s' else POk slice s')
      | TCharLit \<Rightarrow> PErr (DslError (scPos s') (ErrorText (''bad element: '' @ tx))) s')"

primrec parseText :: "nat \<Rightarrow> parser" where
  "parseText 0 = (\<lambda>s depth slice. PFuel)"
| "parseText (Suc n) = parseStep (parseText n)"

text \<open>Errors of the scanner take precedence.\<close>

definition parse :: "scan \<Rightarrow> ast list res" where
  "parse s =
     (case parseText (Suc (length (scRest s))) s 0 [] of
        PFuel \<Rightarrow> Timeout
      | PErr e s' \<Rightarrow> if scErrs s' \<noteq> [] then Raise (ErrorText (joinStr [CHR 0x0A] (scErrs s'))) else Raise e
      | POk asts s' \<Rightarrow> if scErrs s' \<noteq> [] then Raise (ErrorText (joinStr [CHR 0x0A] (scErrs s'))) else Return asts)"

section \<open>Enough fuel\<close>

lemma dotted_length:
  "dotted ident s = Inl (i, s') \<Longrightarrow> length (scRest s') \<le> length (scRest s)"
proof (induction ident s rule: dotted.induct)
  case (1 ident s)
  show ?case
  proof (cases "scRest s")
    case Nil
    then show ?thesis using 1(2) by (simp add: dotted.simps [of ident s])
  next
    case (Cons c r)
    obtain t tx s2 where sc: "Scan (moveTo r [] s) = (t, tx, s2)" by (rule prod_cases3)
    have l: "length (scRest s2) \<le> length (scRest s)" using Scan_length(1) [OF sc] Cons by simp
    show ?thesis
    proof (cases "c = CHR ''.'' \<and> t = TIdent")
      case True
      then have "dotted (ident @ ''.'' @ tx) s2 = Inl (i, s')"
        using 1(2) by (simp add: dotted.simps [of ident s] Cons sc)
      then have "length (scRest s') \<le> length (scRest s2)"
        using 1(1) [OF Cons _ sc [symmetric] refl _] True by simp
      then show ?thesis using l by linarith
    next
      case False
      then have "s = s'" using 1(2) by (auto simp: dotted.simps [of ident s] Cons sc split: if_splits)
      then show ?thesis by simp
    qed
  qed
qed

definition fits :: "scan \<Rightarrow> presult \<Rightarrow> bool" where
  "fits s r = (case r of POk asts s' \<Rightarrow> length (scRest s') \<le> length (scRest s) | PErr _ _ \<Rightarrow> True | PFuel \<Rightarrow> False)"

lemma fits_le: "fits s r \<Longrightarrow> length (scRest s) \<le> length (scRest s') \<Longrightarrow> fits s' r"
  by (auto simp: fits_def split: presult.splits)

lemma parseStep_intro:
  assumes "Scan s = (t, tx, s')" and "\<And>e. P (PErr e s')" and "P (POk sl s')"
    and "\<And>x. t \<noteq> TEOF \<Longrightarrow> P (rec s' d (sl @ [x]))"
    and "t \<noteq> TEOF \<Longrightarrow> P (parseSexp rec s' d sl)"
    and "t \<noteq> TEOF \<Longrightarrow> P (parseDotted rec tx s' d sl)"
  shows "P (parseStep rec s d sl)"
  unfolding parseStep_def assms(1) prod.case
  by (cases t) (use assms in \<open>simp_all only: token.case token.distinct simp_thms if_intro [where P = P]\<close>)

lemma fits_parseSexp:
  assumes "fits s (rec s (d + 1) [])" and "\<And>s' sl. length (scRest s') \<le> length (scRest s) \<Longrightarrow> fits s (rec s' d sl)"
  shows "fits s (parseSexp rec s d sl)"
  using assms unfolding parseSexp_def by (cases "rec s (d + 1) []") (simp_all add: fits_def)

lemma fits_parseDotted:
  assumes "\<And>s' sl. length (scRest s') \<le> length (scRest s) \<Longrightarrow> fits s (rec s' d sl)"
  shows "fits s (parseDotted rec tx s d sl)"
proof (cases "dotted tx s")
  case (Inl p)
  then show ?thesis
    using dotted_length [of tx s "fst p" "snd p"] assms by (simp add: parseDotted_def case_prod_unfold)
next
  case (Inr p)
  then show ?thesis by (simp add: parseDotted_def case_prod_unfold fits_def)
qed

lemma parseText_fits: "length (scRest s) < n \<Longrightarrow> fits s (parseText n s d sl)"
proof (induction n arbitrary: s d sl)
  case (Suc n)
  obtain t tx s' where sc: "Scan s = (t, tx, s')" by (rule prod_cases3)
  note le = Scan_length(1) [OF sc]
  have IH: "fits s' (parseText n s'' d' sl')" if "t \<noteq> TEOF" "length (scRest s'') \<le> length (scRest s')" for s'' d' sl'
    by (rule fits_le [OF Suc.IH that(2)]) (use that(2) Suc.prems Scan_length(2) [OF sc that(1)] in simp)
  show ?case
    unfolding parseText.simps
  proof (rule parseStep_intro [OF sc, where P = "fits s"])
    show "fits s (PErr e s')" for e by (simp add: fits_def)
    show "fits s (POk sl s')" using le by (simp add: fits_def)
    assume t: "t \<noteq> TEOF"
    show "fits s (parseText n s' d (sl @ [x]))" for x by (rule fits_le [OF IH [OF t order_refl] le])
    show "fits s (parseSexp (parseText n) s' d sl)"
      by (rule fits_le [OF fits_parseSexp le]) (use IH [OF t] in simp_all)
    show "fits s (parseDotted (parseText n) tx s' d sl)"
      by (rule fits_le [OF fits_parseDotted le]) (use IH [OF t] in simp)
  qed
qed simp

text \<open>More fuel does not change a result.\<close>

definition leP :: "presult \<Rightarrow> presult \<Rightarrow> bool" where
  "leP r r' \<longleftrightarrow> r = PFuel \<or> r = r'"

lemma leP_if: "leP x x' \<Longrightarrow> leP y y' \<Longrightarrow> leP (if b then x else y) (if b then x' else y')"
  by simp

lemma parseStep_mono:
  assumes "\<And>s d sl. leP (f s d sl) (g s d sl)"
  shows "leP (parseStep f s d sl) (parseStep g s d sl)"
proof -
  obtain t tx s' where sc: "Scan s = (t, tx, s')" by (rule prod_cases3)
  have 3: "leP r r" for r by (simp add: leP_def)
  have 1: "leP (parseSexp f s' d sl) (parseSexp g s' d sl)"
  proof (cases "f s' (d + 1) [] = PFuel")
    case False
    then have "g s' (d + 1) [] = f s' (d + 1) []" using assms [of s' "d + 1" "[]"] by (simp add: leP_def)
    then show ?thesis unfolding parseSexp_def by (cases "f s' (d + 1) []") (simp_all add: assms 3)
  qed (simp add: parseSexp_def leP_def)
  have 2: "leP (parseDotted f tx s' d sl) (parseDotted g tx s' d sl)"
    unfolding parseDotted_def
    by (cases "dotted tx s'") (simp_all add: assms case_prod_unfold 3)
  show ?thesis
    unfolding parseStep_def sc prod.case
    by (cases t) (simp_all only: token.case assms 1 2 3 leP_if)
qed

lemma parseText_mono: "leP (parseText n s d sl) (parseText (Suc n) s d sl)"
proof (induction n arbitrary: s d sl)
  case (Suc n)
  then show ?case unfolding parseText.simps(2) [of "Suc n"] parseText.simps(2) [of n] by (rule parseStep_mono)
qed (simp add: leP_def)

lemma parseText_enough:
  assumes "length (scRest s) < n"
  shows "parseText n s d sl = parseText (Suc (length (scRest s))) s d sl"
  using assms
proof (induction n)
  case (Suc n)
  show ?case
  proof (cases "length (scRest s) < n")
    case True
    then have "parseText n s d sl \<noteq> PFuel" using parseText_fits [of s n d sl] by (auto simp: fits_def)
    then show ?thesis using Suc True parseText_mono [of n s d sl] by (simp add: leP_def del: parseText.simps)
  next
    case False
    then show ?thesis using Suc.prems by (metis less_antisym)
  qed
qed simp
section \<open>The parser without fuel\<close>

definition parseFrom :: parser where
  "parseFrom s depth slice = parseText (Suc (length (scRest s))) s depth slice"

lemma parseText_parseFrom: "length (scRest s) < n \<Longrightarrow> parseText n s d sl = parseFrom s d sl"
  unfolding parseFrom_def by (rule parseText_enough)

lemma parseFrom_fits: "fits s (parseFrom s d sl)"
  unfolding parseFrom_def by (rule parseText_fits) simp

lemma parseStep_cong:
  assumes eq: "\<And>s'' d sl. length (scRest s'') < length (scRest s) \<Longrightarrow> f s'' d sl = g s'' d sl"
    and fit: "\<And>s'' d sl. fits s'' (g s'' d sl)"
  shows "parseStep f s d sl = parseStep g s d sl"
proof -
  obtain t tx s' where sc: "Scan s = (t, tx, s')" by (rule prod_cases3)
  have lt: "length (scRest s') < length (scRest s)" if "t \<noteq> TEOF" using Scan_length(2) [OF sc that] .
  have 1: "f s' d sl' = g s' d sl'" if "t \<noteq> TEOF" for sl' by (rule eq [OF lt [OF that]])
  have 2: "parseSexp f s' d sl = parseSexp g s' d sl" if "t \<noteq> TEOF"
  proof (cases "g s' (d + 1) []")
    case (POk x s'')
    then have "length (scRest s'') < length (scRest s)" using fit [of s' "d + 1" "[]"] lt [OF that] by (simp add: fits_def)
    then show ?thesis using POk eq [OF lt [OF that], of "d + 1" "[]"] by (simp add: parseSexp_def eq)
  qed (use eq [OF lt [OF that], of "d + 1" "[]"] in \<open>simp_all add: parseSexp_def\<close>)
  have 3: "parseDotted f tx s' d sl = parseDotted g tx s' d sl" if "t \<noteq> TEOF"
  proof (cases "dotted tx s'")
    case (Inl p)
    then have "length (scRest (snd p)) < length (scRest s)"
      using dotted_length [of tx s' "fst p" "snd p"] lt [OF that] by simp
    then show ?thesis by (simp add: parseDotted_def Inl case_prod_unfold eq)
  qed (simp add: parseDotted_def case_prod_unfold)
  show ?thesis
    unfolding parseStep_def sc prod.case by (cases t) (simp_all only: token.case 1 2 3 token.distinct simp_thms)
qed

text \<open>The equation of the Go function.\<close>

lemma parseFrom_step: "parseFrom s d sl = parseStep parseFrom s d sl"
proof -
  have "parseFrom s d sl = parseStep (parseText (length (scRest s))) s d sl" by (simp add: parseFrom_def)
  also have "\<dots> = parseStep parseFrom s d sl"
    by (rule parseStep_cong) (simp_all add: parseText_parseFrom parseFrom_fits)
  finally show ?thesis .
qed

lemma parse_parseFrom:
  "parse s =
     (case parseFrom s 0 [] of
        PErr e s' \<Rightarrow> if scErrs s' \<noteq> [] then Raise (ErrorText (joinStr [CHR 0x0A] (scErrs s'))) else Raise e
      | POk asts s' \<Rightarrow> if scErrs s' \<noteq> [] then Raise (ErrorText (joinStr [CHR 0x0A] (scErrs s'))) else Return asts
      | PFuel \<Rightarrow> Timeout)"
  by (simp add: parse_def parseFrom_def split: presult.splits)

end
