(* ===== verification/Dsl_Print.thy ===== *)
theory Dsl_Print
  imports Dsl_Parse
begin

text \<open>
  The text form of a policy parses back.  \<open>Dsl.String\<close> prints the parsed program; the leader stores
  that text in the database and sends it to the minions, which parse it again, so what is
  printed has to mean the same program.  \<open>printable\<close> says which programs survive: the identifiers and
  integers of any parsed program do, strings and floats do under the conditions \<open>strOk\<close> and \<open>floatOk\<close>.
\<close>

section \<open>Printable programs\<close>

function dottedOk :: "string \<Rightarrow> bool" where
  "dottedOk i =
     (case i of
        [] \<Rightarrow> False
      | c # r \<Rightarrow> isIdentStart c \<and>
          (case dropWhile isIdentRune r of [] \<Rightarrow> True | d # r' \<Rightarrow> d = CHR ''.'' \<and> dottedOk r'))"
  by pat_completeness auto
termination
proof (relation "measure length", goal_cases)
  case (2 i c r d r')
  then show ?case using dropWhile_length [of isIdentRune r] by simp
qed simp

declare dottedOk.simps [simp del]

definition identOk :: "string \<Rightarrow> bool" where
  "identOk i \<longleftrightarrow> (dottedOk i \<and> i \<noteq> ''true'' \<and> i \<noteq> ''false'') \<or> (length i = 1 \<and> isOperator (hd i))"

text \<open>Between quotes, the scanner reads exactly this text, and trimming quotes leaves it alone.\<close>

definition strOk :: "string \<Rightarrow> bool" where
  "strOk x \<longleftrightarrow> snd (scanStr (CHR 0x22) (x @ [CHR 0x22])) = ([CHR 0x22], []) \<and> (x \<noteq> [] \<longrightarrow> last x \<noteq> CHR 0x22)"

text \<open>A normal form that prints with a decimal point or an exponent.\<close>

definition floatOk :: "gofloat \<Rightarrow> bool" where
  "floatOk x \<longleftrightarrow> 0 < mant x \<and> mant x mod 10 \<noteq> 0 \<and> list_ex (\<lambda>c. c = CHR ''.'' \<or> c = CHR ''e'') (fmtG x)"

primrec printable :: "ast \<Rightarrow> bool" where
  "printable (AIdent i) \<longleftrightarrow> identOk i"
| "printable (AString x) \<longleftrightarrow> strOk x"
| "printable (AFloat x) \<longleftrightarrow> floatOk x"
| "printable (AInt i) \<longleftrightarrow> 0 \<le> i \<and> i < 2 ^ 63"
| "printable (ABool b) \<longleftrightarrow> True"
| "printable (ASexp xs p) \<longleftrightarrow> list_all id (map printable xs)"
| "printable (AModule n xs) \<longleftrightarrow> strOk n \<and> list_all id (map printable xs)"
| "printable (ALambda a b c) \<longleftrightarrow> False"
| "printable (ARange i mn mx) \<longleftrightarrow> False"
| "printable ANil \<longleftrightarrow> False"
| "printable (AList xs) \<longleftrightarrow> False"
| "printable (AHmap m) \<longleftrightarrow> False"
| "printable (ALabel i as) \<longleftrightarrow> False"
| "printable (ARoot xs) \<longleftrightarrow> False"
| "printable (AKey k) \<longleftrightarrow> False"
| "printable (ASize x) \<longleftrightarrow> False"
| "printable (AProvider x) \<longleftrightarrow> False"
| "printable (ARole x) \<longleftrightarrow> False"
| "printable (ARegion x) \<longleftrightarrow> False"
| "printable (ADiskSize x) \<longleftrightarrow> False"
| "printable (AAtom a) \<longleftrightarrow> False"

text \<open>What parsing sees of a program: no source positions, and modules as calls of \<open>module\<close>.\<close>

primrec plain :: "ast \<Rightarrow> ast" where
  "plain (ASexp xs p) = ASexp (map plain xs) noPos"
| "plain (AModule n xs) = ASexp (AIdent ''module'' # AString n # map plain xs) noPos"
| "plain (AIdent i) = AIdent i"
| "plain (AString x) = AString x"
| "plain (AFloat x) = AFloat x"
| "plain (AInt i) = AInt i"
| "plain (ABool b) = ABool b"
| "plain (ALambda a b c) = ALambda a b c"
| "plain (ARange i mn mx) = ARange i mn mx"
| "plain ANil = ANil"
| "plain (AList xs) = AList xs"
| "plain (AHmap m) = AHmap m"
| "plain (ALabel i as) = ALabel i as"
| "plain (ARoot xs) = ARoot xs"
| "plain (AKey k) = AKey k"
| "plain (ASize x) = ASize x"
| "plain (AProvider x) = AProvider x"
| "plain (ARole x) = ARole x"
| "plain (ARegion x) = ARegion x"
| "plain (ADiskSize x) = ADiskSize x"
| "plain (AAtom a) = AAtom a"

section \<open>Scanning what was printed\<close>

text \<open>What follows a printed value: nothing, white space or a closing parenthesis.\<close>

definition delim :: "string \<Rightarrow> bool" where
  "delim r \<longleftrightarrow> r = [] \<or> isSpace (hd r) \<or> hd r = CHR '')''"

lemma skipBlank_space: "isSpace c \<Longrightarrow> skipBlank (c # r) = skipBlank r"
  by (simp only: skipBlank.simps [of "c # r"] skipBlank.simps [of r] dropWhile.simps if_True)

lemma skipBlank_stop:
  assumes "\<not> isSpace c" and "c = CHR ''/'' \<Longrightarrow> r = [] \<or> hd r \<notin> {CHR ''/'', CHR ''*''}"
  shows "skipBlank (c # r) = (c # r, [])"
proof -
  have d: "dropWhile isSpace (c # r) = c # r" using assms(1) by simp
  show ?thesis
    unfolding skipBlank.simps [of "c # r"] d using assms(2) by (cases r) auto
qed

lemma Scan_tok:
  assumes "skipBlank (scRest s) = (w @ r, [])" and "scanTok (w @ r) = (t, r, [])"
  shows "Scan s = (t, w, moveTo r [] s)"
  using assms by (simp add: Scan_def)

lemma dropWhile_all: "list_all P w \<Longrightarrow> (r = [] \<or> \<not> P (hd r)) \<Longrightarrow> dropWhile P (w @ r) = r"
  by (induction w; cases r) auto

lemma takeWhile_all: "list_all P w \<Longrightarrow> (r = [] \<or> \<not> P (hd r)) \<Longrightarrow> takeWhile P (w @ r) = w"
  by (induction w; cases r) auto

text \<open>Characters that end a token.\<close>

lemma space_cases: "isSpace c \<Longrightarrow> c = CHR '' '' \<or> c = CHR 0x09 \<or> c = CHR 0x0A \<or> c = CHR 0x0D"
  by (simp add: isSpace_def)

lemma ends_char:
  assumes "isSpace c \<or> c = CHR '')''"
  shows "\<not> isIdentRune c" "\<not> isDigit c" "c \<noteq> CHR ''.''" "c \<noteq> CHR ''e''" "c \<noteq> CHR ''E''" "c \<noteq> CHR ''x''" "c \<noteq> CHR ''X''"
    "c \<noteq> CHR ''/''" "c \<noteq> CHR ''*''"
  using assms
  by (auto simp: isSpace_def isIdentRune_def isIdentStart_def isUpper_def isLower_def isDigit_def)

lemma delim_hd:
  assumes "delim r"
  shows "r = [] \<or> \<not> isIdentRune (hd r)" "r = [] \<or> \<not> isDigit (hd r)" "r = [] \<or> hd r \<noteq> CHR ''.''"
    "r = [] \<or> hd r \<notin> {CHR ''/'', CHR ''*''}"
  using assms ends_char [of "hd r"] by (auto simp: delim_def)

lemma scanTok_ident:
  assumes "isIdentStart c" and "list_all isIdentRune w" and "r = [] \<or> \<not> isIdentRune (hd r)"
  shows "scanTok (c # w @ r) = (TIdent, r, [])"
  using assms by (simp add: scanTok_def dropWhile_all)

lemma operator_char:
  assumes "isOperator c"
  shows "\<not> isIdentStart c" "\<not> isDigit c" "c \<noteq> CHR 0x22" "c \<noteq> CHR 0x27" "c \<noteq> CHR ''.''" "c \<noteq> CHR 0x60" "\<not> isSpace c"
    "c \<noteq> CHR ''(''" "c \<noteq> CHR '')''"
  using assms by (auto simp: isOperator_def isIdentStart_def isUpper_def isLower_def isDigit_def isSpace_def)

lemma scanTok_operator: "isOperator c \<Longrightarrow> scanTok (c # r) = (TRune c, r, [])"
  by (simp add: scanTok_def operator_char)

lemma scanTok_paren: "scanTok (CHR ''('' # r) = (TRune (CHR ''(''), r, [])" "scanTok (CHR '')'' # r) = (TRune (CHR '')''), r, [])"
  by (simp_all add: scanTok_def isIdentStart_def isUpper_def isLower_def isDigit_def)
section \<open>Numbers\<close>

lemma digit_char: "isDigit c \<Longrightarrow> \<not> isIdentStart c \<and> \<not> isSpace c \<and> c \<noteq> CHR ''/'' \<and> c \<noteq> CHR ''.'' \<and> c \<noteq> CHR ''e'' \<and> c \<noteq> CHR ''E''"
  by (auto simp: isDigit_def isIdentStart_def isUpper_def isLower_def isSpace_def)

lemma digitChar_0: "digitChar 0 = CHR ''0''"
  by code_simp

lemma digitChar_zero: "n < 10 \<Longrightarrow> digitChar n = CHR ''0'' \<longleftrightarrow> n = 0"
  by (metis digitChar_0 digitChar_props(2) zero_less_numeral)

lemma natStr_hd_zero: "hd (natStr n) = CHR ''0'' \<Longrightarrow> n = 0"
proof (induction n rule: natStr.induct)
  case (1 n)
  show ?case
  proof (cases "n < 10")
    case True
    then show ?thesis using 1(2) digitChar_zero by (simp add: natStr.simps [of n])
  next
    case False
    then have "hd (natStr (n div 10)) = CHR ''0''"
      using 1(2) natStr_digits [of "n div 10"] by (simp add: natStr.simps [of n])
    then show ?thesis using 1(1) False by simp
  qed
qed

lemma natStr_zero: "natStr 0 = ''0''"
  by (simp add: natStr.simps [of 0] digitChar_0)

definition numeralOk :: "string \<Rightarrow> bool" where
  "numeralOk w \<longleftrightarrow> w \<noteq> [] \<and> list_all isDigit w \<and> (hd w = CHR ''0'' \<longrightarrow> w = ''0'')"

lemma numeralOk_natStr: "numeralOk (natStr n)"
  using natStr_digits [of n] natStr_hd_zero [of n] natStr_zero by (auto simp: numeralOk_def)

lemma scanNumber_numeral:
  assumes "numeralOk w" and "r = [] \<or> \<not> isDigit (hd r) \<and> hd r \<noteq> CHR ''x'' \<and> hd r \<noteq> CHR ''X''"
  shows "scanNumber (w @ r) = (if startsFloat r then (TFloat, scanExponent (scanFraction r), []) else (TInt, r, []))"
proof -
  obtain c w' where w: "w = c # w'" using assms(1) by (cases w) (auto simp: numeralOk_def)
  have d: "dropWhile isDigit (w @ r) = r" "takeWhile isDigit (w @ r) = w"
    using assms by (auto simp: numeralOk_def intro!: dropWhile_all takeWhile_all)
  have z: "w' = []" "c = CHR ''0''" if "c = CHR ''0''" using assms(1) that by (auto simp: numeralOk_def w)
  have x: "x \<noteq> CHR ''x'' \<and> x \<noteq> CHR ''X''" if "c = CHR ''0''" "w' @ r = x # y" for x y
    using that(2) assms(2) z [OF that(1)] by (auto simp: isDigit_def)
  have o: "\<not> (c = CHR ''0'' \<and> list_ex (\<lambda>d. 7 < digitVal d) w)"
    using z by (auto simp: w digitVal_def)
  show ?thesis
  proof (cases "w' @ r")
    case Nil
    then show ?thesis by (simp add: w scanNumber_def startsFloat_def)
  next
    case (Cons x y)
    then have e: "w @ r = c # x # y" by (simp add: w)
    have h: "\<not> (c = CHR ''0'' \<and> (x = CHR ''x'' \<or> x = CHR ''X''))" using x [OF _ Cons] by auto
    show ?thesis
      by (simp only: e scanNumber_def Let_def list.case if_not_P [OF h] d [unfolded e] if_not_P [OF o])
  qed
qed

lemma scanTok_numeral:
  assumes "numeralOk w" and "r = [] \<or> \<not> isDigit (hd r) \<and> hd r \<noteq> CHR ''x'' \<and> hd r \<noteq> CHR ''X''"
  shows "scanTok (w @ r) = (if startsFloat r then (TFloat, scanExponent (scanFraction r), []) else (TInt, r, []))"
proof -
  obtain c w' where w: "w = c # w'" "isDigit c" using assms(1) by (cases w) (auto simp: numeralOk_def)
  then have "scanTok (w @ r) = scanNumber (w @ r)" using digit_char [of c] by (simp add: scanTok_def)
  then show ?thesis using scanNumber_numeral [OF assms] by simp
qed

lemma delim_float: "delim r \<Longrightarrow> \<not> startsFloat r \<and> scanFraction r = r \<and> scanExponent r = r"
  using ends_char [of "hd r"] by (cases r) (auto simp: delim_def startsFloat_def scanFraction_def scanExponent_def)

lemma delim_num: "delim r \<Longrightarrow> r = [] \<or> \<not> isDigit (hd r) \<and> hd r \<noteq> CHR ''x'' \<and> hd r \<noteq> CHR ''X''"
  using ends_char [of "hd r"] by (auto simp: delim_def)

lemma scanTok_int: "delim r \<Longrightarrow> scanTok (natStr n @ r) = (TInt, r, [])"
  using scanTok_numeral [OF numeralOk_natStr delim_num] delim_float [of r] by simp

lemma atoi_natStr: "int n < 2 ^ 63 \<Longrightarrow> atoi (natStr n) = int n"
  using natStr_digits [of n] by (simp add: atoi_def)

text \<open>The parts of a float: digits, a fraction and an exponent.\<close>

definition fracPart :: "string \<Rightarrow> string" where
  "fracPart fp = (if fp = [] then [] else CHR ''.'' # fp)"

definition expPart :: "(bool \<times> string) option \<Rightarrow> string" where
  "expPart ep = (case ep of None \<Rightarrow> [] | Some (neg, ds) \<Rightarrow> CHR ''e'' # (if neg then CHR ''-'' else CHR ''+'') # ds)"

definition floatParts :: "string \<Rightarrow> string \<Rightarrow> (bool \<times> string) option \<Rightarrow> bool" where
  "floatParts ip fp ep \<longleftrightarrow> numeralOk ip \<and> list_all isDigit fp \<and> (fp \<noteq> [] \<or> ep \<noteq> None) \<and>
     (case ep of None \<Rightarrow> True | Some (neg, ds) \<Rightarrow> ds \<noteq> [] \<and> list_all isDigit ds)"

lemma scanExponent_part:
  assumes "floatParts ip fp ep" and "delim r"
  shows "scanExponent (expPart ep @ r) = r"
proof (cases ep)
  case None
  then show ?thesis using delim_float [OF assms(2)] by (simp add: expPart_def)
next
  case (Some p)
  then have "list_all isDigit (snd p)" using assms(1) by (auto simp: floatParts_def)
  then have "dropWhile isDigit (snd p @ r) = r" using delim_hd(2) [OF assms(2)] by (rule dropWhile_all)
  then show ?thesis by (simp add: Some expPart_def scanExponent_def case_prod_unfold)
qed

lemma part_hd:
  "expPart ep = [] \<or> hd (expPart ep) = CHR ''e''" "fracPart fp = [] \<or> hd (fracPart fp) = CHR ''.''"
  by (auto simp: expPart_def fracPart_def split: option.splits)

lemma scanFraction_part:
  assumes "floatParts ip fp ep" and "delim r"
  shows "scanFraction (fracPart fp @ expPart ep @ r) = expPart ep @ r"
proof -
  have h: "expPart ep @ r = [] \<or> \<not> isDigit (hd (expPart ep @ r)) \<and> hd (expPart ep @ r) \<noteq> CHR ''.''"
    using part_hd(1) [of ep] delim_hd(2,3) [OF assms(2)] by (cases "expPart ep") (auto simp: isDigit_def)
  show ?thesis
  proof (cases "fp = []")
    case True
    then show ?thesis using h by (auto simp: fracPart_def scanFraction_def split: list.splits)
  next
    case False
    then show ?thesis using assms(1) h dropWhile_all [of isDigit fp "expPart ep @ r"]
      by (auto simp: fracPart_def scanFraction_def floatParts_def)
  qed
qed

lemma scanTok_float:
  assumes "floatParts ip fp ep" and "delim r"
  shows "scanTok (ip @ fracPart fp @ expPart ep @ r) = (TFloat, r, [])"
proof -
  let ?t = "fracPart fp @ expPart ep @ r"
  have "startsFloat ?t \<and> (?t = [] \<or> \<not> isDigit (hd ?t) \<and> hd ?t \<noteq> CHR ''x'' \<and> hd ?t \<noteq> CHR ''X'')"
    using assms(1) by (auto simp: floatParts_def fracPart_def expPart_def startsFloat_def isDigit_def)
  then show ?thesis
    using scanTok_numeral [of ip ?t] assms scanFraction_part [OF assms] scanExponent_part [OF assms]
    by (simp add: floatParts_def)
qed

lemma digitsVal_append: "digitsVal (a @ b) = foldl (\<lambda>n c. 10 * n + digitVal c) (digitsVal a) b"
  by (simp add: digitsVal_def)

lemma digitsVal_zeros: "digitsVal (replicate k (CHR ''0'') @ ds) = digitsVal ds"
proof (induction k)
  case (Suc k)
  have "digitsVal (CHR ''0'' # w) = digitsVal w" for w by (simp add: digitsVal_def digitVal_def)
  then show ?case using Suc by simp
qed simp

definition expVal :: "(bool \<times> string) option \<Rightarrow> int" where
  "expVal ep = (case ep of None \<Rightarrow> 0 | Some (neg, ds) \<Rightarrow> (if neg then - 1 else 1) * int (digitsVal ds))"

lemma parseFloat_parts:
  assumes "floatParts ip fp ep"
  shows "parseFloat (ip @ fracPart fp @ expPart ep) = normDec (int (digitsVal (ip @ fp))) (expVal ep - int (length fp))"
proof -
  let ?t = "fracPart fp @ expPart ep"
  have h: "?t = [] \<or> \<not> isDigit (hd ?t)"
    using assms by (auto simp: floatParts_def fracPart_def expPart_def isDigit_def)
  have ip: "takeWhile isDigit (ip @ ?t) = ip" "dropWhile isDigit (ip @ ?t) = ?t"
    using assms h by (auto simp: floatParts_def numeralOk_def intro!: dropWhile_all takeWhile_all)
  have e: "expPart ep = [] \<or> \<not> isDigit (hd (expPart ep)) \<and> hd (expPart ep) \<noteq> CHR ''.''"
    using part_hd(1) [of ep] by (auto simp: isDigit_def)
  have fp: "(case ?t of [] \<Rightarrow> [] | c # r' \<Rightarrow> if c = CHR ''.'' then takeWhile isDigit r' else []) = fp"
    using e assms takeWhile_all [of isDigit fp "expPart ep"]
    by (cases "fp = []") (auto simp: fracPart_def floatParts_def split: list.splits)
  have fr: "scanFraction ?t = expPart ep"
    using scanFraction_part [OF assms, of "[]"] by (simp add: delim_def)
  show ?thesis
  proof (cases ep)
    case None
    then show ?thesis
      unfolding parseFloat_def Let_def ip fp fr by (simp add: expPart_def expVal_def digitsVal_def digitVal_def)
  next
    case (Some p)
    obtain neg ds where p: "p = (neg, ds)" by force
    have "ds \<noteq> []" using assms by (simp add: Some p floatParts_def)
    then show ?thesis
      unfolding parseFloat_def Let_def ip fp fr by (simp add: Some p expPart_def expVal_def)
  qed
qed

lemma normDec_normal: "0 < m \<Longrightarrow> m mod 10 \<noteq> 0 \<Longrightarrow> normDec m e = Dec m e"
  by (simp add: normDec.simps [of m e])

lemma natStr_Cons: "\<exists>c w. natStr n = c # w"
  using natStr_digits [of n] by (cases "natStr n") auto

lemma numeralOk_take:
  assumes "0 < k"
  shows "0 < n \<Longrightarrow> numeralOk (take k (natStr n))"
  using natStr_digits [of n] natStr_hd_zero [of n] assms
  by (auto simp: numeralOk_def list_all_iff dest: in_set_takeD)

lemma fmtG_parts:
  assumes "floatOk (Dec m e)"
  shows "\<exists>ip fp ep. fmtG (Dec m e) = ip @ fracPart fp @ expPart ep \<and> floatParts ip fp ep \<and>
    digitsVal (ip @ fp) = nat m \<and> expVal ep - int (length fp) = e"
proof -
  have m: "0 < m" using assms by (simp add: floatOk_def)
  define ds where "ds = natStr (nat m)"
  define ex where "ex = e + int (length ds) - 1"
  have ds: "digitsVal ds = nat m" "list_all isDigit ds" "ds \<noteq> []" "numeralOk ds"
    using natStr_digits [of "nat m"] numeralOk_natStr by (simp_all add: ds_def)
  have g: "fmtG (Dec m e) =
     (if ex < -4 \<or> 6 \<le> ex then
        [hd ds] @ (if tl ds = [] then [] else ''.'' @ tl ds) @ ''e'' @ (if ex < 0 then ''-'' else ''+'') @
        (if \<bar>ex\<bar> < 10 then ''0'' @ natStr (nat \<bar>ex\<bar>) else natStr (nat \<bar>ex\<bar>))
      else if ex + 1 \<le> 0 then ''0.'' @ replicate (nat (- (ex + 1))) (CHR ''0'') @ ds
      else if int (length ds) \<le> ex + 1 then ds @ replicate (nat (ex + 1 - int (length ds))) (CHR ''0'')
      else take (nat (ex + 1)) ds @ ''.'' @ drop (nat (ex + 1)) ds)"
    using m by (simp add: fmtG_def Let_def ds_def ex_def algebra_simps)
  consider (sci) "ex < -4 \<or> 6 \<le> ex" | (small) "\<not> (ex < -4 \<or> 6 \<le> ex)" "ex + 1 \<le> 0"
    | (whole) "\<not> (ex < -4 \<or> 6 \<le> ex)" "0 < ex + 1" "int (length ds) \<le> ex + 1"
    | (mid) "\<not> (ex < -4 \<or> 6 \<le> ex)" "0 < ex + 1" "ex + 1 < int (length ds)" by linarith
  then show ?thesis
  proof cases
    case sci
    let ?es = "if \<bar>ex\<bar> < 10 then ''0'' @ natStr (nat \<bar>ex\<bar>) else natStr (nat \<bar>ex\<bar>)"
    have es: "digitsVal ?es = nat \<bar>ex\<bar>" "?es \<noteq> []" "list_all isDigit ?es"
      using natStr_digits [of "nat \<bar>ex\<bar>"] digitsVal_zeros [of 1 "natStr (nat \<bar>ex\<bar>)"] by (auto simp: isDigit_def)
    have "fmtG (Dec m e) = [hd ds] @ fracPart (tl ds) @ expPart (Some (ex < 0, ?es))"
      using sci unfolding g by (simp add: fracPart_def expPart_def)
    moreover have "floatParts [hd ds] (tl ds) (Some (ex < 0, ?es))"
      using ds es numeralOk_take [of 1 "nat m"] m
      by (cases ds) (simp_all add: floatParts_def ds_def [symmetric])
    moreover have "digitsVal ([hd ds] @ tl ds) = nat m" using ds by simp
    moreover have "expVal (Some (ex < 0, ?es)) - int (length (tl ds)) = e"
      using es ds by (cases ds) (auto simp: expVal_def ex_def)
    ultimately show ?thesis by blast
  next
    case small
    let ?fp = "replicate (nat (- (ex + 1))) (CHR ''0'') @ ds"
    have "fmtG (Dec m e) = ''0'' @ fracPart ?fp @ expPart None"
      using small ds(3) unfolding g by (simp add: fracPart_def expPart_def)
    moreover have "floatParts ''0'' ?fp None"
      using ds by (auto simp: floatParts_def numeralOk_def isDigit_def list_all_iff)
    moreover have "digitsVal (''0'' @ ?fp) = nat m"
      using digitsVal_zeros [of "Suc (nat (- (ex + 1)))" ds] ds by simp
    moreover have "expVal None - int (length ?fp) = e" using small by (simp add: expVal_def ex_def)
    ultimately show ?thesis by blast
  next
    case whole
    have "\<not> list_ex (\<lambda>c. c = CHR ''.'' \<or> c = CHR ''e'') (fmtG (Dec m e))"
      using whole ds(2) unfolding g by (auto simp: list_ex_iff list_all_iff isDigit_def)
    then show ?thesis using assms by (simp add: floatOk_def)
  next
    case mid
    let ?k = "nat (ex + 1)"
    have "fmtG (Dec m e) = take ?k ds @ fracPart (drop ?k ds) @ expPart None"
      using mid unfolding g by (auto simp: fracPart_def expPart_def)
    moreover have "floatParts (take ?k ds) (drop ?k ds) None"
      using ds mid m numeralOk_take [of ?k "nat m"]
      by (auto simp: floatParts_def ds_def [symmetric] list_all_iff dest: in_set_dropD)
    moreover have "expVal None - int (length (drop ?k ds)) = e" using mid by (simp add: expVal_def ex_def)
    ultimately show ?thesis using ds(1) by (metis append_take_drop_id)
  qed
qed

lemma scan_fmtG:
  assumes "floatOk x"
  shows "delim r \<Longrightarrow> scanTok (fmtG x @ r) = (TFloat, r, [])" "parseFloat (fmtG x) = x"
    "\<exists>c w. fmtG x = c # w \<and> isDigit c"
proof -
  obtain m e where x: "x = Dec m e" by (cases x)
  obtain ip fp ep where p: "fmtG x = ip @ fracPart fp @ expPart ep" "floatParts ip fp ep"
    "digitsVal (ip @ fp) = nat m" "expVal ep - int (length fp) = e"
    using fmtG_parts assms x by blast
  show "scanTok (fmtG x @ r) = (TFloat, r, [])" if "delim r" using scanTok_float [OF p(2) that] by (simp add: p(1))
  show "parseFloat (fmtG x) = x"
    using parseFloat_parts [OF p(2), folded p(1)] normDec_normal [of m e] assms by (simp add: p(3,4) x floatOk_def)
  show "\<exists>c w. fmtG x = c # w \<and> isDigit c"
    using p(2) by (cases ip) (auto simp: p(1) floatParts_def numeralOk_def)
qed

section \<open>Strings\<close>

abbreviation (input) quote :: char where
  "quote \<equiv> CHR 0x22"

lemma hexVal_quote: "hexVal quote = 16"
  by (simp add: hexVal_def isDigit_def)

lemma scanDigits_quote:
  "b \<le> 16 \<Longrightarrow> \<exists>z es. scanDigits b n (y @ [quote]) = (z @ [quote], es) \<and> length z \<le> length y \<and>
     scanDigits b n (y @ quote # r) = (z @ quote # r, es)"
proof (induction b n y rule: scanDigits.induct)
  case (2 b n y)
  show ?case
  proof (cases y)
    case Nil
    then show ?thesis using 2(2) by (auto simp: hexVal_quote)
  next
    case (Cons c w)
    show ?thesis
    proof (cases "hexVal c < b")
      case True
      with 2(1) [OF Cons True 2(2)] show ?thesis by (force simp: Cons)
    qed (auto simp: Cons)
  qed
qed auto

lemma scanEscape_quote:
  assumes "y \<noteq> []"
  shows "\<exists>z es. scanEscape quote (y @ [quote]) = (z @ [quote], es) \<and> length z \<le> length y \<and>
     scanEscape quote (y @ quote # r) = (z @ quote # r, es)"
proof -
  obtain c w where y: "y = c # w" using assms by (cases y) auto
  have d: "\<exists>z es. scanDigits 16 n (w @ [quote]) = (z @ [quote], es) \<and> length z \<le> length y \<and>
     scanDigits 16 n (w @ quote # r) = (z @ quote # r, es)" for n
    using scanDigits_quote [of 16 n w r] by (force simp: y)
  have o: "\<exists>z es. scanDigits 8 3 (y @ [quote]) = (z @ [quote], es) \<and> length z \<le> length y \<and>
     scanDigits 8 3 (y @ quote # r) = (z @ quote # r, es)"
    by (rule scanDigits_quote) simp
  consider "c \<in> set ''abfnrtv'' \<or> c = CHR 0x5C \<or> c = quote" | "\<not> (c \<in> set ''abfnrtv'' \<or> c = CHR 0x5C \<or> c = quote)" "hexVal c < 8"
    | "\<not> (c \<in> set ''abfnrtv'' \<or> c = CHR 0x5C \<or> c = quote)" "\<not> hexVal c < 8" by blast
  then show ?thesis
  proof cases
    case 1
    then have "scanEscape quote (y @ t) = (w @ t, [])" for t
      unfolding scanEscape_def y by (simp only: append.simps list.case if_True simp_thms)
    then show ?thesis by (force simp: y)
  next
    case 2
    then have "scanEscape quote (y @ t) = scanDigits 8 3 (y @ t)" for t
      unfolding scanEscape_def y by (simp only: append.simps list.case if_True if_False simp_thms)
    then show ?thesis using o by simp
  next
    case 3
    have e: "scanEscape quote (y @ t) =
      (if c = CHR ''x'' then scanDigits 16 2 (w @ t) else if c = CHR ''u'' then scanDigits 16 4 (w @ t)
       else if c = CHR ''U'' then scanDigits 16 8 (w @ t) else (y @ t, [''illegal char escape'']))" for t
      using 3 unfolding scanEscape_def y by (simp only: append.simps list.case if_False simp_thms)
    show ?thesis unfolding e using d by auto
  qed
qed

lemma scanStr_quote:
  "snd (scanStr quote (y @ [quote])) = ([quote], []) \<Longrightarrow> snd (scanStr quote (y @ quote # r)) = (quote # r, [])"
proof (induction "length y" arbitrary: y rule: less_induct)
  case less
  show ?case
  proof (cases y)
    case Nil
    then show ?thesis by (simp add: scanStr.simps)
  next
    case (Cons c w)
    have c: "c \<noteq> quote" "c \<noteq> CHR 0x0A"
      using less.prems by (auto simp: Cons scanStr.simps [of _ "c # _"] split: if_splits)
    show ?thesis
    proof (cases "c = CHR 0x5C")
      case False
      then have "snd (scanStr quote (y @ t)) = snd (scanStr quote (w @ t))" for t
        using c by (simp add: Cons scanStr.simps [of _ "c # _"] case_prod_unfold)
      then show ?thesis using less by (simp add: Cons)
    next
      case True
      have e: "snd (scanStr quote (y @ t)) = (fst (snd (scanStr quote (fst (scanEscape quote (w @ t))))),
          snd (scanEscape quote (w @ t)) @ snd (snd (scanStr quote (fst (scanEscape quote (w @ t))))))" for t
        by (simp add: Cons True scanStr.simps [of _ "_ # _"] case_prod_unfold)
      have "w \<noteq> []"
      proof
        assume "w = []"
        then have "fst (scanEscape quote (w @ [quote])) = []" by (simp add: scanEscape_def)
        then have "snd (scanStr quote (y @ [quote])) \<noteq> ([quote], [])" unfolding e by (simp add: scanStr.simps [of _ "[]"])
        then show False using less.prems by simp
      qed
      then obtain z es where z: "scanEscape quote (w @ [quote]) = (z @ [quote], es)" "length z \<le> length w"
        "scanEscape quote (w @ quote # r) = (z @ quote # r, es)" using scanEscape_quote by blast
      have "snd (scanStr quote (z @ [quote])) = ([quote], [])" "es = []"
        using less.prems unfolding e by (auto simp: z prod_eq_iff)
      then show ?thesis using less.hyps [of z] z(2) unfolding e by (simp add: z Cons prod_eq_iff)
    qed
  qed
qed

lemma scanTok_string: "strOk x \<Longrightarrow> scanTok (quoted x @ r) = (TString, r, [])"
  using scanStr_quote [of x r]
  by (simp add: strOk_def quoted_def scanTok_def isIdentStart_def isUpper_def isLower_def isDigit_def case_prod_unfold prod_eq_iff)

lemma trim_quoted:
  assumes "strOk x"
  shows "trimQuotes (quoted x) = x"
proof (cases x)
  case (Cons c w)
  have "c \<noteq> quote" using assms by (auto simp: strOk_def Cons scanStr.simps [of _ "quote # _"])
  moreover have "hd (rev x) \<noteq> quote" using assms Cons by (metis hd_rev list.distinct(1) strOk_def)
  then have "dropWhile (\<lambda>c. c = quote) (rev x) = rev x" by (cases "rev x") auto
  ultimately show ?thesis by (simp add: trimQuotes_def quoted_def Cons)
qed (simp add: trimQuotes_def quoted_def)

section \<open>Parsing what was printed\<close>

text \<open>\<open>reads w a\<close>: in front of a delimiter, the text \<open>w\<close> is parsed as one element, \<open>a\<close> up to positions.\<close>

definition reads :: "string \<Rightarrow> ast \<Rightarrow> bool" where
  "reads w a \<longleftrightarrow>
     (\<forall>r. delim r \<longrightarrow> skipBlank (w @ r) = (w @ r, [])) \<and>
     (\<forall>r s d sl. delim r \<longrightarrow> skipBlank (scRest s) = (w @ r, []) \<longrightarrow>
        (\<exists>a' s'. parseFrom s d sl = parseFrom s' d (sl @ [a']) \<and> plain a' = a \<and> scRest s' = r \<and> scErrs s' = scErrs s))"

lemma reads_token:
  assumes "\<not> isSpace c" and "c \<noteq> CHR ''/''" and "\<And>r. delim r \<Longrightarrow> scanTok ((c # w) @ r) = (t, r, [])"
    and "\<And>rec s d sl. parseStep rec s d sl = (case Scan s of (t', tx, s') \<Rightarrow>
       if t' = t \<and> tx = c # w then rec s' d (sl @ [a]) else parseStep rec s d sl)"
    and "plain a = a"
  shows "reads (c # w) a"
  unfolding reads_def
proof (intro conjI allI impI)
  show "skipBlank ((c # w) @ r) = ((c # w) @ r, [])" for r using assms(1,2) by (simp add: skipBlank_stop)
  fix r d sl and s :: scan
  assume r: "delim r" "skipBlank (scRest s) = ((c # w) @ r, [])"
  have "Scan s = (t, c # w, moveTo r [] s)" by (rule Scan_tok [OF r(2) assms(3) [OF r(1)]])
  then have "parseFrom s d sl = parseFrom (moveTo r [] s) d (sl @ [a])"
    using assms(4) [of parseFrom s d sl] by (simp add: parseFrom_step [of s])
  then show "\<exists>a' s'. parseFrom s d sl = parseFrom s' d (sl @ [a']) \<and> plain a' = a \<and> scRest s' = r \<and> scErrs s' = scErrs s"
    using assms(5) by fastforce
qed

lemma reads_int: "0 \<le> i \<Longrightarrow> i < 2 ^ 63 \<Longrightarrow> reads (itoa i) (AInt i)"
proof -
  assume i: "0 \<le> i" "i < 2 ^ 63"
  obtain c w where w: "natStr (nat i) = c # w" using natStr_Cons by blast
  then have c: "isDigit c" using natStr_digits [of "nat i"] by simp
  have a: "atoi (c # w) = i" using atoi_natStr [of "nat i"] i by (simp add: w)
  have "reads (c # w) (AInt i)"
    by (rule reads_token [where t = TInt]) (use digit_char [OF c] scanTok_int [of _ "nat i"] a in
      \<open>auto simp: w parseStep_def split: prod.splits\<close>)
  then show ?thesis using i by (simp add: itoa_def w)
qed

lemma reads_float: "floatOk x \<Longrightarrow> reads (fmtG x) (AFloat x)"
proof -
  assume x: "floatOk x"
  obtain c w where w: "fmtG x = c # w" "isDigit c" using scan_fmtG(3) [OF x] by blast
  have "reads (c # w) (AFloat x)"
    by (rule reads_token [where t = TFloat]) (use digit_char [OF w(2)] scan_fmtG(1,2) [OF x] in
      \<open>auto simp: w parseStep_def split: prod.splits\<close>)
  then show ?thesis by (simp add: w)
qed

lemma reads_string: "strOk x \<Longrightarrow> reads (quoted x) (AString x)"
proof -
  assume x: "strOk x"
  have "reads (quote # x @ [quote]) (AString x)"
    by (rule reads_token [where t = TString]) (use scanTok_string [OF x] trim_quoted [OF x] in
      \<open>auto simp: quoted_def isSpace_def parseStep_def split: prod.splits\<close>)
  then show ?thesis by (simp add: quoted_def)
qed

lemma reads_operator: "isOperator c \<Longrightarrow> reads [c] (AIdent [c])"
  unfolding reads_def
proof (intro conjI allI impI)
  assume c: "isOperator c"
  show "skipBlank ([c] @ r) = ([c] @ r, [])" if "delim r" for r
    using operator_char(7) [OF c] delim_hd(4) [OF that] by (simp add: skipBlank_stop)
  fix r d sl and s :: scan
  assume "delim r" "skipBlank (scRest s) = ([c] @ r, [])"
  then have "Scan s = (TRune c, [c], moveTo r [] s)" using scanTok_operator [OF c] by (intro Scan_tok) simp_all
  then have "parseFrom s d sl = parseFrom (moveTo r [] s) d (sl @ [AIdent [c]])"
    using c by (simp add: parseFrom_step [of s] parseStep_def parseIdent_def)
  then show "\<exists>a' s'. parseFrom s d sl = parseFrom s' d (sl @ [a']) \<and> plain a' = AIdent [c] \<and> scRest s' = r \<and> scErrs s' = scErrs s"
    by fastforce
qed

lemma dottedOk_Cons:
  "dottedOk (c # u) \<Longrightarrow> isIdentStart c \<and>
     (dropWhile isIdentRune u = [] \<or> (\<exists>w. dropWhile isIdentRune u = CHR ''.'' # w \<and> dottedOk w))"
  by (auto simp: dottedOk.simps [of "c # u"] split: list.splits)

lemma list_all_takeWhile: "list_all P (takeWhile P xs)"
  by (induction xs) auto

lemma scanTok_dotted:
  assumes "dottedOk (c # u)" and "delim r"
  shows "scanTok ((c # u) @ r) = (TIdent, dropWhile isIdentRune u @ r, [])"
proof -
  let ?v = "dropWhile isIdentRune u @ r"
  have "?v = [] \<or> \<not> isIdentRune (hd ?v)"
  proof (cases "dropWhile isIdentRune u")
    case (Cons d w)
    then show ?thesis using hd_dropWhile [of isIdentRune u] by simp
  next
    case Nil
    show ?thesis unfolding Nil using delim_hd(1) [OF assms(2)] by simp
  qed
  then have "scanTok (c # takeWhile isIdentRune u @ ?v) = (TIdent, ?v, [])"
    using dottedOk_Cons [OF assms(1)] list_all_takeWhile by (intro scanTok_ident) blast+
  moreover have "takeWhile isIdentRune u @ ?v = u @ r" by (simp flip: append_assoc)
  ultimately show ?thesis by (simp only: append_Cons)
qed

lemma ident_start: "isIdentStart c \<Longrightarrow> \<not> isSpace c \<and> c \<noteq> CHR ''/''"
  by (auto simp: isIdentStart_def isUpper_def isLower_def isSpace_def)

lemma dotted_reads:
  "dottedOk (c # u) \<Longrightarrow> delim r \<Longrightarrow> scRest s = dropWhile isIdentRune u @ r \<Longrightarrow>
     \<exists>s'. dotted (pre @ c # takeWhile isIdentRune u) s = Inl (pre @ c # u, s') \<and> scRest s' = r \<and> scErrs s' = scErrs s"
proof (induction "length u" arbitrary: c u s pre rule: less_induct)
  case less
  show ?case
  proof (cases "dropWhile isIdentRune u")
    case Nil
    then have "takeWhile isIdentRune u = u" by (metis append.right_neutral takeWhile_dropWhile_id)
    then show ?thesis
      using less.prems delim_hd(3) [OF less.prems(2)] Nil by (cases r) (auto simp: dotted.simps [of _ s])
  next
    case (Cons d w)
    then have w: "d = CHR ''.''" "dottedOk w" using dottedOk_Cons [OF less.prems(1)] by auto
    obtain c' u' where w': "w = c' # u'" using w(2) by (cases w) (auto simp: dottedOk.simps [of "[]"])
    have st: "isIdentStart c'" using dottedOk_Cons w(2) w' by blast
    have u: "u = takeWhile isIdentRune u @ CHR ''.'' # c' # u'"
      using takeWhile_dropWhile_id [of isIdentRune u] Cons w w' by simp
    let ?s = "moveTo (w @ r) [] s" and ?v = "dropWhile isIdentRune u' @ r"
    have v: "(c' # takeWhile isIdentRune u') @ ?v = w @ r" by (simp add: w' flip: append_assoc)
    moreover have "skipBlank (scRest ?s) = (w @ r, [])" using ident_start [OF st] skipBlank_stop [of c' "u' @ r"] by (simp add: w')
    ultimately have "skipBlank (scRest ?s) = ((c' # takeWhile isIdentRune u') @ ?v, [])" by simp
    then have sc: "Scan ?s = (TIdent, c' # takeWhile isIdentRune u', moveTo ?v [] ?s)"
      by (rule Scan_tok) (use scanTok_dotted [OF w(2) [unfolded w'] less.prems(2)] in \<open>simp only: v w'\<close>)
    have l: "length u' < length u" by (subst u) simp
    have "\<exists>s'. dotted ((pre @ c # takeWhile isIdentRune u @ ''.'') @ c' # takeWhile isIdentRune u') (moveTo ?v [] ?s)
        = Inl ((pre @ c # takeWhile isIdentRune u @ ''.'') @ c' # u', s') \<and> scRest s' = r \<and> scErrs s' = scErrs (moveTo ?v [] ?s)"
      by (rule less.hyps [OF l]) (use w w' less.prems(2) in simp_all)
    moreover have "dotted (pre @ c # takeWhile isIdentRune u) s =
        dotted ((pre @ c # takeWhile isIdentRune u @ ''.'') @ c' # takeWhile isIdentRune u') (moveTo ?v [] ?s)"
      using less.prems(3) Cons w(1) sc by (simp add: dotted.simps [of _ s])
    ultimately show ?thesis using u by simp
  qed
qed

lemma reads_dotted:
  assumes "dottedOk i"
  shows "reads i (parseIdent i)"
  unfolding reads_def
proof (intro conjI allI impI)
  obtain c u where i: "i = c # u" using assms by (cases i) (auto simp: dottedOk.simps [of "[]"])
  have st: "isIdentStart c" using dottedOk_Cons assms i by blast
  show "skipBlank (i @ r) = (i @ r, [])" for r using ident_start [OF st] skipBlank_stop [of c "u @ r"] by (simp add: i)
  fix r d sl and s :: scan
  assume r: "delim r" "skipBlank (scRest s) = (i @ r, [])"
  let ?v = "dropWhile isIdentRune u @ r"
  have v: "i @ r = (c # takeWhile isIdentRune u) @ ?v" by (simp add: i flip: append_assoc)
  have "Scan s = (TIdent, c # takeWhile isIdentRune u, moveTo ?v [] s)"
    by (rule Scan_tok) (use r(2) scanTok_dotted [OF assms [unfolded i] r(1)] in \<open>simp_all only: v [symmetric] i\<close>)
  moreover obtain s' where "dotted ([] @ c # takeWhile isIdentRune u) (moveTo ?v [] s) = Inl ([] @ c # u, s')"
    "scRest s' = r" "scErrs s' = scErrs (moveTo ?v [] s)"
    using dotted_reads [OF assms [unfolded i] r(1), of "moveTo ?v [] s" "[]"] by auto
  ultimately have "parseFrom s d sl = parseFrom s' d (sl @ [parseIdent i])" "scRest s' = r" "scErrs s' = scErrs s"
    by (simp_all add: parseFrom_step [of s] parseStep_def parseDotted_def i)
  then show "\<exists>a' s'. parseFrom s d sl = parseFrom s' d (sl @ [a']) \<and> plain a' = parseIdent i \<and> scRest s' = r \<and>
      scErrs s' = scErrs s"
    by (intro exI [of _ "parseIdent i"] exI [of _ s']) (simp add: parseIdent_def)
qed

lemma reads_ident: "identOk i \<Longrightarrow> reads i (AIdent i)"
  using reads_dotted [of i] reads_operator [of "hd i"]
  by (auto simp: identOk_def parseIdent_def length_Suc_conv)

lemma reads_bool: "reads (boolString b) (ABool b)"
proof -
  have "dottedOk ''true''" "dottedOk ''false''"
    by (simp_all add: dottedOk.simps isIdentStart_def isIdentRune_def isLower_def isUpper_def)
  from this [THEN reads_dotted] show ?thesis by (cases b) (simp_all add: boolString_def parseIdent_def)
qed

text \<open>Elements in sequence, each separated from the next by one white space character.\<close>

lemma delim_space: "isSpace c \<Longrightarrow> delim (c # r)" and delim_paren: "delim (CHR '')'' # r)" and delim_Nil: "delim []"
  by (simp_all add: delim_def)

lemma reads_list:
  assumes "\<And>a. a \<in> set xs \<Longrightarrow> reads (f a) (plain a)" and "isSpace c" and "delim r"
  shows "skipBlank (scRest s) = skipBlank (joinStr [c] (map f xs) @ r) \<Longrightarrow>
    \<exists>as s'. parseFrom s d sl = parseFrom s' d (sl @ as) \<and> map plain as = map plain xs \<and>
      skipBlank (scRest s') = skipBlank r \<and> scErrs s' = scErrs s"
  using assms(1)
proof (induction xs arbitrary: s sl)
  case Nil
  then show ?case by (intro exI [of _ "[]"] exI [of _ s]) simp
next
  case (Cons x xs)
  define r' where "r' = (if xs = [] then r else c # joinStr [c] (map f xs) @ r)"
  have j: "joinStr [c] (map f (x # xs)) @ r = f x @ r'" by (cases xs) (simp_all add: r'_def)
  have d: "delim r'" using assms(2,3) by (simp add: r'_def delim_space)
  have rd: "reads (f x) (plain x)" by (rule Cons.prems(2)) simp
  have "skipBlank (scRest s) = (f x @ r', [])" using Cons.prems(1) rd d unfolding j by (simp add: reads_def)
  then obtain a s1 where 1: "parseFrom s d sl = parseFrom s1 d (sl @ [a])" "plain a = plain x" "scRest s1 = r'" "scErrs s1 = scErrs s"
    using rd d unfolding reads_def by blast
  have "skipBlank (scRest s1) = skipBlank (joinStr [c] (map f xs) @ r)"
    using skipBlank_space [OF assms(2)] by (simp add: 1 r'_def)
  from Cons.IH [OF this, of "sl @ [a]"] Cons.prems(2) obtain as s2 where
    "parseFrom s1 d (sl @ [a]) = parseFrom s2 d ((sl @ [a]) @ as)" "map plain as = map plain xs"
    "skipBlank (scRest s2) = skipBlank r" "scErrs s2 = scErrs s1" by auto
  with 1 show ?case by (intro exI [of _ "a # as"] exI [of _ s2]) simp
qed

lemma skipBlank_paren: "skipBlank (CHR '')'' # r) = (CHR '')'' # r, [])" "skipBlank (CHR ''('' # r) = (CHR ''('' # r, [])"
  by (rule skipBlank_stop; simp add: isSpace_def)+

lemma parse_close:
  assumes "skipBlank (scRest s) = (CHR '')'' # r, [])" and "d \<noteq> 0"
  shows "parseFrom s d sl = POk sl (moveTo r [] s)"
proof -
  have "Scan s = (TRune (CHR '')''), [CHR '')''], moveTo r [] s)"
    by (rule Scan_tok) (use assms(1) scanTok_paren in simp_all)
  then show ?thesis using assms(2) by (simp add: parseFrom_step [of s] parseStep_def isOperator_def)
qed

text \<open>A parenthesised text whose inside is read as the elements \<open>as\<close>.\<close>

lemma reads_parens:
  assumes "\<And>s d r. skipBlank (scRest s) = skipBlank (w @ CHR '')'' # r) \<Longrightarrow>
     \<exists>as' s'. parseFrom s (Suc d) [] = parseFrom s' (Suc d) as' \<and> map plain as' = as \<and>
       skipBlank (scRest s') = (CHR '')'' # r, []) \<and> scErrs s' = scErrs s"
  shows "reads (CHR ''('' # w @ [CHR '')'']) (ASexp as noPos)"
  unfolding reads_def
proof (intro conjI allI impI)
  show "skipBlank ((CHR ''('' # w @ [CHR '')'']) @ r) = ((CHR ''('' # w @ [CHR '')'']) @ r, [])" for r
    by (simp add: skipBlank_paren)
  fix r d sl and s :: scan
  assume r: "skipBlank (scRest s) = ((CHR ''('' # w @ [CHR '')'']) @ r, [])"
  define s1 where "s1 = moveTo (w @ CHR '')'' # r) [] s"
  have "Scan s = (TRune (CHR ''(''), [CHR ''(''], s1)"
    unfolding s1_def by (rule Scan_tok) (use r scanTok_paren in simp_all)
  then have p: "parseFrom s d sl = parseSexp parseFrom s1 d sl"
    by (simp add: parseFrom_step [of s] parseStep_def isOperator_def)
  obtain as' s2 where 2: "parseFrom s1 (Suc d) [] = parseFrom s2 (Suc d) as'" "map plain as' = as"
    "skipBlank (scRest s2) = (CHR '')'' # r, [])" "scErrs s2 = scErrs s1"
    using assms [of s1 r d] by (auto simp: s1_def)
  have "parseFrom s d sl = parseFrom (moveTo r [] s2) d (sl @ [ASexp as' (scPos s1)])"
    using parse_close [OF 2(3), of "Suc d" as'] by (simp add: p parseSexp_def 2(1))
  then show "\<exists>a' s'. parseFrom s d sl = parseFrom s' d (sl @ [a']) \<and> plain a' = ASexp as noPos \<and> scRest s' = r \<and>
      scErrs s' = scErrs s"
    using 2(2,4) by (intro exI [of _ "ASexp as' (scPos s1)"] exI [of _ "moveTo r [] s2"]) (simp add: s1_def)
qed

lemma space_char: "isSpace (CHR '' '')" "isSpace (CHR 0x0A)"
  by (simp_all add: isSpace_def)

lemma reads_sexp:
  assumes "\<And>a. a \<in> set xs \<Longrightarrow> reads (f a) (plain a)"
  shows "reads (''('' @ joinStr '' '' (map f xs) @ '')'') (ASexp (map plain xs) noPos)"
proof -
  have "reads (CHR ''('' # joinStr '' '' (map f xs) @ [CHR '')'']) (ASexp (map plain xs) noPos)"
  proof (rule reads_parens)
    fix d r and s :: scan
    assume "skipBlank (scRest s) = skipBlank (joinStr '' '' (map f xs) @ CHR '')'' # r)"
    from reads_list [OF assms space_char(1) delim_paren this, of "Suc d" "[]"]
    show "\<exists>as' s'. parseFrom s (Suc d) [] = parseFrom s' (Suc d) as' \<and> map plain as' = map plain xs \<and>
       skipBlank (scRest s') = (CHR '')'' # r, []) \<and> scErrs s' = scErrs s"
      by (simp add: skipBlank_paren)
  qed
  then show ?thesis by simp
qed

lemma dottedOk_module: "dottedOk ''module''"
  by (simp add: dottedOk.simps isIdentStart_def isIdentRune_def isLower_def isUpper_def)

lemma reads_module:
  assumes "strOk n" and "\<And>a. a \<in> set xs \<Longrightarrow> reads (f a) (plain a)"
  shows "reads (''(module '' @ quoted n @ '' '' @ joinStr [CHR 0x0A] (map f xs) @ '')'')
     (ASexp (AIdent ''module'' # AString n # map plain xs) noPos)"
proof -
  let ?g = "\<lambda>a. if a = AString n then quoted n else ''module''" and ?h = "[AIdent ''module'', AString n]"
  have h: "reads (?g a) (plain a)" if "a \<in> set ?h" for a
    using that reads_string [OF assms(1)] reads_ident [of "''module''"] dottedOk_module
    by (auto simp: identOk_def)
  let ?w = "''module '' @ quoted n @ '' '' @ joinStr [CHR 0x0A] (map f xs)"
  have "reads (CHR ''('' # ?w @ [CHR '')'']) (ASexp (map plain (?h @ xs)) noPos)"
  proof (rule reads_parens)
    fix d r and s :: scan
    assume s: "skipBlank (scRest s) = skipBlank (?w @ CHR '')'' # r)"
    let ?r = "'' '' @ joinStr [CHR 0x0A] (map f xs) @ CHR '')'' # r"
    have "skipBlank (scRest s) = skipBlank (joinStr '' '' (map ?g ?h) @ ?r)" using s by simp
    moreover have "delim ?r" by (simp add: delim_space space_char)
    ultimately obtain as s1 where 1: "parseFrom s (Suc d) [] = parseFrom s1 (Suc d) ([] @ as)" "map plain as = map plain ?h"
      "skipBlank (scRest s1) = skipBlank ?r" "scErrs s1 = scErrs s"
      using reads_list [OF h space_char(1), of ?h ?r s "Suc d" "[]"] by blast
    have "skipBlank (scRest s1) = skipBlank (joinStr [CHR 0x0A] (map f xs) @ CHR '')'' # r)"
      using skipBlank_space [OF space_char(1)] by (simp add: 1)
    from reads_list [OF assms(2) space_char(2) delim_paren this, of "Suc d" as] obtain bs s2
      where "parseFrom s1 (Suc d) as = parseFrom s2 (Suc d) (as @ bs)" "map plain bs = map plain xs"
        "skipBlank (scRest s2) = skipBlank (CHR '')'' # r)" "scErrs s2 = scErrs s1" by blast
    then show "\<exists>as' s'. parseFrom s (Suc d) [] = parseFrom s' (Suc d) as' \<and> map plain as' = map plain (?h @ xs) \<and>
       skipBlank (scRest s') = (CHR '')'' # r, []) \<and> scErrs s' = scErrs s"
      using 1 by (intro exI [of _ "as @ bs"] exI [of _ s2]) (simp add: skipBlank_paren)
  qed
  then show ?thesis by simp
qed

lemma reads_printable: "printable a \<Longrightarrow> reads (ast_String h a) (plain a)"
proof (induction a)
  case (ASexp xs p)
  then have "reads (ast_String h a) (plain a)" if "a \<in> set xs" for a using that by (simp add: list_all_iff)
  from reads_sexp [OF this] show ?case by simp
next
  case (AModule n xs)
  then have "reads (ast_String h a) (plain a)" if "a \<in> set xs" for a using that by (simp add: list_all_iff)
  from reads_module [OF _ this, of n] AModule.prems show ?case by simp
qed (simp_all add: reads_ident reads_string reads_float reads_int reads_bool)

lemma parse_print:
  assumes "list_all printable xs"
  shows "\<exists>as. parse (initScan name (ast_String h (ARoot xs))) = Return as \<and> map plain as = map plain xs"
proof -
  let ?s = "initScan name (ast_String h (ARoot xs))"
  have "skipBlank (scRest ?s) = skipBlank (joinStr [CHR 0x0A] (map (ast_String h) xs) @ [])" by (simp add: initScan_def)
  from reads_list [OF reads_printable space_char(2) delim_Nil this, of 0 "[]"] assms obtain as s' where
    1: "parseFrom ?s 0 [] = parseFrom s' 0 as" "map plain as = map plain xs" "skipBlank (scRest s') = skipBlank []"
    "scErrs s' = scErrs ?s" by (auto simp: list_all_iff)
  have "skipBlank [] = ([], [])" by (simp add: skipBlank.simps)
  then have "Scan s' = (TEOF, [], moveTo [] [] s')" using 1(3) by (simp add: Scan_def scanTok_def)
  then have "parseFrom ?s 0 [] = POk as (moveTo [] [] s')"
    unfolding 1(1) by (simp add: parseFrom_step [of s'] parseStep_def)
  then show ?thesis using 1(2,4) by (simp add: parse_parseFrom initScan_def)
qed

section \<open>Parsed programs\<close>

text \<open>The shape of what the parser returns, and the two ways in which such a program can fail to be printable.\<close>

primrec parsed :: "ast \<Rightarrow> bool" where
  "parsed (AIdent i) \<longleftrightarrow> identOk i"
| "parsed (AString x) \<longleftrightarrow> True"
| "parsed (AFloat x) \<longleftrightarrow> True"
| "parsed (AInt i) \<longleftrightarrow> 0 \<le> i \<and> i < 2 ^ 63"
| "parsed (ABool b) \<longleftrightarrow> True"
| "parsed (ASexp xs p) \<longleftrightarrow> list_all id (map parsed xs)"
| "parsed (AModule n xs) \<longleftrightarrow> False"
| "parsed (ALambda a b c) \<longleftrightarrow> False"
| "parsed (ARange i mn mx) \<longleftrightarrow> False"
| "parsed ANil \<longleftrightarrow> False"
| "parsed (AList xs) \<longleftrightarrow> False"
| "parsed (AHmap m) \<longleftrightarrow> False"
| "parsed (ALabel i as) \<longleftrightarrow> False"
| "parsed (ARoot xs) \<longleftrightarrow> False"
| "parsed (AKey k) \<longleftrightarrow> False"
| "parsed (ASize x) \<longleftrightarrow> False"
| "parsed (AProvider x) \<longleftrightarrow> False"
| "parsed (ARole x) \<longleftrightarrow> False"
| "parsed (ARegion x) \<longleftrightarrow> False"
| "parsed (ADiskSize x) \<longleftrightarrow> False"
| "parsed (AAtom a) \<longleftrightarrow> False"

primrec literalsOk :: "ast \<Rightarrow> bool" where
  "literalsOk (AString x) \<longleftrightarrow> strOk x"
| "literalsOk (AFloat x) \<longleftrightarrow> floatOk x"
| "literalsOk (ASexp xs p) \<longleftrightarrow> list_all id (map literalsOk xs)"
| "literalsOk (AModule n xs) \<longleftrightarrow> strOk n \<and> list_all id (map literalsOk xs)"
| "literalsOk (AIdent i) \<longleftrightarrow> True"
| "literalsOk (AInt i) \<longleftrightarrow> True"
| "literalsOk (ABool b) \<longleftrightarrow> True"
| "literalsOk (ALambda a b c) \<longleftrightarrow> True"
| "literalsOk (ARange i mn mx) \<longleftrightarrow> True"
| "literalsOk ANil \<longleftrightarrow> True"
| "literalsOk (AList xs) \<longleftrightarrow> True"
| "literalsOk (AHmap m) \<longleftrightarrow> True"
| "literalsOk (ALabel i as) \<longleftrightarrow> True"
| "literalsOk (ARoot xs) \<longleftrightarrow> True"
| "literalsOk (AKey k) \<longleftrightarrow> True"
| "literalsOk (ASize x) \<longleftrightarrow> True"
| "literalsOk (AProvider x) \<longleftrightarrow> True"
| "literalsOk (ARole x) \<longleftrightarrow> True"
| "literalsOk (ARegion x) \<longleftrightarrow> True"
| "literalsOk (ADiskSize x) \<longleftrightarrow> True"
| "literalsOk (AAtom a) \<longleftrightarrow> True"

lemma parsed_printable: "parsed a \<Longrightarrow> literalsOk a \<Longrightarrow> printable a"
  by (induction a) (auto simp: list_all_iff)

lemma scanNumber_not: "fst (scanNumber xs) \<noteq> TIdent \<and> fst (scanNumber xs) \<noteq> TRune c"
  unfolding scanNumber_def Let_def
  by (cases xs rule: generalComment.cases)
    (simp_all only: list.case if_distrib [of fst] fst_conv token.distinct if_cancel simp_thms split: if_split)

lemma scanTok_TIdent:
  assumes "scanTok xs = (TIdent, ys, es)"
  shows "\<exists>c r. xs = c # r \<and> isIdentStart c \<and> ys = dropWhile isIdentRune r"
proof (cases xs)
  case (Cons c r)
  then show ?thesis
    using assms scanNumber_not [of xs]
    by (cases "isIdentStart c"; cases "isDigit c") (auto simp: scanTok_def case_prod_unfold split: if_splits)
qed (use assms in \<open>simp add: scanTok_def\<close>)

lemma scanTok_TRune:
  assumes "scanTok xs = (TRune c, ys, es)"
  shows "xs = c # ys"
proof (cases xs)
  case (Cons c' r)
  then show ?thesis
    using assms scanNumber_not [of xs c]
    by (cases "isIdentStart c'"; cases "isDigit c'") (auto simp: scanTok_def case_prod_unfold split: if_splits)
qed (use assms in \<open>simp add: scanTok_def\<close>)

lemma take_front: "xs = a @ b \<Longrightarrow> take (length xs - length b) xs = a"
  by simp

lemma Scan_TIdent:
  assumes "Scan s = (TIdent, tx, s')"
  shows "\<exists>c u. tx = c # u \<and> isIdentStart c \<and> list_all isIdentRune u"
proof -
  obtain xs es where b: "skipBlank (scRest s) = (xs, es)" by (rule prod.exhaust)
  obtain t ys es' where k: "scanTok xs = (t, ys, es')" by (rule prod_cases3)
  from assms have t: "t = TIdent" "tx = take (length xs - length ys) xs" by (auto simp: Scan_def b k)
  then obtain c r where x: "xs = c # r" "isIdentStart c" "ys = dropWhile isIdentRune r" using scanTok_TIdent k by blast
  have "xs = (c # takeWhile isIdentRune r) @ ys" by (simp add: x)
  then have "tx = c # takeWhile isIdentRune r" unfolding t(2) by (rule take_front)
  then show ?thesis using x(2) list_all_takeWhile by blast
qed

lemma Scan_TRune:
  assumes "Scan s = (TRune c, tx, s')"
  shows "tx = [c]"
proof -
  obtain xs es where b: "skipBlank (scRest s) = (xs, es)" by (rule prod.exhaust)
  obtain t ys es' where k: "scanTok xs = (t, ys, es')" by (rule prod_cases3)
  from assms have t: "t = TRune c" "tx = take (length xs - length ys) xs" by (auto simp: Scan_def b k)
  then have "xs = c # ys" using scanTok_TRune k by blast
  then show ?thesis using t(2) by simp
qed

lemma dottedOk_seg: "isIdentStart c \<Longrightarrow> list_all isIdentRune u \<Longrightarrow> dottedOk (c # u)"
proof -
  assume c: "isIdentStart c" "list_all isIdentRune u"
  then have d: "dropWhile isIdentRune u = []" using dropWhile_all [of isIdentRune u "[]"] by simp
  show ?thesis unfolding dottedOk.simps [of "c # u"] list.case d using c by simp
qed

lemma dropWhile_front: "dropWhile P xs = d # v \<Longrightarrow> dropWhile P (xs @ z) = d # v @ z"
  by (induction xs) (auto split: if_splits)

lemma dottedOk_snoc: "dottedOk i \<Longrightarrow> dottedOk w \<Longrightarrow> dottedOk (i @ CHR ''.'' # w)"
proof (induction i rule: dottedOk.induct)
  case (1 i)
  then obtain c r where i: "i = c # r" by (cases i) (auto simp: dottedOk.simps [of "[]"])
  note c = dottedOk_Cons [OF 1(2) [unfolded i]]
  have dot: "\<not> isIdentRune (CHR ''.'')"
    by (simp add: isIdentRune_def isIdentStart_def isUpper_def isLower_def isDigit_def)
  show ?case
  proof (cases "dropWhile isIdentRune r")
    case Nil
    then have "list_all isIdentRune r" by (simp add: list_all_iff)
    then have "dropWhile isIdentRune (r @ CHR ''.'' # w) = CHR ''.'' # w" using dot by (intro dropWhile_all) simp_all
    then show ?thesis using c 1(3) by (simp add: i dottedOk.simps [of "c # _"])
  next
    case (Cons d v)
    then have "d = CHR ''.''" "dottedOk v" using c by auto
    moreover note dropWhile_front [OF Cons, of "CHR ''.'' # w"]
    ultimately show ?thesis using 1(1) [OF i Cons] c 1(3) by (simp add: i dottedOk.simps [of "c # _"])
  qed
qed

lemma dotted_ok: "dotted ident s = Inl (i, s') \<Longrightarrow> dottedOk ident \<Longrightarrow> dottedOk i"
proof (induction ident s rule: dotted.induct)
  case (1 ident s)
  show ?case
  proof (cases "scRest s")
    case Nil
    then show ?thesis using 1(2,3) by (simp add: dotted.simps [of ident s])
  next
    case (Cons c r)
    obtain t tx s2 where sc: "Scan (moveTo r [] s) = (t, tx, s2)" by (rule prod_cases3)
    show ?thesis
    proof (cases "c = CHR ''.'' \<and> t = TIdent")
      case True
      then have d: "dotted (ident @ ''.'' @ tx) s2 = Inl (i, s')"
        using 1(2) by (simp add: dotted.simps [of ident s] Cons sc)
      have "dottedOk tx" using Scan_TIdent [of "moveTo r [] s" tx s2] sc True dottedOk_seg by auto
      then have "dottedOk (ident @ ''.'' @ tx)" using dottedOk_snoc [OF 1(3)] by simp
      then show ?thesis using 1(1) [OF Cons _ refl sc [symmetric] refl _ d] True by simp
    next
      case False
      then have "ident = i" using 1(2) by (auto simp: dotted.simps [of ident s] Cons sc split: if_splits)
      then show ?thesis using 1(3) by simp
    qed
  qed
qed

lemma parsed_parseIdent: "dottedOk i \<Longrightarrow> parsed (parseIdent i)" "isOperator c \<Longrightarrow> parsed (parseIdent [c])"
  by (simp_all add: parseIdent_def identOk_def)

definition goodP :: "presult \<Rightarrow> bool" where
  "goodP r = (case r of POk as s \<Rightarrow> list_all parsed as | _ \<Rightarrow> True)"

lemma parseText_shape: "list_all parsed sl \<Longrightarrow> goodP (parseText n s d sl)"
proof (induction n arbitrary: s d sl)
  case (Suc n)
  obtain t tx s' where sc: "Scan s = (t, tx, s')" by (rule prod_cases3)
  have IH: "goodP (parseText n s'' d' (sl @ [x]))" if "parsed x" for s'' d' x using that Suc by simp
  have id: "goodP (parseDotted (parseText n) tx s' d sl)" if "t = TIdent"
  proof (cases "dotted tx s'")
    case (Inl p)
    have "dottedOk tx" using Scan_TIdent [of s tx s'] sc that dottedOk_seg by auto
    then have "dottedOk (fst p)" using dotted_ok [of tx s' "fst p" "snd p"] Inl by simp
    then show ?thesis using IH [OF parsed_parseIdent(1)] by (simp add: parseDotted_def Inl case_prod_unfold)
  qed (simp add: parseDotted_def case_prod_unfold goodP_def)
  have sexp: "goodP (parseSexp (parseText n) s' d sl)"
  proof (cases "parseText n s' (d + 1) []")
    case (POk xs s'')
    then have "list_all parsed xs" using Suc.IH [of "[]" s' "d + 1"] by (simp add: goodP_def)
    then show ?thesis unfolding parseSexp_def POk presult.case by (intro IH) (simp add: list_all_iff)
  qed (simp_all add: parseSexp_def goodP_def)
  have op: "goodP (parseText n s' d (sl @ [parseIdent tx]))" if "t = TRune c" "isOperator c" for c
    using Scan_TRune [of s c tx s'] sc that IH [OF parsed_parseIdent(2)] by simp
  have ok: "goodP (POk sl s')" "goodP (PErr e s')" for e using Suc.prems by (simp_all add: goodP_def)
  have lit: "goodP (parseText n s' d (sl @ [AInt (atoi tx)]))" "goodP (parseText n s' d (sl @ [AFloat f]))"
    "goodP (parseText n s' d (sl @ [AString x]))" for f x
    by (rule IH, simp add: atoi_def min_less_iff_disj)+
  show ?case
    unfolding parseText.simps parseStep_def sc prod.case
  proof (cases t)
    case (TRune c)
    show "goodP (case t of
        TRune c \<Rightarrow>
          if isOperator c then parseText n s' d (sl @ [parseIdent tx])
          else if c = CHR ''('' then parseSexp (parseText n) s' d sl
          else if c = CHR '')'' then
            (if d = 0 then PErr (DslError (scPos s') errUnbalancedParens) s' else POk sl s')
          else PErr (DslError (scPos s') (ErrorText (''bad element: '' @ tx))) s'
      | TIdent \<Rightarrow> parseDotted (parseText n) tx s' d sl
      | TFloat \<Rightarrow> parseText n s' d (sl @ [AFloat (parseFloat tx)])
      | TInt \<Rightarrow> parseText n s' d (sl @ [AInt (atoi tx)])
      | TString \<Rightarrow> parseText n s' d (sl @ [AString (trimQuotes tx)])
      | TEOF \<Rightarrow>
          (if d \<noteq> 0 then PErr (DslError (scPos s') errUnbalancedParens) s' else POk sl s')
      | TCharLit \<Rightarrow> PErr (DslError (scPos s') (ErrorText (''bad element: '' @ tx))) s')"
      unfolding TRune token.case by (intro if_intro [where P = goodP] op [OF TRune] sexp ok)
  qed (simp_all add: id lit ok)
qed (simp add: goodP_def)

lemma parse_shape: "parse s = Return xs \<Longrightarrow> list_all parsed xs"
  using parseText_shape [of "[]" "Suc (length (scRest s))" s 0]
  by (auto simp: parse_def goodP_def split: presult.splits if_splits)

lemma parse_not_timeout: "parse s \<noteq> Timeout"
  using parseFrom_fits [of s 0 "[]"] by (auto simp: parse_parseFrom fits_def split: presult.splits)

text \<open>
  C25: Parsing terminates on every text and returns a program or an error, never a panic: a
  program's identifiers are operators or dotted names, its integers are non-negative and fit an \<open>int\<close>.
\<close>

theorem parse_total:
  "(\<exists>xs. parse s = Return xs \<and> list_all parsed xs) \<or> (\<exists>e. parse s = Raise e)"
proof -
  have "parse s \<noteq> Panic" by (simp add: parse_def split: presult.splits)
  then show ?thesis using parse_not_timeout [of s] parse_shape [of s] by (cases "parse s") auto
qed


definition samplePolicy :: string where
  "samplePolicy = ''(label \"web\" (docker \"a.b\" 2.5)) // x''"


text \<open>
  A string literal that ends in an escaped quote parses, but the text form of the program does not:
  trimming the quotes off the token also removes the escaped one, so the printed literal has no end.
\<close>

lemma escaped_quote_lost:
  "\<exists>xs. parse (initScan '''' [CHR 0x22, CHR ''a'', CHR 0x5C, CHR 0x22, CHR 0x22]) = Return xs \<and>
     parse (initScan '''' (ast_String emptySt (ARoot xs))) = Raise (ErrorText ''literal not terminated'')"
proof -
  have "parse (initScan '''' [CHR 0x22, CHR ''a'', CHR 0x5C, CHR 0x22, CHR 0x22]) = Return [AString [CHR ''a'', CHR 0x5C]]"
    by code_simp
  moreover have "parse (initScan '''' (ast_String emptySt (ARoot [AString [CHR ''a'', CHR 0x5C]]))) =
      Raise (ErrorText ''literal not terminated'')"
    by code_simp
  ultimately show ?thesis by blast
qed

end
