(* ===== verification/Dsl_Func.thy ===== *)
theory Dsl_Func
  imports Dsl_Ctx
begin

text \<open>
  The builtin functions of the policy language (\<open>src/dsl/func.go\<close>), one definition per Go function.
  Those that evaluate their arguments take the evaluator \<open>ev\<close> as a parameter; \<open>Dsl_Eval\<close> ties the
  knot.
\<close>

type_synonym evaluator = "evalCtx \<Rightarrow> ast \<Rightarrow> ast M"

definition evalList :: "evaluator \<Rightarrow> evalCtx \<Rightarrow> ast list \<Rightarrow> ast list M" where
  "evalList ev ctx args = mapM (ev ctx) args"

section \<open>Arithmetic and comparison\<close>

definition intsM :: "ast list \<Rightarrow> int list M" where
  "intsM args = mapM (\<lambda>arg. case asInt arg of
     Some i \<Rightarrow> retM i | None \<Rightarrow> errM ''bad arithmetic argument: %s'' [arg]) args"

text \<open>The operations, on 64-bit integers; \<open>None\<close> is Go's division-by-zero panic.\<close>

definition modOp :: "int \<Rightarrow> int \<Rightarrow> int option" where
  "modOp a b = (if b = 0 then None else Some (rem64 a b))"
definition mulOp :: "int \<Rightarrow> int \<Rightarrow> int option" where
  "mulOp a b = Some (wrap64 (a * b))"
definition subOp :: "int \<Rightarrow> int \<Rightarrow> int option" where
  "subOp a b = Some (wrap64 (a - b))"
definition divOp :: "int \<Rightarrow> int \<Rightarrow> int option" where
  "divOp a b = (if b = 0 then None else Some (quot64 a b))"
definition addOp :: "int \<Rightarrow> int \<Rightarrow> int option" where
  "addOp a b = Some (wrap64 (a + b))"

definition arithFun :: "(int \<Rightarrow> int \<Rightarrow> int option) \<Rightarrow> ast list \<Rightarrow> ast M" where
  "arithFun f args =
     bindM (intsM args) (\<lambda>ints.
       case ints of
         [] \<Rightarrow> panicM
       | i # is \<Rightarrow> bindM (foldM (\<lambda>total x. case f total x of None \<Rightarrow> panicM | Some t \<Rightarrow> retM t) i is)
                    (\<lambda>total. retM (AInt total)))"

definition plusImpl :: "ast list \<Rightarrow> ast M" where
  "plusImpl args =
     bindM (nthM args 0) (\<lambda>a0.
       if asStr a0 = None then arithFun addOp args
       else bindM (mapM (\<lambda>arg. case asStr arg of
              Some x \<Rightarrow> retM x | None \<Rightarrow> errM ''bad string concatenation argument: %s'' [arg]) args)
            (\<lambda>strs. retM (AString (concat strs))))"

definition eqImpl :: "nat \<Rightarrow> ast list \<Rightarrow> ast M" where
  "eqImpl n args =
     bindM (nthM args 0) (\<lambda>a. bindM (nthM args 1) (\<lambda>b. bindM (getM (\<lambda>s. deepEq n s a b)) (\<lambda>r.
       case r of None \<Rightarrow> timeoutM | Some e \<Rightarrow> retM (ABool e))))"

definition compareFun :: "(int \<Rightarrow> int \<Rightarrow> bool) \<Rightarrow> ast list \<Rightarrow> ast M" where
  "compareFun f args =
     bindM (intsM args) (\<lambda>ints. bindM (nthM ints 0) (\<lambda>a. bindM (nthM ints 1) (\<lambda>b. retM (ABool (f a b)))))"

section \<open>Containers\<close>

definition newContainer :: "evalCtx \<Rightarrow> string \<Rightarrow> ast list \<Rightarrow> ast M" where
  "newContainer ctx img command s =
     (let p = length (containerObjs s); k = containersR (globalCtx ctx);
          c = \<lparr>ac_image = img, ac_command = command, ac_env = [], ac_Exclusive = [], ac_labels = []\<rparr> in
      Return (AAtom (ContainerP p),
        s\<lparr>containerObjs := containerObjs s @ [c], contsH := (contsH s)[k := contsH s ! k @ [p]]\<rparr>))"

definition dockerImpl :: "evalCtx \<Rightarrow> ast list \<Rightarrow> ast M" where
  "dockerImpl ctx evalArgs =
     bindM (flattenString evalArgs) (\<lambda>args.
       case args of [] \<Rightarrow> panicM | img # rest \<Rightarrow> newContainer ctx img (map AString rest))"

definition updContainer :: "nat \<Rightarrow> (astContainer \<Rightarrow> astContainer) \<Rightarrow> unit M" where
  "updContainer p f = modM (\<lambda>s. s\<lparr>containerObjs := (containerObjs s)[p := f (containerObjs s ! p)]\<rparr>)"

definition setEnvHelper :: "atom \<Rightarrow> ast \<Rightarrow> ast \<Rightarrow> unit M" where
  "setEnvHelper container k v =
     (case asContainerP container of
        None \<Rightarrow> raiseM (ErrorText ''cannot setEnv on non-container: <nil>'')
      | Some p \<Rightarrow>
          if asStr k = None then errM ''setEnv key must be a string: %s'' [k]
          else if asStr v = None then errM ''setEnv value must be a string: %s'' [v]
          else updContainer p (\<lambda>c. c\<lparr>ac_env := gput k v (ac_env c)\<rparr>))"

definition setEnvTarget :: "evalCtx \<Rightarrow> ast \<Rightarrow> ast \<Rightarrow> ast \<Rightarrow> unit M" where
  "setEnvTarget ctx k v arg =
     (if asStr arg \<noteq> None \<or> asLabel arg \<noteq> None then
        bindM (getM (resolveLabel ctx arg)) (\<lambda>r. case r of
          None \<Rightarrow> errM ''cannot setEnv on invalid label: %s'' [arg]
        | Some (i, elems) \<Rightarrow> forM elems (\<lambda>c. setEnvHelper c k v))
      else (case asAtom arg of
          Some (ContainerP p) \<Rightarrow> setEnvHelper (ContainerP p) k v
        | _ \<Rightarrow> errM ''setEnv target must be either a label or container: %s'' [arg]))"

definition setEnvImpl :: "evalCtx \<Rightarrow> ast list \<Rightarrow> ast M" where
  "setEnvImpl ctx args =
     bindM (nthM args 0) (\<lambda>a0.
       bindM (forM (flatten [a0]) (\<lambda>arg.
         bindM (nthM args 1) (\<lambda>k. bindM (nthM args 2) (\<lambda>v. setEnvTarget ctx k v arg))))
       (\<lambda>_. retM (AList [])))"

section \<open>Keys and placement\<close>

definition githubKeyImpl :: "ast list \<Rightarrow> ast M" where
  "githubKeyImpl args = bindM (nthM args 0) (\<lambda>a. case asStr a of
     None \<Rightarrow> errM ''github username must be a string: %s'' [a] | Some x \<Rightarrow> retM (AKey (GithubKey x)))"

definition plaintextKeyImpl :: "ast list \<Rightarrow> ast M" where
  "plaintextKeyImpl args = bindM (nthM args 0) (\<lambda>a. case asStr a of
     None \<Rightarrow> errM ''key must be a string: %s'' [a] | Some x \<Rightarrow> retM (AKey (PlaintextKey x)))"

text \<open>The unordered pairs of distinct positions, each pair of names in order.\<close>

fun labelPairs :: "string list \<Rightarrow> (string \<times> string) list \<Rightarrow> (string \<times> string) list" where
  "labelPairs [] acc = acc"
| "labelPairs (i # js) acc =
     labelPairs js (fold (\<lambda>j. sput (if i < j then (i, j) else (j, i))) js acc)"

definition exclude :: "(string \<times> string) list \<Rightarrow> (string \<times> atom list) \<Rightarrow> unit M" where
  "exclude parsedLabels lab = forM (snd lab) (\<lambda>c. case asContainerP c of
     None \<Rightarrow> errM ''placement labels must contain containers: %s'' [ALabel (fst lab) (snd lab)]
   | Some p \<Rightarrow> updContainer p (\<lambda>c. c\<lparr>ac_Exclusive := fold sput parsedLabels (ac_Exclusive c)\<rparr>))"

definition placementImpl :: "evalCtx \<Rightarrow> ast list \<Rightarrow> ast M" where
  "placementImpl ctx args =
     bindM (nthM args 0) (\<lambda>a0. case asStr a0 of
       None \<Rightarrow> errM ''placement type must be a string, found: %s'' [a0]
     | Some ptype \<Rightarrow>
         bindM (flattenLabel ctx (drop 1 args)) (\<lambda>labels.
           if length labels < 2 then errM ''placment requires at least 2 labels.'' []
           else let parsedLabels = labelPairs (map fst labels) [] in
             if ptype = ''exclusive''
             then bindM (forM labels (exclude parsedLabels)) (\<lambda>_. retM (astFunc ''placement'' args))
             else raiseM (Errorf ''not a valid placement type: %s'' [Txt ptype])))"

section \<open>Machines\<close>

fun setAttribute :: "ast \<Rightarrow> astMachine \<Rightarrow> astMachine option" where
  "setAttribute (AProvider x) m = Some (m\<lparr>am_provider := x\<rparr>)"
| "setAttribute (ARegion x) m = Some (m\<lparr>am_region := x\<rparr>)"
| "setAttribute (ASize x) m = Some (m\<lparr>am_size := x\<rparr>)"
| "setAttribute (ADiskSize x) m = Some (m\<lparr>am_diskSize := x\<rparr>)"
| "setAttribute (ARole x) m = Some (m\<lparr>am_role := x\<rparr>)"
| "setAttribute (ARange i mn mx) m =
     (if i = ''ram'' then Some (m\<lparr>am_ram := (i, mn, mx)\<rparr>)
      else if i = ''cpu'' then Some (m\<lparr>am_cpu := (i, mn, mx)\<rparr>) else None)"
| "setAttribute (AKey k) m = Some (m\<lparr>am_sshKeys := am_sshKeys m @ [k]\<rparr>)"
| "setAttribute _ m = None"

definition setMachineAttributes :: "nat \<Rightarrow> ast list \<Rightarrow> unit M" where
  "setMachineAttributes p args = forM (flatten args) (\<lambda>arg.
     bindM (getM (\<lambda>s. setAttribute arg (machineObjs s ! p))) (\<lambda>r. case r of
       None \<Rightarrow> errM ''unrecognized argument to machine definition: %s'' [arg]
     | Some m \<Rightarrow> modM (\<lambda>s. s\<lparr>machineObjs := (machineObjs s)[p := m]\<rparr>)))"

definition allocMachine :: "nat M" where
  "allocMachine s = Return (length (machineObjs s), s\<lparr>machineObjs := machineObjs s @ [zeroAstMachine]\<rparr>)"

definition machineImpl :: "evalCtx \<Rightarrow> ast list \<Rightarrow> ast M" where
  "machineImpl ctx args =
     bindM allocMachine (\<lambda>p. bindM (setMachineAttributes p args) (\<lambda>_.
       let r = machinesR (globalCtx ctx) in
       bindM (modM (\<lambda>s. s\<lparr>machsH := (machsH s)[r := machsH s ! r @ [p]]\<rparr>)) (\<lambda>_. retM (AAtom (MachineP p)))))"

definition machineAttributeImpl :: "ast list \<Rightarrow> ast M" where
  "machineAttributeImpl args =
     bindM (nthM args 0) (\<lambda>a0.
       bindM (mapM (\<lambda>m. case asMachineP m of
           None \<Rightarrow> errM ''bad type, cannot change machine attributes: %s'' [m]
         | Some p \<Rightarrow> bindM (setMachineAttributes p (drop 1 args)) (\<lambda>_. retM m)) (flatten [a0]))
       (\<lambda>ms. retM (mkList ms)))"

text \<open>\<open>provider\<close> and \<open>size\<close> assert the type of their argument without checking it.\<close>

definition providerImpl :: "ast list \<Rightarrow> ast M" where
  "providerImpl args = bindM (nthM args 0) (\<lambda>a. case asStr a of None \<Rightarrow> panicM | Some x \<Rightarrow> retM (AProvider x))"

definition roleImpl :: "ast list \<Rightarrow> ast M" where
  "roleImpl args = bindM (nthM args 0) (\<lambda>a. case asStr a of
     None \<Rightarrow> errM ''role must be a string: %s'' [a] | Some x \<Rightarrow> retM (ARole x))"

definition regionImpl :: "ast list \<Rightarrow> ast M" where
  "regionImpl args = bindM (nthM args 0) (\<lambda>a. case asStr a of
     None \<Rightarrow> errM ''region must be a string: %s'' [a] | Some x \<Rightarrow> retM (ARegion x))"

definition sizeImpl :: "ast list \<Rightarrow> ast M" where
  "sizeImpl args = bindM (nthM args 0) (\<lambda>a. case asStr a of None \<Rightarrow> panicM | Some x \<Rightarrow> retM (ASize x))"

definition diskSizeImpl :: "ast list \<Rightarrow> ast M" where
  "diskSizeImpl args = bindM (nthM args 0) (\<lambda>a. case asInt a of
     None \<Rightarrow> errM ''diskSize must be an int: %s'' [a] | Some i \<Rightarrow> retM (ADiskSize i))"

fun toFloat :: "ast \<Rightarrow> gofloat option" where
  "toFloat (AInt i) = Some (intFloat i)"
| "toFloat (AFloat x) = Some x"
| "toFloat _ = None"

definition rangeTypeImpl :: "string \<Rightarrow> ast list \<Rightarrow> ast M" where
  "rangeTypeImpl rangeType args =
     bindM (nthM args 0) (\<lambda>a0.
       let mx = (if 1 < length args then toFloat (args ! 1) else Some zeroFloat) in
       case (toFloat a0, mx) of
         (Some mn, Some mx') \<Rightarrow> retM (ARange rangeType mn mx')
       | _ \<Rightarrow> raiseM (Errorf ''range arguments must be convertable to floats: %v'' [Vals args]))"

section \<open>Connections and labels\<close>

definition checkPorts :: "int \<Rightarrow> int \<Rightarrow> unit M" where
  "checkPorts mn mx =
     (if mn < 0 \<or> mx > 65535 then errM ''invalid port range: [%d, %d]'' [AInt mn, AInt mx]
      else if mn > mx then errM ''invalid port range: [%d, %d]'' [AInt mn, AInt mx]
      else retM ())"

definition portRange :: "ast \<Rightarrow> (int \<times> int) M" where
  "portRange a =
     (case asInt a of
        Some i \<Rightarrow> retM (i, i)
      | None \<Rightarrow> (case asList a of
            None \<Rightarrow> errM ''port range must be an int or a list of ints: %s'' [a]
          | Some t \<Rightarrow>
              if length t \<noteq> 2 then errM ''port range must have two ints: %s'' [a]
              else (case (asInt (t ! 0), asInt (t ! 1)) of
                  (Some mn, Some mx) \<Rightarrow> retM (mn, mx)
                | _ \<Rightarrow> errM ''port range must have two ints: %s'' [a])))"

definition addConnection :: "evalCtx \<Rightarrow> dslConnection \<Rightarrow> unit M" where
  "addConnection ctx cn =
     (let r = connectionsR (globalCtx ctx) in
      modM (\<lambda>s. s\<lparr>connsH := (connsH s)[r := sput cn (connsH s ! r)]\<rparr>))"

definition connectPair :: "evalCtx \<Rightarrow> int \<Rightarrow> int \<Rightarrow> string \<Rightarrow> string \<Rightarrow> unit M" where
  "connectPair ctx mn mx from to =
     (if (from = PublicInternetLabel \<or> to = PublicInternetLabel) \<and> mn \<noteq> mx
      then errM ''Public Internet cannot connect on port ranges'' []
      else if from = PublicInternetLabel \<and> to = PublicInternetLabel
      then errM ''cannot connect Public Internet to itself'' []
      else addConnection ctx \<lparr>dc_From = from, dc_To = to, dc_MinPort = mn, dc_MaxPort = mx\<rparr>)"

definition connectImpl :: "evalCtx \<Rightarrow> ast list \<Rightarrow> ast M" where
  "connectImpl ctx args =
     bindM (nthM args 0) (\<lambda>a0.
     bindM (portRange a0) (\<lambda>(mn, mx).
     bindM (checkPorts mn mx) (\<lambda>_.
     bindM (nthM args 1) (\<lambda>a1.
     bindM (flattenLabel ctx [a1]) (\<lambda>fromLabels.
     bindM (flattenLabel ctx (drop 2 args)) (\<lambda>toLabels.
     bindM (forM fromLabels (\<lambda>from. forM toLabels (\<lambda>to. connectPair ctx mn mx (fst from) (fst to)))) (\<lambda>_.
     retM (AList []))))))))"

definition atomLabels :: "st \<Rightarrow> atom \<Rightarrow> string list" where
  "atomLabels s a = (case a of
     MachineP p \<Rightarrow> am_labels (machineObjs s ! p) | ContainerP p \<Rightarrow> ac_labels (containerObjs s ! p))"

definition SetLabels :: "atom \<Rightarrow> string list \<Rightarrow> st \<Rightarrow> st" where
  "SetLabels a ls s = (case a of
     MachineP p \<Rightarrow> s\<lparr>machineObjs := (machineObjs s)[p := (machineObjs s ! p)\<lparr>am_labels := ls\<rparr>]\<rparr>
   | ContainerP p \<Rightarrow> s\<lparr>containerObjs := (containerObjs s)[p := (containerObjs s ! p)\<lparr>ac_labels := ls\<rparr>]\<rparr>)"

definition addLabel :: "string \<Rightarrow> atom \<Rightarrow> unit M" where
  "addLabel label a = modM (\<lambda>s. let labels = atomLabels s a in
     if labels \<noteq> [] \<and> last labels = label then s else SetLabels a (labels @ [label]) s)"

definition logM :: "string \<Rightarrow> string \<Rightarrow> unit M" where
  "logM level msg = modM (\<lambda>s. s\<lparr>logged := logged s @ [(level, msg)]\<rparr>)"

definition labelAtoms :: "evalCtx \<Rightarrow> ast \<Rightarrow> atom list M" where
  "labelAtoms ctx elem =
     (case asAtom elem of
        Some a \<Rightarrow> retM [a]
      | None \<Rightarrow>
          if asStr elem \<noteq> None \<or> asLabel elem \<noteq> None then
            bindM (getM (resolveLabel ctx elem)) (\<lambda>r. case r of
              None \<Rightarrow> errM ''undefined label: %s'' [elem] | Some l \<Rightarrow> retM (snd l))
          else errM ''label must apply to atoms or other labels, found: %s'' [elem])"

definition defineLabel :: "evalCtx \<Rightarrow> string \<Rightarrow> atom list \<Rightarrow> unit M" where
  "defineLabel ctx label atoms =
     (let r = labelsR (globalCtx ctx) in
      modM (\<lambda>s. s\<lparr>labelsH := (labelsH s)[r := gput label (label, atoms) (labelsH s ! r)]\<rparr>))"

definition labelImpl :: "evalCtx \<Rightarrow> ast list \<Rightarrow> ast M" where
  "labelImpl ctx args =
     bindM (nthM args 0) (\<lambda>a0. case asStr a0 of
       None \<Rightarrow> errM ''label must be a string, found: %s'' [a0]
     | Some label \<Rightarrow>
         bindM (if label \<noteq> map toLower label
                then logM ''error'' ''Labels must be lowercase, sorry! https://github.com/docker/swarm/issues/1795''
                else retM ()) (\<lambda>_.
         if label = PublicInternetLabel
         then errM ''the \"public\" label is reserved for the public internet'' []
         else bindM (getM (resolveLabel ctx a0)) (\<lambda>r.
           if r \<noteq> None then raiseM (Errorf ''attempt to redefine label: %s'' [Txt label])
           else bindM (mapM (labelAtoms ctx) (flatten (drop 1 args))) (\<lambda>atomss.
             let atoms = concat atomss in
             bindM (forM atoms (addLabel label)) (\<lambda>_.
             bindM (defineLabel ctx label atoms) (\<lambda>_. retM (ALabel label atoms)))))))"

definition labelNameImpl :: "evalCtx \<Rightarrow> ast list \<Rightarrow> ast M" where
  "labelNameImpl ctx args = bindM (nthM args 0) (\<lambda>a. bindM (getM (resolveLabel ctx a)) (\<lambda>r. case r of
     None \<Rightarrow> errM ''labelName applies to labels: %s'' [a] | Some l \<Rightarrow> retM (AString (fst l))))"

definition labelHostImpl :: "evalCtx \<Rightarrow> ast list \<Rightarrow> ast M" where
  "labelHostImpl ctx args = bindM (nthM args 0) (\<lambda>a. bindM (getM (resolveLabel ctx a)) (\<lambda>r. case r of
     None \<Rightarrow> errM ''labelHost applies to labels: %s'' [a] | Some l \<Rightarrow> retM (AString (fst l @ ''.di''))))"

section \<open>Lists and maps\<close>

definition listImpl :: "ast list \<Rightarrow> ast M" where
  "listImpl args = retM (mkList args)"

primrec timesM :: "nat \<Rightarrow> 'a M \<Rightarrow> 'a list M" where
  "timesM 0 m = retM []"
| "timesM (Suc n) m = bindM m (\<lambda>x. bindM (timesM n m) (\<lambda>xs. retM (x # xs)))"

definition makeListImpl :: "evaluator \<Rightarrow> evalCtx \<Rightarrow> ast list \<Rightarrow> ast M" where
  "makeListImpl ev ctx args =
     bindM (nthM args 0) (\<lambda>a0. bindM (ev ctx a0) (\<lambda>e.
       case asInt e of
         None \<Rightarrow> errM ''makeList must begin with a positive integer, found: %s'' [a0]
       | Some cnt \<Rightarrow>
           if cnt < 0 then errM ''makeList must begin with a positive integer, found: %s'' [a0]
           else bindM (timesM (nat cnt) (bindM (nthM args 1) (ev ctx))) (\<lambda>xs. retM (mkList xs))))"

definition parseBinding :: "ast \<Rightarrow> (ast \<times> ast) M" where
  "parseBinding b = (case asSexp b of
     Some [k, v] \<Rightarrow> retM (k, v) | _ \<Rightarrow> errM ''binds must be exactly 2 arguments: %s'' [b])"

definition parseBindings :: "ast list \<Rightarrow> (ast \<times> ast) list M" where
  "parseBindings bindings = mapM parseBinding bindings"

text \<open>Map access with an interface key.\<close>

definition hashM :: "ast \<Rightarrow> unit M" where
  "hashM k = (if hashable k then retM () else panicM)"

definition hmapImpl :: "evaluator \<Rightarrow> evalCtx \<Rightarrow> ast list \<Rightarrow> ast M" where
  "hmapImpl ev ctx args =
     bindM (parseBindings args) (\<lambda>bindings.
       bindM (foldM (\<lambda>m (k, v). bindM (ev ctx k) (\<lambda>k'. bindM (ev ctx v) (\<lambda>v'.
                bindM (hashM k') (\<lambda>_. retM (gput k' v' m))))) [] bindings)
         (\<lambda>m. retM (AHmap m)))"

definition hmapArg :: "ast list \<Rightarrow> (ast, ast) gomap M" where
  "hmapArg args = bindM (nthM args 0) (\<lambda>a. case asHmap a of
     None \<Rightarrow> errM ''%s must be a hmap'' [a] | Some m \<Rightarrow> retM m)"

definition hmapSetImpl :: "ast list \<Rightarrow> ast M" where
  "hmapSetImpl args = bindM (hmapArg args) (\<lambda>m. bindM (nthM args 1) (\<lambda>k. bindM (nthM args 2) (\<lambda>v.
     bindM (hashM k) (\<lambda>_. retM (AHmap (gput k v m))))))"

definition hmapGetImpl :: "ast list \<Rightarrow> ast M" where
  "hmapGetImpl args = bindM (hmapArg args) (\<lambda>m. bindM (nthM args 1) (\<lambda>k. bindM (hashM k) (\<lambda>_.
     case gget m k of None \<Rightarrow> errM ''undefined key: %s'' [k] | Some v \<Rightarrow> retM v)))"

definition hmapContainsImpl :: "ast list \<Rightarrow> ast M" where
  "hmapContainsImpl args = bindM (hmapArg args) (\<lambda>m. bindM (nthM args 1) (\<lambda>k. bindM (hashM k) (\<lambda>_.
     retM (ABool (gget m k \<noteq> None)))))"

definition hmapKeysImpl :: "ast list \<Rightarrow> ast M" where
  "hmapKeysImpl args = bindM (hmapArg args) (\<lambda>m. retM (mkList (map fst m)))"

definition hmapValuesImpl :: "ast list \<Rightarrow> ast M" where
  "hmapValuesImpl args = bindM (hmapArg args) (\<lambda>m. retM (mkList (map snd m)))"

definition lenImpl :: "ast list \<Rightarrow> ast M" where
  "lenImpl args = bindM (nthM args 0) (\<lambda>a. case asList a of
     None \<Rightarrow> errM ''len applies to lists: %s'' [a] | Some xs \<Rightarrow> retM (AInt (int (length xs))))"

definition carImpl :: "ast list \<Rightarrow> ast M" where
  "carImpl args = bindM (nthM args 0) (\<lambda>a. case asList a of
     Some (x # xs) \<Rightarrow> retM x | _ \<Rightarrow> errM ''car applies to populated lists: %s'' [a])"

definition cdrImpl :: "ast list \<Rightarrow> ast M" where
  "cdrImpl args = bindM (nthM args 0) (\<lambda>a. case asList a of
     Some (x # xs) \<Rightarrow> retM (AList xs) | _ \<Rightarrow> errM ''cdr applies to populated lists: %s'' [a])"

definition consImpl :: "ast list \<Rightarrow> ast M" where
  "consImpl args = bindM (nthM args 0) (\<lambda>a. bindM (nthM args 1) (\<lambda>l. case asList l of
     None \<Rightarrow> errM ''cons applies to lists: %s'' [a] | Some xs \<Rightarrow> retM (AList (a # xs))))"

definition nthImpl :: "ast list \<Rightarrow> ast M" where
  "nthImpl args = bindM (nthM args 0) (\<lambda>a. case asInt a of
     None \<Rightarrow> errM ''nth list index must be an int: %s'' [a]
   | Some i \<Rightarrow> bindM (nthM args 1) (\<lambda>l. case asList l of
       None \<Rightarrow> errM ''nth applies to lists: %s'' [l]
     | Some xs \<Rightarrow>
         if i < 0 \<or> i \<ge> int (length xs) then errM ''array index out of bounds: %d'' [a]
         else retM (xs ! nat i)))"

section \<open>Formatting and logging\<close>

text \<open>
  \<open>fmt.Sprintf\<close> for the verbs \<open>%s\<close>, \<open>%v\<close>, \<open>%d\<close> and \<open>%%\<close>, with the notes it prints for a wrong verb, a
  missing and an extra argument; flags, widths and the remaining verbs are not modelled.
\<close>

datatype fmtArg = FStr string | FInt int | FVal string string

fun typeName :: "ast \<Rightarrow> string" where
  "typeName (ALambda _ _ _) = ''dsl.astLambda''"
| "typeName (ARange _ _ _) = ''dsl.astRange''"
| "typeName ANil = ''dsl.astList''"
| "typeName (AList _) = ''dsl.astList''"
| "typeName (AHmap _) = ''dsl.astHmap''"
| "typeName (ASexp _ _) = ''dsl.astSexp''"
| "typeName (ALabel _ _) = ''dsl.astLabel''"
| "typeName (ARoot _) = ''dsl.astRoot''"
| "typeName (AModule _ _) = ''dsl.astModule''"
| "typeName (AIdent _) = ''dsl.astIdent''"
| "typeName (AString _) = ''dsl.astString''"
| "typeName (AFloat _) = ''dsl.astFloat''"
| "typeName (AInt _) = ''dsl.astInt''"
| "typeName (ABool _) = ''dsl.astBool''"
| "typeName (AKey (GithubKey _)) = ''dsl.astGithubKey''"
| "typeName (AKey (PlaintextKey _)) = ''dsl.astPlaintextKey''"
| "typeName (ASize _) = ''dsl.astSize''"
| "typeName (AProvider _) = ''dsl.astProvider''"
| "typeName (ARole _) = ''dsl.astRole''"
| "typeName (ARegion _) = ''dsl.astRegion''"
| "typeName (ADiskSize _) = ''dsl.astDiskSize''"
| "typeName (AAtom (MachineP _)) = ''*dsl.astMachine''"
| "typeName (AAtom (ContainerP _)) = ''*dsl.astContainer''"

fun argType :: "fmtArg \<Rightarrow> string" where
  "argType (FStr _) = ''string''" | "argType (FInt _) = ''int''" | "argType (FVal t _) = t"

fun argText :: "fmtArg \<Rightarrow> string" where
  "argText (FStr x) = x" | "argText (FInt i) = itoa i" | "argText (FVal _ x) = x"

definition badVerb :: "char \<Rightarrow> fmtArg \<Rightarrow> string" where
  "badVerb c a = ''%!'' @ [c] @ ''('' @ argType a @ ''='' @ argText a @ '')''"

fun verb :: "char \<Rightarrow> fmtArg \<Rightarrow> string" where
  "verb c (FInt i) = (if c = CHR ''d'' \<or> c = CHR ''v'' then itoa i else badVerb c (FInt i))"
| "verb c a = (if c = CHR ''s'' \<or> c = CHR ''v'' then argText a else badVerb c a)"

definition extraArgs :: "fmtArg list \<Rightarrow> string" where
  "extraArgs args = (if args = [] then '''' else
     ''%!(EXTRA '' @ joinStr '', '' (map (\<lambda>a. argType a @ ''='' @ argText a) args) @ '')'')"

fun goSprintf :: "string \<Rightarrow> fmtArg list \<Rightarrow> string" where
  "goSprintf [] args = extraArgs args"
| "goSprintf [c] args = (if c = CHR ''%'' then ''%!(NOVERB)'' else [c]) @ extraArgs args"
| "goSprintf (c # d # fmt) args =
     (if c \<noteq> CHR ''%'' then c # goSprintf (d # fmt) args
      else if d = CHR ''%'' then CHR ''%'' # goSprintf fmt args
      else (case args of
          [] \<Rightarrow> ''%!'' @ [d] @ ''(MISSING)'' @ goSprintf fmt []
        | a # as \<Rightarrow> verb d a @ goSprintf fmt as))"

definition toFmtArg :: "st \<Rightarrow> ast \<Rightarrow> fmtArg" where
  "toFmtArg s a =
     (case asStr a of
        Some x \<Rightarrow> FStr x
      | None \<Rightarrow> (case asInt a of Some i \<Rightarrow> FInt i | None \<Rightarrow> FVal (typeName a) (ast_String s a)))"

definition sprintfImpl :: "ast list \<Rightarrow> ast M" where
  "sprintfImpl args =
     bindM (nthM args 0) (\<lambda>a0. case asStr a0 of
       None \<Rightarrow> errM ''sprintf format must be a string: %s'' [a0]
     | Some fmt \<Rightarrow> bindM (getM (\<lambda>s. map (toFmtArg s) (drop 1 args))) (\<lambda>as. retM (AString (goSprintf fmt as))))"

definition logImpl :: "ast list \<Rightarrow> ast M" where
  "logImpl args =
     bindM (nthM args 0) (\<lambda>a0. bindM (nthM args 1) (\<lambda>a1.
       case asStr a0 of
         None \<Rightarrow> errM (''log level must be a string: %s'' @ [CHR 0x0A]) [AString '''']
       | Some level \<Rightarrow> (case asStr a1 of
             None \<Rightarrow> errM (''log message must be a string: %s'' @ [CHR 0x0A]) [a1]
           | Some msg \<Rightarrow>
               if level \<in> {''print'', ''debug'', ''info'', ''warn'', ''error''}
               then bindM (logM level msg) (\<lambda>_. retM (AList []))
               else errM ''log level must be one of [print, info, debug, warn, error]: %s'' [a0])))"

text \<open>The error message for a wrong argument mentions \<open>args[1]\<close>, which need not exist.\<close>

definition panicImpl :: "ast list \<Rightarrow> ast M" where
  "panicImpl args =
     bindM (nthM args 0) (\<lambda>a0. case asStr a0 of
       None \<Rightarrow> bindM (nthM args 1) (\<lambda>a1. errM (''panic message must be a string: %s'' @ [CHR 0x0A]) [a1])
     | Some msg \<Rightarrow> raiseM (Errorf ''panic: runtime error: %s'' [Txt msg]))"

section \<open>Binding forms\<close>

definition lambdaImpl :: "evalCtx \<Rightarrow> ast list \<Rightarrow> ast M" where
  "lambdaImpl ctx args =
     bindM (nthM args 0) (\<lambda>a0. case asSexp a0 of
       None \<Rightarrow> errM ''lambda functions must define an argument list'' []
     | Some rawArgNames \<Rightarrow>
         bindM (mapM (\<lambda>argName. case asIdent argName of
             None \<Rightarrow> errM ''lambda argument names must be idents'' [] | Some i \<Rightarrow> retM i) rawArgNames) (\<lambda>argNames.
         bindM (deepCopy ctx) (\<lambda>ctx'. retM (ALambda argNames (drop 1 args) ctx'))))"

definition defineName :: "evalCtx \<Rightarrow> astIdent \<Rightarrow> ast \<Rightarrow> ast M" where
  "defineName ctx i v =
     bindM (getM (\<lambda>s. gget (bindsH s ! bindsR ctx) i)) (\<lambda>old.
       if old \<noteq> None then errM ''attempt to redefine: \"%s\"'' [AIdent i]
       else bindM (setBind ctx i v) (\<lambda>_. retM (AList [])))"

definition defineImpl :: "evaluator \<Rightarrow> evalCtx \<Rightarrow> ast list \<Rightarrow> ast M" where
  "defineImpl ev ctx args =
     bindM (nthM args 0) (\<lambda>a0.
       case asSexp a0 of
         Some [] \<Rightarrow> errM ''define function must begin with a name'' []
       | Some (f # params) \<Rightarrow> (case asIdent f of
             None \<Rightarrow> errM ''define name must be an ident: %v'' [f]
           | Some i \<Rightarrow> bindM (lambdaImpl ctx (ASexp params noPos # drop 1 args)) (defineName ctx i))
       | None \<Rightarrow> (case asIdent a0 of
             None \<Rightarrow> errM ''define name must be an ident: %v'' [a0]
           | Some i \<Rightarrow>
               if length args > 2 then errM ''not enough arguments: %s'' [a0]
               else bindM (nthM args 1) (\<lambda>a1. bindM (ev ctx a1) (defineName ctx i))))"

fun letBinds :: "evaluator \<Rightarrow> evalCtx \<Rightarrow> (ast \<times> ast) list \<Rightarrow> (astIdent \<times> ast) list M" where
  "letBinds ev bindCtx [] = retM []"
| "letBinds ev bindCtx ((k, v) # ps) =
     (case asIdent k of
        None \<Rightarrow> errM ''bind name must be an ident: %s'' [k]
      | Some i \<Rightarrow> bindM (ev bindCtx v) (\<lambda>x. bindM (setBind bindCtx i x) (\<lambda>_.
          bindM (letBinds ev bindCtx ps) (\<lambda>r. retM ((i, x) # r)))))"

definition letImpl :: "evaluator \<Rightarrow> evalCtx \<Rightarrow> ast list \<Rightarrow> ast M" where
  "letImpl ev ctx args =
     bindM (nthM args 0) (\<lambda>a0. case asSexp a0 of
       None \<Rightarrow> errM ''let binds must be defined in an S-expression'' []
     | Some bindingsRaw \<Rightarrow>
         bindM (parseBindings bindingsRaw) (\<lambda>bindings.
         bindM (newEvalCtx (Some ctx)) (\<lambda>bindCtx.
         bindM (letBinds ev bindCtx bindings) (\<lambda>nvs.
           let body = (if 1 < length args then drop 1 args else [AList []]) in
           ev ctx (ASexp (ALambda (map fst nvs) body ctx # map snd nvs) noPos)))))"

section \<open>Control\<close>

definition boolImpl :: "ast list \<Rightarrow> ast M" where
  "boolImpl args = bindM (nthM args 0) (\<lambda>a. retM (ABool (toBool a)))"

definition ifImpl :: "evaluator \<Rightarrow> evalCtx \<Rightarrow> ast list \<Rightarrow> ast M" where
  "ifImpl ev ctx args =
     bindM (nthM args 0) (\<lambda>a0. bindM (ev ctx a0) (\<lambda>p.
       if toBool p then bindM (nthM args 1) (ev ctx)
       else if length args = 2 then retM (AList [])
       else bindM (nthM args 2) (ev ctx)))"

fun andImpl :: "evaluator \<Rightarrow> evalCtx \<Rightarrow> ast list \<Rightarrow> ast M" where
  "andImpl ev ctx [] = retM (ABool True)"
| "andImpl ev ctx (a # as) = bindM (ev ctx a) (\<lambda>p. if \<not> toBool p then retM (ABool False) else andImpl ev ctx as)"

fun orImpl :: "evaluator \<Rightarrow> evalCtx \<Rightarrow> ast list \<Rightarrow> ast M" where
  "orImpl ev ctx [] = retM (ABool False)"
| "orImpl ev ctx (a # as) = bindM (ev ctx a) (\<lambda>p. if toBool p then retM (ABool True) else orImpl ev ctx as)"

definition notImpl :: "evaluator \<Rightarrow> evalCtx \<Rightarrow> ast list \<Rightarrow> ast M" where
  "notImpl ev ctx args = bindM (nthM args 0) (\<lambda>a. bindM (ev ctx a) (\<lambda>p. retM (ABool (\<not> toBool p))))"

definition applyImpl :: "evaluator \<Rightarrow> evalCtx \<Rightarrow> ast list \<Rightarrow> ast M" where
  "applyImpl ev ctx args =
     bindM (nthM args 1) (\<lambda>l. case asList l of
       None \<Rightarrow> errM ''apply requires a lists: %s'' [l]
     | Some xs \<Rightarrow> bindM (nthM args 0) (\<lambda>f. ev ctx (ASexp (f # xs) noPos)))"

definition importImpl :: "ast M" where
  "importImpl = errM ''import must be begin the module'' []"

definition moduleImpl :: "evaluator \<Rightarrow> evalCtx \<Rightarrow> ast list \<Rightarrow> ast M" where
  "moduleImpl ev ctx args =
     bindM (nthM args 0) (\<lambda>a0. bindM (ev ctx a0) (\<lambda>n. case asStr n of
       None \<Rightarrow> errM ''module name must be a string: %s'' [n]
     | Some name \<Rightarrow> ev ctx (AModule name (drop 1 args))))"

definition prognImpl :: "ast list \<Rightarrow> ast M" where
  "prognImpl args = (if args = [] then panicM else retM (last args))"

section \<open>Higher-order functions\<close>

definition mapImpl :: "evaluator \<Rightarrow> evalCtx \<Rightarrow> ast list \<Rightarrow> ast M" where
  "mapImpl ev ctx args =
     bindM (mapM (\<lambda>a. case asList a of
         None \<Rightarrow> errM ''map applies to list: %s'' [a] | Some xs \<Rightarrow> retM xs) (drop 1 args)) (\<lambda>lists.
     bindM (nthM lists 0) (\<lambda>l0.
       if list_all (\<lambda>l. length l = length l0) lists
       then bindM (nthM args 0) (\<lambda>f.
         bindM (mapM (\<lambda>i. ev ctx (ASexp (f # map (\<lambda>l. l ! i) lists) noPos)) [0..<length l0])
           (\<lambda>ys. retM (mkList ys)))
       else errM ''unbalanced lists'' []))"

definition reduceImpl :: "evaluator \<Rightarrow> evalCtx \<Rightarrow> ast list \<Rightarrow> ast M" where
  "reduceImpl ev ctx args =
     bindM (nthM args 0) (\<lambda>f. bindM (nthM args 1) (\<lambda>l. case asList l of
       None \<Rightarrow> errM ''reduce applies to lists: %s'' [l]
     | Some xs \<Rightarrow> (case xs of
           x # y # ys \<Rightarrow> foldM (\<lambda>res item. ev ctx (ASexp [f, res, item] noPos)) x (y # ys)
         | _ \<Rightarrow> errM ''not enough elements to reduce: %s'' [l])))"

text \<open>
  The loop of \<open>range\<close>.  Without wrap-around it runs at most \<open>stop - start\<close> times; if \<open>i += step\<close> wraps
  around, the Go loop never ends, and the model runs out of fuel.
\<close>

fun rangeLoop :: "nat \<Rightarrow> int \<Rightarrow> int \<Rightarrow> int \<Rightarrow> int list option" where
  "rangeLoop n i stop step =
     (if i < stop then
        (case n of 0 \<Rightarrow> None | Suc n' \<Rightarrow> map_option ((#) i) (rangeLoop n' (wrap64 (i + step)) stop step))
      else Some [])"

declare rangeLoop.simps [simp del]

definition rangeImpl :: "ast list \<Rightarrow> ast M" where
  "rangeImpl args =
     bindM (mapM (\<lambda>arg. case asInt arg of
         None \<Rightarrow> errM ''range arguments must be integers: %v'' [arg] | Some i \<Rightarrow> retM i) args) (\<lambda>ints.
     bindM (case ints of
         [stop] \<Rightarrow> retM (0, stop, 1)
       | [start, stop] \<Rightarrow> retM (start, stop, 1)
       | [start, stop, step] \<Rightarrow> retM (start, stop, step)
       | _ \<Rightarrow> errM ''range expects 1, 2 or 3 arguments, found: %d'' [AInt (int (length args))])
     (\<lambda>(start, stop, step).
       if step \<le> 0 then errM ''step must be greater than zero'' []
       else (case rangeLoop (nat (stop - start)) start stop step of
           None \<Rightarrow> timeoutM | Some is \<Rightarrow> retM (mkList (map AInt is)))))"

end
