(* ===== verification/Dsl_Eval.thy ===== *)
theory Dsl_Eval
  imports Dsl_Func
begin

text \<open>
  The evaluator (\<open>src/dsl/eval.go\<close>).  Policies can recurse without bound, so \<open>eval\<close> takes fuel, the
  depth to which Go's call stack of \<open>eval\<close> methods may grow; \<open>Timeout\<close> says it did not suffice.
\<close>

section \<open>The table of builtins\<close>

record funcImpl =
  doF :: "evalCtx \<Rightarrow> ast list \<Rightarrow> ast M"
  minArgs :: nat
  lazy :: bool

definition mkImpl :: "(evalCtx \<Rightarrow> ast list \<Rightarrow> ast M) \<Rightarrow> nat \<Rightarrow> bool \<Rightarrow> funcImpl" where
  "mkImpl f n l = \<lparr>doF = f, minArgs = n, lazy = l\<rparr>"

definition funcImplMap :: "nat \<Rightarrow> evaluator \<Rightarrow> (astIdent, funcImpl) gomap" where
  "funcImplMap n ev =
    [(''!'', mkImpl (notImpl ev) 1 False),
     (''%'', mkImpl (\<lambda>_. arithFun modOp) 2 False),
     (''*'', mkImpl (\<lambda>_. arithFun mulOp) 2 False),
     (''+'', mkImpl (\<lambda>_. plusImpl) 2 False),
     (''-'', mkImpl (\<lambda>_. arithFun subOp) 2 False),
     (''/'', mkImpl (\<lambda>_. arithFun divOp) 2 False),
     (''<'', mkImpl (\<lambda>_. compareFun (<)) 2 False),
     (''='', mkImpl (\<lambda>_. eqImpl n) 2 False),
     (''>'', mkImpl (\<lambda>_. compareFun (>)) 2 False),
     (''and'', mkImpl (andImpl ev) 1 True),
     (''apply'', mkImpl (applyImpl ev) 2 False),
     (''bool'', mkImpl (\<lambda>_. boolImpl) 1 False),
     (''car'', mkImpl (\<lambda>_. carImpl) 1 False),
     (''cdr'', mkImpl (\<lambda>_. cdrImpl) 1 False),
     (''connect'', mkImpl connectImpl 3 False),
     (''cons'', mkImpl (\<lambda>_. consImpl) 2 False),
     (''cpu'', mkImpl (\<lambda>_. rangeTypeImpl ''cpu'') 1 False),
     (''define'', mkImpl (defineImpl ev) 2 True),
     (''diskSize'', mkImpl (\<lambda>_. diskSizeImpl) 1 False),
     (''docker'', mkImpl dockerImpl 1 False),
     (''githubKey'', mkImpl (\<lambda>_. githubKeyImpl) 1 False),
     (''hmap'', mkImpl (hmapImpl ev) 0 True),
     (''hmapGet'', mkImpl (\<lambda>_. hmapGetImpl) 2 False),
     (''hmapContains'', mkImpl (\<lambda>_. hmapContainsImpl) 2 False),
     (''hmapSet'', mkImpl (\<lambda>_. hmapSetImpl) 3 False),
     (''hmapKeys'', mkImpl (\<lambda>_. hmapKeysImpl) 1 False),
     (''hmapValues'', mkImpl (\<lambda>_. hmapValuesImpl) 1 False),
     (''if'', mkImpl (ifImpl ev) 2 True),
     (''import'', mkImpl (\<lambda>_ _. importImpl) 1 True),
     (''label'', mkImpl labelImpl 2 False),
     (''labelName'', mkImpl labelNameImpl 1 False),
     (''labelHost'', mkImpl labelHostImpl 1 False),
     (''lambda'', mkImpl lambdaImpl 2 True),
     (''let'', mkImpl (letImpl ev) 1 True),
     (''len'', mkImpl (\<lambda>_. lenImpl) 1 False),
     (''log'', mkImpl (\<lambda>_. logImpl) 2 False),
     (''list'', mkImpl (\<lambda>_. listImpl) 0 False),
     (''machine'', mkImpl machineImpl 0 False),
     (''machineAttribute'', mkImpl (\<lambda>_. machineAttributeImpl) 2 False),
     (''makeList'', mkImpl (makeListImpl ev) 2 True),
     (''map'', mkImpl (mapImpl ev) 2 False),
     (''module'', mkImpl (moduleImpl ev) 2 True),
     (''nth'', mkImpl (\<lambda>_. nthImpl) 2 False),
     (''or'', mkImpl (orImpl ev) 1 True),
     (''placement'', mkImpl placementImpl 2 False),
     (''plaintextKey'', mkImpl (\<lambda>_. plaintextKeyImpl) 1 False),
     (''panic'', mkImpl (\<lambda>_. panicImpl) 1 False),
     (''progn'', mkImpl (\<lambda>_. prognImpl) 1 False),
     (''provider'', mkImpl (\<lambda>_. providerImpl) 1 False),
     (''reduce'', mkImpl (reduceImpl ev) 2 False),
     (''region'', mkImpl (\<lambda>_. regionImpl) 1 False),
     (''ram'', mkImpl (\<lambda>_. rangeTypeImpl ''ram'') 1 False),
     (''range'', mkImpl (\<lambda>_. rangeImpl) 1 False),
     (''role'', mkImpl (\<lambda>_. roleImpl) 1 False),
     (''setEnv'', mkImpl setEnvImpl 3 False),
     (''size'', mkImpl (\<lambda>_. sizeImpl) 1 False),
     (''sprintf'', mkImpl (\<lambda>_. sprintfImpl) 1 False)]"

text \<open>Whether a name is a builtin does not depend on the evaluator.\<close>

definition isBuiltin :: "astIdent \<Rightarrow> bool" where
  "isBuiltin i \<longleftrightarrow> i \<in> fst ` set (funcImplMap 0 (\<lambda>_ _. timeoutM))"

section \<open>Evaluation\<close>

definition evalLambda :: "evaluator \<Rightarrow> astIdent list \<Rightarrow> ast list \<Rightarrow> evalCtx \<Rightarrow> ast list \<Rightarrow> ast M" where
  "evalLambda ev argNames body parentCtx funcArgs =
     (if length argNames \<noteq> length funcArgs
      then raiseM (Errorf ''bad number of arguments: %s %s'' [Vals (map AIdent argNames), Vals funcArgs])
      else bindM (newEvalCtx (Some parentCtx)) (\<lambda>fnCtx.
        bindM (forM (zip argNames funcArgs) (\<lambda>(i, a). bindM (ev parentCtx a) (setBind fnCtx i))) (\<lambda>_.
        bindM (evalList ev fnCtx body) (\<lambda>result.
          if result = [] then panicM else retM (last result)))))"

definition callBuiltin :: "nat \<Rightarrow> evaluator \<Rightarrow> evalCtx \<Rightarrow> Position \<Rightarrow> astIdent \<Rightarrow> ast list \<Rightarrow> ast M" where
  "callBuiltin n ev ctx p fn args =
     (case gget (funcImplMap n ev) fn of
        None \<Rightarrow> bindM (evalList ev ctx args) (\<lambda>_. panicM)
      | Some impl \<Rightarrow>
          if length args < minArgs impl
          then raiseM (DslError p (Errorf ''not enough arguments: %s'' [Val (AIdent fn)]))
          else wrapM p (bindM (if lazy impl then retM args else evalList ev ctx args) (doF impl ctx)))"

text \<open>A failing lookup of the function name is reported as an unknown function.\<close>

definition evalHead :: "evaluator \<Rightarrow> evalCtx \<Rightarrow> Position \<Rightarrow> ast \<Rightarrow> ast M" where
  "evalHead ev ctx p h s =
     (case ev ctx h s of
        Raise e \<Rightarrow> if asIdent h \<noteq> None then Raise (DslError p (Errorf ''unknown function: %s'' [Val h])) else Raise e
      | r \<Rightarrow> r)"

definition evalSexp :: "nat \<Rightarrow> evaluator \<Rightarrow> evalCtx \<Rightarrow> ast list \<Rightarrow> Position \<Rightarrow> ast M" where
  "evalSexp n ev ctx sexp p =
     (case sexp of
        [] \<Rightarrow> raiseM (DslError p (Errorf ''S-expressions must start with a function call: %s'' [Val (ASexp sexp p)]))
      | h # args \<Rightarrow>
          bindM (evalHead ev ctx p h) (\<lambda>first.
            case asIdent first of
              Some fn \<Rightarrow> callBuiltin n ev ctx p fn args
            | None \<Rightarrow> (case asLambda first of
                Some (argNames, body, lctx) \<Rightarrow>
                  wrapM p (bindM (evalList ev ctx args) (evalLambda ev argNames body lctx))
              | None \<Rightarrow> raiseM (DslError p (Errorf ''S-expressions must start with a function call: %s'' [Val first])))))"

definition evalIdent :: "evalCtx \<Rightarrow> astIdent \<Rightarrow> ast M" where
  "evalIdent ctx i = (if isBuiltin i then retM (AIdent i) else lookupIdent ctx i)"

fun exportBinds :: "evalCtx \<Rightarrow> string \<Rightarrow> (astIdent \<times> ast) list \<Rightarrow> unit M" where
  "exportBinds ctx name [] = retM ()"
| "exportBinds ctx name ((k, v) # bs) =
     (if shouldExport k then bindM (setBind ctx (name @ ''.'' @ k) v) (\<lambda>_. exportBinds ctx name bs)
      else exportBinds ctx name bs)"

definition withBinds :: "evalCtx \<Rightarrow> nat \<Rightarrow> evalCtx" where
  "withBinds ctx b = (case ctx of EvalCtx _ l c m k par \<Rightarrow> EvalCtx b l c m k par)"

definition evalModule :: "evaluator \<Rightarrow> evalCtx \<Rightarrow> string \<Rightarrow> ast list \<Rightarrow> ast M" where
  "evalModule ev ctx name body =
     bindM (deepCopy (globalCtx ctx)) (\<lambda>g.
     bindM (allocBinds []) (\<lambda>b.
     bindM (newEvalCtx (Some (withBinds g b))) (\<lambda>importCtx.
     bindM (evalList ev importCtx body) (\<lambda>res.
     bindM (getM (\<lambda>s. bindsH s ! bindsR importCtx)) (\<lambda>bs.
     bindM (exportBinds ctx name bs) (\<lambda>_. retM (AModule name res)))))))"

definition evalStep :: "nat \<Rightarrow> evaluator \<Rightarrow> evaluator" where
  "evalStep n ev ctx a =
     (case a of
        ARoot xs \<Rightarrow> bindM (evalList ev ctx xs) (\<lambda>ys. retM (ARoot ys))
      | ANil \<Rightarrow> retM (AList [])
      | AList xs \<Rightarrow> bindM (evalList ev ctx xs) (\<lambda>ys. retM (AList ys))
      | ASexp xs p \<Rightarrow> evalSexp n ev ctx xs p
      | AIdent i \<Rightarrow> evalIdent ctx i
      | AModule name body \<Rightarrow> evalModule ev ctx name body
      | _ \<Rightarrow> retM a)"

primrec evalAst :: "nat \<Rightarrow> evaluator" where
  "evalAst 0 = (\<lambda>ctx a. timeoutM)"
| "evalAst (Suc n) = evalStep n (evalAst n)"

text \<open>\<open>eval\<close>: a fresh global context, evaluated into.\<close>

definition eval :: "nat \<Rightarrow> ast \<Rightarrow> (ast \<times> evalCtx) M" where
  "eval n parsed = bindM (newEvalCtx None) (\<lambda>g. bindM (evalAst n g parsed) (\<lambda>r. retM (r, g)))"

end
