(* ===== verification/Dsl_Inv.thy ===== *)
theory Dsl_Inv
  imports Dsl_Eval
begin

text \<open>
  The invariant of the evaluator's heap, and a small Hoare logic to prove that every builtin, and so
  every policy, keeps it.  \<open>st_inv\<close> says that no value holds a dangling pointer and that everything
  the queries of \<open>Dsl\<close> read is well formed: connections have valid port ranges, labels are stored
  under their own name, containers hold strings.  \<open>grown\<close> says how a heap may grow: declared
  containers, machines, connections and labels never go away.
\<close>

section \<open>Well-formed values\<close>

fun wf_ctx :: "st \<Rightarrow> evalCtx \<Rightarrow> bool" where
  "wf_ctx s (EvalCtx b l c m k par) \<longleftrightarrow>
     b < length (bindsH s) \<and> l < length (labelsH s) \<and> c < length (connsH s) \<and>
     m < length (machsH s) \<and> k < length (contsH s) \<and> (case par of None \<Rightarrow> True | Some p \<Rightarrow> wf_ctx s p)"

fun wf_atom :: "st \<Rightarrow> atom \<Rightarrow> bool" where
  "wf_atom s (MachineP p) \<longleftrightarrow> p < length (machineObjs s)"
| "wf_atom s (ContainerP p) \<longleftrightarrow> p < length (containerObjs s)"

primrec wf_ast :: "st \<Rightarrow> ast \<Rightarrow> bool" where
  "wf_ast s (ALambda args body c) \<longleftrightarrow> wf_ctx s c \<and> list_all id (map (wf_ast s) body)"
| "wf_ast s (ARange i mn mx) \<longleftrightarrow> True"
| "wf_ast s ANil \<longleftrightarrow> True"
| "wf_ast s (AList xs) \<longleftrightarrow> list_all id (map (wf_ast s) xs)"
| "wf_ast s (AHmap kvs) \<longleftrightarrow> list_all (\<lambda>(a, b). a \<and> b) (map (map_prod (wf_ast s) (wf_ast s)) kvs)"
| "wf_ast s (ASexp xs p) \<longleftrightarrow> list_all id (map (wf_ast s) xs)"
| "wf_ast s (ALabel i as) \<longleftrightarrow> list_all (wf_atom s) as"
| "wf_ast s (ARoot xs) \<longleftrightarrow> list_all id (map (wf_ast s) xs)"
| "wf_ast s (AModule n xs) \<longleftrightarrow> list_all id (map (wf_ast s) xs)"
| "wf_ast s (AIdent i) \<longleftrightarrow> True"
| "wf_ast s (AString x) \<longleftrightarrow> True"
| "wf_ast s (AFloat x) \<longleftrightarrow> True"
| "wf_ast s (AInt x) \<longleftrightarrow> True"
| "wf_ast s (ABool b) \<longleftrightarrow> True"
| "wf_ast s (AKey k) \<longleftrightarrow> True"
| "wf_ast s (ASize x) \<longleftrightarrow> True"
| "wf_ast s (AProvider x) \<longleftrightarrow> True"
| "wf_ast s (ARole x) \<longleftrightarrow> True"
| "wf_ast s (ARegion x) \<longleftrightarrow> True"
| "wf_ast s (ADiskSize x) \<longleftrightarrow> True"
| "wf_ast s (AAtom a) \<longleftrightarrow> wf_atom s a"

lemma list_all_id_map [simp]: "list_all id (map f xs) = list_all f xs"
  by (simp add: list_all_iff)

definition sz_le :: "st \<Rightarrow> st \<Rightarrow> bool" where
  "sz_le s s' \<longleftrightarrow> length (bindsH s) \<le> length (bindsH s') \<and> length (labelsH s) \<le> length (labelsH s') \<and>
     length (connsH s) \<le> length (connsH s') \<and> length (machsH s) \<le> length (machsH s') \<and>
     length (contsH s) \<le> length (contsH s') \<and> length (machineObjs s) \<le> length (machineObjs s') \<and>
     length (containerObjs s) \<le> length (containerObjs s')"

lemma sz_le_refl [simp]: "sz_le s s"
  by (simp add: sz_le_def)

lemma wf_ctx_sz: "sz_le s s' \<Longrightarrow> wf_ctx s c \<Longrightarrow> wf_ctx s' c"
proof (induction s c rule: wf_ctx.induct)
  case (1 s b l c m k par)
  then show ?case by (cases par) (auto simp: sz_le_def)
qed

lemma wf_atom_sz: "sz_le s s' \<Longrightarrow> wf_atom s a \<Longrightarrow> wf_atom s' a"
  by (cases a) (auto simp: sz_le_def)

lemma wf_ast_sz: "sz_le s s' \<Longrightarrow> wf_ast s v \<Longrightarrow> wf_ast s' v"
proof (induction v)
  case (AHmap kvs)
  then show ?case by (fastforce simp: list_all_iff)
qed (auto simp: list_all_iff intro: wf_ctx_sz wf_atom_sz)

text \<open>Source code, before it is evaluated, holds no pointers.\<close>

lemma wf_asList: "wf_ast s v \<Longrightarrow> asList v = Some xs \<Longrightarrow> list_all (wf_ast s) xs"
  by (cases v) auto

lemma wf_asSexp: "wf_ast s v \<Longrightarrow> asSexp v = Some xs \<Longrightarrow> list_all (wf_ast s) xs"
  by (cases v) auto

lemma wf_asHmap: "wf_ast s v \<Longrightarrow> asHmap v = Some m \<Longrightarrow> list_all (\<lambda>(k, x). wf_ast s k \<and> wf_ast s x) m"
  by (cases v) (auto simp: list_all_iff)

lemma wf_asLambda:
  "wf_ast s v \<Longrightarrow> asLambda v = Some (a, b, c) \<Longrightarrow> list_all (wf_ast s) b \<and> wf_ctx s c"
  by (cases v) auto

lemma wf_asAtom: "wf_ast s v \<Longrightarrow> asAtom v = Some a \<Longrightarrow> wf_atom s a"
  by (cases v) auto

lemma wf_asLabel: "wf_ast s v \<Longrightarrow> asLabel v = Some l \<Longrightarrow> list_all (wf_atom s) (snd l)"
  by (cases v) auto

lemma asMachineP_eq: "asMachineP v = Some p \<Longrightarrow> v = AAtom (MachineP p)"
  by (cases v rule: asMachineP.cases) auto

lemma asContainerP_eq: "asContainerP a = Some p \<Longrightarrow> a = ContainerP p"
  by (cases a) auto

lemma wf_mkList [simp]: "wf_ast s (mkList xs) \<longleftrightarrow> list_all (wf_ast s) xs"
  by (simp add: mkList_def)

lemma wf_flatten: "list_all (wf_ast s) xs \<Longrightarrow> list_all (wf_ast s) (flatten xs)"
  by (induction xs rule: flatten.induct) auto

lemma wf_globalCtx: "wf_ctx s c \<Longrightarrow> wf_ctx s (globalCtx c)"
  by (induction c rule: globalCtx.induct) auto

lemma wf_bindsR: "wf_ctx s c \<Longrightarrow> bindsR c < length (bindsH s)"
  by (cases c) auto

lemma wf_refs:
  assumes "wf_ctx s c"
  shows "bindsR c < length (bindsH s)" "labelsR c < length (labelsH s)" "connectionsR c < length (connsH s)"
    "machinesR c < length (machsH s)" "containersR c < length (contsH s)"
  using assms by (cases c, simp)+

section \<open>The invariant\<close>

definition conn_ok :: "dslConnection \<Rightarrow> bool" where
  "conn_ok c \<longleftrightarrow> 0 \<le> dc_MinPort c \<and> dc_MinPort c \<le> dc_MaxPort c \<and> dc_MaxPort c \<le> 65535 \<and>
     (dc_From c = PublicInternetLabel \<or> dc_To c = PublicInternetLabel \<longrightarrow> dc_MinPort c = dc_MaxPort c) \<and>
     \<not> (dc_From c = PublicInternetLabel \<and> dc_To c = PublicInternetLabel)"

definition cont_ok :: "astContainer \<Rightarrow> bool" where
  "cont_ok c \<longleftrightarrow> list_all (\<lambda>x. asStr x \<noteq> None) (ac_command c) \<and>
     list_all (\<lambda>(k, v). asStr k \<noteq> None \<and> asStr v \<noteq> None) (ac_env c) \<and> wf_gomap (ac_env c) \<and>
     list_all (\<lambda>(a, b). a \<le> b) (ac_Exclusive c) \<and> distinct (ac_Exclusive c)"

definition bindcell_ok :: "st \<Rightarrow> (astIdent, ast) gomap \<Rightarrow> bool" where
  "bindcell_ok s m \<longleftrightarrow> wf_gomap m \<and> (\<forall>i v. (i, v) \<in> set m \<longrightarrow> wf_ast s v)"

definition labelcell_ok :: "st \<Rightarrow> (string, string \<times> atom list) gomap \<Rightarrow> bool" where
  "labelcell_ok s m \<longleftrightarrow> wf_gomap m \<and>
     (\<forall>x i as. (x, i, as) \<in> set m \<longrightarrow> i = x \<and> x \<noteq> PublicInternetLabel \<and> list_all (wf_atom s) as)"

definition ptrcell_ok :: "nat \<Rightarrow> nat list \<Rightarrow> bool" where
  "ptrcell_ok n ps \<longleftrightarrow> list_all (\<lambda>p. p < n) ps"

definition binds_ok :: "st \<Rightarrow> bool" where
  "binds_ok s \<longleftrightarrow> list_all (bindcell_ok s) (bindsH s)"

definition labels_ok :: "st \<Rightarrow> bool" where
  "labels_ok s \<longleftrightarrow> list_all (labelcell_ok s) (labelsH s)"

definition conncell_ok :: "dslConnection list \<Rightarrow> bool" where
  "conncell_ok cs \<longleftrightarrow> distinct cs \<and> list_all conn_ok cs"

definition conns_ok :: "st \<Rightarrow> bool" where
  "conns_ok s \<longleftrightarrow> list_all conncell_ok (connsH s)"

definition ptrs_ok :: "st \<Rightarrow> bool" where
  "ptrs_ok s \<longleftrightarrow> list_all (ptrcell_ok (length (machineObjs s))) (machsH s) \<and>
     list_all (ptrcell_ok (length (containerObjs s))) (contsH s)"

definition st_inv :: "st \<Rightarrow> bool" where
  "st_inv s \<longleftrightarrow> binds_ok s \<and> labels_ok s \<and> conns_ok s \<and> ptrs_ok s \<and> list_all cont_ok (containerObjs s)"

text \<open>Heaps only grow; what was declared stays declared.\<close>

definition grown :: "st \<Rightarrow> st \<Rightarrow> bool" where
  "grown s s' \<longleftrightarrow> sz_le s s' \<and>
     (\<forall>l < length (labelsH s). \<forall>x v. gget (labelsH s ! l) x = Some v \<longrightarrow> gget (labelsH s' ! l) x = Some v) \<and>
     (\<forall>c < length (connsH s). set (connsH s ! c) \<subseteq> set (connsH s' ! c)) \<and>
     (\<forall>m < length (machsH s). \<exists>ps. machsH s' ! m = machsH s ! m @ ps) \<and>
     (\<forall>k < length (contsH s). \<exists>ps. contsH s' ! k = contsH s ! k @ ps) \<and>
     (\<forall>p < length (containerObjs s). ac_image (containerObjs s' ! p) = ac_image (containerObjs s ! p) \<and>
        ac_command (containerObjs s' ! p) = ac_command (containerObjs s ! p))"

lemma grown_sz: "grown s s' \<Longrightarrow> sz_le s s'"
  by (simp add: grown_def)

lemma grown_refl [simp]: "grown s s"
  by (simp add: grown_def)

lemma grown_trans [trans]:
  assumes "grown s1 s2" and "grown s2 s3" shows "grown s1 s3"
  unfolding grown_def
proof (intro conjI allI impI)
  have sz: "sz_le s1 s2" "sz_le s2 s3" using assms by (simp_all add: grown_sz)
  then show "sz_le s1 s3" by (auto simp: sz_le_def)
  note lens = sz [unfolded sz_le_def]
  show "gget (labelsH s3 ! l) x = Some v" if "l < length (labelsH s1)" "gget (labelsH s1 ! l) x = Some v" for l x v
    using assms that lens unfolding grown_def by (meson order_less_le_trans)
  show "set (connsH s1 ! c) \<subseteq> set (connsH s3 ! c)" if "c < length (connsH s1)" for c
    using assms that lens unfolding grown_def by (meson order_less_le_trans order_trans)
  show "\<exists>ps. machsH s3 ! m = machsH s1 ! m @ ps" if "m < length (machsH s1)" for m
    using assms that lens unfolding grown_def by (metis append_assoc order_less_le_trans)
  show "\<exists>ps. contsH s3 ! k = contsH s1 ! k @ ps" if "k < length (contsH s1)" for k
    using assms that lens unfolding grown_def by (metis append_assoc order_less_le_trans)
  show "ac_image (containerObjs s3 ! p) = ac_image (containerObjs s1 ! p)" if "p < length (containerObjs s1)" for p
    using assms that lens unfolding grown_def by (metis order_less_le_trans)
  show "ac_command (containerObjs s3 ! p) = ac_command (containerObjs s1 ! p)" if "p < length (containerObjs s1)" for p
    using assms that lens unfolding grown_def by (metis order_less_le_trans)
qed

lemmas wf_ast_mono = wf_ast_sz [OF grown_sz]
lemmas wf_ctx_mono = wf_ctx_sz [OF grown_sz]
lemmas wf_atom_mono = wf_atom_sz [OF grown_sz]

lemma wf_asts_mono: "grown s s' \<Longrightarrow> list_all (wf_ast s) xs \<Longrightarrow> list_all (wf_ast s') xs"
  by (auto simp: list_all_iff intro: wf_ast_mono)

lemma wf_atoms_mono: "grown s s' \<Longrightarrow> list_all (wf_atom s) xs \<Longrightarrow> list_all (wf_atom s') xs"
  by (auto simp: list_all_iff intro: wf_atom_mono)

section \<open>A Hoare logic\<close>

text \<open>\<open>ok s m Q\<close>: started in \<open>s\<close>, \<open>m\<close> keeps the invariant, only extends the heap, and its result satisfies \<open>Q\<close>.\<close>

definition ok :: "st \<Rightarrow> 'a M \<Rightarrow> (st \<Rightarrow> 'a \<Rightarrow> bool) \<Rightarrow> bool" where
  "ok s m Q \<longleftrightarrow> (st_inv s \<longrightarrow> (\<forall>x s'. m s = Return (x, s') \<longrightarrow> st_inv s' \<and> grown s s' \<and> Q s' x))"

abbreviation anyQ :: "st \<Rightarrow> 'a \<Rightarrow> bool" where
  "anyQ \<equiv> \<lambda>_ _. True"

named_theorems okI \<open>introduction rules of the Hoare logic\<close>

lemma ok_ret [okI]: "Q s x \<Longrightarrow> ok s (retM x) Q"
  by (simp add: ok_def retM_def)

lemma ok_raise [okI]: "ok s (raiseM e) Q"
  by (simp add: ok_def raiseM_def)

lemma ok_panic [okI]: "ok s panicM Q"
  by (simp add: ok_def panicM_def)

lemma ok_timeout [okI]: "ok s timeoutM Q"
  by (simp add: ok_def timeoutM_def)

lemma ok_inv: "(st_inv s \<Longrightarrow> ok s m Q) \<Longrightarrow> ok s m Q"
  by (simp add: ok_def)

lemma ok_weaken: "ok s m P \<Longrightarrow> (\<And>s' x. st_inv s' \<Longrightarrow> grown s s' \<Longrightarrow> P s' x \<Longrightarrow> Q s' x) \<Longrightarrow> ok s m Q"
  by (auto simp: ok_def)

lemma ok_bind:
  assumes "ok s m P" and "\<And>x s'. st_inv s' \<Longrightarrow> grown s s' \<Longrightarrow> P s' x \<Longrightarrow> ok s' (f x) Q"
  shows "ok s (bindM m f) Q"
  unfolding ok_def
proof (intro impI allI)
  fix y s2
  assume inv: "st_inv s" and "bindM m f s = Return (y, s2)"
  then obtain x s1 where 1: "m s = Return (x, s1)" "f x s1 = Return (y, s2)"
    by (auto simp: bindM_Return_iff)
  with assms(1) inv have "st_inv s1" "grown s s1" "P s1 x" by (auto simp: ok_def)
  with assms(2) [of s1 x] 1(2) show "st_inv s2 \<and> grown s s2 \<and> Q s2 y"
    by (auto simp: ok_def intro: grown_trans)
qed

lemma ok_get [okI]: "ok s (k (f s)) Q \<Longrightarrow> ok s (bindM (getM f) k) Q"
  by (simp add: ok_def bindM_def getM_def)

lemma ok_nth [okI]: "(i < length xs \<Longrightarrow> ok s (k (xs ! i)) Q) \<Longrightarrow> ok s (bindM (nthM xs i) k) Q"
  by (simp add: nthM_def ok_panic)

lemma ok_mod: "(st_inv s \<Longrightarrow> st_inv (f s) \<and> grown s (f s) \<and> Q (f s) ()) \<Longrightarrow> ok s (modM f) Q"
  by (simp add: ok_def modM_def)

lemma ok_wrap [okI]: "ok s m Q \<Longrightarrow> ok s (wrapM p m) Q"
  by (auto simp: ok_def wrapM_def split: res.splits)

lemma ok_if [okI]: "(b \<Longrightarrow> ok s m Q) \<Longrightarrow> (\<not> b \<Longrightarrow> ok s m' Q) \<Longrightarrow> ok s (if b then m else m') Q"
  by simp

lemma ok_option [okI]:
  "(r = None \<Longrightarrow> ok s m Q) \<Longrightarrow> (\<And>x. r = Some x \<Longrightarrow> ok s (f x) Q) \<Longrightarrow> ok s (case r of None \<Rightarrow> m | Some x \<Rightarrow> f x) Q"
  by (cases r) simp_all

lemma ok_list [okI]:
  "(l = [] \<Longrightarrow> ok s m Q) \<Longrightarrow> (\<And>x xs. l = x # xs \<Longrightarrow> ok s (f x xs) Q) \<Longrightarrow>
     ok s (case l of [] \<Rightarrow> m | x # xs \<Rightarrow> f x xs) Q"
  by (cases l) simp_all

lemma ok_prod [okI]: "(\<And>a b. p = (a, b) \<Longrightarrow> ok s (f a b) Q) \<Longrightarrow> ok s (case p of (a, b) \<Rightarrow> f a b) Q"
  by (cases p) simp

lemma ok_mapM:
  assumes "\<And>x s'. st_inv s' \<Longrightarrow> grown s s' \<Longrightarrow> x \<in> set xs \<Longrightarrow> ok s' (f x) P"
    and mono: "\<And>s s' y. grown s s' \<Longrightarrow> P s y \<Longrightarrow> P s' y"
  shows "ok s (mapM f xs) (\<lambda>s' ys. list_all (P s') ys \<and> length ys = length xs)"
  using assms(1)
proof (induction xs arbitrary: s)
  case (Cons x xs)
  show ?case
    unfolding mapM.simps
  proof (rule ok_inv, rule ok_bind)
    assume "st_inv s"
    then show "ok s (f x) P" by (intro Cons.prems) simp_all
  next
    fix y s1
    assume s1: "st_inv s1" "grown s s1" "P s1 y"
    have "ok s1 (mapM f xs) (\<lambda>s' ys. list_all (P s') ys \<and> length ys = length xs)"
    proof (rule Cons.IH)
      fix x' s'
      assume "st_inv s'" "grown s1 s'" "x' \<in> set xs"
      with grown_trans [OF s1(2)] show "ok s' (f x') P" by (intro Cons.prems) simp_all
    qed
    then show "ok s1 (bindM (mapM f xs) (\<lambda>ys. retM (y # ys)))
        (\<lambda>s' ys. list_all (P s') ys \<and> length ys = length (x # xs))"
      by (rule ok_bind) (use s1 mono in \<open>auto intro!: ok_ret\<close>)
  qed
qed (simp add: ok_ret)

lemma ok_forM:
  assumes "\<And>x s'. st_inv s' \<Longrightarrow> grown s s' \<Longrightarrow> x \<in> set xs \<Longrightarrow> ok s' (f x) anyQ"
  shows "ok s (forM xs f) anyQ"
  using assms
proof (induction xs arbitrary: s)
  case (Cons x xs)
  have "ok s' (forM xs f) anyQ" if "st_inv s'" "grown s s'" for s'
    by (rule Cons.IH) (use Cons.prems grown_trans [OF that(2)] in simp)
  moreover have "st_inv s \<Longrightarrow> ok s (f x) anyQ" by (intro Cons.prems) simp_all
  ultimately show ?case unfolding forM.simps by (blast intro: ok_inv ok_bind)
qed (simp add: ok_ret)

lemma ok_foldM:
  assumes "P s b" and "\<And>b x s'. st_inv s' \<Longrightarrow> grown s s' \<Longrightarrow> x \<in> set xs \<Longrightarrow> P s' b \<Longrightarrow> ok s' (f b x) P"
  shows "ok s (foldM f b xs) P"
  using assms
proof (induction xs arbitrary: s b)
  case (Cons x xs)
  have "ok s' (foldM f b' xs) P" if "st_inv s'" "grown s s'" "P s' b'" for s' b'
    by (rule Cons.IH [OF that(3)]) (use Cons.prems(2) grown_trans [OF that(2)] in simp)
  moreover have "st_inv s \<Longrightarrow> ok s (f b x) P" by (intro Cons.prems) (simp_all add: Cons.prems(1))
  ultimately show ?case unfolding foldM.simps by (blast intro: ok_inv ok_bind)
qed (simp add: ok_ret)

lemma ok_timesM:
  assumes "\<And>s'. st_inv s' \<Longrightarrow> grown s s' \<Longrightarrow> ok s' m P" and "\<And>s s' y. grown s s' \<Longrightarrow> P s y \<Longrightarrow> P s' y"
  shows "ok s (timesM n m) (\<lambda>s' ys. list_all (P s') ys)"
proof -
  have "timesM n m = mapM (\<lambda>_. m) (replicate n ())" by (induction n) simp_all
  then show ?thesis
    using ok_mapM [of s "replicate n ()" "\<lambda>_. m" P] assms by (auto intro: ok_weaken)
qed

section \<open>Heap primitives\<close>

lemma bindcell_sz: "sz_le s s' \<Longrightarrow> bindcell_ok s m \<Longrightarrow> bindcell_ok s' m"
  unfolding bindcell_ok_def by (blast intro: wf_ast_sz)

lemma labelcell_sz: "sz_le s s' \<Longrightarrow> labelcell_ok s m \<Longrightarrow> labelcell_ok s' m"
  unfolding labelcell_ok_def list_all_iff by (blast intro: wf_atom_sz)

lemma ptrcell_le: "n \<le> n' \<Longrightarrow> ptrcell_ok n ps \<Longrightarrow> ptrcell_ok n' ps"
  unfolding ptrcell_ok_def list_all_iff by auto

lemma list_all_mono: "list_all P xs \<Longrightarrow> (\<And>x. P x \<Longrightarrow> Q x) \<Longrightarrow> list_all Q xs"
  by (simp add: list_all_iff)

lemma binds_ok_sz: "binds_ok s \<Longrightarrow> sz_le s s' \<Longrightarrow> bindsH s' = bindsH s \<Longrightarrow> binds_ok s'"
  unfolding binds_ok_def by (auto intro: list_all_mono bindcell_sz)

lemma labels_ok_sz: "labels_ok s \<Longrightarrow> sz_le s s' \<Longrightarrow> labelsH s' = labelsH s \<Longrightarrow> labels_ok s'"
  unfolding labels_ok_def by (auto intro: list_all_mono labelcell_sz)

lemma ptrs_ok_sz: "ptrs_ok s \<Longrightarrow> sz_le s s' \<Longrightarrow> machsH s' = machsH s \<Longrightarrow> contsH s' = contsH s \<Longrightarrow> ptrs_ok s'"
  unfolding ptrs_ok_def sz_le_def by (auto elim!: list_all_mono intro: ptrcell_le)

lemma nth_upd: "xs[i := x] ! j = (if i = j \<and> i < length xs then x else xs ! j)"
  by (cases "i < length xs") (auto simp: nth_list_update list_update_beyond)

lemma list_all_update: "list_all P xs \<Longrightarrow> P y \<Longrightarrow> list_all P (xs[i := y])"
  using set_update_subset_insert [of xs i y] by (auto simp: list_all_iff)

lemma list_all_nth: "list_all P xs \<Longrightarrow> i < length xs \<Longrightarrow> P (xs ! i)"
  by (simp add: list_all_length)

text \<open>One change of the heap: the parts that do not change only need the sizes not to shrink.\<close>

lemma st_inv_change:
  assumes "st_inv s" and "sz_le s s'"
    and "bindsH s' \<noteq> bindsH s \<Longrightarrow> binds_ok s'" and "labelsH s' \<noteq> labelsH s \<Longrightarrow> labels_ok s'"
    and "connsH s' \<noteq> connsH s \<Longrightarrow> conns_ok s'"
    and "machsH s' \<noteq> machsH s \<or> contsH s' \<noteq> contsH s \<Longrightarrow> ptrs_ok s'"
    and "containerObjs s' \<noteq> containerObjs s \<Longrightarrow> list_all cont_ok (containerObjs s')"
  shows "st_inv s'"
  using assms unfolding st_inv_def conns_ok_def
  by (metis binds_ok_sz labels_ok_sz ptrs_ok_sz)

lemma ok_newEvalCtx:
  assumes "case par of None \<Rightarrow> True | Some p \<Rightarrow> wf_ctx s p"
  shows "ok s (newEvalCtx par) wf_ctx"
proof -
  define s' where "s' = s\<lparr>bindsH := bindsH s @ [[]], labelsH := labelsH s @ [[]], connsH := connsH s @ [[]],
        machsH := machsH s @ [[]], contsH := contsH s @ [[]]\<rparr>"
  have sz: "sz_le s s'" by (simp add: s'_def sz_le_def)
  have ext: "grown s s'" using sz by (simp add: grown_def s'_def nth_append)
  have "st_inv s'" if inv: "st_inv s"
  proof -
    have "binds_ok s'"
      using inv bindcell_sz [OF sz] unfolding st_inv_def binds_ok_def
      by (auto simp: s'_def bindcell_ok_def [of _ "[]"] elim!: list_all_mono)
    moreover have "labels_ok s'"
      using inv labelcell_sz [OF sz] unfolding st_inv_def labels_ok_def
      by (auto simp: s'_def labelcell_ok_def [of _ "[]"] elim!: list_all_mono)
    moreover have "conns_ok s'" using inv by (simp add: st_inv_def conns_ok_def s'_def conncell_ok_def)
    moreover have "ptrs_ok s'" using inv by (simp add: st_inv_def ptrs_ok_def s'_def ptrcell_ok_def)
    ultimately show ?thesis using inv by (simp add: st_inv_def s'_def)
  qed
  moreover have "wf_ctx s' (EvalCtx (length (bindsH s)) (length (labelsH s)) (length (connsH s))
      (length (machsH s)) (length (contsH s)) par)"
    using assms wf_ctx_sz [OF sz] by (auto simp: s'_def split: option.splits)
  ultimately show ?thesis using ext by (simp add: ok_def newEvalCtx_def s'_def)
qed

lemma ok_allocBinds:
  assumes "bindcell_ok s m"
  shows "ok s (allocBinds m) (\<lambda>s' b. b < length (bindsH s'))"
proof -
  define s' where "s' = s\<lparr>bindsH := bindsH s @ [m]\<rparr>"
  have sz: "sz_le s s'" by (simp add: s'_def sz_le_def)
  have "st_inv s'" if inv: "st_inv s"
  proof (rule st_inv_change [OF inv sz])
    show "binds_ok s'"
      using inv bindcell_sz [OF sz] assms unfolding st_inv_def binds_ok_def
      by (auto simp: s'_def elim!: list_all_mono)
  qed (simp_all add: s'_def)
  moreover have "grown s s'" using sz by (simp add: grown_def s'_def)
  ultimately show ?thesis by (simp add: ok_def allocBinds_def s'_def)
qed

lemma binds_nth: "st_inv s \<Longrightarrow> b < length (bindsH s) \<Longrightarrow> bindcell_ok s (bindsH s ! b)"
  by (simp add: st_inv_def binds_ok_def list_all_nth)

lemma ok_deepCopy: "wf_ctx s c \<Longrightarrow> ok s (deepCopy c) wf_ctx"
proof (induction c arbitrary: s rule: deepCopy.induct)
  case (1 b l c m k)
  show ?case
    unfolding deepCopy.simps
  proof (rule ok_inv, rule ok_get, rule ok_bind)
    assume "st_inv s"
    with 1 show "ok s (allocBinds (bindsH s ! b)) (\<lambda>s' b. b < length (bindsH s'))"
      by (intro ok_allocBinds binds_nth) auto
  next
    fix b' s'
    assume "grown s s'" "b' < length (bindsH s')"
    with wf_ctx_mono [OF _ 1] show "ok s' (retM (EvalCtx b' l c m k None)) wf_ctx" by (auto intro!: ok_ret)
  qed
next
  case (2 b l c m k p)
  show ?case
    unfolding deepCopy.simps
  proof (rule ok_bind [OF "2.IH"])
    show "wf_ctx s p" using 2 by simp
  next
    fix p' s1
    assume s1: "st_inv s1" "grown s s1" "wf_ctx s1 p'"
    note wf = wf_ctx_mono [OF s1(2) 2(2)]
    show "ok s1 (bindM (getM (\<lambda>s. bindsH s ! b)) (\<lambda>bs. bindM (allocBinds bs) (\<lambda>b'. retM (EvalCtx b' l c m k (Some p'))))) wf_ctx"
    proof (rule ok_get, rule ok_bind)
      show "ok s1 (allocBinds (bindsH s1 ! b)) (\<lambda>s' b. b < length (bindsH s'))"
        using wf s1(1) by (intro ok_allocBinds binds_nth) auto
    next
      fix b' s'
      assume "grown s1 s'" "b' < length (bindsH s')"
      with wf_ctx_mono [OF _ wf] wf_ctx_mono [OF _ s1(3)]
      show "ok s' (retM (EvalCtx b' l c m k (Some p'))) wf_ctx" by (auto intro!: ok_ret)
    qed
  qed
qed

lemma ok_setBind:
  assumes "wf_ctx s c" and "wf_ast s v"
  shows "ok s (setBind c i v) anyQ"
  unfolding setBind_def
proof (rule ok_mod, intro conjI TrueI)
  let ?m = "gput i v (bindsH s ! bindsR c)"
  let ?s = "s\<lparr>bindsH := (bindsH s)[bindsR c := ?m]\<rparr>"
  have sz: "sz_le s ?s" by (simp add: sz_le_def)
  assume inv: "st_inv s"
  show "st_inv ?s"
  proof (rule st_inv_change [OF inv sz])
    have "bindcell_ok s ?m"
      using binds_nth [OF inv wf_bindsR [OF assms(1)]] assms(2)
      by (auto simp: bindcell_ok_def set_gput)
    then have "list_all (bindcell_ok s) (bindsH ?s)"
      using inv by (simp add: st_inv_def binds_ok_def list_all_update)
    then show "binds_ok ?s" unfolding binds_ok_def by (rule list_all_mono) (rule bindcell_sz [OF sz])
  qed simp_all
  show "grown s ?s" using sz by (simp add: grown_def)
qed

lemma ok_lookupIdent: "wf_ctx s c \<Longrightarrow> ok s (lookupIdent c i) wf_ast"
proof (induction c i arbitrary: s rule: lookupIdent.induct)
  case (1 b l c m k par i)
  have found: "wf_ast s v" if "st_inv s" "gget (bindsH s ! b) i = Some v" for v
    using binds_nth [OF that(1), of b] 1(2) map_of_SomeD [OF that(2)] by (auto simp: bindcell_ok_def)
  show ?case
    unfolding lookupIdent.simps
    by (rule ok_inv, intro okI) (use 1 found in auto)
qed

lemma labels_nth: "st_inv s \<Longrightarrow> l < length (labelsH s) \<Longrightarrow> labelcell_ok s (labelsH s ! l)"
  by (simp add: st_inv_def labels_ok_def list_all_nth)

text \<open>A resolved label: either the reference itself, the public label, or a stored one.\<close>

lemma wf_resolveLabel:
  "st_inv s \<Longrightarrow> wf_ctx s c \<Longrightarrow> wf_ast s ref \<Longrightarrow> resolveLabel c ref s = Some lab \<Longrightarrow> list_all (wf_atom s) (snd lab)"
proof (induction c ref s rule: resolveLabel.induct)
  case (1 b l c m k par ref s)
  have up: "list_all (wf_atom s) (snd lab)"
    if "(case par of None \<Rightarrow> None | Some p \<Rightarrow> resolveLabel p ref s) = Some lab"
    using 1 that by (auto split: option.splits)
  have cell: "list_all (wf_atom s) (snd lab)" if "gget (labelsH s ! l) x = Some lab" for x
    using labels_nth [OF "1.prems"(1), of l] "1.prems"(2) map_of_SomeD [OF that]
    by (cases lab) (auto simp: labelcell_ok_def)
  show ?case
    using "1.prems"(4) up cell wf_asLabel [OF "1.prems"(3)]
    by (auto simp: Let_def split: option.splits if_splits)
qed

text \<open>A name that does not resolve is in no label map of the chain, in particular not the global one.\<close>

lemma resolveLabel_None:
  "resolveLabel c (AString x) s = None \<Longrightarrow> x \<noteq> PublicInternetLabel \<and> gget (labelsH s ! labelsR (globalCtx c)) x = None"
proof (induction c rule: globalCtx.induct)
  case (2 b l c m k p)
  then show ?case by (auto simp: Let_def split: option.splits if_splits)
qed (auto simp: Let_def split: option.splits if_splits)

lemma ok_flattenString: "ok s (flattenString xs) anyQ"
  unfolding flattenString_def
  by (rule ok_weaken [OF ok_mapM [where P = anyQ]]) (auto intro!: okI split: option.split)

lemma ok_flattenLabel:
  assumes "wf_ctx s c" and "list_all (wf_ast s) xs"
  shows "ok s (flattenLabel c xs) (\<lambda>s' ls. list_all (\<lambda>l. list_all (wf_atom s') (snd l)) ls)"
  unfolding flattenLabel_def
proof (rule ok_weaken [OF ok_mapM [where P = "\<lambda>s' l. list_all (wf_atom s') (snd l)"]])
  fix x s'
  assume s': "st_inv s'" "grown s s'" "x \<in> set (flatten xs)"
  have "wf_ast s x" using wf_flatten [OF assms(2)] s'(3) by (simp add: list_all_iff)
  then have "wf_ast s' x" "wf_ctx s' c" using s'(2) assms(1) by (auto intro: wf_ast_mono wf_ctx_mono)
  then show "ok s' (bindM (getM (resolveLabel c x)) (\<lambda>r. case r of
      None \<Rightarrow> errM ''expected label, found: %v'' [x] | Some lab \<Rightarrow> retM lab)) (\<lambda>s' l. list_all (wf_atom s') (snd l))"
    by (intro okI wf_resolveLabel [OF s'(1)])
qed (auto intro: wf_atoms_mono)

lemma ok_newContainer:
  assumes "wf_ctx s c"
  shows "ok s (newContainer c img (map AString cmd)) wf_ast"
proof -
  let ?p = "length (containerObjs s)" and ?k = "containersR (globalCtx c)"
  let ?c = "\<lparr>ac_image = img, ac_command = map AString cmd, ac_env = [], ac_Exclusive = [], ac_labels = []\<rparr>"
  let ?s = "s\<lparr>containerObjs := containerObjs s @ [?c], contsH := (contsH s)[?k := contsH s ! ?k @ [?p]]\<rparr>"
  have sz: "sz_le s ?s" by (simp add: sz_le_def)
  have k: "?k < length (contsH s)" using wf_refs(5) [OF wf_globalCtx [OF assms]] .
  have "st_inv ?s" if inv: "st_inv s"
  proof (rule st_inv_change [OF inv sz])
    have old: "list_all (ptrcell_ok ?p) (contsH s)" "list_all (ptrcell_ok (length (machineObjs s))) (machsH s)"
      using inv by (simp_all add: st_inv_def ptrs_ok_def)
    have "ptrcell_ok (Suc ?p) (contsH s ! ?k @ [?p])"
      using list_all_nth [OF old(1) k] by (auto simp: ptrcell_ok_def list_all_iff)
    moreover have "list_all (ptrcell_ok (Suc ?p)) (contsH s)"
      using old(1) by (rule list_all_mono) (erule ptrcell_le [rotated], simp)
    ultimately show "ptrs_ok ?s"
      using old(2) by (simp add: ptrs_ok_def list_all_update)
    show "list_all cont_ok (containerObjs ?s)"
      using inv by (simp add: st_inv_def cont_ok_def list_all_iff)
  qed simp_all
  moreover have "grown s ?s" using sz by (simp add: grown_def nth_upd nth_append)
  ultimately show ?thesis by (simp add: ok_def newContainer_def Let_def)
qed

lemma container_upd:
  assumes inv: "st_inv s" and p: "p < length (containerObjs s)" and c: "cont_ok c"
    and keep: "ac_image c = ac_image (containerObjs s ! p)" "ac_command c = ac_command (containerObjs s ! p)"
  shows "st_inv (s\<lparr>containerObjs := (containerObjs s)[p := c]\<rparr>) \<and> grown s (s\<lparr>containerObjs := (containerObjs s)[p := c]\<rparr>)"
proof
  let ?s = "s\<lparr>containerObjs := (containerObjs s)[p := c]\<rparr>"
  have sz: "sz_le s ?s" by (simp add: sz_le_def)
  show "st_inv ?s"
  proof (rule st_inv_change [OF inv sz])
    show "list_all cont_ok (containerObjs ?s)" using inv c by (simp add: st_inv_def list_all_update)
  qed simp_all
  show "grown s ?s" using sz keep by (auto simp: grown_def nth_upd)
qed

lemma containers_nth: "st_inv s \<Longrightarrow> p < length (containerObjs s) \<Longrightarrow> cont_ok (containerObjs s ! p)"
  by (simp add: st_inv_def list_all_nth)

lemma ok_updContainer:
  assumes p: "p < length (containerObjs s)" and f: "\<And>c. cont_ok c \<Longrightarrow> cont_ok (f c)"
    and keep: "\<And>c. ac_image (f c) = ac_image c \<and> ac_command (f c) = ac_command c"
  shows "ok s (updContainer p f) anyQ"
  unfolding updContainer_def
  by (rule ok_mod) (use container_upd [OF _ p f [OF containers_nth [OF _ p]]] keep in simp)

lemma machine_upd:
  assumes "st_inv s"
  shows "st_inv (s\<lparr>machineObjs := (machineObjs s)[p := m]\<rparr>) \<and> grown s (s\<lparr>machineObjs := (machineObjs s)[p := m]\<rparr>)"
proof
  let ?s = "s\<lparr>machineObjs := (machineObjs s)[p := m]\<rparr>"
  have sz: "sz_le s ?s" by (simp add: sz_le_def)
  show "st_inv ?s" by (rule st_inv_change [OF assms sz]) simp_all
  show "grown s ?s" using sz by (simp add: grown_def)
qed

lemma ok_setMachine: "ok s (modM (\<lambda>s. s\<lparr>machineObjs := (machineObjs s)[p := m]\<rparr>)) anyQ"
  by (rule ok_mod) (simp add: machine_upd)

lemma ok_allocMachine: "ok s allocMachine (\<lambda>s' p. p < length (machineObjs s'))"
proof -
  let ?s = "s\<lparr>machineObjs := machineObjs s @ [zeroAstMachine]\<rparr>"
  have sz: "sz_le s ?s" by (simp add: sz_le_def)
  have "st_inv s \<Longrightarrow> st_inv ?s" by (rule st_inv_change [OF _ sz]) simp_all
  moreover have "grown s ?s" using sz by (simp add: grown_def)
  ultimately show ?thesis by (simp add: ok_def allocMachine_def)
qed

lemma ok_addMachine:
  assumes "wf_ctx s c" and p: "p < length (machineObjs s)"
  shows "ok s (modM (\<lambda>s. s\<lparr>machsH := (machsH s)[machinesR (globalCtx c) := machsH s ! machinesR (globalCtx c) @ [p]]\<rparr>)) anyQ"
proof (rule ok_mod, intro conjI TrueI)
  let ?r = "machinesR (globalCtx c)"
  let ?s = "s\<lparr>machsH := (machsH s)[?r := machsH s ! ?r @ [p]]\<rparr>"
  have sz: "sz_le s ?s" by (simp add: sz_le_def)
  have r: "?r < length (machsH s)" using wf_refs(4) [OF wf_globalCtx [OF assms(1)]] .
  assume inv: "st_inv s"
  show "st_inv ?s"
  proof (rule st_inv_change [OF inv sz])
    have old: "list_all (ptrcell_ok (length (machineObjs s))) (machsH s)"
      using inv by (simp add: st_inv_def ptrs_ok_def)
    with list_all_nth [OF old r] p inv show "ptrs_ok ?s"
      by (auto simp: st_inv_def ptrs_ok_def ptrcell_ok_def intro!: list_all_update)
  qed simp_all
  show "grown s ?s" using sz by (simp add: grown_def nth_upd)
qed

lemma ok_addConnection:
  assumes "wf_ctx s c" and "conn_ok cn"
  shows "ok s (addConnection c cn) anyQ"
  unfolding addConnection_def Let_def
proof (rule ok_mod, intro conjI TrueI)
  let ?r = "connectionsR (globalCtx c)"
  let ?s = "s\<lparr>connsH := (connsH s)[?r := sput cn (connsH s ! ?r)]\<rparr>"
  have sz: "sz_le s ?s" by (simp add: sz_le_def)
  have r: "?r < length (connsH s)" using wf_refs(3) [OF wf_globalCtx [OF assms(1)]] .
  assume inv: "st_inv s"
  show "st_inv ?s"
  proof (rule st_inv_change [OF inv sz])
    have old: "list_all conncell_ok (connsH s)" using inv by (simp add: st_inv_def conns_ok_def)
    have "conncell_ok (sput cn (connsH s ! ?r))"
      using list_all_nth [OF old r] assms(2) by (auto simp: conncell_ok_def list_all_iff)
    with old show "conns_ok ?s" by (simp add: conns_ok_def list_all_update)
  qed simp_all
  show "grown s ?s" using sz by (auto simp: grown_def nth_upd)
qed

lemma ok_logM: "ok s (logM lvl msg) anyQ"
  unfolding logM_def
proof (rule ok_mod, intro conjI TrueI)
  let ?s = "s\<lparr>logged := logged s @ [(lvl, msg)]\<rparr>"
  have sz: "sz_le s ?s" by (simp add: sz_le_def)
  show "st_inv s \<Longrightarrow> st_inv ?s" by (rule st_inv_change [OF _ sz]) simp_all
  show "grown s ?s" using sz by (simp add: grown_def)
qed

lemma setLabels_inv:
  assumes "st_inv s" and "wf_atom s a"
  shows "st_inv (SetLabels a ls s) \<and> grown s (SetLabels a ls s)"
proof (cases a)
  case (MachineP p)
  with machine_upd [OF assms(1)] show ?thesis by (simp add: SetLabels_def)
next
  case (ContainerP p)
  let ?c = "(containerObjs s ! p)\<lparr>ac_labels := ls\<rparr>"
  have p: "p < length (containerObjs s)" using assms(2) ContainerP by simp
  then have "cont_ok ?c" using containers_nth [OF assms(1)] by (simp add: cont_ok_def)
  with container_upd [OF assms(1) p, of ?c] ContainerP show ?thesis by (simp add: SetLabels_def)
qed

lemma ok_addLabel:
  assumes "wf_atom s a"
  shows "ok s (addLabel l a) anyQ"
  unfolding addLabel_def Let_def by (rule ok_mod) (use setLabels_inv [OF _ assms] in simp)

lemma ok_defineLabel:
  assumes "wf_ctx s c" and "list_all (wf_atom s) as" and "x \<noteq> PublicInternetLabel"
    and new: "gget (labelsH s ! labelsR (globalCtx c)) x = None"
  shows "ok s (defineLabel c x as) anyQ"
  unfolding defineLabel_def Let_def
proof (rule ok_mod, intro conjI TrueI)
  let ?r = "labelsR (globalCtx c)"
  let ?m = "gput x (x, as) (labelsH s ! ?r)"
  let ?s = "s\<lparr>labelsH := (labelsH s)[?r := ?m]\<rparr>"
  have sz: "sz_le s ?s" by (simp add: sz_le_def)
  have r: "?r < length (labelsH s)" using wf_refs(2) [OF wf_globalCtx [OF assms(1)]] .
  assume inv: "st_inv s"
  show "st_inv ?s"
  proof (rule st_inv_change [OF inv sz])
    have "labelcell_ok s ?m"
      using labels_nth [OF inv r] assms(2,3) by (auto simp: labelcell_ok_def set_gput)
    then have "list_all (labelcell_ok s) (labelsH ?s)"
      using inv by (simp add: st_inv_def labels_ok_def list_all_update)
    then show "labels_ok ?s" unfolding labels_ok_def by (rule list_all_mono) (rule labelcell_sz [OF sz])
  qed simp_all
  show "grown s ?s" using sz new by (auto simp: grown_def nth_upd gget_gput)
qed

end
