(* ===== verification/Dsl_Safe.thy ===== *)
theory Dsl_Safe
  imports Dsl_Inv
begin

text \<open>
  Every builtin function keeps the heap invariant and returns well-formed values, provided the
  evaluator it calls does; so the evaluator does.
\<close>

definition evOk :: "evaluator \<Rightarrow> bool" where
  "evOk ev \<longleftrightarrow> (\<forall>s ctx a. wf_ctx s ctx \<longrightarrow> wf_ast s a \<longrightarrow> ok s (ev ctx a) wf_ast)"

lemma evOkD: "evOk ev \<Longrightarrow> wf_ctx s ctx \<Longrightarrow> wf_ast s a \<Longrightarrow> ok s (ev ctx a) wf_ast"
  by (simp add: evOk_def)

lemma evOk_mono: "evOk ev \<Longrightarrow> grown s s' \<Longrightarrow> wf_ctx s ctx \<Longrightarrow> wf_ast s a \<Longrightarrow> ok s' (ev ctx a) wf_ast"
  by (blast intro: evOkD wf_ctx_mono wf_ast_mono)

text \<open>Arguments.\<close>

lemma wf_arg: "list_all (wf_ast s) args \<Longrightarrow> i < length args \<Longrightarrow> wf_ast s (args ! i)"
  by (rule list_all_nth)

lemma wf_drop: "list_all (wf_ast s) args \<Longrightarrow> list_all (wf_ast s) (drop n args)"
  by (auto simp: list_all_iff dest: in_set_dropD)

lemma ok_mapM_any: "(\<And>x s. ok s (f x) anyQ) \<Longrightarrow> ok s (mapM f xs) anyQ"
  by (rule ok_weaken [OF ok_mapM [where P = anyQ]]) simp_all

lemma ok_evalList:
  assumes "evOk ev" and "wf_ctx s ctx" and "list_all (wf_ast s) as"
  shows "ok s (evalList ev ctx as) (\<lambda>s' vs. list_all (wf_ast s') vs)"
  unfolding evalList_def
  by (rule ok_weaken [OF ok_mapM [where P = wf_ast]])
    (use assms in \<open>auto simp: list_all_iff intro: evOk_mono wf_ast_mono\<close>)

section \<open>Functions that do not evaluate\<close>

lemma ok_intsM: "ok s (intsM args) anyQ"
  unfolding intsM_def by (intro ok_mapM_any okI TrueI)

lemma ok_arithFun: "ok s (arithFun f args) wf_ast"
  unfolding arithFun_def
  by (rule ok_bind [OF ok_intsM], intro okI, rule ok_bind [OF ok_foldM [where P = anyQ]])
    (auto intro!: okI)

lemma ok_plusImpl: "ok s (plusImpl args) wf_ast"
  unfolding plusImpl_def
  by (intro okI ok_arithFun, rule ok_bind [OF ok_mapM_any]) (auto intro!: okI)

lemma ok_eqImpl: "ok s (eqImpl n args) wf_ast"
  unfolding eqImpl_def by (intro okI) simp

lemma ok_compareFun: "ok s (compareFun f args) wf_ast"
  unfolding compareFun_def by (rule ok_bind [OF ok_intsM], intro okI) simp

lemma ok_dockerImpl: "wf_ctx s ctx \<Longrightarrow> ok s (dockerImpl ctx args) wf_ast"
  unfolding dockerImpl_def
  by (rule ok_bind [OF ok_flattenString], intro okI ok_newContainer) (rule wf_ctx_mono)

lemma env_put:
  "asStr k \<noteq> None \<Longrightarrow> asStr v \<noteq> None \<Longrightarrow> cont_ok c \<Longrightarrow> cont_ok (c\<lparr>ac_env := gput k v (ac_env c)\<rparr>)"
  by (auto simp: cont_ok_def list_all_iff set_gput)

lemma ok_setEnvHelper:
  assumes "wf_atom s a"
  shows "ok s (setEnvHelper a k v) anyQ"
  unfolding setEnvHelper_def
  by (intro okI ok_updContainer env_put) (use assms in \<open>auto dest!: asContainerP_eq\<close>)

lemma ok_setEnvTarget:
  assumes "wf_ctx s ctx" and "wf_ast s arg"
  shows "ok s (setEnvTarget ctx k v arg) anyQ"
  unfolding setEnvTarget_def
proof (rule ok_inv, intro okI ok_forM ok_setEnvHelper)
  fix r i elems c s'
  assume "st_inv s" "resolveLabel ctx arg s = Some r" "r = (i, elems)" "grown s s'" "c \<in> set elems"
  with wf_resolveLabel [of s ctx arg r] assms show "wf_atom s' c"
    by (auto simp: list_all_iff intro: wf_atom_mono)
next
  fix x
  assume "asAtom arg = Some x"
  with wf_asAtom [OF assms(2) this]
  show "ok s (case x of MachineP n \<Rightarrow> errM ''setEnv target must be either a label or container: %s'' [arg]
      | ContainerP p \<Rightarrow> setEnvHelper (ContainerP p) k v) anyQ"
    by (cases x) (auto intro!: okI ok_setEnvHelper)
qed

lemma ok_setEnvImpl:
  assumes "wf_ctx s ctx" and "list_all (wf_ast s) args"
  shows "ok s (setEnvImpl ctx args) wf_ast"
  unfolding setEnvImpl_def
proof (intro okI, rule ok_bind [OF ok_forM])
  fix x s'
  assume i: "0 < length args" and s': "grown s s'" "x \<in> set (flatten [args ! 0])"
  then have "wf_ast s x" using wf_flatten [of s "[args ! 0]"] wf_arg [OF assms(2) i] by (simp add: list_all_iff)
  then have "wf_ctx s' ctx" "wf_ast s' x" using s'(1) assms(1) by (auto intro: wf_ctx_mono wf_ast_mono)
  then show "ok s' (bindM (nthM args 1) (\<lambda>k. bindM (nthM args 2) (\<lambda>v. setEnvTarget ctx k v x))) anyQ"
    by (intro okI ok_setEnvTarget)
qed (auto intro: okI)

lemma ok_githubKeyImpl: "ok s (githubKeyImpl args) wf_ast"
  unfolding githubKeyImpl_def by (intro okI) simp

lemma ok_plaintextKeyImpl: "ok s (plaintextKeyImpl args) wf_ast"
  unfolding plaintextKeyImpl_def by (intro okI) simp

text \<open>The pairs recorded by \<open>placement\<close> are ordered.\<close>

lemma fold_sput: "set (fold (\<lambda>j. sput (f j)) js acc) = f ` set js \<union> set acc"
  by (induction js arbitrary: acc) auto

lemma distinct_fold_sput: "distinct acc \<Longrightarrow> distinct (fold (\<lambda>j. sput (f j)) js acc)"
  by (induction js arbitrary: acc) auto

lemma labelPairs_ordered: "\<forall>(a, b) \<in> set acc. a \<le> b \<Longrightarrow> \<forall>(a, b) \<in> set (labelPairs ls acc). a \<le> b"
proof (induction ls arbitrary: acc)
  case (Cons i js)
  show ?case
    unfolding labelPairs.simps
    by (rule Cons.IH) (use Cons.prems in \<open>auto simp: fold_sput not_less intro: less_imp_le\<close>)
qed simp

lemma exclusive_put:
  assumes "\<forall>(a, b) \<in> set ps. a \<le> b" and "cont_ok c"
  shows "cont_ok (c\<lparr>ac_Exclusive := fold sput ps (ac_Exclusive c)\<rparr>)"
  using assms fold_sput [of "\<lambda>x. x" ps "ac_Exclusive c"] distinct_fold_sput [of "ac_Exclusive c" "\<lambda>x. x" ps]
  by (auto simp: cont_ok_def list_all_iff)

lemma ok_exclude:
  assumes "list_all (wf_atom s) (snd lab)" and "\<forall>(a, b) \<in> set ps. a \<le> b"
  shows "ok s (exclude ps lab) anyQ"
  unfolding exclude_def
proof (intro ok_forM okI ok_updContainer exclusive_put assms(2))
  fix c s' p
  assume s': "grown s s'" "c \<in> set (snd lab)" "asContainerP c = Some p"
  with assms(1) have "wf_atom s' c" by (auto simp: list_all_iff intro: wf_atom_mono)
  then show "p < length (containerObjs s')" using asContainerP_eq [OF s'(3)] by simp
qed simp_all

lemma ok_placementImpl:
  assumes "wf_ctx s ctx" and "list_all (wf_ast s) args"
  shows "ok s (placementImpl ctx args) wf_ast"
  unfolding placementImpl_def Let_def
proof (intro okI, rule ok_bind [OF ok_flattenLabel [OF assms(1) wf_drop [OF assms(2)]]],
    intro okI, rule ok_bind [OF ok_forM], rule ok_exclude)
  fix labs :: "(string \<times> atom list) list" and s1 lab s2
  assume "list_all (\<lambda>l. list_all (wf_atom s1) (snd l)) labs" "grown s1 s2" "lab \<in> set labs"
  then show "list_all (wf_atom s2) (snd lab)" by (auto simp: list_all_iff intro: wf_atom_mono)
  show "\<forall>(a, b) \<in> set (labelPairs (map fst labs) []). a \<le> b" by (rule labelPairs_ordered) simp
next
  fix labs s1 u s2
  assume "grown s s1" "grown s1 s2"
  with grown_trans assms(2) show "ok s2 (retM (astFunc ''placement'' args)) wf_ast"
    by (auto simp: astFunc_def intro!: ok_ret wf_asts_mono [of s s2])
qed

lemma ok_setMachineAttributes: "ok s (setMachineAttributes p args) anyQ"
  unfolding setMachineAttributes_def by (intro ok_forM okI ok_setMachine)

lemma ok_machineImpl:
  assumes "wf_ctx s ctx"
  shows "ok s (machineImpl ctx args) wf_ast"
  unfolding machineImpl_def Let_def
proof (rule ok_bind [OF ok_allocMachine], rule ok_bind [OF ok_setMachineAttributes], rule ok_bind [OF ok_addMachine])
  fix p s1 u s2
  assume 1: "grown s s1" "p < length (machineObjs s1)" "grown s1 s2"
  show "wf_ctx s2 ctx" using wf_ctx_mono [OF grown_trans [OF 1(1,3)] assms] .
  show p: "p < length (machineObjs s2)" using wf_atom_mono [OF 1(3), of "MachineP p"] 1(2) by simp
  show "ok s3 (retM (AAtom (MachineP p))) wf_ast" if "grown s2 s3" for s3
    using wf_atom_mono [OF that, of "MachineP p"] p by (intro ok_ret) simp
qed

lemma ok_machineAttributeImpl:
  assumes "list_all (wf_ast s) args"
  shows "ok s (machineAttributeImpl args) wf_ast"
  unfolding machineAttributeImpl_def
proof (intro okI, rule ok_bind [OF ok_mapM [where P = wf_ast]])
  fix x s'
  assume i: "0 < length args" and s': "grown s s'" "x \<in> set (flatten [args ! 0])"
  then have "wf_ast s x" using wf_flatten [of s "[args ! 0]"] wf_arg [OF assms i] by (simp add: list_all_iff)
  with s'(1) show "ok s' (case asMachineP x of None \<Rightarrow> errM ''bad type, cannot change machine attributes: %s'' [x]
      | Some p \<Rightarrow> bindM (setMachineAttributes p (drop 1 args)) (\<lambda>_. retM x)) wf_ast"
    by (intro okI, intro ok_bind [OF ok_setMachineAttributes] ok_ret) (blast intro: wf_ast_mono)
qed (auto intro!: okI intro: wf_ast_mono)

lemma ok_providerImpl: "ok s (providerImpl args) wf_ast"
  unfolding providerImpl_def by (intro okI) simp
lemma ok_roleImpl: "ok s (roleImpl args) wf_ast"
  unfolding roleImpl_def by (intro okI) simp
lemma ok_regionImpl: "ok s (regionImpl args) wf_ast"
  unfolding regionImpl_def by (intro okI) simp
lemma ok_sizeImpl: "ok s (sizeImpl args) wf_ast"
  unfolding sizeImpl_def by (intro okI) simp
lemma ok_diskSizeImpl: "ok s (diskSizeImpl args) wf_ast"
  unfolding diskSizeImpl_def by (intro okI) simp
lemma ok_rangeTypeImpl: "ok s (rangeTypeImpl t args) wf_ast"
  unfolding rangeTypeImpl_def Let_def by (intro okI) simp_all

lemma conn_ok_mk:
  "0 \<le> mn \<Longrightarrow> mn \<le> mx \<Longrightarrow> mx \<le> 65535 \<Longrightarrow>
   \<not> ((f = PublicInternetLabel \<or> t = PublicInternetLabel) \<and> mn \<noteq> mx) \<Longrightarrow>
   \<not> (f = PublicInternetLabel \<and> t = PublicInternetLabel) \<Longrightarrow>
   conn_ok \<lparr>dc_From = f, dc_To = t, dc_MinPort = mn, dc_MaxPort = mx\<rparr>"
  by (auto simp: conn_ok_def)

lemma ok_connectPair:
  assumes "wf_ctx s ctx" and "0 \<le> mn" "mn \<le> mx" "mx \<le> 65535"
  shows "ok s (connectPair ctx mn mx f t) anyQ"
  unfolding connectPair_def by (intro okI ok_addConnection conn_ok_mk assms)

lemma ok_portRange: "ok s (portRange a) anyQ"
  unfolding portRange_def by (intro okI) simp_all

lemma ok_checkPorts: "ok s (checkPorts mn mx) (\<lambda>_ _. 0 \<le> mn \<and> mn \<le> mx \<and> mx \<le> 65535)"
  unfolding checkPorts_def by (intro okI) auto

lemma ok_connectImpl:
  assumes "wf_ctx s ctx" and "list_all (wf_ast s) args"
  shows "ok s (connectImpl ctx args) wf_ast"
  unfolding connectImpl_def
proof (rule ok_nth, rule ok_bind [OF ok_portRange], rule ok_prod, rule ok_bind [OF ok_checkPorts], rule ok_nth)
  fix r s1 u s2 and mn mx :: int
  assume s12: "grown s s1" "grown s1 s2" and p: "0 \<le> mn \<and> mn \<le> mx \<and> mx \<le> 65535" and i: "1 < length args"
  note s2 = grown_trans [OF s12]
  let ?body = "\<lambda>from to. connectPair ctx mn mx (fst from) (fst to)"
  show "ok s2 (bindM (flattenLabel ctx [args ! 1]) (\<lambda>fromLabels. bindM (flattenLabel ctx (drop 2 args)) (\<lambda>toLabels.
      bindM (forM fromLabels (\<lambda>from. forM toLabels (?body from))) (\<lambda>_. retM (AList []))))) wf_ast"
  proof (rule ok_bind [OF ok_flattenLabel])
    show "wf_ctx s2 ctx" using wf_ctx_mono [OF s2 assms(1)] .
    show "list_all (wf_ast s2) [args ! 1]" using wf_ast_mono [OF s2 wf_arg [OF assms(2) i]] by simp
  next
    fix fl s3
    assume s3: "grown s2 s3"
    note s3' = grown_trans [OF s2 s3]
    show "ok s3 (bindM (flattenLabel ctx (drop 2 args)) (\<lambda>toLabels.
        bindM (forM fl (\<lambda>from. forM toLabels (?body from))) (\<lambda>_. retM (AList [])))) wf_ast"
    proof (rule ok_bind [OF ok_flattenLabel])
      show "wf_ctx s3 ctx" using wf_ctx_mono [OF s3' assms(1)] .
      show "list_all (wf_ast s3) (drop 2 args)" using wf_asts_mono [OF s3' wf_drop [OF assms(2)]] .
    next
      fix tl s4
      assume "grown s3 s4"
      with s3' have s4: "wf_ctx s4 ctx" using wf_ctx_mono [OF grown_trans assms(1)] by blast
      have "ok s4 (forM fl (\<lambda>from. forM tl (?body from))) anyQ"
        using p s4 by (intro ok_forM ok_connectPair) (blast intro: wf_ctx_mono)+
      then show "ok s4 (bindM (forM fl (\<lambda>from. forM tl (?body from))) (\<lambda>_. retM (AList []))) wf_ast"
        by (rule ok_bind) (simp add: ok_ret)
    qed
  qed
qed

lemma ok_labelAtoms:
  assumes "wf_ctx s ctx" and "wf_ast s e"
  shows "ok s (labelAtoms ctx e) (\<lambda>s' as. list_all (wf_atom s') as)"
  unfolding labelAtoms_def
  by (rule ok_inv, intro okI)
    (use assms wf_asAtom wf_resolveLabel in \<open>auto simp: list_all_iff\<close>)

lemma labelAtoms_const: "labelAtoms ctx e s = Return (as, s') \<Longrightarrow> s' = s"
  by (auto simp: labelAtoms_def run split: option.splits if_splits)

lemma mapM_labelAtoms_const: "mapM (labelAtoms ctx) es s = Return (ass, s') \<Longrightarrow> s' = s"
  by (induction es arbitrary: ass s) (auto simp: bindM_Return_iff retM_def dest: labelAtoms_const)

lemma ok_const:
  assumes "ok s m Q" and "\<And>x s'. m s = Return (x, s') \<Longrightarrow> s' = s"
  shows "ok s m (\<lambda>s' x. s' = s \<and> Q s' x)"
  using assms by (auto simp: ok_def)

lemma forM_addLabel_labels: "forM as (addLabel l) s = Return (u, s') \<Longrightarrow> labelsH s' = labelsH s"
proof (induction as arbitrary: s)
  case (Cons a as)
  then obtain s1 where "addLabel l a s = Return ((), s1)" "forM as (addLabel l) s1 = Return (u, s')"
    by (auto simp: bindM_Return_iff)
  moreover from this(1) have "labelsH s1 = labelsH s"
    by (cases a) (auto simp: addLabel_def modM_def Let_def SetLabels_def split: if_splits)
  ultimately show ?case using Cons.IH by simp
qed (simp add: retM_def)

lemma ok_labelBody:
  assumes "wf_ctx s ctx" and "list_all (wf_atom s) as" and new: "resolveLabel ctx (AString x) s = None"
  shows "ok s (bindM (forM as (addLabel x)) (\<lambda>_. bindM (defineLabel ctx x as) (\<lambda>_. retM (ALabel x as)))) wf_ast"
proof (rule ok_bind)
  have "ok s (forM as (addLabel x)) anyQ"
    by (intro ok_forM ok_addLabel) (use assms(2) in \<open>auto simp: list_all_iff intro: wf_atom_mono\<close>)
  then show "ok s (forM as (addLabel x)) (\<lambda>s' _. labelsH s' = labelsH s)"
    using forM_addLabel_labels by (fastforce simp: ok_def)
next
  fix u s1
  assume s1: "grown s s1" "labelsH s1 = labelsH s"
  have "ok s1 (defineLabel ctx x as) anyQ"
  proof (rule ok_defineLabel)
    show "wf_ctx s1 ctx" using wf_ctx_mono [OF s1(1) assms(1)] .
    show "list_all (wf_atom s1) as" using wf_atoms_mono [OF s1(1) assms(2)] .
    show "x \<noteq> PublicInternetLabel" "gget (labelsH s1 ! labelsR (globalCtx ctx)) x = None"
      using resolveLabel_None [OF new] s1(2) by simp_all
  qed
  then show "ok s1 (bindM (defineLabel ctx x as) (\<lambda>_. retM (ALabel x as))) wf_ast"
    using wf_atoms_mono [OF grown_trans [OF s1(1)] assms(2)] by (auto intro!: ok_bind ok_ret)
qed

lemma ok_labelImpl:
  assumes "wf_ctx s ctx" and "list_all (wf_ast s) args"
  shows "ok s (labelImpl ctx args) wf_ast"
  unfolding labelImpl_def Let_def
proof (rule ok_nth, intro okI, rule ok_bind, rule ok_if, rule ok_logM, rule ok_ret, rule TrueI, intro okI)
  fix x u s1
  assume i: "0 < length args" and x: "asStr (args ! 0) = Some x" and inv: "st_inv s1" and g: "grown s s1"
    and new: "\<not> resolveLabel ctx (args ! 0) s1 \<noteq> None"
  have a0: "args ! 0 = AString x" using x by (cases "args ! 0") auto
  have wf: "wf_ctx s1 ctx" "list_all (wf_ast s1) (flatten (drop 1 args))"
    using wf_ctx_mono [OF g assms(1)] wf_flatten [OF wf_asts_mono [OF g wf_drop [OF assms(2)]]] by simp_all
  have "ok s1 (mapM (labelAtoms ctx) (flatten (drop 1 args)))
      (\<lambda>s' ass. s' = s1 \<and> list_all (\<lambda>as. list_all (wf_atom s') as) ass)"
  proof (rule ok_const [OF ok_weaken [OF ok_mapM [where P = "\<lambda>s' as. list_all (wf_atom s') as"]]])
    show "ok s' (labelAtoms ctx e) (\<lambda>s' as. list_all (wf_atom s') as)"
      if "grown s1 s'" "e \<in> set (flatten (drop 1 args))" for e s'
      using that wf by (intro ok_labelAtoms) (auto simp: list_all_iff intro: wf_ctx_mono wf_ast_mono)
  qed (auto intro: wf_atoms_mono mapM_labelAtoms_const)
  then show "ok s1 (bindM (mapM (labelAtoms ctx) (flatten (drop 1 args))) (\<lambda>atomss.
      bindM (forM (concat atomss) (addLabel x)) (\<lambda>_.
      bindM (defineLabel ctx x (concat atomss)) (\<lambda>_. retM (ALabel x (concat atomss)))))) wf_ast"
  proof (rule ok_bind)
    fix ass s2
    assume "s2 = s1 \<and> list_all (\<lambda>as. list_all (wf_atom s2) as) ass"
    moreover have "resolveLabel ctx (AString x) s1 = None" using new a0 by metis
    ultimately show "ok s2 (bindM (forM (concat ass) (addLabel x)) (\<lambda>_.
      bindM (defineLabel ctx x (concat ass)) (\<lambda>_. retM (ALabel x (concat ass))))) wf_ast"
      using wf(1) by (intro ok_labelBody) (auto simp: list_all_iff)
  qed
qed

lemma ok_labelNameImpl: "ok s (labelNameImpl ctx args) wf_ast"
  unfolding labelNameImpl_def by (intro okI) simp
lemma ok_labelHostImpl: "ok s (labelHostImpl ctx args) wf_ast"
  unfolding labelHostImpl_def by (intro okI) simp

lemma ok_listImpl: "list_all (wf_ast s) args \<Longrightarrow> ok s (listImpl args) wf_ast"
  unfolding listImpl_def by (intro okI) simp

lemma ok_hashM: "ok s (hashM k) anyQ"
  unfolding hashM_def by (intro okI TrueI)

lemma wf_hmap_put:
  "list_all (\<lambda>(k, x). wf_ast s k \<and> wf_ast s x) m \<Longrightarrow> wf_ast s k \<Longrightarrow> wf_ast s v \<Longrightarrow>
     list_all (\<lambda>(k, x). wf_ast s k \<and> wf_ast s x) (gput k v m)"
  by (induction m) (auto split: if_splits)

lemma wf_AHmap: "wf_ast s (AHmap m) \<longleftrightarrow> list_all (\<lambda>(k, x). wf_ast s k \<and> wf_ast s x) m"
  by (auto simp: list_all_iff)

lemma wf_pairs_mono:
  "grown s s' \<Longrightarrow> list_all (\<lambda>(k, x). wf_ast s k \<and> wf_ast s x) m \<Longrightarrow> list_all (\<lambda>(k, x). wf_ast s' k \<and> wf_ast s' x) m"
  by (fastforce simp: list_all_iff intro: wf_ast_mono)

lemma ok_hmapArg:
  assumes "list_all (wf_ast s) args"
  shows "ok s (hmapArg args) (\<lambda>s' m. list_all (\<lambda>(k, x). wf_ast s' k \<and> wf_ast s' x) m)"
  unfolding hmapArg_def by (intro okI) (use wf_asHmap [OF wf_arg [OF assms]] in blast)

lemma ok_hmapSetImpl:
  assumes "list_all (wf_ast s) args"
  shows "ok s (hmapSetImpl args) wf_ast"
  unfolding hmapSetImpl_def
proof (rule ok_bind [OF ok_hmapArg [OF assms]], intro okI, rule ok_bind [OF ok_hashM], rule ok_ret)
  fix m s1 u s2
  assume 1: "grown s s1" "grown s1 s2" "list_all (\<lambda>(k, x). wf_ast s1 k \<and> wf_ast s1 x) m"
    "1 < length args" "2 < length args"
  note g = grown_trans [OF 1(1,2)]
  show "wf_ast s2 (AHmap (gput (args ! 1) (args ! 2) m))"
    unfolding wf_AHmap
    by (intro wf_hmap_put wf_pairs_mono [OF 1(2,3)] wf_ast_mono [OF g] wf_arg [OF assms] 1(4,5))
qed

lemma ok_hmapGetImpl:
  assumes "list_all (wf_ast s) args"
  shows "ok s (hmapGetImpl args) wf_ast"
  unfolding hmapGetImpl_def
proof (rule ok_bind [OF ok_hmapArg [OF assms]], intro okI, rule ok_bind [OF ok_hashM], intro okI)
  fix m s1 u s2 v
  assume "grown s1 s2" "list_all (\<lambda>(k, x). wf_ast s1 k \<and> wf_ast s1 x) m" "gget m (args ! 1) = Some v"
  then show "wf_ast s2 v" by (auto simp: list_all_iff dest!: map_of_SomeD intro: wf_ast_mono)
qed

lemma ok_hmapContainsImpl:
  assumes "list_all (wf_ast s) args"
  shows "ok s (hmapContainsImpl args) wf_ast"
  unfolding hmapContainsImpl_def
  by (rule ok_bind [OF ok_hmapArg [OF assms]], intro okI, rule ok_bind [OF ok_hashM], intro okI) simp

lemma ok_hmapKeysImpl:
  assumes "list_all (wf_ast s) args"
  shows "ok s (hmapKeysImpl args) wf_ast"
  unfolding hmapKeysImpl_def
  by (rule ok_bind [OF ok_hmapArg [OF assms]], intro okI) (auto simp: list_all_iff)

lemma ok_hmapValuesImpl:
  assumes "list_all (wf_ast s) args"
  shows "ok s (hmapValuesImpl args) wf_ast"
  unfolding hmapValuesImpl_def
  by (rule ok_bind [OF ok_hmapArg [OF assms]], intro okI) (auto simp: list_all_iff)

lemma ok_lenImpl: "ok s (lenImpl args) wf_ast"
  unfolding lenImpl_def by (intro okI) simp

lemma ok_carImpl: "list_all (wf_ast s) args \<Longrightarrow> ok s (carImpl args) wf_ast"
  unfolding carImpl_def by (intro okI) (auto dest: wf_asList [OF wf_arg])

lemma ok_cdrImpl: "list_all (wf_ast s) args \<Longrightarrow> ok s (cdrImpl args) wf_ast"
  unfolding cdrImpl_def by (intro okI) (auto dest: wf_asList [OF wf_arg])

lemma ok_consImpl: "list_all (wf_ast s) args \<Longrightarrow> ok s (consImpl args) wf_ast"
  unfolding consImpl_def by (intro okI) (auto simp: wf_arg dest: wf_asList [OF wf_arg])

lemma ok_nthImpl: "list_all (wf_ast s) args \<Longrightarrow> ok s (nthImpl args) wf_ast"
  unfolding nthImpl_def by (intro okI) (auto simp: list_all_nth dest: wf_asList [OF wf_arg])

lemma ok_sprintfImpl: "ok s (sprintfImpl args) wf_ast"
  unfolding sprintfImpl_def by (intro okI) simp

lemma ok_logImpl: "ok s (logImpl args) wf_ast"
  unfolding logImpl_def by (intro okI, rule ok_bind [OF ok_logM], intro okI) simp

lemma ok_panicImpl: "ok s (panicImpl args) wf_ast"
  unfolding panicImpl_def by (intro okI)

lemma ok_boolImpl: "ok s (boolImpl args) wf_ast"
  unfolding boolImpl_def by (intro okI) simp

lemma ok_importImpl: "ok s importImpl wf_ast"
  unfolding importImpl_def by (intro okI)

lemma ok_prognImpl: "list_all (wf_ast s) args \<Longrightarrow> ok s (prognImpl args) wf_ast"
  unfolding prognImpl_def by (intro okI) (auto simp: list_all_iff)

lemma ok_rangeImpl: "ok s (rangeImpl args) wf_ast"
  unfolding rangeImpl_def
  by (rule ok_bind [OF ok_mapM_any], intro okI TrueI,
      rule ok_bind [where P = anyQ], intro okI TrueI, intro okI) (auto simp: list_all_iff)

section \<open>Functions that evaluate\<close>

lemma ok_lambdaImpl:
  assumes "wf_ctx s ctx" and "list_all (wf_ast s) args"
  shows "ok s (lambdaImpl ctx args) wf_ast"
  unfolding lambdaImpl_def
proof (intro okI, rule ok_bind [OF ok_mapM_any], intro okI TrueI, rule ok_bind [OF ok_deepCopy [OF wf_ctx_mono [OF _ assms(1)]]],
    assumption)
  fix ns s1 c s2
  assume 1: "grown s s1" "grown s1 s2" "wf_ctx s2 c"
  then show "ok s2 (retM (ALambda ns (drop 1 args) c)) wf_ast"
    using wf_asts_mono [OF grown_trans [OF 1(1,2)] wf_drop [OF assms(2)]] by (intro ok_ret) simp
qed

lemma ok_defineName:
  assumes "wf_ctx s ctx" and "wf_ast s v"
  shows "ok s (defineName ctx i v) wf_ast"
  unfolding defineName_def
  by (intro okI, rule ok_bind [OF ok_setBind [OF assms]], intro okI) simp

lemma ok_notImpl:
  assumes "evOk ev" "wf_ctx s ctx" "list_all (wf_ast s) args"
  shows "ok s (notImpl ev ctx args) wf_ast"
  unfolding notImpl_def
  by (intro okI, rule ok_bind [OF evOkD [OF assms(1,2) wf_arg [OF assms(3)]]], assumption, intro okI) simp

lemma ok_andImpl:
  "evOk ev \<Longrightarrow> wf_ctx s ctx \<Longrightarrow> list_all (wf_ast s) args \<Longrightarrow> ok s (andImpl ev ctx args) wf_ast"
proof (induction args arbitrary: s)
  case (Cons a as)
  have "ok s' (andImpl ev ctx as) wf_ast" if "grown s s'" for s'
    using Cons that by (intro Cons.IH) (auto intro: wf_ctx_mono wf_asts_mono)
  with Cons.prems show ?case
    unfolding andImpl.simps by (intro ok_bind [OF evOkD [of ev s ctx a]] okI) auto
qed (simp add: ok_ret)

lemma ok_orImpl:
  "evOk ev \<Longrightarrow> wf_ctx s ctx \<Longrightarrow> list_all (wf_ast s) args \<Longrightarrow> ok s (orImpl ev ctx args) wf_ast"
proof (induction args arbitrary: s)
  case (Cons a as)
  have "ok s' (orImpl ev ctx as) wf_ast" if "grown s s'" for s'
    using Cons that by (intro Cons.IH) (auto intro: wf_ctx_mono wf_asts_mono)
  with Cons.prems show ?case
    unfolding orImpl.simps by (intro ok_bind [OF evOkD [of ev s ctx a]] okI) auto
qed (simp add: ok_ret)

lemma ok_evalM:
  "evOk ev \<Longrightarrow> wf_ctx s ctx \<Longrightarrow> list_all (wf_ast s) args \<Longrightarrow> ok s (bindM (nthM args i) (ev ctx)) wf_ast"
  by (intro ok_nth evOkD) (simp_all add: wf_arg)

lemma ok_ifImpl:
  assumes "evOk ev" "wf_ctx s ctx" "list_all (wf_ast s) args"
  shows "ok s (ifImpl ev ctx args) wf_ast"
  unfolding ifImpl_def
proof (rule ok_nth, rule ok_bind [OF evOkD [OF assms(1,2) wf_arg [OF assms(3)]]], assumption)
  fix p s'
  assume "grown s s'"
  then have "wf_ctx s' ctx" "list_all (wf_ast s') args"
    using assms by (auto intro: wf_ctx_mono wf_asts_mono)
  then show "ok s' (if toBool p then bindM (nthM args 1) (ev ctx)
      else if length args = 2 then retM (AList []) else bindM (nthM args 2) (ev ctx)) wf_ast"
    by (intro ok_if ok_evalM ok_ret assms(1)) simp_all
qed

lemma ok_applyImpl:
  assumes "evOk ev" "wf_ctx s ctx" "list_all (wf_ast s) args"
  shows "ok s (applyImpl ev ctx args) wf_ast"
  unfolding applyImpl_def
  by (intro okI evOkD [OF assms(1,2)]) (use assms(3) in \<open>auto simp: wf_arg dest: wf_asList [OF wf_arg]\<close>)

lemma ok_defineImpl:
  assumes ev: "evOk ev" and wf: "wf_ctx s ctx" "list_all (wf_ast s) args"
  shows "ok s (defineImpl ev ctx args) wf_ast"
  unfolding defineImpl_def
proof (rule ok_nth)
  assume i: "0 < length args"
  have lam: "ok s (bindM (lambdaImpl ctx (ASexp ps noPos # drop 1 args)) (defineName ctx n)) wf_ast"
    if "asSexp (args ! 0) = Some (f # ps)" for f ps n
  proof (rule ok_bind [OF ok_lambdaImpl [OF wf(1)]])
    show "list_all (wf_ast s) (ASexp ps noPos # drop 1 args)"
      using wf_asSexp [OF wf_arg [OF wf(2) i] that] wf_drop [OF wf(2)] by simp
    show "ok s' (defineName ctx n v) wf_ast" if "grown s s'" "wf_ast s' v" for s' v
      using that wf_ctx_mono [OF that(1) wf(1)] by (intro ok_defineName)
  qed
  have val: "ok s (bindM (nthM args 1) (\<lambda>a. bindM (ev ctx a) (defineName ctx n))) wf_ast" for n
  proof (rule ok_nth, rule ok_bind [OF evOkD [OF ev wf(1) wf_arg [OF wf(2)]]], assumption)
    show "ok s' (defineName ctx n v) wf_ast" if "grown s s'" "wf_ast s' v" for s' v
      using that wf_ctx_mono [OF that(1) wf(1)] by (intro ok_defineName)
  qed
  show "ok s (case asSexp (args ! 0) of
         Some [] \<Rightarrow> errM ''define function must begin with a name'' []
       | Some (f # params) \<Rightarrow> (case asIdent f of
             None \<Rightarrow> errM ''define name must be an ident: %v'' [f]
           | Some i \<Rightarrow> bindM (lambdaImpl ctx (ASexp params noPos # drop 1 args)) (defineName ctx i))
       | None \<Rightarrow> (case asIdent (args ! 0) of
             None \<Rightarrow> errM ''define name must be an ident: %v'' [args ! 0]
           | Some i \<Rightarrow>
               if length args > 2 then errM ''not enough arguments: %s'' [args ! 0]
               else bindM (nthM args 1) (\<lambda>a1. bindM (ev ctx a1) (defineName ctx i)))) wf_ast"
    by (intro ok_option ok_list ok_if ok_raise val) (use lam in simp)
qed

lemma ok_parseBindings:
  assumes "list_all (wf_ast s) bs"
  shows "ok s (parseBindings bs) (\<lambda>s' ps. list_all (\<lambda>(k, v). wf_ast s' k \<and> wf_ast s' v) ps)"
  unfolding parseBindings_def
proof (rule ok_weaken [OF ok_mapM [where P = "\<lambda>s' (k, v). wf_ast s' k \<and> wf_ast s' v"]])
  fix b s'
  assume "grown s s'" "b \<in> set bs"
  then have b: "wf_ast s' b" using assms by (auto simp: list_all_iff intro: wf_ast_mono)
  show "ok s' (parseBinding b) (\<lambda>s' (k, v). wf_ast s' k \<and> wf_ast s' v)"
    unfolding parseBinding_def by (intro okI) (use wf_asSexp [OF b] in auto)
qed (auto intro: wf_ast_mono)

lemma ok_hmapImpl:
  assumes ev: "evOk ev" and wf: "wf_ctx s ctx" "list_all (wf_ast s) args"
  shows "ok s (hmapImpl ev ctx args) wf_ast"
  unfolding hmapImpl_def
proof (rule ok_bind [OF ok_parseBindings [OF wf(2)]],
    rule ok_bind [OF ok_foldM [where P = "\<lambda>s m. wf_ast s (AHmap m)"]], simp, rule ok_prod)
  fix ps s1 m kv s2 k v
  assume 1: "grown s s1" "list_all (\<lambda>(k, v). wf_ast s1 k \<and> wf_ast s1 v) ps" "grown s1 s2" "kv \<in> set ps"
    "wf_ast s2 (AHmap m)" "kv = (k, v)"
  have c: "wf_ctx s2 ctx" using wf_ctx_mono [OF grown_trans [OF 1(1,3)] wf(1)] .
  have kv: "wf_ast s2 k" "wf_ast s2 v" using 1 by (auto simp: list_all_iff intro: wf_ast_mono)
  show "ok s2 (bindM (ev ctx k) (\<lambda>k'. bindM (ev ctx v) (\<lambda>v'. bindM (hashM k') (\<lambda>_. retM (gput k' v' m)))))
      (\<lambda>s m. wf_ast s (AHmap m))"
  proof (rule ok_bind [OF evOkD [OF ev c kv(1)]], rule ok_bind [OF evOk_mono [OF ev _ c kv(2)]], assumption,
      rule ok_bind [OF ok_hashM], rule ok_ret)
    fix k' s3 v' s4 u s5
    assume 2: "grown s2 s3" "wf_ast s3 k'" "grown s3 s4" "wf_ast s4 v'" "grown s4 s5"
    have "wf_ast s5 (AHmap m)" using wf_ast_mono [OF grown_trans [OF 2(1) grown_trans [OF 2(3,5)]] 1(5)] .
    moreover have "wf_ast s5 k'" "wf_ast s5 v'"
      using wf_ast_mono [OF grown_trans [OF 2(3,5)] 2(2)] wf_ast_mono [OF 2(5,4)] by simp_all
    ultimately show "wf_ast s5 (AHmap (gput k' v' m))" unfolding wf_AHmap by (rule wf_hmap_put)
  qed
qed (auto intro: ok_ret)

lemma ok_letBinds:
  assumes "evOk ev"
  shows "wf_ctx s ctx \<Longrightarrow> list_all (\<lambda>(k, v). wf_ast s k \<and> wf_ast s v) ps \<Longrightarrow>
    ok s (letBinds ev ctx ps) (\<lambda>s' nvs. list_all (\<lambda>(i, v). wf_ast s' v) nvs)"
proof (induction ps arbitrary: s)
  case (Cons p ps)
  obtain k v where p: "p = (k, v)" by force
  show ?case
    unfolding p letBinds.simps
  proof (rule ok_option, rule ok_raise, rule ok_bind [OF evOkD [OF assms Cons.prems(1)]])
    show "wf_ast s v" using Cons.prems(2) p by simp
    fix i x s1
    assume 1: "grown s s1" "wf_ast s1 x"
    show "ok s1 (bindM (setBind ctx i x) (\<lambda>_. bindM (letBinds ev ctx ps) (\<lambda>r. retM ((i, x) # r))))
        (\<lambda>s' nvs. list_all (\<lambda>(i, v). wf_ast s' v) nvs)"
    proof (rule ok_bind [OF ok_setBind [OF wf_ctx_mono [OF 1(1) Cons.prems(1)] 1(2)]], rule ok_bind [OF Cons.IH], goal_cases)
      case (1 u s2)
      then show ?case using wf_ctx_mono [OF grown_trans [OF \<open>grown s s1\<close>] Cons.prems(1)] by blast
    next
      case (2 u s2)
      then show ?case
        using Cons.prems(2) wf_pairs_mono [OF grown_trans [OF \<open>grown s s1\<close>]] by (auto simp: p)
    next
      case (3 u s2 r s3)
      then show ?case using wf_ast_mono [OF grown_trans 1(2)] by (intro ok_ret) auto
    qed
  qed
qed (simp add: ok_ret)

lemma ok_letImpl:
  assumes ev: "evOk ev" and wf: "wf_ctx s ctx" "list_all (wf_ast s) args"
  shows "ok s (letImpl ev ctx args) wf_ast"
  unfolding letImpl_def Let_def
proof (rule ok_nth, rule ok_option, rule ok_raise, rule ok_bind [OF ok_parseBindings])
  fix bs
  assume "0 < length args" "asSexp (args ! 0) = Some bs"
  then show "list_all (wf_ast s) bs" by (rule wf_asSexp [OF wf_arg [OF wf(2)]])
next
  fix ps s1
  assume 1: "grown s s1" "list_all (\<lambda>(k, v). wf_ast s1 k \<and> wf_ast s1 v) ps"
  let ?body = "if 1 < length args then drop 1 args else [AList []]"
  have c1: "wf_ctx s1 ctx" using wf_ctx_mono [OF 1(1) wf(1)] .
  show "ok s1 (bindM (newEvalCtx (Some ctx)) (\<lambda>c. bindM (letBinds ev c ps) (\<lambda>nvs.
      ev ctx (ASexp (ALambda (map fst nvs) ?body ctx # map snd nvs) noPos)))) wf_ast"
  proof (rule ok_bind [OF ok_newEvalCtx], simp add: c1, rule ok_bind [OF ok_letBinds [OF ev]])
    fix c s2
    assume 2: "grown s1 s2" "wf_ctx s2 c"
    show "wf_ctx s2 c" by (rule 2(2))
    show "list_all (\<lambda>(k, v). wf_ast s2 k \<and> wf_ast s2 v) ps" using wf_pairs_mono [OF 2(1) 1(2)] .
    fix nvs :: "(astIdent \<times> ast) list" and s3
    assume 3: "grown s2 s3" "list_all (\<lambda>(i, v). wf_ast s3 v) nvs"
    note g = grown_trans [OF 1(1) grown_trans [OF 2(1) 3(1)]]
    have "list_all (wf_ast s3) ?body" using wf_asts_mono [OF g wf_drop [OF wf(2)]] by simp
    with 3(2) wf_ctx_mono [OF g wf(1)]
    show "ok s3 (ev ctx (ASexp (ALambda (map fst nvs) ?body ctx # map snd nvs) noPos)) wf_ast"
      by (intro evOkD [OF ev]) (auto simp: list_all_iff)
  qed
qed

lemma ok_makeListImpl:
  assumes ev: "evOk ev" and wf: "wf_ctx s ctx" "list_all (wf_ast s) args"
  shows "ok s (makeListImpl ev ctx args) wf_ast"
  unfolding makeListImpl_def
proof (rule ok_nth, rule ok_bind [OF evOkD [OF ev wf(1) wf_arg [OF wf(2)]]], assumption, intro ok_option ok_if ok_raise,
    rule ok_bind [OF ok_timesM [where P = wf_ast]])
  fix v s1 s2
  assume "grown s s1" "grown s1 s2"
  note g = grown_trans [OF this]
  show "ok s2 (bindM (nthM args 1) (ev ctx)) wf_ast"
    by (rule ok_evalM [OF ev wf_ctx_mono [OF g wf(1)] wf_asts_mono [OF g wf(2)]])
qed (auto intro: ok_ret wf_ast_mono)

lemma ok_moduleImpl:
  assumes ev: "evOk ev" and wf: "wf_ctx s ctx" "list_all (wf_ast s) args"
  shows "ok s (moduleImpl ev ctx args) wf_ast"
  unfolding moduleImpl_def
proof (rule ok_nth, rule ok_bind [OF evOkD [OF ev wf(1) wf_arg [OF wf(2)]]], assumption, intro ok_option ok_raise)
  fix s' name
  assume g: "grown s s'"
  show "ok s' (ev ctx (AModule name (drop 1 args))) wf_ast"
    using wf_asts_mono [OF g wf_drop [OF wf(2)]] by (intro evOkD [OF ev wf_ctx_mono [OF g wf(1)]]) simp
qed

lemma ok_mapArgs:
  assumes "list_all (wf_ast s) as"
  shows "ok s (mapM (\<lambda>a. case asList a of None \<Rightarrow> errM m [a] | Some xs \<Rightarrow> retM xs) as)
     (\<lambda>s' ls. list_all (list_all (wf_ast s')) ls)"
proof (rule ok_weaken [OF ok_mapM [where P = "\<lambda>s. list_all (wf_ast s)"]])
  fix a s'
  assume "grown s s'" "a \<in> set as"
  then have "wf_ast s' a" using assms wf_ast_mono by (auto simp: list_all_iff)
  then show "ok s' (case asList a of None \<Rightarrow> errM m [a] | Some xs \<Rightarrow> retM xs) (\<lambda>s. list_all (wf_ast s))"
    by (intro ok_option ok_raise ok_ret) (rule wf_asList)
qed (auto intro: wf_asts_mono)

lemma wf_nths:
  "list_all (list_all (wf_ast s)) ls \<Longrightarrow> list_all (\<lambda>l. length l = n) ls \<Longrightarrow> i < n \<Longrightarrow> list_all (wf_ast s) (map (\<lambda>l. l ! i) ls)"
  by (auto simp: list_all_iff)

lemma ok_mapImpl:
  assumes ev: "evOk ev" and wf: "wf_ctx s ctx" "list_all (wf_ast s) args"
  shows "ok s (mapImpl ev ctx args) wf_ast"
  unfolding mapImpl_def
proof (rule ok_bind [OF ok_mapArgs [OF wf_drop [OF wf(2)]]], intro ok_nth ok_if ok_raise,
    rule ok_bind [OF ok_mapM [where P = wf_ast]])
  fix ls s1 i s2
  assume 1: "grown s s1" "list_all (list_all (wf_ast s1)) ls" "0 < length args"
    "list_all (\<lambda>l. length l = length (ls ! 0)) ls" "grown s1 s2" "i \<in> set [0..<length (ls ! 0)]"
  note g = grown_trans [OF 1(1,5)]
  have "list_all (list_all (wf_ast s2)) ls"
    using 1(2) wf_asts_mono [OF 1(5)] by (auto simp: list_all_iff)
  then have "wf_ast s2 (ASexp (args ! 0 # map (\<lambda>l. l ! i) ls) noPos)"
    using 1(4,6) wf_arg [OF wf_asts_mono [OF g wf(2)] 1(3)] wf_nths [of s2 ls "length (ls ! 0)" i]
    by (simp add: list_all_iff)
  then show "ok s2 (ev ctx (ASexp (args ! 0 # map (\<lambda>l. l ! i) ls) noPos)) wf_ast"
    by (rule evOkD [OF ev wf_ctx_mono [OF g wf(1)]])
qed (auto intro: ok_ret wf_ast_mono)

lemma ok_reduceImpl:
  assumes ev: "evOk ev" and wf: "wf_ctx s ctx" "list_all (wf_ast s) args"
  shows "ok s (reduceImpl ev ctx args) wf_ast"
  unfolding reduceImpl_def
proof (intro ok_nth ok_option ok_list ok_raise, rule ok_foldM [where P = wf_ast])
  fix xs x xs' y ys
  assume "0 < length args" "1 < length args" "asList (args ! 1) = Some xs" "xs = x # xs'" "xs' = y # ys"
  then have 1: "0 < length args" "1 < length args" "asList (args ! 1) = Some (x # y # ys)" by simp_all
  have l: "list_all (wf_ast s) (x # y # ys)" using wf_asList [OF wf_arg [OF wf(2) 1(2)] 1(3)] .
  then show "wf_ast s x" by simp
  fix b item s'
  assume 2: "grown s s'" "item \<in> set (y # ys)" "wf_ast s' b"
  have "wf_ast s' item" using 2(2) wf_asts_mono [OF 2(1) l] by (auto simp: list_all_iff)
  then show "ok s' (ev ctx (ASexp [args ! 0, b, item] noPos)) wf_ast"
    using wf_arg [OF wf_asts_mono [OF 2(1) wf(2)] 1(1)] 2(3) by (intro evOkD [OF ev wf_ctx_mono [OF 2(1) wf(1)]]) simp
qed

section \<open>The evaluator\<close>

lemmas builtin_ok =
  ok_notImpl ok_arithFun ok_plusImpl ok_compareFun ok_eqImpl ok_andImpl ok_applyImpl ok_boolImpl ok_carImpl ok_cdrImpl
  ok_connectImpl ok_consImpl ok_rangeTypeImpl ok_defineImpl ok_diskSizeImpl ok_dockerImpl ok_githubKeyImpl ok_hmapImpl
  ok_hmapGetImpl ok_hmapContainsImpl ok_hmapSetImpl ok_hmapKeysImpl ok_hmapValuesImpl ok_ifImpl ok_importImpl
  ok_labelImpl ok_labelNameImpl ok_labelHostImpl ok_lambdaImpl ok_letImpl ok_lenImpl ok_logImpl ok_listImpl
  ok_machineImpl ok_machineAttributeImpl ok_makeListImpl ok_mapImpl ok_moduleImpl ok_nthImpl ok_orImpl ok_placementImpl
  ok_plaintextKeyImpl ok_panicImpl ok_prognImpl ok_providerImpl ok_reduceImpl ok_regionImpl ok_rangeImpl ok_roleImpl
  ok_setEnvImpl ok_sizeImpl ok_sprintfImpl

definition implOk :: "funcImpl \<Rightarrow> bool" where
  "implOk impl \<longleftrightarrow> (\<forall>s ctx args. wf_ctx s ctx \<longrightarrow> list_all (wf_ast s) args \<longrightarrow> ok s (doF impl ctx args) wf_ast)"

lemma implOk_mk: "(\<And>s ctx args. wf_ctx s ctx \<Longrightarrow> list_all (wf_ast s) args \<Longrightarrow> ok s (f ctx args) wf_ast) \<Longrightarrow> implOk (mkImpl f n l)"
  by (simp add: implOk_def mkImpl_def)

lemma funcImplMap_ok: "evOk ev \<Longrightarrow> list_all (\<lambda>(k, i). implOk i) (funcImplMap n ev)"
  unfolding funcImplMap_def list.pred_inject prod.case
  by (intro conjI implOk_mk; (rule builtin_ok; assumption)?) simp

lemma ok_callBuiltin:
  assumes ev: "evOk ev" and wf: "wf_ctx s ctx" "list_all (wf_ast s) args"
  shows "ok s (callBuiltin n ev ctx p fn args) wf_ast"
proof -
  have impl: "ok s (bindM (if lazy impl then retM args else evalList ev ctx args) (doF impl ctx)) wf_ast"
    if "gget (funcImplMap n ev) fn = Some impl" for impl
  proof (rule ok_bind [where P = "\<lambda>s' as. list_all (wf_ast s') as"])
    have "implOk impl" using map_of_SomeD [OF that] funcImplMap_ok [OF ev, of n] by (auto simp: list_all_iff)
    then show "ok s' (doF impl ctx as) wf_ast" if "grown s s'" "list_all (wf_ast s') as" for as s'
      using that wf_ctx_mono [OF that(1) wf(1)] by (simp add: implOk_def)
  qed (use wf in \<open>intro ok_if ok_ret ok_evalList [OF ev], simp_all\<close>)
  show ?thesis
    unfolding callBuiltin_def
    by (intro ok_option ok_if ok_raise ok_wrap impl, rule ok_bind [OF ok_evalList [OF ev wf]], rule ok_panic)
qed

lemma ok_evalHead: "evOk ev \<Longrightarrow> wf_ctx s ctx \<Longrightarrow> wf_ast s h \<Longrightarrow> ok s (evalHead ev ctx p h) wf_ast"
  using evOkD [of ev s ctx h] by (auto simp: ok_def evalHead_def split: res.splits if_splits)

lemma ok_evalLambda:
  assumes ev: "evOk ev" and wf: "wf_ctx s lctx" "list_all (wf_ast s) body" "list_all (wf_ast s) as"
  shows "ok s (evalLambda ev names body lctx as) wf_ast"
  unfolding evalLambda_def
proof (intro ok_if ok_raise, rule ok_bind [OF ok_newEvalCtx], simp add: wf, rule ok_bind [OF ok_forM], rule ok_prod)
  fix c s1 ia s2 i a
  assume 1: "grown s s1" "wf_ctx s1 c" "grown s1 s2" "ia \<in> set (zip names as)" "ia = (i, a)"
  note g = grown_trans [OF 1(1,3)]
  have "wf_ast s2 a" using 1(4,5) wf_asts_mono [OF g wf(3)] by (auto simp: list_all_iff dest: set_zip_rightD)
  then show "ok s2 (bindM (ev lctx a) (setBind c i)) anyQ"
    by (intro ok_bind [OF evOkD [OF ev wf_ctx_mono [OF g wf(1)]]])
      (auto intro!: ok_setBind intro: wf_ctx_mono [OF _ wf_ctx_mono [OF 1(3,2)]])
next
  fix c s1 u s2
  assume 1: "grown s s1" "wf_ctx s1 c" "grown s1 s2"
  show "ok s2 (bindM (evalList ev c body) (\<lambda>r. if r = [] then panicM else retM (last r))) wf_ast"
    by (rule ok_bind [OF ok_evalList [OF ev wf_ctx_mono [OF 1(3,2)] wf_asts_mono [OF grown_trans [OF 1(1,3)] wf(2)]]])
      (auto simp: list_all_iff intro!: ok_if ok_panic ok_ret)
qed

lemma ok_evalSexp:
  assumes ev: "evOk ev" and wf: "wf_ctx s ctx" "list_all (wf_ast s) xs"
  shows "ok s (evalSexp n ev ctx xs p) wf_ast"
  unfolding evalSexp_def
proof (rule ok_list, rule ok_raise, rule ok_bind [OF ok_evalHead [OF ev wf(1)]])
  fix h args
  assume xs: "xs = h # args"
  then show "wf_ast s h" using wf(2) by simp
  fix f s1
  assume 1: "grown s s1" "wf_ast s1 f"
  have w1: "wf_ctx s1 ctx" "list_all (wf_ast s1) args"
    using wf_ctx_mono [OF 1(1) wf(1)] wf_asts_mono [OF 1(1) wf(2)] xs by simp_all
  have lam: "ok s1 (bindM (evalList ev ctx args) (evalLambda ev ns body c)) wf_ast"
    if "asLambda f = Some (ns, body, c)" for ns body c
  proof (rule ok_bind [OF ok_evalList [OF ev w1]])
    fix as s2
    assume 2: "grown s1 s2" "list_all (wf_ast s2) as"
    have "wf_ctx s1 c" "list_all (wf_ast s1) body" using wf_asLambda [OF 1(2) that] by simp_all
    then show "ok s2 (evalLambda ev ns body c as) wf_ast"
      using wf_ctx_mono [OF 2(1)] wf_asts_mono [OF 2(1)] 2(2) by (intro ok_evalLambda [OF ev]) simp_all
  qed
  show "ok s1 (case asIdent f of
              Some fn \<Rightarrow> callBuiltin n ev ctx p fn args
            | None \<Rightarrow> (case asLambda f of
                Some (argNames, body, lctx) \<Rightarrow>
                  wrapM p (bindM (evalList ev ctx args) (evalLambda ev argNames body lctx))
              | None \<Rightarrow> raiseM (DslError p (Errorf ''S-expressions must start with a function call: %s'' [Val f])))) wf_ast"
    by (intro ok_option ok_prod ok_raise ok_wrap ok_callBuiltin [OF ev w1]) (use lam in simp)
qed

lemma ok_exportBinds:
  "wf_ctx s ctx \<Longrightarrow> list_all (\<lambda>(k, v). wf_ast s v) bs \<Longrightarrow> ok s (exportBinds ctx name bs) anyQ"
proof (induction bs arbitrary: s)
  case (Cons b bs)
  obtain k v where b: "b = (k, v)" by force
  show ?case
    unfolding b exportBinds.simps
  proof (intro ok_if, rule ok_bind [OF ok_setBind])
    fix u s'
    assume "grown s s'"
    then show "ok s' (exportBinds ctx name bs) anyQ"
      using Cons.prems by (intro Cons.IH) (auto simp: list_all_iff intro: wf_ctx_mono wf_ast_mono)
  qed (use Cons b in auto)
qed (simp add: ok_ret)

lemma wf_withBinds: "wf_ctx s c \<Longrightarrow> b < length (bindsH s) \<Longrightarrow> wf_ctx s (withBinds c b)"
  by (cases c) (simp add: withBinds_def)

lemma ok_evalModule:
  assumes ev: "evOk ev" and wf: "wf_ctx s ctx" "list_all (wf_ast s) body"
  shows "ok s (evalModule ev ctx name body) wf_ast"
  unfolding evalModule_def
proof (rule ok_bind [OF ok_deepCopy [OF wf_globalCtx [OF wf(1)]]], rule ok_bind [OF ok_allocBinds],
    simp add: bindcell_ok_def, rule ok_bind [OF ok_newEvalCtx], goal_cases)
  case (1 g s1 b s2)
  then show ?case using wf_withBinds [OF wf_ctx_mono] by simp
next
  case (2 g s1 b s2 c s3)
  note g = grown_trans [OF grown_trans [OF 2(2,5)] 2(8)]
  show ?case
  proof (rule ok_bind [OF ok_evalList [OF ev 2(9) wf_asts_mono [OF g wf(2)]]], rule ok_get)
    fix rs s4
    assume 4: "st_inv s4" "grown s3 s4" "list_all (wf_ast s4) rs"
    have "list_all (\<lambda>(k, v). wf_ast s4 v) (bindsH s4 ! bindsR c)"
      using binds_nth [OF 4(1) wf_bindsR [OF wf_ctx_mono [OF 4(2) 2(9)]]] by (auto simp: bindcell_ok_def list_all_iff)
    then show "ok s4 (bindM (exportBinds ctx name (bindsH s4 ! bindsR c)) (\<lambda>_. retM (AModule name rs))) wf_ast"
      using wf_ctx_mono [OF grown_trans [OF g 4(2)] wf(1)] wf_asts_mono [OF _ 4(3)]
      by (intro ok_bind [OF ok_exportBinds] ok_ret) simp_all
  qed
qed

lemma evalAst_ok: "evOk (evalAst n)"
proof (induction n)
  case (Suc n)
  have lists: "ok s (bindM (evalList (evalAst n) ctx xs) (\<lambda>ys. retM (f ys))) wf_ast"
    if "wf_ctx s ctx" "list_all (wf_ast s) xs" "\<And>s ys. wf_ast s (f ys) = list_all (wf_ast s) ys" for s ctx xs f
    using that(3) by (intro ok_bind [OF ok_evalList [OF Suc that(1,2)]] ok_ret) simp
  show ?case
    unfolding evOk_def evalAst.simps evalStep_def
  proof (intro allI impI)
    fix s ctx a
    assume wf: "wf_ctx s ctx" "wf_ast s a"
    show "ok s (case a of
        ARoot xs \<Rightarrow> bindM (evalList (evalAst n) ctx xs) (\<lambda>ys. retM (ARoot ys))
      | ANil \<Rightarrow> retM (AList [])
      | AList xs \<Rightarrow> bindM (evalList (evalAst n) ctx xs) (\<lambda>ys. retM (AList ys))
      | ASexp xs p \<Rightarrow> evalSexp n (evalAst n) ctx xs p
      | AIdent i \<Rightarrow> evalIdent ctx i
      | AModule name body \<Rightarrow> evalModule (evalAst n) ctx name body
      | _ \<Rightarrow> retM a) wf_ast"
      using wf by (cases a)
        (auto simp: evalIdent_def intro!: ok_ret lists ok_evalSexp [OF Suc] ok_evalModule [OF Suc] ok_lookupIdent)
  qed
qed (simp add: evOk_def ok_timeout)

text \<open>The state a policy is evaluated in: an empty heap.\<close>

lemma ok_eval: "wf_ast s a \<Longrightarrow> ok s (eval n a) (\<lambda>s' (r, g). wf_ast s' r \<and> wf_ctx s' g)"
  unfolding eval_def
proof (rule ok_bind [OF ok_newEvalCtx], simp, rule ok_bind [OF evOkD [OF evalAst_ok]], goal_cases)
  case (3 g s1 r s2)
  then show ?case by (intro ok_ret) (simp add: wf_ctx_mono)
qed (auto intro: wf_ast_mono)

end
