(* ===== verification/Dsl_Import.thy ===== *)
theory Dsl_Import
  imports Dsl_Print Dsl_Safe
begin

text \<open>
  Imports (\<open>src/dsl/imports.go\<close>).  The files that \<open>util.Open\<close> can open are a map from paths to
  contents.  The recursion over imported modules takes fuel; because import cycles are rejected,
  \<open>importFuel\<close>, one unit more than there can be modules, is enough.
\<close>

definition bindR :: "'a res \<Rightarrow> ('a \<Rightarrow> 'b res) \<Rightarrow> 'b res" where
  "bindR r f = (case r of Return x \<Rightarrow> f x | Raise e \<Rightarrow> Raise e | Panic \<Rightarrow> Panic | Timeout \<Rightarrow> Timeout)"

lemma bindR_simps [simp]:
  "bindR (Return x) f = f x" "bindR (Raise e) f = Raise e" "bindR Panic f = Panic" "bindR Timeout f = Timeout"
  by (simp_all add: bindR_def)

lemma bindR_Return: "bindR r f = Return y \<longleftrightarrow> (\<exists>x. r = Return x \<and> f x = Return y)"
  by (cases r) simp_all

lemma bindR_not_Timeout: "r \<noteq> Timeout \<Longrightarrow> (\<And>x. r = Return x \<Longrightarrow> f x \<noteq> Timeout) \<Longrightarrow> bindR r f \<noteq> Timeout"
  by (cases r) simp_all

type_synonym filesys = "(string, string) gomap"

text \<open>The name of the module that a form imports, empty if it is not an import; \<open>(import)\<close> panics.\<close>

definition parseImport :: "ast \<Rightarrow> string res" where
  "parseImport a =
     (case asSexp a of
        Some (h # rest) \<Rightarrow>
          if asIdent h = Some ''import'' then
            (case rest of
               [] \<Rightarrow> Panic
             | x # _ \<Rightarrow> Return (case asStr x of Some name \<Rightarrow> name | None \<Rightarrow> ''''))
          else Return ''''
      | _ \<Rightarrow> Return '''')"

text \<open>The first of the paths that has the module.\<close>

definition modulePath :: "string \<Rightarrow> string \<Rightarrow> string" where
  "modulePath path name = path @ ''/'' @ name @ ''.spec''"

fun openModule :: "filesys \<Rightarrow> string list \<Rightarrow> string \<Rightarrow> scan option" where
  "openModule fs [] name = None"
| "openModule fs (path # paths) name =
     (case gget fs (modulePath path name) of
        Some src \<Rightarrow> Some (initScan (modulePath path name) src)
      | None \<Rightarrow> openModule fs paths name)"

type_synonym importer = "string list \<Rightarrow> ast list \<Rightarrow> ast list res"

fun importLoop :: "importer \<Rightarrow> filesys \<Rightarrow> string list \<Rightarrow> string list \<Rightarrow> bool \<Rightarrow> ast list \<Rightarrow> ast list res" where
  "importLoop rec fs paths imported atTop [] = Return []"
| "importLoop rec fs paths imported atTop (a # as) =
     bindR (parseImport a) (\<lambda>name.
       if name = '''' then bindR (importLoop rec fs paths imported False as) (\<lambda>r. Return (a # r))
       else if \<not> atTop then Raise (ErrorText ''import must be begin the module'')
       else if name \<in> set imported then Raise (ErrorText (''import cycle: '' @ sliceString (imported @ [name])))
       else (case openModule fs paths name of
           None \<Rightarrow> Raise (ErrorText (''unable to open import '' @ name))
         | Some sc \<Rightarrow>
             bindR (parse sc) (\<lambda>body. bindR (rec (imported @ [name]) body) (\<lambda>body'.
             bindR (importLoop rec fs paths imported atTop as) (\<lambda>r. Return (AModule name body' # r))))))"

primrec resolveImportsRec :: "nat \<Rightarrow> filesys \<Rightarrow> string list \<Rightarrow> importer" where
  "resolveImportsRec 0 fs paths = (\<lambda>imported asts. Timeout)"
| "resolveImportsRec (Suc n) fs paths =
     (\<lambda>imported asts. importLoop (resolveImportsRec n fs paths) fs paths imported True asts)"

definition importFuel :: "filesys \<Rightarrow> string list \<Rightarrow> nat" where
  "importFuel fs paths = Suc (length paths * length fs)"

definition resolveImports :: "filesys \<Rightarrow> string list \<Rightarrow> ast list \<Rightarrow> ast list res" where
  "resolveImports fs paths asts = resolveImportsRec (importFuel fs paths) fs paths [] asts"

section \<open>Termination\<close>

definition modules :: "filesys \<Rightarrow> string list \<Rightarrow> string set" where
  "modules fs paths = {name. \<exists>path \<in> set paths. modulePath path name \<in> fst ` set fs}"

lemma openModule_modules: "openModule fs paths name = Some sc \<Longrightarrow> name \<in> modules fs paths"
proof (induction paths)
  case (Cons p ps)
  then show ?case
    by (cases "gget fs (modulePath p name)") (force simp: modules_def dest: map_of_SomeD)+
qed simp

lemma modulePath_inj: "inj (modulePath path)"
  by (rule injI) (simp add: modulePath_def)

lemma modules_card: "finite (modules fs paths) \<and> card (modules fs paths) \<le> length paths * length fs"
proof (induction paths)
  case (Cons p ps)
  let ?M = "{name. modulePath p name \<in> fst ` set fs}"
  have "modulePath p ` ?M \<subseteq> fst ` set fs" by auto
  then have "card (modulePath p ` ?M) \<le> card (fst ` set fs)" "finite (modulePath p ` ?M)"
    by (auto intro: card_mono finite_subset)
  moreover have "card (fst ` set fs) \<le> length fs" using card_image_le [of "set fs" fst] card_length [of fs] by simp
  moreover have i: "inj_on (modulePath p) ?M" using modulePath_inj by (rule inj_on_subset) simp
  ultimately have m: "card ?M \<le> length fs" "finite ?M"
    using card_image [OF i] finite_imageD [OF _ i] by simp_all
  have "modules fs (p # ps) = ?M \<union> modules fs ps" by (auto simp: modules_def)
  then show ?case using m Cons card_Un_le [of ?M "modules fs ps"] by simp
qed (simp add: modules_def)

lemma importLoop_not_Timeout:
  assumes "\<And>name body. name \<in> modules fs paths \<Longrightarrow> name \<notin> set imported \<Longrightarrow> rec (imported @ [name]) body \<noteq> Timeout"
  shows "importLoop rec fs paths imported atTop asts \<noteq> Timeout"
proof (induction asts arbitrary: atTop)
  case (Cons a as)
  have "parseImport a \<noteq> Timeout" by (simp add: parseImport_def split: option.splits list.splits)
  then show ?case
    unfolding importLoop.simps
  proof (rule bindR_not_Timeout, intro if_intro [where P = "\<lambda>r. r \<noteq> Timeout"])
    show "bindR (importLoop rec fs paths imported False as) (\<lambda>r. Return (a # r)) \<noteq> Timeout"
      by (rule bindR_not_Timeout [OF Cons]) simp
    fix name
    assume "name \<notin> set imported"
    then show "(case openModule fs paths name of
           None \<Rightarrow> Raise (ErrorText (''unable to open import '' @ name))
         | Some sc \<Rightarrow>
             bindR (parse sc) (\<lambda>body. bindR (rec (imported @ [name]) body) (\<lambda>body'.
             bindR (importLoop rec fs paths imported atTop as) (\<lambda>r. Return (AModule name body' # r))))) \<noteq> Timeout"
      using assms openModule_modules [of fs paths name] Cons [of atTop] parse_not_timeout
      by (cases "openModule fs paths name") (simp_all add: bindR_not_Timeout)
  qed simp_all
qed simp

lemma resolve_not_Timeout:
  assumes "set imported \<subseteq> modules fs paths" and "distinct imported" and "card (modules fs paths) - length imported < n"
  shows "resolveImportsRec n fs paths imported asts \<noteq> Timeout"
  using assms
proof (induction n arbitrary: imported asts)
  case (Suc n)
  have "resolveImportsRec n fs paths (imported @ [name]) body \<noteq> Timeout"
    if "name \<in> modules fs paths" "name \<notin> set imported" for name body
  proof (rule Suc.IH)
    have "set (imported @ [name]) \<subseteq> modules fs paths" using Suc.prems(1) that(1) by simp
    then have "card (set (imported @ [name])) \<le> card (modules fs paths)" using modules_card by (blast intro: card_mono)
    then show "card (modules fs paths) - length (imported @ [name]) < n"
      using Suc.prems that(2) by (simp add: distinct_card)
  qed (use Suc.prems that in simp_all)
  then show ?case unfolding resolveImportsRec.simps by (rule importLoop_not_Timeout)
qed simp

text \<open>
  C26: Resolving imports terminates on every program and file system: a module that imports itself,
  directly or through others, is reported, so the recursion is at most as deep as there are modules.
\<close>

theorem resolveImports_terminates: "resolveImports fs paths asts \<noteq> Timeout"
  unfolding resolveImports_def
  by (rule resolve_not_Timeout) (use modules_card [of fs paths] in \<open>simp_all add: importFuel_def less_Suc_eq_le\<close>)

text \<open>
  The form \<open>(import)\<close>, an import without a name, crashes the program: the index expression for
  the name is not guarded.
\<close>

lemma import_without_name_panics:
  "parse (initScan file ''(import)'') =
     Return [ASexp [AIdent ''import''] \<lparr>Filename = file, Offset = 1, Line = 1, Column = 2\<rparr>] \<and>
   resolveImports fs paths [ASexp [AIdent ''import''] p] = Panic"
proof
  show "parse (initScan file ''(import)'') =
     Return [ASexp [AIdent ''import''] \<lparr>Filename = file, Offset = 1, Line = 1, Column = 2\<rparr>]"
    by code_simp
qed (simp add: resolveImports_def importFuel_def parseImport_def)

end
