(* ===== verification/Dsl_Fuel.thy ===== *)
theory Dsl_Fuel
  imports Dsl_Eval
begin

text \<open>
  More fuel never changes the outcome of an evaluation that did not run out of it.  Every builtin is
  monotone in the evaluator it is given (the rules \<open>mono\<close>), so the evaluator is monotone in its fuel.
\<close>

section \<open>Equality\<close>

definition leO :: "'a option \<Rightarrow> 'a option \<Rightarrow> bool" where
  "leO x y \<longleftrightarrow> x = None \<or> x = y"

lemma leO_refl [simp]: "leO x x"
  by (simp add: leO_def)

lemma leO_None [simp]: "leO None x"
  by (simp add: leO_def)

lemma leO_Some: "leO (Some x) y \<longleftrightarrow> y = Some x"
  by (auto simp: leO_def)

lemma leO_andO: "leO a a' \<Longrightarrow> leO b b' \<Longrightarrow> leO (andO a b) (andO a' b')"
  by (auto simp: leO_def andO_def split: option.splits bool.splits)

lemma leO_allEq: "(\<And>x y. leO (eq x y) (eq' x y)) \<Longrightarrow> leO (allEq eq xs ys) (allEq eq' xs ys)"
proof (induction eq xs ys rule: allEq.induct)
  case (2 eq x xs y ys)
  show ?case
  proof (cases "eq x y")
    case (Some b)
    then have "eq' x y = Some b" using 2(2) [of x y] by (simp add: leO_Some)
    with Some show ?thesis using 2 by (cases b) simp_all
  qed simp
qed simp_all

lemma leO_mapEq: "(\<And>x y. leO (eq x y) (eq' x y)) \<Longrightarrow> leO (mapEq eq m m') (mapEq eq' m m')"
  unfolding mapEq_def by (intro leO_andO leO_allEq leO_refl) (auto split: option.split)

lemma leO_ctxEq: "(\<And>x y. leO (eq x y) (eq' x y)) \<Longrightarrow> leO (ctxEq eq s c c') (ctxEq eq' s c c')"
proof (induction eq s c c' rule: ctxEq.induct)
  case (1 eq s b l c m k par b' l' c' m' k' par')
  then show ?case
    by (cases par; cases par') (simp_all add: leO_andO leO_mapEq)
qed

lemma leO_deepEqStep: "(\<And>x y. leO (eq x y) (eq' x y)) \<Longrightarrow> leO (deepEqStep eq s a b) (deepEqStep eq' s a b)"
  unfolding deepEqStep_def
  by (cases a) (auto split: option.split intro!: leO_andO leO_allEq leO_mapEq leO_ctxEq)

lemma leO_deepEq: "leO (deepEq n s a b) (deepEq (Suc n) s a b)"
proof (induction n arbitrary: a b)
  case (Suc n)
  show ?case unfolding deepEq.simps(2) [of "Suc n"] deepEq.simps(2) [of n]
    by (rule leO_deepEqStep) (use Suc in simp)
qed simp

section \<open>Builtins\<close>

definition leEv :: "evaluator \<Rightarrow> evaluator \<Rightarrow> bool" where
  "leEv ev ev' \<longleftrightarrow> (\<forall>ctx a. leM (ev ctx a) (ev' ctx a))"

lemma leEvD: "leEv ev ev' \<Longrightarrow> leM (ev ctx a) (ev' ctx a)"
  by (simp add: leEv_def)

lemma leM_list [mono]:
  "leM m m' \<Longrightarrow> (\<And>x xs. leM (f x xs) (f' x xs)) \<Longrightarrow>
     leM (case l of [] \<Rightarrow> m | x # xs \<Rightarrow> f x xs) (case l of [] \<Rightarrow> m' | x # xs \<Rightarrow> f' x xs)"
  by (cases l) simp_all

lemma leM_timesM [mono]: "leM m m' \<Longrightarrow> leM (timesM n m) (timesM n m')"
  by (induction n) (simp_all add: leM_bind)

lemma evalList_mono: "leEv ev ev' \<Longrightarrow> leM (evalList ev ctx as) (evalList ev' ctx as)"
  unfolding evalList_def by (intro mono leEvD)

lemma leM_getO:
  assumes "\<And>s. leO (f s) (g s)"
  shows "leM (bindM (getM f) (case_option timeoutM k)) (bindM (getM g) (case_option timeoutM k))"
  unfolding leM_def
proof
  fix s
  show "bindM (getM f) (case_option timeoutM k) s = Timeout \<or>
      bindM (getM f) (case_option timeoutM k) s = bindM (getM g) (case_option timeoutM k) s"
    using assms [of s] by (auto simp: leO_def run)
qed

lemma eqImpl_mono: "leM (eqImpl n args) (eqImpl (Suc n) args)"
  unfolding eqImpl_def by (intro leM_bind leM_refl leM_getO leO_deepEq)

lemma notImpl_mono: "leEv ev ev' \<Longrightarrow> leM (notImpl ev ctx args) (notImpl ev' ctx args)"
  unfolding notImpl_def by (intro mono leEvD)

lemma andImpl_mono: "leEv ev ev' \<Longrightarrow> leM (andImpl ev ctx args) (andImpl ev' ctx args)"
  by (induction args) (simp_all add: leM_bind leEvD)

lemma orImpl_mono: "leEv ev ev' \<Longrightarrow> leM (orImpl ev ctx args) (orImpl ev' ctx args)"
  by (induction args) (simp_all add: leM_bind leEvD)

lemma applyImpl_mono: "leEv ev ev' \<Longrightarrow> leM (applyImpl ev ctx args) (applyImpl ev' ctx args)"
  unfolding applyImpl_def by (intro mono leEvD)

lemma defineImpl_mono: "leEv ev ev' \<Longrightarrow> leM (defineImpl ev ctx args) (defineImpl ev' ctx args)"
  unfolding defineImpl_def
  by (intro mono) (auto split: option.split list.split intro!: mono leEvD)

lemma hmapImpl_mono: "leEv ev ev' \<Longrightarrow> leM (hmapImpl ev ctx args) (hmapImpl ev' ctx args)"
  unfolding hmapImpl_def by (intro mono leEvD)

lemma ifImpl_mono: "leEv ev ev' \<Longrightarrow> leM (ifImpl ev ctx args) (ifImpl ev' ctx args)"
  unfolding ifImpl_def by (intro mono leEvD)

lemma letBinds_mono: "leEv ev ev' \<Longrightarrow> leM (letBinds ev ctx ps) (letBinds ev' ctx ps)"
proof (induction ps)
  case (Cons p ps)
  then show ?case by (cases p) (simp, intro mono leEvD Cons.IH)
qed simp

lemma letImpl_mono: "leEv ev ev' \<Longrightarrow> leM (letImpl ev ctx args) (letImpl ev' ctx args)"
  unfolding letImpl_def Let_def by (intro mono leEvD letBinds_mono)

lemma makeListImpl_mono: "leEv ev ev' \<Longrightarrow> leM (makeListImpl ev ctx args) (makeListImpl ev' ctx args)"
  unfolding makeListImpl_def by (intro mono leEvD)

lemma mapImpl_mono: "leEv ev ev' \<Longrightarrow> leM (mapImpl ev ctx args) (mapImpl ev' ctx args)"
  unfolding mapImpl_def by (intro mono leEvD)

lemma moduleImpl_mono: "leEv ev ev' \<Longrightarrow> leM (moduleImpl ev ctx args) (moduleImpl ev' ctx args)"
  unfolding moduleImpl_def by (intro mono leEvD)

lemma reduceImpl_mono: "leEv ev ev' \<Longrightarrow> leM (reduceImpl ev ctx args) (reduceImpl ev' ctx args)"
  unfolding reduceImpl_def by (intro mono leEvD)

section \<open>The evaluator\<close>

definition leImpl :: "astIdent \<times> funcImpl \<Rightarrow> astIdent \<times> funcImpl \<Rightarrow> bool" where
  "leImpl x y \<longleftrightarrow> fst x = fst y \<and> minArgs (snd x) = minArgs (snd y) \<and> lazy (snd x) = lazy (snd y) \<and>
     (\<forall>ctx args. leM (doF (snd x) ctx args) (doF (snd y) ctx args))"

lemma leImpl_mk:
  "(\<And>ctx args. leM (f ctx args) (f' ctx args)) \<Longrightarrow> leImpl (i, mkImpl f n l) (i, mkImpl f' n l)"
  by (simp add: leImpl_def mkImpl_def)

lemmas builtin_mono = notImpl_mono andImpl_mono orImpl_mono applyImpl_mono defineImpl_mono hmapImpl_mono
  ifImpl_mono letImpl_mono makeListImpl_mono mapImpl_mono moduleImpl_mono reduceImpl_mono eqImpl_mono

lemma funcImplMap_mono:
  assumes "leEv ev ev'"
  shows "list_all2 leImpl (funcImplMap n ev) (funcImplMap (Suc n) ev')"
  unfolding funcImplMap_def
  by (intro list.rel_intros leImpl_mk builtin_mono assms leM_refl)

lemma leImpl_map_of:
  "list_all2 leImpl xs ys \<Longrightarrow>
     (gget xs i = None \<and> gget ys i = None) \<or>
     (\<exists>f f'. gget xs i = Some f \<and> gget ys i = Some f' \<and> leImpl (i, f) (i, f'))"
  by (induction rule: list_all2_induct) (auto simp: leImpl_def)

lemma callBuiltin_mono:
  assumes "leEv ev ev'"
  shows "leM (callBuiltin n ev ctx p fn args) (callBuiltin (Suc n) ev' ctx p fn args)"
  using leImpl_map_of [OF funcImplMap_mono [OF assms, of n], of fn]
proof (elim disjE exE conjE)
  fix f f'
  assume "gget (funcImplMap n ev) fn = Some f" "gget (funcImplMap (Suc n) ev') fn = Some f'"
    and "leImpl (fn, f) (fn, f')"
  then show ?thesis
    by (auto simp: callBuiltin_def leImpl_def intro!: leM_wrap leM_bind evalList_mono [OF assms])
qed (auto simp: callBuiltin_def intro!: leM_bind evalList_mono [OF assms])

lemma evalHead_mono:
  assumes "leEv ev ev'"
  shows "leM (evalHead ev ctx p h) (evalHead ev' ctx p h)"
  unfolding leM_def
proof
  fix s
  show "evalHead ev ctx p h s = Timeout \<or> evalHead ev ctx p h s = evalHead ev' ctx p h s"
    by (rule leM_cases [OF leEvD [OF assms, of ctx h], of s]) (simp_all add: evalHead_def)
qed

lemma evalLambda_mono:
  assumes "leEv ev ev'"
  shows "leM (evalLambda ev ns b c as) (evalLambda ev' ns b c as)"
  unfolding evalLambda_def by (intro mono evalList_mono leEvD assms)

lemma evalSexp_mono:
  assumes "leEv ev ev'"
  shows "leM (evalSexp n ev ctx sexp p) (evalSexp (Suc n) ev' ctx sexp p)"
  unfolding evalSexp_def
  by (intro mono evalHead_mono callBuiltin_mono evalLambda_mono evalList_mono assms)

lemma evalStep_mono:
  assumes "leEv ev ev'"
  shows "leEv (evalStep n ev) (evalStep (Suc n) ev')"
  unfolding leEv_def evalStep_def evalModule_def
  by (intro allI) (auto split: ast.split intro!: leM_bind evalList_mono evalSexp_mono assms)

lemma evalAst_mono: "leEv (evalAst n) (evalAst (Suc n))"
  by (induction n) (simp add: leEv_def, simp add: evalStep_mono del: evalAst.simps(1))

lemma evalAst_mono_le: "n \<le> n' \<Longrightarrow> leM (evalAst n ctx a) (evalAst n' ctx a)"
proof (induction n' rule: dec_induct)
  case (step n')
  then show ?case using leEvD [OF evalAst_mono] leM_trans by blast
qed simp

lemma eval_mono_le: "n \<le> n' \<Longrightarrow> leM (eval n a) (eval n' a)"
  unfolding eval_def by (intro mono evalAst_mono_le)

end
