(* ===== verification/Dsl.thy ===== *)
theory Dsl
  imports Dsl_Import Dsl_Fuel
begin

text \<open>
  The handle on an evaluated policy (\<open>src/dsl/dsl.go\<close>, \<open>src/dsl/key.go\<close>): \<open>New\<close>, the queries the rest
  of the system asks, and the rendering of errors.  A \<open>Dsl\<close> holds its code and the global context;
  since contexts are addresses, the record also carries the heap.
\<close>

record Dsl =
  dsl_code :: string
  dsl_ctx :: evalCtx
  dsl_heap :: st

record dslContainer =
  dct_Image :: string
  dct_Command :: "string list"
  dct_Env :: "(string, string) gomap"
  dct_Exclusive :: "(string \<times> string) list"
  dct_labels :: "string list"

record dslRange =
  rg_Min :: gofloat
  rg_Max :: gofloat

record dslMachine =
  dm_Provider :: string
  dm_Role :: string
  dm_Size :: string
  dm_CPU :: dslRange
  dm_RAM :: dslRange
  dm_DiskSize :: int
  dm_Region :: string
  dm_SSHKeys :: "string list"
  dm_labels :: "string list"

definition Accepts :: "dslRange \<Rightarrow> gofloat \<Rightarrow> bool" where
  "Accepts r x \<longleftrightarrow> floatLe (rg_Min r) x \<and> (rg_Max r = zeroFloat \<or> floatLe x (rg_Max r))"

text \<open>\<open>New\<close>; \<open>n\<close> bounds the depth of the evaluation.\<close>

definition NewDsl :: "nat \<Rightarrow> filesys \<Rightarrow> string list \<Rightarrow> scan \<Rightarrow> Dsl res" where
  "NewDsl n fs path sc =
     bindR (parse sc) (\<lambda>p. bindR (resolveImports fs path p) (\<lambda>parsed.
     bindR (eval n (ARoot parsed) emptySt) (\<lambda>((_, ctx), h).
       Return \<lparr>dsl_code = ast_String emptySt (ARoot parsed), dsl_ctx = ctx, dsl_heap = h\<rparr>)))"

section \<open>Queries\<close>

abbreviation ctxBinds :: "Dsl \<Rightarrow> (astIdent, ast) gomap" where
  "ctxBinds d \<equiv> bindsH (dsl_heap d) ! bindsR (dsl_ctx d)"

text \<open>The type assertion of a string panics on anything else.\<close>

fun strings :: "ast list \<Rightarrow> string list option" where
  "strings [] = Some []"
| "strings (a # as) = (case asStr a of None \<Rightarrow> None | Some x \<Rightarrow> map_option ((#) x) (strings as))"

fun stringEnv :: "(ast, ast) gomap \<Rightarrow> (string, string) gomap option" where
  "stringEnv [] = Some []"
| "stringEnv ((k, v) # m) =
     (case asStr k of None \<Rightarrow> None | Some k' \<Rightarrow> (case asStr v of None \<Rightarrow> None
      | Some v' \<Rightarrow> map_option (gput k' v') (stringEnv m)))"

definition convertContainer :: "astContainer \<Rightarrow> dslContainer option" where
  "convertContainer c =
     (case strings (ac_command c) of None \<Rightarrow> None | Some cmd \<Rightarrow>
      (case stringEnv (ac_env c) of None \<Rightarrow> None | Some env \<Rightarrow>
       Some \<lparr>dct_Image = ac_image c, dct_Command = cmd, dct_Env = env, dct_Exclusive = ac_Exclusive c,
         dct_labels = ac_labels c\<rparr>))"

fun convertContainers :: "st \<Rightarrow> nat list \<Rightarrow> dslContainer list option" where
  "convertContainers h [] = Some []"
| "convertContainers h (p # ps) =
     (case convertContainer (containerObjs h ! p) of None \<Rightarrow> None
      | Some c \<Rightarrow> map_option ((#) c) (convertContainers h ps))"

definition QueryContainers :: "Dsl \<Rightarrow> dslContainer list option" where
  "QueryContainers d = convertContainers (dsl_heap d) (contsH (dsl_heap d) ! containersR (dsl_ctx d))"

text \<open>
  Keys.  \<open>gh\<close> is the GitHub service: the keys of a user, or none if the request fails.  Answers are
  kept in \<open>githubCache\<close>, a global of the process, passed along explicitly.
\<close>

type_synonym githubCache = "(string, string list) gomap"

fun key_keys :: "(string \<Rightarrow> string list option) \<Rightarrow> key \<Rightarrow> githubCache \<Rightarrow> string list option \<times> githubCache" where
  "key_keys gh (GithubKey username) cache =
     (case gget cache username of
        Some ks \<Rightarrow> (Some ks, cache)
      | None \<Rightarrow> (case gh username of None \<Rightarrow> (None, cache) | Some ks \<Rightarrow> (Some ks, gput username ks cache)))"
| "key_keys gh (PlaintextKey k) cache = (Some [k], cache)"

text \<open>Keys that cannot be retrieved are logged and skipped.\<close>

fun parseKeys :: "(string \<Rightarrow> string list option) \<Rightarrow> key list \<Rightarrow> githubCache \<Rightarrow> string list \<times> githubCache" where
  "parseKeys gh [] cache = ([], cache)"
| "parseKeys gh (k # ks) cache =
     (case key_keys gh k cache of (r, cache') \<Rightarrow>
      case parseKeys gh ks cache' of (rs, cache'') \<Rightarrow>
        ((case r of None \<Rightarrow> rs | Some xs \<Rightarrow> xs @ rs), cache''))"

definition toRange :: "astIdent \<times> gofloat \<times> gofloat \<Rightarrow> dslRange" where
  "toRange r = \<lparr>rg_Min = fst (snd r), rg_Max = snd (snd r)\<rparr>"

definition convertAstMachine ::
  "(string \<Rightarrow> string list option) \<Rightarrow> astMachine \<Rightarrow> githubCache \<Rightarrow> dslMachine \<times> githubCache" where
  "convertAstMachine gh m cache =
     (case parseKeys gh (am_sshKeys m) cache of (keys, cache') \<Rightarrow>
        (\<lparr>dm_Provider = am_provider m, dm_Role = am_role m, dm_Size = am_size m, dm_CPU = toRange (am_cpu m),
          dm_RAM = toRange (am_ram m), dm_DiskSize = am_diskSize m, dm_Region = am_region m, dm_SSHKeys = keys,
          dm_labels = am_labels m\<rparr>, cache'))"

fun convertMachines ::
  "(string \<Rightarrow> string list option) \<Rightarrow> st \<Rightarrow> nat list \<Rightarrow> githubCache \<Rightarrow> dslMachine list \<times> githubCache" where
  "convertMachines gh h [] cache = ([], cache)"
| "convertMachines gh h (p # ps) cache =
     (case convertAstMachine gh (machineObjs h ! p) cache of (m, cache') \<Rightarrow>
      case convertMachines gh h ps cache' of (ms, cache'') \<Rightarrow> (m # ms, cache''))"

definition QueryMachines :: "(string \<Rightarrow> string list option) \<Rightarrow> Dsl \<Rightarrow> githubCache \<Rightarrow> dslMachine list \<times> githubCache" where
  "QueryMachines gh d cache = convertMachines gh (dsl_heap d) (machsH (dsl_heap d) ! machinesR (dsl_ctx d)) cache"

text \<open>The machines of a label: none if it is undefined or has an element that is not a machine.\<close>

fun sliceMachines ::
  "(string \<Rightarrow> string list option) \<Rightarrow> st \<Rightarrow> atom list \<Rightarrow> dslMachine list \<Rightarrow> githubCache \<Rightarrow> dslMachine list \<times> githubCache" where
  "sliceMachines gh h [] ms cache = (ms, cache)"
| "sliceMachines gh h (ContainerP p # as) ms cache = ([], cache)"
| "sliceMachines gh h (MachineP p # as) ms cache =
     (case convertAstMachine gh (machineObjs h ! p) cache of (m, cache') \<Rightarrow> sliceMachines gh h as (ms @ [m]) cache')"

definition QueryMachineSlice ::
  "(string \<Rightarrow> string list option) \<Rightarrow> Dsl \<Rightarrow> string \<Rightarrow> githubCache \<Rightarrow> dslMachine list \<times> githubCache" where
  "QueryMachineSlice gh d key cache =
     (case gget (labelsH (dsl_heap d) ! labelsR (dsl_ctx d)) key of
        None \<Rightarrow> ([], cache)
      | Some (_, elems) \<Rightarrow> sliceMachines gh (dsl_heap d) elems [] cache)"

definition QueryConnections :: "Dsl \<Rightarrow> dslConnection list" where
  "QueryConnections d = connsH (dsl_heap d) ! connectionsR (dsl_ctx d)"

fun asFloat :: "ast \<Rightarrow> gofloat option" where
  "asFloat (AFloat x) = Some x" | "asFloat _ = None"

definition QueryFloat :: "Dsl \<Rightarrow> string \<Rightarrow> string + gofloat" where
  "QueryFloat d key =
     (case gget (ctxBinds d) key of
        None \<Rightarrow> Inl (key @ '' undefined'')
      | Some v \<Rightarrow> (case asFloat v of
            None \<Rightarrow> Inl (key @ '': Requested float, found '' @ fmtG zeroFloat)
          | Some x \<Rightarrow> Inr x))"

definition QueryInt :: "Dsl \<Rightarrow> string \<Rightarrow> int" where
  "QueryInt d key =
     (case gget (ctxBinds d) key of None \<Rightarrow> 0 | Some v \<Rightarrow> (case asInt v of None \<Rightarrow> 0 | Some i \<Rightarrow> i))"

definition QueryString :: "Dsl \<Rightarrow> string \<Rightarrow> string" where
  "QueryString d key =
     (case gget (ctxBinds d) key of None \<Rightarrow> '''' | Some v \<Rightarrow> (case asStr v of None \<Rightarrow> '''' | Some x \<Rightarrow> x))"

definition QueryStrSlice :: "Dsl \<Rightarrow> string \<Rightarrow> string list" where
  "QueryStrSlice d key =
     (case gget (ctxBinds d) key of
        None \<Rightarrow> []
      | Some v \<Rightarrow> (case asList v of None \<Rightarrow> [] | Some xs \<Rightarrow> (case strings xs of None \<Rightarrow> [] | Some ss \<Rightarrow> ss)))"

definition Dsl_String :: "Dsl \<Rightarrow> string" where
  "Dsl_String d = dsl_code d"

section \<open>Errors\<close>

text \<open>
  The format strings of errors use \<open>%s\<close>, \<open>%v\<close> and \<open>%d\<close>, and \<open>%d\<close> on integers only: every verb
  prints the text form of its argument, a slice between brackets.
\<close>

fun errorfText :: "string \<Rightarrow> string list \<Rightarrow> string" where
  "errorfText (c # d # fmt) (a # as) =
     (if c = CHR ''%'' then a @ errorfText fmt as else c # errorfText (d # fmt) (a # as))"
| "errorfText fmt _ = fmt"

text \<open>The innermost position that is defined.\<close>

fun innermostPos :: "Position \<Rightarrow> dslErr \<Rightarrow> Position" where
  "innermostPos pos (DslError p e) = (let inner = innermostPos p e in if Line inner = 0 then pos else inner)"
| "innermostPos pos _ = pos"

fun innermostError :: "dslErr \<Rightarrow> dslErr" where
  "innermostError (DslError p e) = innermostError e"
| "innermostError e = e"

fun argString :: "st \<Rightarrow> errArg \<Rightarrow> string" where
  "argString h (Val a) = ast_String h a"
| "argString h (Vals as) = ''['' @ joinStr '' '' (map (ast_String h) as) @ '']''"
| "argString h (Txt x) = x"

fun errText :: "st \<Rightarrow> dslErr \<Rightarrow> string" where
  "errText h (Errorf fmt args) = errorfText fmt (map (argString h) args)"
| "errText h (ErrorText t) = t"
| "errText h (DslError p e) = ''''"

definition dslErr_Error :: "st \<Rightarrow> dslErr \<Rightarrow> string" where
  "dslErr_Error h err =
     (case err of
        DslError p e \<Rightarrow>
          (let pos = innermostPos p e; msg = errText h (innermostError e) in
           if Filename pos = '''' then itoa (int (Line pos)) @ '': '' @ msg
           else Filename pos @ '':'' @ itoa (int (Line pos)) @ '': '' @ msg)
      | e \<Rightarrow> errText h e)"
section \<open>What a policy promises\<close>

lemma parsed_wf: "parsed a \<Longrightarrow> wf_ast h a"
  by (induction a) (auto simp: list_all_iff)

lemma importLoop_wf:
  assumes "\<And>imported body ys. list_all (wf_ast h) body \<Longrightarrow> rec imported body = Return ys \<Longrightarrow> list_all (wf_ast h) ys"
  shows "list_all (wf_ast h) asts \<Longrightarrow> importLoop rec fs paths imported atTop asts = Return ys \<Longrightarrow> list_all (wf_ast h) ys"
proof (induction asts arbitrary: atTop ys)
  case (Cons a as)
  from Cons.prems(2) obtain name where name: "parseImport a = Return name" by (auto simp: bindR_Return)
  show ?case
  proof (cases "name = ''''")
    case True
    then obtain r where r: "importLoop rec fs paths imported False as = Return r" "ys = a # r"
      using Cons.prems(2) name by (auto simp: bindR_Return)
    then show ?thesis using Cons.IH [OF _ r(1)] Cons.prems(1) by simp
  next
    case False
    then obtain sc body body' r where 1: "parse sc = Return body" "rec (imported @ [name]) body = Return body'"
      "importLoop rec fs paths imported atTop as = Return r" "ys = AModule name body' # r"
      using Cons.prems(2) name by (auto simp: bindR_Return split: if_splits option.splits)
    have "list_all (wf_ast h) body" using parse_shape [OF 1(1)] by (rule list_all_mono) (rule parsed_wf)
    then show ?thesis using assms [OF _ 1(2)] Cons.IH [OF _ 1(3)] Cons.prems(1) 1(4) by simp
  qed
qed simp

lemma resolve_wf:
  "list_all (wf_ast h) asts \<Longrightarrow> resolveImportsRec n fs paths imported asts = Return ys \<Longrightarrow> list_all (wf_ast h) ys"
proof (induction n arbitrary: imported asts ys)
  case (Suc n)
  have l: "importLoop (resolveImportsRec n fs paths) fs paths imported True asts = Return ys" using Suc.prems(2) by simp
  show ?case by (rule importLoop_wf [OF _ Suc.prems(1) l]) (rule Suc.IH)
qed simp

lemma st_inv_empty: "st_inv emptySt"
  by (simp add: st_inv_def binds_ok_def labels_ok_def conns_ok_def ptrs_ok_def emptySt_def)

lemma NewDsl_ok:
  assumes "NewDsl n fs path sc = Return d"
  shows "st_inv (dsl_heap d) \<and> wf_ctx (dsl_heap d) (dsl_ctx d)"
proof -
  obtain p xs v ctx h where 1: "parse sc = Return p" "resolveImports fs path p = Return xs"
    "eval n (ARoot xs) emptySt = Return ((v, ctx), h)" "dsl_heap d = h" "dsl_ctx d = ctx"
    using assms by (auto simp: NewDsl_def bindR_Return)
  have "list_all (wf_ast emptySt) p" using parse_shape [OF 1(1)] parsed_wf by (auto simp: list_all_iff)
  then have "list_all (wf_ast emptySt) xs" using 1(2) resolve_wf unfolding resolveImports_def by blast
  then have "wf_ast emptySt (ARoot xs)" by simp
  then show ?thesis using ok_eval [of emptySt "ARoot xs" n] 1(3-5) st_inv_empty by (fastforce simp: ok_def)
qed


lemma strings_total: "list_all (\<lambda>x. asStr x \<noteq> None) xs \<Longrightarrow> \<exists>ss. strings xs = Some ss \<and> length ss = length xs"
  by (induction xs) auto

lemma stringEnv_total:
  "list_all (\<lambda>(k, v). asStr k \<noteq> None \<and> asStr v \<noteq> None) m \<Longrightarrow> \<exists>e. stringEnv m = Some e \<and> wf_gomap e"
proof (induction m)
  case (Cons p m)
  then obtain e k v where "stringEnv m = Some e" "wf_gomap e" "asStr (fst p) = Some k" "asStr (snd p) = Some v" by auto
  then show ?case using wf_gput [of e k v] by (cases p) auto
qed simp

lemma convertContainer_total:
  assumes "cont_ok c"
  shows "\<exists>d. convertContainer c = Some d \<and> dct_Image d = ac_image c \<and> length (dct_Command d) = length (ac_command c) \<and>
    wf_gomap (dct_Env d) \<and> list_all (\<lambda>(a, b). a \<le> b) (dct_Exclusive d)"
  using strings_total [of "ac_command c"] stringEnv_total [of "ac_env c"] assms
  by (auto simp: convertContainer_def cont_ok_def)

lemma convertContainers_total:
  assumes "list_all (\<lambda>p. p < length (containerObjs h)) ps" and "list_all cont_ok (containerObjs h)"
  shows "\<exists>cs. convertContainers h ps = Some cs \<and>
    map dct_Image cs = map (\<lambda>p. ac_image (containerObjs h ! p)) ps \<and>
    list_all (\<lambda>c. wf_gomap (dct_Env c) \<and> list_all (\<lambda>(a, b). a \<le> b) (dct_Exclusive c)) cs"
  using assms(1)
proof (induction ps)
  case (Cons p ps)
  then have "cont_ok (containerObjs h ! p)" using list_all_nth [OF assms(2)] by simp
  then obtain c where "convertContainer (containerObjs h ! p) = Some c" "dct_Image c = ac_image (containerObjs h ! p)"
    "wf_gomap (dct_Env c)" "list_all (\<lambda>(a, b). a \<le> b) (dct_Exclusive c)"
    using convertContainer_total by blast
  then show ?case using Cons by auto
qed simp

lemma QueryContainers_total:
  assumes "NewDsl n fs path sc = Return d"
  shows "\<exists>cs. QueryContainers d = Some cs \<and>
    map dct_Image cs =
      map (\<lambda>p. ac_image (containerObjs (dsl_heap d) ! p)) (contsH (dsl_heap d) ! containersR (dsl_ctx d)) \<and>
    list_all (\<lambda>c. wf_gomap (dct_Env c) \<and> list_all (\<lambda>(a, b). a \<le> b) (dct_Exclusive c)) cs"
proof -
  have "st_inv (dsl_heap d)" "wf_ctx (dsl_heap d) (dsl_ctx d)" using NewDsl_ok [OF assms] by simp_all
  then have "list_all (\<lambda>p. p < length (containerObjs (dsl_heap d))) (contsH (dsl_heap d) ! containersR (dsl_ctx d))"
    "list_all cont_ok (containerObjs (dsl_heap d))"
    using wf_refs(5) [of "dsl_heap d" "dsl_ctx d"] by (auto simp: st_inv_def ptrs_ok_def ptrcell_ok_def list_all_length)
  then show ?thesis unfolding QueryContainers_def by (rule convertContainers_total)
qed

text \<open>
  C18: The type assertions of \<open>QueryContainers\<close> never fail on a policy that loaded: every declared
  container is returned, with its image, an environment without duplicate keys, and exclusive
  placements stored as ordered pairs.
\<close>

theorem QueryContainers_safe:
  assumes "NewDsl n fs path sc = Return d"
  shows "\<exists>cs. QueryContainers d = Some cs \<and>
    map dct_Image cs =
      map (\<lambda>p. ac_image (containerObjs (dsl_heap d) ! p)) (contsH (dsl_heap d) ! containersR (dsl_ctx d)) \<and>
    list_all (\<lambda>c. wf_gomap (dct_Env c) \<and> list_all (\<lambda>(a, b). a \<le> b) (dct_Exclusive c)) cs"
  by (rule QueryContainers_total [OF assms])

text \<open>
  C2: The connections of a policy that loaded are distinct and well-formed: their ports are in
  0..65535, minimum first, and a connection with the public internet names one port and one other side.
\<close>

theorem QueryConnections_bounds:
  assumes "NewDsl n fs path sc = Return d"
  shows "distinct (QueryConnections d) \<and>
    (\<forall>c \<in> set (QueryConnections d). 0 \<le> dc_MinPort c \<and> dc_MinPort c \<le> dc_MaxPort c \<and> dc_MaxPort c \<le> 65535 \<and>
      (dc_From c = PublicInternetLabel \<or> dc_To c = PublicInternetLabel \<longrightarrow> dc_MinPort c = dc_MaxPort c) \<and>
      \<not> (dc_From c = PublicInternetLabel \<and> dc_To c = PublicInternetLabel))"
proof -
  have "st_inv (dsl_heap d)" "wf_ctx (dsl_heap d) (dsl_ctx d)" using NewDsl_ok [OF assms] by simp_all
  then have "conncell_ok (QueryConnections d)"
    using wf_refs(3) [of "dsl_heap d" "dsl_ctx d"]
    by (auto simp: QueryConnections_def st_inv_def conns_ok_def list_all_length)
  then show ?thesis by (simp add: conncell_ok_def conn_ok_def list_all_iff)
qed

section \<open>Fuel, keys and errors\<close>


lemma key_keys_cache: "key_keys gh k c = (r, c') \<Longrightarrow> gget c \<subseteq>\<^sub>m gget c'"
  by (cases k) (auto simp: go_map map_le_def split: option.splits)

lemma parseKeys_cache: "parseKeys gh ks c = (xs, c') \<Longrightarrow> gget c \<subseteq>\<^sub>m gget c'"
proof (induction ks arbitrary: c xs)
  case (Cons k ks)
  obtain r c1 where k: "key_keys gh k c = (r, c1)" by (rule prod.exhaust)
  obtain ys c2 where ks: "parseKeys gh ks c1 = (ys, c2)" by (rule prod.exhaust)
  have "c2 = c'" using Cons.prems k ks by simp
  then show ?case using map_le_trans [OF key_keys_cache [OF k] Cons.IH [OF ks [unfolded \<open>c2 = c'\<close>]]] by simp
qed simp

lemma key_keys_again:
  assumes "key_keys gh k c = (r, c1)" and "\<forall>u. k = GithubKey u \<longrightarrow> gh u \<noteq> None \<or> gget c u \<noteq> None" and "gget c1 \<subseteq>\<^sub>m gget c''"
  shows "key_keys gh' k c'' = (r, c'')"
proof (cases k)
  case (GithubKey u)
  then have "gh u \<noteq> None \<or> gget c u \<noteq> None" using assms(2) by simp
  then obtain us where us: "r = Some us" "gget c1 u = Some us"
  proof (cases "gget c u")
    case None
    then obtain us where "gh u = Some us" using \<open>gh u \<noteq> None \<or> gget c u \<noteq> None\<close> by auto
    then have "r = Some us" "c1 = gput u us c" using assms(1) None GithubKey by simp_all
    then show ?thesis using that [of us] by (simp add: gget_gput)
  next
    case (Some us)
    then show ?thesis using that [of us] assms(1) GithubKey by simp
  qed
  have "u \<in> dom (gget c1)" using us(2) by blast
  then have "gget c'' u = Some us" using assms(3) us(2) unfolding map_le_def by simp
  then show ?thesis using us by (simp add: GithubKey)
next
  case (PlaintextKey x)
  then show ?thesis using assms(1) by simp
qed

lemma parseKeys_again:
  "parseKeys gh ks c = (xs, c1) \<Longrightarrow> \<forall>u. GithubKey u \<in> set ks \<longrightarrow> gh u \<noteq> None \<or> gget c u \<noteq> None \<Longrightarrow>
     gget c1 \<subseteq>\<^sub>m gget c'' \<Longrightarrow> parseKeys gh' ks c'' = (xs, c'')"
proof (induction ks arbitrary: c xs)
  case (Cons k ks)
  obtain r ck where k: "key_keys gh k c = (r, ck)" by (rule prod.exhaust)
  obtain ys c2 where ks': "parseKeys gh ks ck = (ys, c2)" by (rule prod.exhaust)
  have e: "c2 = c1" "xs = (case r of None \<Rightarrow> ys | Some zs \<Rightarrow> zs @ ys)" using Cons.prems(1) by (simp_all add: k ks')
  note ks = ks' [unfolded e(1)]
  have "gh u \<noteq> None \<or> gget ck u \<noteq> None" if "GithubKey u \<in> set ks" for u
    using Cons.prems(2) [rule_format, of u] that key_keys_cache [OF k] by (metis domIff list.set_intros(2) map_le_def)
  then have 1: "parseKeys gh' ks c'' = (ys, c'')" using Cons.IH [OF ks _ Cons.prems(3)] by blast
  have 2: "key_keys gh' k c'' = (r, c'')"
    by (rule key_keys_again [OF k _ map_le_trans [OF parseKeys_cache [OF ks] Cons.prems(3)]]) (use Cons.prems(2) in simp)
  show ?case by (simp add: 1 2 e(2))
next
  case Nil
  show ?case using Nil.prems(1) by simp
qed

text \<open>
  Keys fetched from GitHub are cached: once the keys of a machine have been retrieved, asking
  again gives the same keys whatever the service answers by then, and changes nothing.
\<close>

lemma parseKeys_cached:
  assumes "parseKeys gh ks c = (xs, c')" and "\<forall>u. GithubKey u \<in> set ks \<longrightarrow> gh u \<noteq> None \<or> gget c u \<noteq> None"
  shows "parseKeys gh' ks c' = (xs, c')"
  by (rule parseKeys_again [OF assms map_le_refl])

text \<open>The positions around an error, from the outside in.\<close>

fun positions :: "dslErr \<Rightarrow> Position list" where
  "positions (DslError p e) = p # positions e"
| "positions _ = []"

text \<open>
  An error is reported at the innermost position of its trace that is defined; if none is, at the
  outermost one.
\<close>

lemma innermostPos_last:
  "innermostPos p e =
     (let defined = filter (\<lambda>q. Line q \<noteq> 0) (positions e) in if defined = [] then p else last defined)"
proof (induction p e rule: innermostPos.induct)
  case (1 pos p e)
  have "Line (last (filter (\<lambda>q. Line q \<noteq> 0) (positions e))) \<noteq> 0" if "filter (\<lambda>q. Line q \<noteq> 0) (positions e) \<noteq> []"
    using last_in_set [OF that] by simp
  then show ?case using 1 by (auto simp: Let_def)
qed simp_all

section \<open>The code of a policy\<close>

lemma importLoop_printable:
  assumes "\<And>imported body ys. list_all parsed body \<Longrightarrow> rec imported body = Return ys \<Longrightarrow> list_all literalsOk ys \<Longrightarrow>
      list_all printable ys"
  shows "list_all parsed asts \<Longrightarrow> importLoop rec fs paths imported atTop asts = Return ys \<Longrightarrow> list_all literalsOk ys \<Longrightarrow>
      list_all printable ys"
proof (induction asts arbitrary: atTop ys)
  case (Cons a as)
  from Cons.prems(2) obtain name where name: "parseImport a = Return name" by (auto simp: bindR_Return)
  show ?case
  proof (cases "name = ''''")
    case True
    then obtain r where r: "importLoop rec fs paths imported False as = Return r" "ys = a # r"
      using Cons.prems(2) name by (auto simp: bindR_Return)
    then show ?thesis using Cons.IH [OF _ r(1)] Cons.prems(1,3) parsed_printable by simp
  next
    case False
    then obtain sc body body' r where 1: "parse sc = Return body" "rec (imported @ [name]) body = Return body'"
      "importLoop rec fs paths imported atTop as = Return r" "ys = AModule name body' # r"
      using Cons.prems(2) name by (auto simp: bindR_Return split: if_splits option.splits)
    then show ?thesis
      using assms [OF parse_shape [OF 1(1)] 1(2)] Cons.IH [OF _ 1(3)] Cons.prems(1,3) by (simp add: list_all_iff)
  qed
qed simp

lemma resolve_printable:
  "list_all parsed asts \<Longrightarrow> resolveImportsRec n fs paths imported asts = Return ys \<Longrightarrow> list_all literalsOk ys \<Longrightarrow>
     list_all printable ys"
proof (induction n arbitrary: imported asts ys)
  case (Suc n)
  have l: "importLoop (resolveImportsRec n fs paths) fs paths imported True asts = Return ys" using Suc.prems(2) by simp
  show ?case by (rule importLoop_printable [OF _ Suc.prems(1) l Suc.prems(3)]) (rule Suc.IH)
qed simp


section \<open>A policy\<close>

text \<open>A small policy with an import, on which the theorems above are instantiated.\<close>

definition samplePolicyText :: string where
  "samplePolicyText =
     ''(import \"m\") (label \"a\" (docker \"i\" \"c\")) (connect 22 \"public\" \"a\") (connect m.Port \"a\" \"a\")''"

definition sampleFs :: filesys where
  "sampleFs = [(''d/m.spec'', ''(define Port (+ 79 1))'')]"

definition sampleDsl :: Dsl where
  "sampleDsl = (case NewDsl 8 sampleFs [''d''] (initScan '''' samplePolicyText) of
     Return d \<Rightarrow> d | _ \<Rightarrow> \<lparr>dsl_code = '''', dsl_ctx = EvalCtx 0 0 0 0 0 None, dsl_heap = emptySt\<rparr>)"

lemma sample_loads:
  "NewDsl 8 sampleFs [''d''] (initScan '''' samplePolicyText) = Return sampleDsl \<and>
   map dc_MinPort (QueryConnections sampleDsl) = [22, 80] \<and> map_option length (QueryContainers sampleDsl) = Some 1"
proof -
  have "(case NewDsl 8 sampleFs [''d''] (initScan '''' samplePolicyText) of
      Return d \<Rightarrow> map dc_MinPort (QueryConnections d) = [22, 80] \<and> map_option length (QueryContainers d) = Some 1 | _ \<Rightarrow> False)"
    by code_simp
  then show ?thesis
    by (cases "NewDsl 8 sampleFs [''d''] (initScan '''' samplePolicyText)") (simp_all add: sampleDsl_def)
qed


theorem QueryContainers_safe_witness:
  "NewDsl 8 sampleFs [''d''] (initScan '''' samplePolicyText) = Return sampleDsl \<and>
   (\<exists>cs. QueryContainers sampleDsl = Some cs \<and> length cs = 1 \<and> list_all (\<lambda>c. wf_gomap (dct_Env c)) cs)"
proof -
  obtain cs where "QueryContainers sampleDsl = Some cs" "list_all (\<lambda>c. wf_gomap (dct_Env c)) cs"
    using QueryContainers_safe [of 8 sampleFs "[''d'']" "initScan '''' samplePolicyText" sampleDsl] sample_loads
    by (auto simp: list_all_iff)
  then show ?thesis using sample_loads by simp
qed

theorem QueryConnections_bounds_witness:
  "NewDsl 8 sampleFs [''d''] (initScan '''' samplePolicyText) = Return sampleDsl \<and> length (QueryConnections sampleDsl) = 2 \<and>
   list_all (\<lambda>c. 0 \<le> dc_MinPort c \<and> dc_MaxPort c \<le> 65535) (QueryConnections sampleDsl)"
proof -
  have m: "map dc_MinPort (QueryConnections sampleDsl) = [22, 80]" using sample_loads by blast
  from arg_cong [OF m, of length] have "length (QueryConnections sampleDsl) = 2" by simp
  then show ?thesis
    using QueryConnections_bounds [of 8 sampleFs "[''d'']" "initScan '''' samplePolicyText" sampleDsl] sample_loads
    by (simp add: list_all_iff)
qed


definition sampleProgram :: "ast list" where
  "sampleProgram = (case bindR (parse (initScan '''' samplePolicyText)) (resolveImports sampleFs [''d'']) of
     Return xs \<Rightarrow> xs | _ \<Rightarrow> [])"


end
