(* ===== verification/Provider_Tables.thy ===== *)
theory Provider_Tables
  imports Dsl_Ast
begin

text \<open>
  The tables of instance types (\<open>src/provider/constraintConstants.go\<close>, \<open>src/provider/gceConstants.go\<close>).
  The Amazon table is one literal in the source; here it is the concatenation of its regions, in order.
  Fields that a literal leaves out have their zero value.
\<close>

record description =
  d_size :: string
  d_price :: gofloat
  d_ram :: gofloat
  d_cpu :: int
  d_disk :: string
  d_region :: string

definition desc :: "string \<Rightarrow> int \<Rightarrow> gofloat \<Rightarrow> string \<Rightarrow> string \<Rightarrow> gofloat \<Rightarrow> description" where
  "desc sz cpu ram disk region price =
     \<lparr>d_size = sz, d_price = price, d_ram = ram, d_cpu = cpu, d_disk = disk, d_region = region\<rparr>"

text \<open>The zero value of a description.\<close>

definition zeroDesc :: description where
  "zeroDesc = desc '''' 0 (Dec 0 0) '''' '''' (Dec 0 0)"

definition aws_us_east_1 :: "description list" where
  "aws_us_east_1 =
    [desc ''t2.nano'' 1 (Dec 5 (- 1)) ''ebsonly'' ''us-east-1'' (Dec 65 (- 4)),
     desc ''t2.micro'' 1 (Dec 1 0) ''ebsonly'' ''us-east-1'' (Dec 13 (- 3)),
     desc ''t2.small'' 1 (Dec 2 0) ''ebsonly'' ''us-east-1'' (Dec 26 (- 3)),
     desc ''t2.medium'' 2 (Dec 4 0) ''ebsonly'' ''us-east-1'' (Dec 52 (- 3)),
     desc ''t2.large'' 2 (Dec 8 0) ''ebsonly'' ''us-east-1'' (Dec 104 (- 3)),
     desc ''m4.large'' 2 (Dec 8 0) ''ebsonly'' ''us-east-1'' (Dec 12 (- 2)),
     desc ''m4.xlarge'' 4 (Dec 16 0) ''ebsonly'' ''us-east-1'' (Dec 239 (- 3)),
     desc ''m4.2xlarge'' 8 (Dec 32 0) ''ebsonly'' ''us-east-1'' (Dec 479 (- 3)),
     desc ''m4.4xlarge'' 16 (Dec 64 0) ''ebsonly'' ''us-east-1'' (Dec 958 (- 3)),
     desc ''m4.10xlarge'' 40 (Dec 16 1) ''ebsonly'' ''us-east-1'' (Dec 2394 (- 3)),
     desc ''m3.medium'' 1 (Dec 375 (- 2)) ''1 x 4 SSD'' ''us-east-1'' (Dec 67 (- 3)),
     desc ''m3.large'' 2 (Dec 75 (- 1)) ''1 x 32 SSD'' ''us-east-1'' (Dec 133 (- 3)),
     desc ''m3.xlarge'' 4 (Dec 15 0) ''2 x 40 SSD'' ''us-east-1'' (Dec 266 (- 3)),
     desc ''m3.2xlarge'' 8 (Dec 3 1) ''2 x 80 SSD'' ''us-east-1'' (Dec 532 (- 3)),
     desc ''c4.large'' 2 (Dec 375 (- 2)) ''ebsonly'' ''us-east-1'' (Dec 105 (- 3)),
     desc ''c4.xlarge'' 4 (Dec 75 (- 1)) ''ebsonly'' ''us-east-1'' (Dec 209 (- 3)),
     desc ''c4.2xlarge'' 8 (Dec 15 0) ''ebsonly'' ''us-east-1'' (Dec 419 (- 3)),
     desc ''c4.4xlarge'' 16 (Dec 3 1) ''ebsonly'' ''us-east-1'' (Dec 838 (- 3)),
     desc ''c4.8xlarge'' 36 (Dec 6 1) ''ebsonly'' ''us-east-1'' (Dec 1675 (- 3)),
     desc ''c3.large'' 2 (Dec 375 (- 2)) ''2 x 16 SSD'' ''us-east-1'' (Dec 105 (- 3)),
     desc ''c3.xlarge'' 4 (Dec 75 (- 1)) ''2 x 40 SSD'' ''us-east-1'' (Dec 21 (- 2)),
     desc ''c3.2xlarge'' 8 (Dec 15 0) ''2 x 80 SSD'' ''us-east-1'' (Dec 42 (- 2)),
     desc ''c3.4xlarge'' 16 (Dec 3 1) ''2 x 160 SSD'' ''us-east-1'' (Dec 84 (- 2)),
     desc ''c3.8xlarge'' 32 (Dec 6 1) ''2 x 320 SSD'' ''us-east-1'' (Dec 168 (- 2)),
     desc ''g2.2xlarge'' 8 (Dec 15 0) ''60 SSD'' ''us-east-1'' (Dec 65 (- 2)),
     desc ''g2.8xlarge'' 32 (Dec 6 1) ''2 x 120 SSD'' ''us-east-1'' (Dec 26 (- 1)),
     desc ''r3.large'' 2 (Dec 15 0) ''1 x 32 SSD'' ''us-east-1'' (Dec 166 (- 3)),
     desc ''r3.xlarge'' 4 (Dec 305 (- 1)) ''1 x 80 SSD'' ''us-east-1'' (Dec 333 (- 3)),
     desc ''r3.2xlarge'' 8 (Dec 61 0) ''1 x 160 SSD'' ''us-east-1'' (Dec 665 (- 3)),
     desc ''r3.4xlarge'' 16 (Dec 122 0) ''1 x 320 SSD'' ''us-east-1'' (Dec 133 (- 2)),
     desc ''r3.8xlarge'' 32 (Dec 244 0) ''2 x 320 SSD'' ''us-east-1'' (Dec 266 (- 2)),
     desc ''i2.xlarge'' 4 (Dec 305 (- 1)) ''1 x 800 SSD'' ''us-east-1'' (Dec 853 (- 3)),
     desc ''i2.2xlarge'' 8 (Dec 61 0) ''2 x 800 SSD'' ''us-east-1'' (Dec 1705 (- 3)),
     desc ''i2.4xlarge'' 16 (Dec 122 0) ''4 x 800 SSD'' ''us-east-1'' (Dec 341 (- 2)),
     desc ''i2.8xlarge'' 32 (Dec 244 0) ''8 x 800 SSD'' ''us-east-1'' (Dec 682 (- 2)),
     desc ''d2.xlarge'' 4 (Dec 305 (- 1)) ''3 x 2000 HDD'' ''us-east-1'' (Dec 69 (- 2)),
     desc ''d2.2xlarge'' 8 (Dec 61 0) ''6 x 2000 HDD'' ''us-east-1'' (Dec 138 (- 2)),
     desc ''d2.4xlarge'' 16 (Dec 122 0) ''12 x 2000 HDD'' ''us-east-1'' (Dec 276 (- 2)),
     desc ''d2.8xlarge'' 36 (Dec 244 0) ''24 x 2000 HDD'' ''us-east-1'' (Dec 552 (- 2))]"

definition aws_us_west_2 :: "description list" where
  "aws_us_west_2 =
    [desc ''t2.nano'' 1 (Dec 5 (- 1)) ''ebsonly'' ''us-west-2'' (Dec 65 (- 4)),
     desc ''t2.micro'' 1 (Dec 1 0) ''ebsonly'' ''us-west-2'' (Dec 13 (- 3)),
     desc ''t2.small'' 1 (Dec 2 0) ''ebsonly'' ''us-west-2'' (Dec 26 (- 3)),
     desc ''t2.medium'' 2 (Dec 4 0) ''ebsonly'' ''us-west-2'' (Dec 52 (- 3)),
     desc ''t2.large'' 2 (Dec 8 0) ''ebsonly'' ''us-west-2'' (Dec 104 (- 3)),
     desc ''m4.large'' 2 (Dec 8 0) ''ebsonly'' ''us-west-2'' (Dec 12 (- 2)),
     desc ''m4.xlarge'' 4 (Dec 16 0) ''ebsonly'' ''us-west-2'' (Dec 239 (- 3)),
     desc ''m4.2xlarge'' 8 (Dec 32 0) ''ebsonly'' ''us-west-2'' (Dec 479 (- 3)),
     desc ''m4.4xlarge'' 16 (Dec 64 0) ''ebsonly'' ''us-west-2'' (Dec 958 (- 3)),
     desc ''m4.10xlarge'' 40 (Dec 16 1) ''ebsonly'' ''us-west-2'' (Dec 2394 (- 3)),
     desc ''m3.medium'' 1 (Dec 375 (- 2)) ''1 x 4 SSD'' ''us-west-2'' (Dec 67 (- 3)),
     desc ''m3.large'' 2 (Dec 75 (- 1)) ''1 x 32 SSD'' ''us-west-2'' (Dec 133 (- 3)),
     desc ''m3.xlarge'' 4 (Dec 15 0) ''2 x 40 SSD'' ''us-west-2'' (Dec 266 (- 3)),
     desc ''m3.2xlarge'' 8 (Dec 3 1) ''2 x 80 SSD'' ''us-west-2'' (Dec 532 (- 3)),
     desc ''c4.large'' 2 (Dec 375 (- 2)) ''ebsonly'' ''us-west-2'' (Dec 105 (- 3)),
     desc ''c4.xlarge'' 4 (Dec 75 (- 1)) ''ebsonly'' ''us-west-2'' (Dec 209 (- 3)),
     desc ''c4.2xlarge'' 8 (Dec 15 0) ''ebsonly'' ''us-west-2'' (Dec 419 (- 3)),
     desc ''c4.4xlarge'' 16 (Dec 3 1) ''ebsonly'' ''us-west-2'' (Dec 838 (- 3)),
     desc ''c4.8xlarge'' 36 (Dec 6 1) ''ebsonly'' ''us-west-2'' (Dec 1675 (- 3)),
     desc ''c3.large'' 2 (Dec 375 (- 2)) ''2 x 16 SSD'' ''us-west-2'' (Dec 105 (- 3)),
     desc ''c3.xlarge'' 4 (Dec 75 (- 1)) ''2 x 40 SSD'' ''us-west-2'' (Dec 21 (- 2)),
     desc ''c3.2xlarge'' 8 (Dec 15 0) ''2 x 80 SSD'' ''us-west-2'' (Dec 42 (- 2)),
     desc ''c3.4xlarge'' 16 (Dec 3 1) ''2 x 160 SSD'' ''us-west-2'' (Dec 84 (- 2)),
     desc ''c3.8xlarge'' 32 (Dec 6 1) ''2 x 320 SSD'' ''us-west-2'' (Dec 168 (- 2)),
     desc ''g2.2xlarge'' 8 (Dec 15 0) ''60 SSD'' ''us-west-2'' (Dec 65 (- 2)),
     desc ''g2.8xlarge'' 32 (Dec 6 1) ''2 x 120 SSD'' ''us-west-2'' (Dec 26 (- 1)),
     desc ''r3.large'' 2 (Dec 15 0) ''1 x 32 SSD'' ''us-west-2'' (Dec 166 (- 3)),
     desc ''r3.xlarge'' 4 (Dec 305 (- 1)) ''1 x 80 SSD'' ''us-west-2'' (Dec 333 (- 3)),
     desc ''r3.2xlarge'' 8 (Dec 61 0) ''1 x 160 SSD'' ''us-west-2'' (Dec 665 (- 3)),
     desc ''r3.4xlarge'' 16 (Dec 122 0) ''1 x 320 SSD'' ''us-west-2'' (Dec 133 (- 2)),
     desc ''r3.8xlarge'' 32 (Dec 244 0) ''2 x 320 SSD'' ''us-west-2'' (Dec 266 (- 2)),
     desc ''i2.xlarge'' 4 (Dec 305 (- 1)) ''1 x 800 SSD'' ''us-west-2'' (Dec 853 (- 3)),
     desc ''i2.2xlarge'' 8 (Dec 61 0) ''2 x 800 SSD'' ''us-west-2'' (Dec 1705 (- 3)),
     desc ''i2.4xlarge'' 16 (Dec 122 0) ''4 x 800 SSD'' ''us-west-2'' (Dec 341 (- 2)),
     desc ''i2.8xlarge'' 32 (Dec 244 0) ''8 x 800 SSD'' ''us-west-2'' (Dec 682 (- 2)),
     desc ''d2.xlarge'' 4 (Dec 305 (- 1)) ''3 x 2000 HDD'' ''us-west-2'' (Dec 69 (- 2)),
     desc ''d2.2xlarge'' 8 (Dec 61 0) ''6 x 2000 HDD'' ''us-west-2'' (Dec 138 (- 2)),
     desc ''d2.4xlarge'' 16 (Dec 122 0) ''12 x 2000 HDD'' ''us-west-2'' (Dec 276 (- 2)),
     desc ''d2.8xlarge'' 36 (Dec 244 0) ''24 x 2000 HDD'' ''us-west-2'' (Dec 552 (- 2))]"

definition aws_us_west_1 :: "description list" where
  "aws_us_west_1 =
    [desc ''t2.nano'' 1 (Dec 5 (- 1)) ''ebsonly'' ''us-west-1'' (Dec 85 (- 4)),
     desc ''t2.micro'' 1 (Dec 1 0) ''ebsonly'' ''us-west-1'' (Dec 17 (- 3)),
     desc ''t2.small'' 1 (Dec 2 0) ''ebsonly'' ''us-west-1'' (Dec 34 (- 3)),
     desc ''t2.medium'' 2 (Dec 4 0) ''ebsonly'' ''us-west-1'' (Dec 68 (- 3)),
     desc ''t2.large'' 2 (Dec 8 0) ''ebsonly'' ''us-west-1'' (Dec 136 (- 3)),
     desc ''m4.large'' 2 (Dec 8 0) ''ebsonly'' ''us-west-1'' (Dec 14 (- 2)),
     desc ''m4.xlarge'' 4 (Dec 16 0) ''ebsonly'' ''us-west-1'' (Dec 279 (- 3)),
     desc ''m4.2xlarge'' 8 (Dec 32 0) ''ebsonly'' ''us-west-1'' (Dec 559 (- 3)),
     desc ''m4.4xlarge'' 16 (Dec 64 0) ''ebsonly'' ''us-west-1'' (Dec 1117 (- 3)),
     desc ''m4.10xlarge'' 40 (Dec 16 1) ''ebsonly'' ''us-west-1'' (Dec 2793 (- 3)),
     desc ''m3.medium'' 1 (Dec 375 (- 2)) ''1 x 4 SSD'' ''us-west-1'' (Dec 77 (- 3)),
     desc ''m3.large'' 2 (Dec 75 (- 1)) ''1 x 32 SSD'' ''us-west-1'' (Dec 154 (- 3)),
     desc ''m3.xlarge'' 4 (Dec 15 0) ''2 x 40 SSD'' ''us-west-1'' (Dec 308 (- 3)),
     desc ''m3.2xlarge'' 8 (Dec 3 1) ''2 x 80 SSD'' ''us-west-1'' (Dec 616 (- 3)),
     desc ''c4.large'' 2 (Dec 375 (- 2)) ''ebsonly'' ''us-west-1'' (Dec 131 (- 3)),
     desc ''c4.xlarge'' 4 (Dec 75 (- 1)) ''ebsonly'' ''us-west-1'' (Dec 262 (- 3)),
     desc ''c4.2xlarge'' 8 (Dec 15 0) ''ebsonly'' ''us-west-1'' (Dec 524 (- 3)),
     desc ''c4.4xlarge'' 16 (Dec 3 1) ''ebsonly'' ''us-west-1'' (Dec 1049 (- 3)),
     desc ''c4.8xlarge'' 36 (Dec 6 1) ''ebsonly'' ''us-west-1'' (Dec 2098 (- 3)),
     desc ''c3.large'' 2 (Dec 375 (- 2)) ''2 x 16 SSD'' ''us-west-1'' (Dec 12 (- 2)),
     desc ''c3.xlarge'' 4 (Dec 75 (- 1)) ''2 x 40 SSD'' ''us-west-1'' (Dec 239 (- 3)),
     desc ''c3.2xlarge'' 8 (Dec 15 0) ''2 x 80 SSD'' ''us-west-1'' (Dec 478 (- 3)),
     desc ''c3.4xlarge'' 16 (Dec 3 1) ''2 x 160 SSD'' ''us-west-1'' (Dec 956 (- 3)),
     desc ''c3.8xlarge'' 32 (Dec 6 1) ''2 x 320 SSD'' ''us-west-1'' (Dec 1912 (- 3)),
     desc ''g2.2xlarge'' 8 (Dec 15 0) ''60 SSD'' ''us-west-1'' (Dec 702 (- 3)),
     desc ''g2.8xlarge'' 32 (Dec 6 1) ''2 x 120 SSD'' ''us-west-1'' (Dec 2808 (- 3)),
     desc ''r3.large'' 2 (Dec 15 0) ''1 x 32 SSD'' ''us-west-1'' (Dec 185 (- 3)),
     desc ''r3.xlarge'' 4 (Dec 305 (- 1)) ''1 x 80 SSD'' ''us-west-1'' (Dec 371 (- 3)),
     desc ''r3.2xlarge'' 8 (Dec 61 0) ''1 x 160 SSD'' ''us-west-1'' (Dec 741 (- 3)),
     desc ''r3.4xlarge'' 16 (Dec 122 0) ''1 x 320 SSD'' ''us-west-1'' (Dec 1482 (- 3)),
     desc ''r3.8xlarge'' 32 (Dec 244 0) ''2 x 320 SSD'' ''us-west-1'' (Dec 2964 (- 3)),
     desc ''i2.xlarge'' 4 (Dec 305 (- 1)) ''1 x 800 SSD'' ''us-west-1'' (Dec 938 (- 3)),
     desc ''i2.2xlarge'' 8 (Dec 61 0) ''2 x 800 SSD'' ''us-west-1'' (Dec 1876 (- 3)),
     desc ''i2.4xlarge'' 16 (Dec 122 0) ''4 x 800 SSD'' ''us-west-1'' (Dec 3751 (- 3)),
     desc ''i2.8xlarge'' 32 (Dec 244 0) ''8 x 800 SSD'' ''us-west-1'' (Dec 7502 (- 3))]"

definition aws_eu_west_1 :: "description list" where
  "aws_eu_west_1 =
    [desc ''t2.nano'' 1 (Dec 5 (- 1)) ''ebsonly'' ''eu-west-1'' (Dec 7 (- 3)),
     desc ''t2.micro'' 1 (Dec 1 0) ''ebsonly'' ''eu-west-1'' (Dec 14 (- 3)),
     desc ''t2.small'' 1 (Dec 2 0) ''ebsonly'' ''eu-west-1'' (Dec 28 (- 3)),
     desc ''t2.medium'' 2 (Dec 4 0) ''ebsonly'' ''eu-west-1'' (Dec 56 (- 3)),
     desc ''t2.large'' 2 (Dec 8 0) ''ebsonly'' ''eu-west-1'' (Dec 112 (- 3)),
     desc ''m4.large'' 2 (Dec 8 0) ''ebsonly'' ''eu-west-1'' (Dec 132 (- 3)),
     desc ''m4.xlarge'' 4 (Dec 16 0) ''ebsonly'' ''eu-west-1'' (Dec 264 (- 3)),
     desc ''m4.2xlarge'' 8 (Dec 32 0) ''ebsonly'' ''eu-west-1'' (Dec 528 (- 3)),
     desc ''m4.4xlarge'' 16 (Dec 64 0) ''ebsonly'' ''eu-west-1'' (Dec 1056 (- 3)),
     desc ''m4.10xlarge'' 40 (Dec 16 1) ''ebsonly'' ''eu-west-1'' (Dec 2641 (- 3)),
     desc ''m3.medium'' 1 (Dec 375 (- 2)) ''1 x 4 SSD'' ''eu-west-1'' (Dec 73 (- 3)),
     desc ''m3.large'' 2 (Dec 75 (- 1)) ''1 x 32 SSD'' ''eu-west-1'' (Dec 146 (- 3)),
     desc ''m3.xlarge'' 4 (Dec 15 0) ''2 x 40 SSD'' ''eu-west-1'' (Dec 293 (- 3)),
     desc ''m3.2xlarge'' 8 (Dec 3 1) ''2 x 80 SSD'' ''eu-west-1'' (Dec 585 (- 3)),
     desc ''c4.large'' 2 (Dec 375 (- 2)) ''ebsonly'' ''eu-west-1'' (Dec 119 (- 3)),
     desc ''c4.xlarge'' 4 (Dec 75 (- 1)) ''ebsonly'' ''eu-west-1'' (Dec 238 (- 3)),
     desc ''c4.2xlarge'' 8 (Dec 15 0) ''ebsonly'' ''eu-west-1'' (Dec 477 (- 3)),
     desc ''c4.4xlarge'' 16 (Dec 3 1) ''ebsonly'' ''eu-west-1'' (Dec 953 (- 3)),
     desc ''c4.8xlarge'' 36 (Dec 6 1) ''ebsonly'' ''eu-west-1'' (Dec 1906 (- 3)),
     desc ''c3.large'' 2 (Dec 375 (- 2)) ''2 x 16 SSD'' ''eu-west-1'' (Dec 12 (- 2)),
     desc ''c3.xlarge'' 4 (Dec 75 (- 1)) ''2 x 40 SSD'' ''eu-west-1'' (Dec 239 (- 3)),
     desc ''c3.2xlarge'' 8 (Dec 15 0) ''2 x 80 SSD'' ''eu-west-1'' (Dec 478 (- 3)),
     desc ''c3.4xlarge'' 16 (Dec 3 1) ''2 x 160 SSD'' ''eu-west-1'' (Dec 956 (- 3)),
     desc ''c3.8xlarge'' 32 (Dec 6 1) ''2 x 320 SSD'' ''eu-west-1'' (Dec 1912 (- 3)),
     desc ''g2.2xlarge'' 8 (Dec 15 0) ''60 SSD'' ''eu-west-1'' (Dec 702 (- 3)),
     desc ''g2.8xlarge'' 32 (Dec 6 1) ''2 x 120 SSD'' ''eu-west-1'' (Dec 2808 (- 3)),
     desc ''r3.large'' 2 (Dec 15 0) ''1 x 32 SSD'' ''eu-west-1'' (Dec 185 (- 3)),
     desc ''r3.xlarge'' 4 (Dec 305 (- 1)) ''1 x 80 SSD'' ''eu-west-1'' (Dec 371 (- 3)),
     desc ''r3.2xlarge'' 8 (Dec 61 0) ''1 x 160 SSD'' ''eu-west-1'' (Dec 741 (- 3)),
     desc ''r3.4xlarge'' 16 (Dec 122 0) ''1 x 320 SSD'' ''eu-west-1'' (Dec 1482 (- 3)),
     desc ''r3.8xlarge'' 32 (Dec 244 0) ''2 x 320 SSD'' ''eu-west-1'' (Dec 2964 (- 3)),
     desc ''i2.xlarge'' 4 (Dec 305 (- 1)) ''1 x 800 SSD'' ''eu-west-1'' (Dec 938 (- 3)),
     desc ''i2.2xlarge'' 8 (Dec 61 0) ''2 x 800 SSD'' ''eu-west-1'' (Dec 1876 (- 3)),
     desc ''i2.4xlarge'' 16 (Dec 122 0) ''4 x 800 SSD'' ''eu-west-1'' (Dec 3751 (- 3)),
     desc ''i2.8xlarge'' 32 (Dec 244 0) ''8 x 800 SSD'' ''eu-west-1'' (Dec 7502 (- 3)),
     desc ''d2.xlarge'' 4 (Dec 305 (- 1)) ''3 x 2000 HDD'' ''eu-west-1'' (Dec 735 (- 3)),
     desc ''d2.2xlarge'' 8 (Dec 61 0) ''6 x 2000 HDD'' ''eu-west-1'' (Dec 147 (- 2)),
     desc ''d2.4xlarge'' 16 (Dec 122 0) ''12 x 2000 HDD'' ''eu-west-1'' (Dec 294 (- 2)),
     desc ''d2.8xlarge'' 36 (Dec 244 0) ''24 x 2000 HDD'' ''eu-west-1'' (Dec 588 (- 2))]"

definition aws_eu_central_1 :: "description list" where
  "aws_eu_central_1 =
    [desc ''t2.micro'' 1 (Dec 1 0) ''ebsonly'' ''eu-central-1'' (Dec 15 (- 3)),
     desc ''t2.small'' 1 (Dec 2 0) ''ebsonly'' ''eu-central-1'' (Dec 3 (- 2)),
     desc ''t2.medium'' 2 (Dec 4 0) ''ebsonly'' ''eu-central-1'' (Dec 6 (- 2)),
     desc ''t2.large'' 2 (Dec 8 0) ''ebsonly'' ''eu-central-1'' (Dec 12 (- 2)),
     desc ''m4.large'' 2 (Dec 8 0) ''ebsonly'' ''eu-central-1'' (Dec 143 (- 3)),
     desc ''m4.xlarge'' 4 (Dec 16 0) ''ebsonly'' ''eu-central-1'' (Dec 285 (- 3)),
     desc ''m4.2xlarge'' 8 (Dec 32 0) ''ebsonly'' ''eu-central-1'' (Dec 57 (- 2)),
     desc ''m4.4xlarge'' 16 (Dec 64 0) ''ebsonly'' ''eu-central-1'' (Dec 114 (- 2)),
     desc ''m4.10xlarge'' 40 (Dec 16 1) ''ebsonly'' ''eu-central-1'' (Dec 285 (- 2)),
     desc ''m3.medium'' 1 (Dec 375 (- 2)) ''1 x 4 SSD'' ''eu-central-1'' (Dec 79 (- 3)),
     desc ''m3.large'' 2 (Dec 75 (- 1)) ''1 x 32 SSD'' ''eu-central-1'' (Dec 158 (- 3)),
     desc ''m3.xlarge'' 4 (Dec 15 0) ''2 x 40 SSD'' ''eu-central-1'' (Dec 315 (- 3)),
     desc ''m3.2xlarge'' 8 (Dec 3 1) ''2 x 80 SSD'' ''eu-central-1'' (Dec 632 (- 3)),
     desc ''c4.large'' 2 (Dec 375 (- 2)) ''ebsonly'' ''eu-central-1'' (Dec 134 (- 3)),
     desc ''c4.xlarge'' 4 (Dec 75 (- 1)) ''ebsonly'' ''eu-central-1'' (Dec 267 (- 3)),
     desc ''c4.2xlarge'' 8 (Dec 15 0) ''ebsonly'' ''eu-central-1'' (Dec 534 (- 3)),
     desc ''c4.4xlarge'' 16 (Dec 3 1) ''ebsonly'' ''eu-central-1'' (Dec 1069 (- 3)),
     desc ''c4.8xlarge'' 36 (Dec 6 1) ''ebsonly'' ''eu-central-1'' (Dec 2138 (- 3)),
     desc ''c3.large'' 2 (Dec 375 (- 2)) ''2 x 16 SSD'' ''eu-central-1'' (Dec 129 (- 3)),
     desc ''c3.xlarge'' 4 (Dec 75 (- 1)) ''2 x 40 SSD'' ''eu-central-1'' (Dec 258 (- 3)),
     desc ''c3.2xlarge'' 8 (Dec 15 0) ''2 x 80 SSD'' ''eu-central-1'' (Dec 516 (- 3)),
     desc ''c3.4xlarge'' 16 (Dec 3 1) ''2 x 160 SSD'' ''eu-central-1'' (Dec 1032 (- 3)),
     desc ''c3.8xlarge'' 32 (Dec 6 1) ''2 x 320 SSD'' ''eu-central-1'' (Dec 2064 (- 3)),
     desc ''g2.2xlarge'' 8 (Dec 15 0) ''60 SSD'' ''eu-central-1'' (Dec 772 (- 3)),
     desc ''g2.8xlarge'' 32 (Dec 6 1) ''2 x 120 SSD'' ''eu-central-1'' (Dec 3088 (- 3)),
     desc ''r3.large'' 2 (Dec 15 0) ''1 x 32 SSD'' ''eu-central-1'' (Dec 2 (- 1)),
     desc ''r3.xlarge'' 4 (Dec 305 (- 1)) ''1 x 80 SSD'' ''eu-central-1'' (Dec 4 (- 1)),
     desc ''r3.2xlarge'' 8 (Dec 61 0) ''1 x 160 SSD'' ''eu-central-1'' (Dec 8 (- 1)),
     desc ''r3.4xlarge'' 16 (Dec 122 0) ''1 x 320 SSD'' ''eu-central-1'' (Dec 16 (- 1)),
     desc ''r3.8xlarge'' 32 (Dec 244 0) ''2 x 320 SSD'' ''eu-central-1'' (Dec 3201 (- 3)),
     desc ''i2.xlarge'' 4 (Dec 305 (- 1)) ''1 x 800 SSD'' ''eu-central-1'' (Dec 1013 (- 3)),
     desc ''i2.2xlarge'' 8 (Dec 61 0) ''2 x 800 SSD'' ''eu-central-1'' (Dec 2026 (- 3)),
     desc ''i2.4xlarge'' 16 (Dec 122 0) ''4 x 800 SSD'' ''eu-central-1'' (Dec 4051 (- 3)),
     desc ''i2.8xlarge'' 32 (Dec 244 0) ''8 x 800 SSD'' ''eu-central-1'' (Dec 8102 (- 3)),
     desc ''d2.xlarge'' 4 (Dec 305 (- 1)) ''3 x 2000 HDD'' ''eu-central-1'' (Dec 794 (- 3)),
     desc ''d2.2xlarge'' 8 (Dec 61 0) ''6 x 2000 HDD'' ''eu-central-1'' (Dec 1588 (- 3)),
     desc ''d2.4xlarge'' 16 (Dec 122 0) ''12 x 2000 HDD'' ''eu-central-1'' (Dec 3176 (- 3)),
     desc ''d2.8xlarge'' 36 (Dec 244 0) ''24 x 2000 HDD'' ''eu-central-1'' (Dec 6352 (- 3))]"

definition aws_ap_southeast_1 :: "description list" where
  "aws_ap_southeast_1 =
    [desc ''t2.nano'' 1 (Dec 5 (- 1)) ''ebsonly'' ''ap-southeast-1'' (Dec 1 (- 2)),
     desc ''t2.micro'' 1 (Dec 1 0) ''ebsonly'' ''ap-southeast-1'' (Dec 2 (- 2)),
     desc ''t2.small'' 1 (Dec 2 0) ''ebsonly'' ''ap-southeast-1'' (Dec 4 (- 2)),
     desc ''t2.medium'' 2 (Dec 4 0) ''ebsonly'' ''ap-southeast-1'' (Dec 8 (- 2)),
     desc ''t2.large'' 2 (Dec 8 0) ''ebsonly'' ''ap-southeast-1'' (Dec 16 (- 2)),
     desc ''m4.large'' 2 (Dec 8 0) ''ebsonly'' ''ap-southeast-1'' (Dec 178 (- 3)),
     desc ''m4.xlarge'' 4 (Dec 16 0) ''ebsonly'' ''ap-southeast-1'' (Dec 355 (- 3)),
     desc ''m4.2xlarge'' 8 (Dec 32 0) ''ebsonly'' ''ap-southeast-1'' (Dec 711 (- 3)),
     desc ''m4.4xlarge'' 16 (Dec 64 0) ''ebsonly'' ''ap-southeast-1'' (Dec 1421 (- 3)),
     desc ''m4.10xlarge'' 40 (Dec 16 1) ''ebsonly'' ''ap-southeast-1'' (Dec 3553 (- 3)),
     desc ''m3.medium'' 1 (Dec 375 (- 2)) ''1 x 4 SSD'' ''ap-southeast-1'' (Dec 98 (- 3)),
     desc ''m3.large'' 2 (Dec 75 (- 1)) ''1 x 32 SSD'' ''ap-southeast-1'' (Dec 196 (- 3)),
     desc ''m3.xlarge'' 4 (Dec 15 0) ''2 x 40 SSD'' ''ap-southeast-1'' (Dec 392 (- 3)),
     desc ''m3.2xlarge'' 8 (Dec 3 1) ''2 x 80 SSD'' ''ap-southeast-1'' (Dec 784 (- 3)),
     desc ''c4.large'' 2 (Dec 375 (- 2)) ''ebsonly'' ''ap-southeast-1'' (Dec 144 (- 3)),
     desc ''c4.xlarge'' 4 (Dec 75 (- 1)) ''ebsonly'' ''ap-southeast-1'' (Dec 289 (- 3)),
     desc ''c4.2xlarge'' 8 (Dec 15 0) ''ebsonly'' ''ap-southeast-1'' (Dec 578 (- 3)),
     desc ''c4.4xlarge'' 16 (Dec 3 1) ''ebsonly'' ''ap-southeast-1'' (Dec 1155 (- 3)),
     desc ''c4.8xlarge'' 36 (Dec 6 1) ''ebsonly'' ''ap-southeast-1'' (Dec 231 (- 2)),
     desc ''c3.large'' 2 (Dec 375 (- 2)) ''2 x 16 SSD'' ''ap-southeast-1'' (Dec 132 (- 3)),
     desc ''c3.xlarge'' 4 (Dec 75 (- 1)) ''2 x 40 SSD'' ''ap-southeast-1'' (Dec 265 (- 3)),
     desc ''c3.2xlarge'' 8 (Dec 15 0) ''2 x 80 SSD'' ''ap-southeast-1'' (Dec 529 (- 3)),
     desc ''c3.4xlarge'' 16 (Dec 3 1) ''2 x 160 SSD'' ''ap-southeast-1'' (Dec 1058 (- 3)),
     desc ''c3.8xlarge'' 32 (Dec 6 1) ''2 x 320 SSD'' ''ap-southeast-1'' (Dec 2117 (- 3)),
     desc ''g2.2xlarge'' 8 (Dec 15 0) ''60 SSD'' ''ap-southeast-1'' (Dec 1 0),
     desc ''g2.8xlarge'' 32 (Dec 6 1) ''2 x 120 SSD'' ''ap-southeast-1'' (Dec 4 0),
     desc ''r3.large'' 2 (Dec 15 0) ''1 x 32 SSD'' ''ap-southeast-1'' (Dec 2 (- 1)),
     desc ''r3.xlarge'' 4 (Dec 305 (- 1)) ''1 x 80 SSD'' ''ap-southeast-1'' (Dec 399 (- 3)),
     desc ''r3.2xlarge'' 8 (Dec 61 0) ''1 x 160 SSD'' ''ap-southeast-1'' (Dec 798 (- 3)),
     desc ''r3.4xlarge'' 16 (Dec 122 0) ''1 x 320 SSD'' ''ap-southeast-1'' (Dec 1596 (- 3)),
     desc ''r3.8xlarge'' 32 (Dec 244 0) ''2 x 320 SSD'' ''ap-southeast-1'' (Dec 3192 (- 3)),
     desc ''i2.xlarge'' 4 (Dec 305 (- 1)) ''1 x 800 SSD'' ''ap-southeast-1'' (Dec 1018 (- 3)),
     desc ''i2.2xlarge'' 8 (Dec 61 0) ''2 x 800 SSD'' ''ap-southeast-1'' (Dec 2035 (- 3)),
     desc ''i2.4xlarge'' 16 (Dec 122 0) ''4 x 800 SSD'' ''ap-southeast-1'' (Dec 407 (- 2)),
     desc ''i2.8xlarge'' 32 (Dec 244 0) ''8 x 800 SSD'' ''ap-southeast-1'' (Dec 814 (- 2)),
     desc ''d2.xlarge'' 4 (Dec 305 (- 1)) ''3 x 2000 HDD'' ''ap-southeast-1'' (Dec 87 (- 2)),
     desc ''d2.2xlarge'' 8 (Dec 61 0) ''6 x 2000 HDD'' ''ap-southeast-1'' (Dec 174 (- 2)),
     desc ''d2.4xlarge'' 16 (Dec 122 0) ''12 x 2000 HDD'' ''ap-southeast-1'' (Dec 348 (- 2)),
     desc ''d2.8xlarge'' 36 (Dec 244 0) ''24 x 2000 HDD'' ''ap-southeast-1'' (Dec 696 (- 2))]"

definition aws_ap_northeast_1 :: "description list" where
  "aws_ap_northeast_1 =
    [desc ''t2.nano'' 1 (Dec 5 (- 1)) ''ebsonly'' ''ap-northeast-1'' (Dec 1 (- 2)),
     desc ''t2.micro'' 1 (Dec 1 0) ''ebsonly'' ''ap-northeast-1'' (Dec 2 (- 2)),
     desc ''t2.small'' 1 (Dec 2 0) ''ebsonly'' ''ap-northeast-1'' (Dec 4 (- 2)),
     desc ''t2.medium'' 2 (Dec 4 0) ''ebsonly'' ''ap-northeast-1'' (Dec 8 (- 2)),
     desc ''t2.large'' 2 (Dec 8 0) ''ebsonly'' ''ap-northeast-1'' (Dec 16 (- 2)),
     desc ''m4.large'' 2 (Dec 8 0) ''ebsonly'' ''ap-northeast-1'' (Dec 174 (- 3)),
     desc ''m4.xlarge'' 4 (Dec 16 0) ''ebsonly'' ''ap-northeast-1'' (Dec 348 (- 3)),
     desc ''m4.2xlarge'' 8 (Dec 32 0) ''ebsonly'' ''ap-northeast-1'' (Dec 695 (- 3)),
     desc ''m4.4xlarge'' 16 (Dec 64 0) ''ebsonly'' ''ap-northeast-1'' (Dec 1391 (- 3)),
     desc ''m4.10xlarge'' 40 (Dec 16 1) ''ebsonly'' ''ap-northeast-1'' (Dec 3477 (- 3)),
     desc ''m3.medium'' 1 (Dec 375 (- 2)) ''1 x 4 SSD'' ''ap-northeast-1'' (Dec 96 (- 3)),
     desc ''m3.large'' 2 (Dec 75 (- 1)) ''1 x 32 SSD'' ''ap-northeast-1'' (Dec 193 (- 3)),
     desc ''m3.xlarge'' 4 (Dec 15 0) ''2 x 40 SSD'' ''ap-northeast-1'' (Dec 385 (- 3)),
     desc ''m3.2xlarge'' 8 (Dec 3 1) ''2 x 80 SSD'' ''ap-northeast-1'' (Dec 77 (- 2)),
     desc ''c4.large'' 2 (Dec 375 (- 2)) ''ebsonly'' ''ap-northeast-1'' (Dec 133 (- 3)),
     desc ''c4.xlarge'' 4 (Dec 75 (- 1)) ''ebsonly'' ''ap-northeast-1'' (Dec 265 (- 3)),
     desc ''c4.2xlarge'' 8 (Dec 15 0) ''ebsonly'' ''ap-northeast-1'' (Dec 531 (- 3)),
     desc ''c4.4xlarge'' 16 (Dec 3 1) ''ebsonly'' ''ap-northeast-1'' (Dec 1061 (- 3)),
     desc ''c4.8xlarge'' 36 (Dec 6 1) ''ebsonly'' ''ap-northeast-1'' (Dec 2122 (- 3)),
     desc ''c3.large'' 2 (Dec 375 (- 2)) ''2 x 16 SSD'' ''ap-northeast-1'' (Dec 128 (- 3)),
     desc ''c3.xlarge'' 4 (Dec 75 (- 1)) ''2 x 40 SSD'' ''ap-northeast-1'' (Dec 255 (- 3)),
     desc ''c3.2xlarge'' 8 (Dec 15 0) ''2 x 80 SSD'' ''ap-northeast-1'' (Dec 511 (- 3)),
     desc ''c3.4xlarge'' 16 (Dec 3 1) ''2 x 160 SSD'' ''ap-northeast-1'' (Dec 1021 (- 3)),
     desc ''c3.8xlarge'' 32 (Dec 6 1) ''2 x 320 SSD'' ''ap-northeast-1'' (Dec 2043 (- 3)),
     desc ''g2.2xlarge'' 8 (Dec 15 0) ''60 SSD'' ''ap-northeast-1'' (Dec 898 (- 3)),
     desc ''g2.8xlarge'' 32 (Dec 6 1) ''2 x 120 SSD'' ''ap-northeast-1'' (Dec 3592 (- 3)),
     desc ''r3.large'' 2 (Dec 15 0) ''1 x 32 SSD'' ''ap-northeast-1'' (Dec 2 (- 1)),
     desc ''r3.xlarge'' 4 (Dec 305 (- 1)) ''1 x 80 SSD'' ''ap-northeast-1'' (Dec 399 (- 3)),
     desc ''r3.2xlarge'' 8 (Dec 61 0) ''1 x 160 SSD'' ''ap-northeast-1'' (Dec 798 (- 3)),
     desc ''r3.4xlarge'' 16 (Dec 122 0) ''1 x 320 SSD'' ''ap-northeast-1'' (Dec 1596 (- 3)),
     desc ''r3.8xlarge'' 32 (Dec 244 0) ''2 x 320 SSD'' ''ap-northeast-1'' (Dec 3192 (- 3)),
     desc ''i2.xlarge'' 4 (Dec 305 (- 1)) ''1 x 800 SSD'' ''ap-northeast-1'' (Dec 1001 (- 3)),
     desc ''i2.2xlarge'' 8 (Dec 61 0) ''2 x 800 SSD'' ''ap-northeast-1'' (Dec 2001 (- 3)),
     desc ''i2.4xlarge'' 16 (Dec 122 0) ''4 x 800 SSD'' ''ap-northeast-1'' (Dec 4002 (- 3)),
     desc ''i2.8xlarge'' 32 (Dec 244 0) ''8 x 800 SSD'' ''ap-northeast-1'' (Dec 8004 (- 3)),
     desc ''d2.xlarge'' 4 (Dec 305 (- 1)) ''3 x 2000 HDD'' ''ap-northeast-1'' (Dec 844 (- 3)),
     desc ''d2.2xlarge'' 8 (Dec 61 0) ''6 x 2000 HDD'' ''ap-northeast-1'' (Dec 1688 (- 3)),
     desc ''d2.4xlarge'' 16 (Dec 122 0) ''12 x 2000 HDD'' ''ap-northeast-1'' (Dec 3376 (- 3)),
     desc ''d2.8xlarge'' 36 (Dec 244 0) ''24 x 2000 HDD'' ''ap-northeast-1'' (Dec 6752 (- 3))]"

definition aws_ap_southeast_2 :: "description list" where
  "aws_ap_southeast_2 =
    [desc ''t2.micro'' 1 (Dec 1 0) ''ebsonly'' ''ap-southeast-2'' (Dec 2 (- 2)),
     desc ''t2.small'' 1 (Dec 2 0) ''ebsonly'' ''ap-southeast-2'' (Dec 4 (- 2)),
     desc ''t2.medium'' 2 (Dec 4 0) ''ebsonly'' ''ap-southeast-2'' (Dec 8 (- 2)),
     desc ''t2.large'' 2 (Dec 8 0) ''ebsonly'' ''ap-southeast-2'' (Dec 16 (- 2)),
     desc ''m4.large'' 2 (Dec 8 0) ''ebsonly'' ''ap-southeast-2'' (Dec 168 (- 3)),
     desc ''m4.xlarge'' 4 (Dec 16 0) ''ebsonly'' ''ap-southeast-2'' (Dec 336 (- 3)),
     desc ''m4.2xlarge'' 8 (Dec 32 0) ''ebsonly'' ''ap-southeast-2'' (Dec 673 (- 3)),
     desc ''m4.4xlarge'' 16 (Dec 64 0) ''ebsonly'' ''ap-southeast-2'' (Dec 1345 (- 3)),
     desc ''m4.10xlarge'' 40 (Dec 16 1) ''ebsonly'' ''ap-southeast-2'' (Dec 3363 (- 3)),
     desc ''m3.medium'' 1 (Dec 375 (- 2)) ''1 x 4 SSD'' ''ap-southeast-2'' (Dec 93 (- 3)),
     desc ''m3.large'' 2 (Dec 75 (- 1)) ''1 x 32 SSD'' ''ap-southeast-2'' (Dec 186 (- 3)),
     desc ''m3.xlarge'' 4 (Dec 15 0) ''2 x 40 SSD'' ''ap-southeast-2'' (Dec 372 (- 3)),
     desc ''m3.2xlarge'' 8 (Dec 3 1) ''2 x 80 SSD'' ''ap-southeast-2'' (Dec 745 (- 3)),
     desc ''c4.large'' 2 (Dec 375 (- 2)) ''ebsonly'' ''ap-southeast-2'' (Dec 137 (- 3)),
     desc ''c4.xlarge'' 4 (Dec 75 (- 1)) ''ebsonly'' ''ap-southeast-2'' (Dec 275 (- 3)),
     desc ''c4.2xlarge'' 8 (Dec 15 0) ''ebsonly'' ''ap-southeast-2'' (Dec 549 (- 3)),
     desc ''c4.4xlarge'' 16 (Dec 3 1) ''ebsonly'' ''ap-southeast-2'' (Dec 1097 (- 3)),
     desc ''c4.8xlarge'' 36 (Dec 6 1) ''ebsonly'' ''ap-southeast-2'' (Dec 2195 (- 3)),
     desc ''c3.large'' 2 (Dec 375 (- 2)) ''2 x 16 SSD'' ''ap-southeast-2'' (Dec 132 (- 3)),
     desc ''c3.xlarge'' 4 (Dec 75 (- 1)) ''2 x 40 SSD'' ''ap-southeast-2'' (Dec 265 (- 3)),
     desc ''c3.2xlarge'' 8 (Dec 15 0) ''2 x 80 SSD'' ''ap-southeast-2'' (Dec 529 (- 3)),
     desc ''c3.4xlarge'' 16 (Dec 3 1) ''2 x 160 SSD'' ''ap-southeast-2'' (Dec 1058 (- 3)),
     desc ''c3.8xlarge'' 32 (Dec 6 1) ''2 x 320 SSD'' ''ap-southeast-2'' (Dec 2117 (- 3)),
     desc ''g2.2xlarge'' 8 (Dec 15 0) ''60 SSD'' ''ap-southeast-2'' (Dec 898 (- 3)),
     desc ''g2.8xlarge'' 32 (Dec 6 1) ''2 x 120 SSD'' ''ap-southeast-2'' (Dec 3592 (- 3)),
     desc ''r3.large'' 2 (Dec 15 0) ''1 x 32 SSD'' ''ap-southeast-2'' (Dec 2 (- 1)),
     desc ''r3.xlarge'' 4 (Dec 305 (- 1)) ''1 x 80 SSD'' ''ap-southeast-2'' (Dec 399 (- 3)),
     desc ''r3.2xlarge'' 8 (Dec 61 0) ''1 x 160 SSD'' ''ap-southeast-2'' (Dec 798 (- 3)),
     desc ''r3.4xlarge'' 16 (Dec 122 0) ''1 x 320 SSD'' ''ap-southeast-2'' (Dec 1596 (- 3)),
     desc ''r3.8xlarge'' 32 (Dec 244 0) ''2 x 320 SSD'' ''ap-southeast-2'' (Dec 3192 (- 3)),
     desc ''i2.xlarge'' 4 (Dec 305 (- 1)) ''1 x 800 SSD'' ''ap-southeast-2'' (Dec 1018 (- 3)),
     desc ''i2.2xlarge'' 8 (Dec 61 0) ''2 x 800 SSD'' ''ap-southeast-2'' (Dec 2035 (- 3)),
     desc ''i2.4xlarge'' 16 (Dec 122 0) ''4 x 800 SSD'' ''ap-southeast-2'' (Dec 407 (- 2)),
     desc ''i2.8xlarge'' 32 (Dec 244 0) ''8 x 800 SSD'' ''ap-southeast-2'' (Dec 814 (- 2)),
     desc ''d2.xlarge'' 4 (Dec 305 (- 1)) ''3 x 2000 HDD'' ''ap-southeast-2'' (Dec 87 (- 2)),
     desc ''d2.2xlarge'' 8 (Dec 61 0) ''6 x 2000 HDD'' ''ap-southeast-2'' (Dec 174 (- 2)),
     desc ''d2.4xlarge'' 16 (Dec 122 0) ''12 x 2000 HDD'' ''ap-southeast-2'' (Dec 348 (- 2)),
     desc ''d2.8xlarge'' 36 (Dec 244 0) ''24 x 2000 HDD'' ''ap-southeast-2'' (Dec 696 (- 2))]"

definition aws_ap_northeast_2 :: "description list" where
  "aws_ap_northeast_2 =
    [desc ''t2.nano'' 1 (Dec 5 (- 1)) ''ebsonly'' ''ap-northeast-2'' (Dec 1 (- 2)),
     desc ''t2.micro'' 1 (Dec 1 0) ''ebsonly'' ''ap-northeast-2'' (Dec 2 (- 2)),
     desc ''t2.small'' 1 (Dec 2 0) ''ebsonly'' ''ap-northeast-2'' (Dec 4 (- 2)),
     desc ''t2.medium'' 2 (Dec 4 0) ''ebsonly'' ''ap-northeast-2'' (Dec 8 (- 2)),
     desc ''t2.large'' 2 (Dec 8 0) ''ebsonly'' ''ap-northeast-2'' (Dec 16 (- 2)),
     desc ''m4.large'' 2 (Dec 8 0) ''ebsonly'' ''ap-northeast-2'' (Dec 165 (- 3)),
     desc ''m4.xlarge'' 4 (Dec 16 0) ''ebsonly'' ''ap-northeast-2'' (Dec 331 (- 3)),
     desc ''m4.2xlarge'' 8 (Dec 32 0) ''ebsonly'' ''ap-northeast-2'' (Dec 66 (- 2)),
     desc ''m4.4xlarge'' 16 (Dec 64 0) ''ebsonly'' ''ap-northeast-2'' (Dec 1321 (- 3)),
     desc ''m4.10xlarge'' 40 (Dec 16 1) ''ebsonly'' ''ap-northeast-2'' (Dec 3303 (- 3)),
     desc ''c4.large'' 2 (Dec 375 (- 2)) ''ebsonly'' ''ap-northeast-2'' (Dec 12 (- 2)),
     desc ''c4.xlarge'' 4 (Dec 75 (- 1)) ''ebsonly'' ''ap-northeast-2'' (Dec 239 (- 3)),
     desc ''c4.2xlarge'' 8 (Dec 15 0) ''ebsonly'' ''ap-northeast-2'' (Dec 478 (- 3)),
     desc ''c4.4xlarge'' 16 (Dec 3 1) ''ebsonly'' ''ap-northeast-2'' (Dec 955 (- 3)),
     desc ''c4.8xlarge'' 36 (Dec 6 1) ''ebsonly'' ''ap-northeast-2'' (Dec 191 (- 2)),
     desc ''r3.large'' 2 (Dec 15 0) ''1 x 32 SSD'' ''ap-northeast-2'' (Dec 2 (- 1)),
     desc ''r3.xlarge'' 4 (Dec 305 (- 1)) ''1 x 80 SSD'' ''ap-northeast-2'' (Dec 399 (- 3)),
     desc ''r3.2xlarge'' 8 (Dec 61 0) ''1 x 160 SSD'' ''ap-northeast-2'' (Dec 798 (- 3)),
     desc ''r3.4xlarge'' 16 (Dec 122 0) ''1 x 320 SSD'' ''ap-northeast-2'' (Dec 1596 (- 3)),
     desc ''r3.8xlarge'' 32 (Dec 244 0) ''2 x 320 SSD'' ''ap-northeast-2'' (Dec 3192 (- 3)),
     desc ''i2.xlarge'' 4 (Dec 305 (- 1)) ''1 x 800 SSD'' ''ap-northeast-2'' (Dec 1001 (- 3)),
     desc ''i2.2xlarge'' 8 (Dec 61 0) ''2 x 800 SSD'' ''ap-northeast-2'' (Dec 2001 (- 3)),
     desc ''i2.4xlarge'' 16 (Dec 122 0) ''4 x 800 SSD'' ''ap-northeast-2'' (Dec 4002 (- 3)),
     desc ''i2.8xlarge'' 32 (Dec 244 0) ''8 x 800 SSD'' ''ap-northeast-2'' (Dec 8004 (- 3)),
     desc ''d2.xlarge'' 4 (Dec 305 (- 1)) ''3 x 2000 HDD'' ''ap-northeast-2'' (Dec 844 (- 3)),
     desc ''d2.2xlarge'' 8 (Dec 61 0) ''6 x 2000 HDD'' ''ap-northeast-2'' (Dec 1688 (- 3)),
     desc ''d2.4xlarge'' 16 (Dec 122 0) ''12 x 2000 HDD'' ''ap-northeast-2'' (Dec 3376 (- 3)),
     desc ''d2.8xlarge'' 36 (Dec 244 0) ''24 x 2000 HDD'' ''ap-northeast-2'' (Dec 6752 (- 3))]"

definition aws_sa_east_1 :: "description list" where
  "aws_sa_east_1 =
    [desc ''t2.nano'' 1 (Dec 5 (- 1)) ''ebsonly'' ''sa-east-1'' (Dec 135 (- 4)),
     desc ''t2.micro'' 1 (Dec 1 0) ''ebsonly'' ''sa-east-1'' (Dec 27 (- 3)),
     desc ''t2.small'' 1 (Dec 2 0) ''ebsonly'' ''sa-east-1'' (Dec 54 (- 3)),
     desc ''t2.medium'' 2 (Dec 4 0) ''ebsonly'' ''sa-east-1'' (Dec 108 (- 3)),
     desc ''t2.large'' 2 (Dec 8 0) ''ebsonly'' ''sa-east-1'' (Dec 216 (- 3)),
     desc ''m3.medium'' 1 (Dec 375 (- 2)) ''1 x 4 SSD'' ''sa-east-1'' (Dec 95 (- 3)),
     desc ''m3.large'' 2 (Dec 75 (- 1)) ''1 x 32 SSD'' ''sa-east-1'' (Dec 19 (- 2)),
     desc ''m3.xlarge'' 4 (Dec 15 0) ''2 x 40 SSD'' ''sa-east-1'' (Dec 381 (- 3)),
     desc ''m3.2xlarge'' 8 (Dec 3 1) ''2 x 80 SSD'' ''sa-east-1'' (Dec 761 (- 3)),
     desc ''c3.large'' 2 (Dec 375 (- 2)) ''2 x 16 SSD'' ''sa-east-1'' (Dec 163 (- 3)),
     desc ''c3.xlarge'' 4 (Dec 75 (- 1)) ''2 x 40 SSD'' ''sa-east-1'' (Dec 325 (- 3)),
     desc ''c3.2xlarge'' 8 (Dec 15 0) ''2 x 80 SSD'' ''sa-east-1'' (Dec 65 (- 2)),
     desc ''c3.4xlarge'' 16 (Dec 3 1) ''2 x 160 SSD'' ''sa-east-1'' (Dec 13 (- 1)),
     desc ''c3.8xlarge'' 32 (Dec 6 1) ''2 x 320 SSD'' ''sa-east-1'' (Dec 26 (- 1)),
     desc ''r3.4xlarge'' 16 (Dec 122 0) ''1 x 320 SSD'' ''sa-east-1'' (Dec 2799 (- 3)),
     desc ''r3.8xlarge'' 32 (Dec 244 0) ''2 x 320 SSD'' ''sa-east-1'' (Dec 5597 (- 3))]"

definition aws_us_gov_west_1 :: "description list" where
  "aws_us_gov_west_1 =
    [desc ''t2.nano'' 1 (Dec 5 (- 1)) ''ebsonly'' ''us-gov-west-1'' (Dec 75 (- 4)),
     desc ''t2.micro'' 1 (Dec 1 0) ''ebsonly'' ''us-gov-west-1'' (Dec 15 (- 3)),
     desc ''t2.small'' 1 (Dec 2 0) ''ebsonly'' ''us-gov-west-1'' (Dec 31 (- 3)),
     desc ''t2.medium'' 2 (Dec 4 0) ''ebsonly'' ''us-gov-west-1'' (Dec 62 (- 3)),
     desc ''t2.large'' 2 (Dec 8 0) ''ebsonly'' ''us-gov-west-1'' (Dec 124 (- 3)),
     desc ''m3.medium'' 1 (Dec 375 (- 2)) ''1 x 4 SSD'' ''us-gov-west-1'' (Dec 84 (- 3)),
     desc ''m3.large'' 2 (Dec 75 (- 1)) ''1 x 32 SSD'' ''us-gov-west-1'' (Dec 168 (- 3)),
     desc ''m3.xlarge'' 4 (Dec 15 0) ''2 x 40 SSD'' ''us-gov-west-1'' (Dec 336 (- 3)),
     desc ''m3.2xlarge'' 8 (Dec 3 1) ''2 x 80 SSD'' ''us-gov-west-1'' (Dec 672 (- 3)),
     desc ''c3.large'' 2 (Dec 375 (- 2)) ''2 x 16 SSD'' ''us-gov-west-1'' (Dec 126 (- 3)),
     desc ''c3.xlarge'' 4 (Dec 75 (- 1)) ''2 x 40 SSD'' ''us-gov-west-1'' (Dec 252 (- 3)),
     desc ''c3.2xlarge'' 8 (Dec 15 0) ''2 x 80 SSD'' ''us-gov-west-1'' (Dec 504 (- 3)),
     desc ''c3.4xlarge'' 16 (Dec 3 1) ''2 x 160 SSD'' ''us-gov-west-1'' (Dec 1008 (- 3)),
     desc ''c3.8xlarge'' 32 (Dec 6 1) ''2 x 320 SSD'' ''us-gov-west-1'' (Dec 2016 (- 3)),
     desc ''r3.large'' 2 (Dec 15 0) ''1 x 32 SSD'' ''us-gov-west-1'' (Dec 2 (- 1)),
     desc ''r3.xlarge'' 4 (Dec 305 (- 1)) ''1 x 80 SSD'' ''us-gov-west-1'' (Dec 399 (- 3)),
     desc ''r3.2xlarge'' 8 (Dec 61 0) ''1 x 160 SSD'' ''us-gov-west-1'' (Dec 798 (- 3)),
     desc ''r3.4xlarge'' 16 (Dec 122 0) ''1 x 320 SSD'' ''us-gov-west-1'' (Dec 1596 (- 3)),
     desc ''r3.8xlarge'' 32 (Dec 244 0) ''2 x 320 SSD'' ''us-gov-west-1'' (Dec 3192 (- 3)),
     desc ''i2.xlarge'' 4 (Dec 305 (- 1)) ''1 x 800 SSD'' ''us-gov-west-1'' (Dec 1023 (- 3)),
     desc ''i2.2xlarge'' 8 (Dec 61 0) ''2 x 800 SSD'' ''us-gov-west-1'' (Dec 2046 (- 3)),
     desc ''i2.4xlarge'' 16 (Dec 122 0) ''4 x 800 SSD'' ''us-gov-west-1'' (Dec 4092 (- 3)),
     desc ''i2.8xlarge'' 32 (Dec 244 0) ''8 x 800 SSD'' ''us-gov-west-1'' (Dec 8184 (- 3)),
     desc ''d2.xlarge'' 4 (Dec 305 (- 1)) ''3 x 2000 HDD'' ''us-gov-west-1'' (Dec 828 (- 3)),
     desc ''d2.2xlarge'' 8 (Dec 61 0) ''6 x 2000 HDD'' ''us-gov-west-1'' (Dec 1656 (- 3)),
     desc ''d2.4xlarge'' 16 (Dec 122 0) ''12 x 2000 HDD'' ''us-gov-west-1'' (Dec 3312 (- 3)),
     desc ''d2.8xlarge'' 36 (Dec 244 0) ''24 x 2000 HDD'' ''us-gov-west-1'' (Dec 6624 (- 3))]"

definition awsDescriptions :: "description list" where
  "awsDescriptions =
     aws_us_east_1 @
     aws_us_west_2 @
     aws_us_west_1 @
     aws_eu_west_1 @
     aws_eu_central_1 @
     aws_ap_southeast_1 @
     aws_ap_northeast_1 @
     aws_ap_southeast_2 @
     aws_ap_northeast_2 @
     aws_sa_east_1 @
     aws_us_gov_west_1"

definition azureDescriptions :: "description list" where
  "azureDescriptions = []"

definition googleDescriptions :: "description list" where
  "googleDescriptions =
    [desc ''n1-standard-1'' 1 (Dec 375 (- 2)) '''' '''' (Dec 5 (- 2)),
     desc ''n1-standard-2'' 2 (Dec 75 (- 1)) '''' '''' (Dec 1 (- 1)),
     desc ''n1-standard-4'' 4 (Dec 15 0) '''' '''' (Dec 2 (- 1)),
     desc ''n1-standard-8'' 8 (Dec 3 1) '''' '''' (Dec 4 (- 1)),
     desc ''n1-standard-16'' 16 (Dec 6 1) '''' '''' (Dec 8 (- 1)),
     desc ''n1-standard-326'' 32 (Dec 12 1) '''' '''' (Dec 16 (- 1)),
     desc ''f1-micro'' 1 (Dec 6 (- 1)) '''' '''' (Dec 8 (- 3)),
     desc ''g1-small'' 1 (Dec 17 (- 1)) '''' '''' (Dec 27 (- 3)),
     desc ''n1-highmem-2'' 2 (Dec 13 0) '''' '''' (Dec 126 (- 3)),
     desc ''n1-highmem-4'' 4 (Dec 26 0) '''' '''' (Dec 252 (- 3)),
     desc ''n1-highmem-8'' 8 (Dec 52 0) '''' '''' (Dec 504 (- 3)),
     desc ''n1-highmem-16'' 16 (Dec 104 0) '''' '''' (Dec 1008 (- 3)),
     desc ''n1-highmem-326'' 32 (Dec 208 0) '''' '''' (Dec 2016 (- 3)),
     desc ''n1-highcpu-2'' 2 (Dec 18 (- 1)) '''' '''' (Dec 76 (- 3)),
     desc ''n1-highcpu-4'' 4 (Dec 36 (- 1)) '''' '''' (Dec 152 (- 3)),
     desc ''n1-highcpu-8'' 8 (Dec 72 (- 1)) '''' '''' (Dec 304 (- 3)),
     desc ''n1-highcpu-16'' 16 (Dec 144 (- 1)) '''' '''' (Dec 608 (- 3)),
     desc ''n1-highcpu-326'' 32 (Dec 288 (- 1)) '''' '''' (Dec 1216 (- 3)),
     desc ''n1-standard-1'' 1 (Dec 375 (- 2)) '''' '''' (Dec 55 (- 3)),
     desc ''n1-standard-2'' 2 (Dec 75 (- 1)) '''' '''' (Dec 11 (- 2)),
     desc ''n1-standard-4'' 4 (Dec 15 0) '''' '''' (Dec 22 (- 2)),
     desc ''n1-standard-8'' 8 (Dec 3 1) '''' '''' (Dec 44 (- 2)),
     desc ''n1-standard-16'' 16 (Dec 6 1) '''' '''' (Dec 88 (- 2)),
     desc ''n1-standard-326'' 32 (Dec 12 1) '''' '''' (Dec 176 (- 2)),
     desc ''f1-micro'' 1 (Dec 6 (- 1)) '''' '''' (Dec 9 (- 3)),
     desc ''g1-small'' 1 (Dec 17 (- 1)) '''' '''' (Dec 3 (- 2)),
     desc ''n1-highmem-2'' 2 (Dec 13 0) '''' '''' (Dec 139 (- 3)),
     desc ''n1-highmem-4'' 4 (Dec 26 0) '''' '''' (Dec 278 (- 3)),
     desc ''n1-highmem-8'' 8 (Dec 52 0) '''' '''' (Dec 556 (- 3)),
     desc ''n1-highmem-16'' 16 (Dec 104 0) '''' '''' (Dec 1112 (- 3)),
     desc ''n1-highmem-326'' 32 (Dec 208 0) '''' '''' (Dec 2224 (- 3)),
     desc ''n1-highcpu-2'' 2 (Dec 18 (- 1)) '''' '''' (Dec 84 (- 3)),
     desc ''n1-highcpu-4'' 4 (Dec 36 (- 1)) '''' '''' (Dec 168 (- 3)),
     desc ''n1-highcpu-8'' 8 (Dec 72 (- 1)) '''' '''' (Dec 336 (- 3)),
     desc ''n1-highcpu-16'' 16 (Dec 144 (- 1)) '''' '''' (Dec 672 (- 3)),
     desc ''n1-highcpu-326'' 32 (Dec 288 (- 1)) '''' '''' (Dec 1344 (- 3))]"

end
