(* ===== verification/Provider.thy ===== *)
theory Provider
  imports Complex_Main Provider_Tables Db Dsl
begin

text \<open>
  The cloud providers as the rest of the system sees them (\<open>src/provider/provider.go\<close>,
  \<open>src/provider/constraint.go\<close>): machines, the choice of an instance type, and grouping by provider.
\<close>

section \<open>Machines and providers\<close>

record provMachine =
  pm_ID :: string
  pm_PublicIP :: string
  pm_PrivateIP :: string
  pm_Size :: string
  pm_DiskSize :: int
  pm_SSHKeys :: "string list"
  pm_Provider :: Provider
  pm_Region :: string

datatype providerInst = awsSpotCluster | gceCluster | azureCluster | vagrantCluster

text \<open>\<open>New\<close> panics on a provider it does not know.\<close>

definition NewProvider :: "Provider \<Rightarrow> providerInst option" where
  "NewProvider dbp =
     (if dbp = AmazonSpot then Some awsSpotCluster
      else if dbp = Google then Some gceCluster
      else if dbp = Azure then Some azureCluster
      else if dbp = Vagrant then Some vagrantCluster
      else None)"

fun groupByLoop :: "provMachine list \<Rightarrow> (Provider, provMachine list) gomap \<Rightarrow> (Provider, provMachine list) gomap" where
  "groupByLoop [] machineMap = machineMap"
| "groupByLoop (m # ms) machineMap =
     (let mm = (case gget machineMap (pm_Provider m) of
                  None \<Rightarrow> gput (pm_Provider m) [] machineMap
                | Some _ \<Rightarrow> machineMap) in
      groupByLoop ms (gput (pm_Provider m) (the (gget mm (pm_Provider m)) @ [m]) mm))"

definition GroupBy :: "provMachine list \<Rightarrow> (Provider, provMachine list) gomap" where
  "GroupBy machines = groupByLoop machines []"

section \<open>Choosing an instance type\<close>

definition floatLt :: "gofloat \<Rightarrow> gofloat \<Rightarrow> bool" where
  "floatLt x y \<longleftrightarrow> \<not> floatLe y x"

definition accepted :: "dslRange \<Rightarrow> dslRange \<Rightarrow> description \<Rightarrow> bool" where
  "accepted ram cpu d \<longleftrightarrow> Accepts ram (d_ram d) \<and> Accepts cpu (intFloat (d_cpu d))"

fun pickLoop :: "description list \<Rightarrow> dslRange \<Rightarrow> dslRange \<Rightarrow> description \<Rightarrow> description" where
  "pickLoop [] ram cpu best = best"
| "pickLoop (d # ds) ram cpu best =
     pickLoop ds ram cpu
       (if accepted ram cpu d \<and> (d_size best = '''' \<or> floatLt (d_price d) (d_price best)) then d else best)"

definition pickBestSize :: "description list \<Rightarrow> dslRange \<Rightarrow> dslRange \<Rightarrow> gofloat \<Rightarrow> string" where
  "pickBestSize descriptions ram cpu maxPrice =
     (let best = pickLoop descriptions ram cpu zeroDesc in
      if maxPrice = zeroFloat \<or> floatLe (d_price best) maxPrice then d_size best else '''')"

definition CreateSize :: "gofloat \<Rightarrow> gofloat \<Rightarrow> string" where
  "CreateSize ram cpu = fmtG ram @ '','' @ fmtG cpu"

fun PickBestSize :: "providerInst \<Rightarrow> dslRange \<Rightarrow> dslRange \<Rightarrow> gofloat \<Rightarrow> string" where
  "PickBestSize awsSpotCluster ram cpu maxPrice = pickBestSize awsDescriptions ram cpu maxPrice"
| "PickBestSize gceCluster ram cpu maxPrice = pickBestSize googleDescriptions ram cpu maxPrice"
| "PickBestSize azureCluster ram cpu maxPrice = ''''"
| "PickBestSize vagrantCluster ram cpu maxPrice = CreateSize (rg_Min ram) (rg_Min cpu)"

section \<open>Grouping\<close>

lemma groupByLoop_spec:
  "wf_gomap mm \<Longrightarrow> wf_gomap (groupByLoop ms mm) \<and>
     gget (groupByLoop ms mm) p =
       (let own = filter (\<lambda>m. pm_Provider m = p) ms in
        case gget mm p of Some l \<Rightarrow> Some (l @ own) | None \<Rightarrow> if own = [] then None else Some own)"
proof (induction ms arbitrary: mm)
  case (Cons m ms)
  let ?p = "pm_Provider m"
  show ?case
  proof (cases "gget mm ?p")
    case None
    let ?mm = "gput ?p [m] (gput ?p [] mm)"
    have "groupByLoop (m # ms) mm = groupByLoop ms ?mm" using None by (simp add: Let_def go_map)
    moreover have "wf_gomap ?mm" using Cons.prems by simp
    ultimately show ?thesis using Cons.IH [of ?mm] None by (auto simp: Let_def go_map)
  next
    case (Some l)
    let ?mm = "gput ?p (l @ [m]) mm"
    have "groupByLoop (m # ms) mm = groupByLoop ms ?mm" using Some by (simp add: Let_def)
    moreover have "wf_gomap ?mm" using Cons.prems by simp
    ultimately show ?thesis using Cons.IH [of ?mm] Some by (auto simp: Let_def go_map)
  qed
qed (simp add: Let_def split: option.split)

text \<open>
  \<open>GroupBy\<close> partitions the machines by provider: a provider is a key exactly if it has machines,
  and its group is all of them, in order.
\<close>

lemma GroupBy_partitions:
  "wf_gomap (GroupBy ms) \<and>
   gget (GroupBy ms) p =
     (if \<exists>m \<in> set ms. pm_Provider m = p then Some (filter (\<lambda>m. pm_Provider m = p) ms) else None)"
  using groupByLoop_spec [of "[]" ms p] by (auto simp: GroupBy_def Let_def filter_empty_conv)

section \<open>The cheapest fitting type\<close>

text \<open>The order of decimals is that of the rationals they denote.\<close>

definition fval :: "gofloat \<Rightarrow> rat" where
  "fval x = of_int (mant x) * 10 powi expo x"

lemma floatLe_fval: "floatLe x y \<longleftrightarrow> fval x \<le> fval y"
proof -
  let ?e = "min (expo x) (expo y)"
  have v: "fval z = of_int (mant z * 10 ^ nat (expo z - ?e)) * 10 powi ?e" if "z \<in> {x, y}" for z
  proof -
    have "(10::rat) powi expo z = 10 powi (expo z - ?e) * 10 powi ?e"
      by (simp flip: power_int_add)
    also have "(10::rat) powi (expo z - ?e) = 10 ^ nat (expo z - ?e)"
      using that by (auto simp: power_int_def)
    finally show ?thesis by (simp add: fval_def)
  qed
  have "fval x \<le> fval y \<longleftrightarrow>
      (of_int (mant x * 10 ^ nat (expo x - ?e)) :: rat) \<le> of_int (mant y * 10 ^ nat (expo y - ?e))"
    using v [of x] v [of y] by (simp only: insert_iff simp_thms mult_le_cancel_right_pos [OF zero_less_power_int] zero_less_numeral)
  then show ?thesis by (simp only: floatLe_def Let_def of_int_le_iff)
qed

lemma pickLoop_spec:
  assumes "list_all (\<lambda>d. d_size d \<noteq> '''') ds"
  shows "(d_size (pickLoop ds ram cpu best) = '''' \<longleftrightarrow> d_size best = '''' \<and> \<not> list_ex (accepted ram cpu) ds) \<and>
    (pickLoop ds ram cpu best = best \<or> pickLoop ds ram cpu best \<in> set (filter (accepted ram cpu) ds)) \<and>
    (\<forall>d \<in> set (filter (accepted ram cpu) ds). fval (d_price (pickLoop ds ram cpu best)) \<le> fval (d_price d)) \<and>
    (d_size best \<noteq> '''' \<longrightarrow> fval (d_price (pickLoop ds ram cpu best)) \<le> fval (d_price best))"
  using assms
proof (induction ds arbitrary: best)
  case (Cons d ds)
  let ?take = "accepted ram cpu d \<and> (d_size best = '''' \<or> floatLt (d_price d) (d_price best))"
  note IH = Cons.IH [of "if ?take then d else best"]
  show ?case
  proof (cases ?take)
    case True
    with IH Cons.prems show ?thesis
      by (auto simp: floatLt_def floatLe_fval intro: order_trans)
  next
    case False
    with IH Cons.prems show ?thesis
      by (auto simp: floatLt_def floatLe_fval intro: order_trans)
  qed
qed simp

lemma d_size_desc: "d_size (desc sz cpu ram disk region price) = sz"
  by (simp add: desc_def)

lemmas aws_regions = aws_us_east_1_def aws_us_west_2_def aws_us_west_1_def aws_eu_west_1_def
  aws_eu_central_1_def aws_ap_southeast_1_def aws_ap_northeast_1_def aws_ap_southeast_2_def
  aws_ap_northeast_2_def aws_sa_east_1_def aws_us_gov_west_1_def

lemmas sized_simps = list_all_append list.pred_inject d_size_desc list.distinct simp_thms

lemma google_sized: "list_all (\<lambda>d. d_size d \<noteq> '''') googleDescriptions"
  by (simp only: googleDescriptions_def sized_simps)

lemma aws_sized: "list_all (\<lambda>d. d_size d \<noteq> '''') awsDescriptions"
  by (simp only: awsDescriptions_def aws_regions sized_simps)

definition suits :: "dslRange \<Rightarrow> dslRange \<Rightarrow> gofloat \<Rightarrow> description \<Rightarrow> bool" where
  "suits ram cpu maxPrice d \<longleftrightarrow> accepted ram cpu d \<and> (maxPrice = zeroFloat \<or> floatLe (d_price d) maxPrice)"

lemma pickBestSize_spec:
  assumes "list_all (\<lambda>d. d_size d \<noteq> '''') ds"
  shows "if list_ex (suits ram cpu maxPrice) ds
    then \<exists>d \<in> set ds. suits ram cpu maxPrice d \<and> pickBestSize ds ram cpu maxPrice = d_size d \<and>
      (\<forall>d' \<in> set ds. accepted ram cpu d' \<longrightarrow> floatLe (d_price d) (d_price d'))
    else pickBestSize ds ram cpu maxPrice = ''''"
proof -
  let ?best = "pickLoop ds ram cpu zeroDesc"
  have z: "d_size zeroDesc = ''''" by (simp add: zeroDesc_def desc_def)
  note spec = pickLoop_spec [OF assms(1), of ram cpu zeroDesc, unfolded z]
  have pick: "pickBestSize ds ram cpu maxPrice =
      (if maxPrice = zeroFloat \<or> floatLe (d_price ?best) maxPrice then d_size ?best else '''')"
    by (simp add: pickBestSize_def Let_def)
  show ?thesis
  proof (cases "list_ex (accepted ram cpu) ds")
    case False
    with spec pick show ?thesis by (auto simp: list_ex_iff suits_def)
  next
    case True
    with spec z have b: "?best \<in> set ds" "accepted ram cpu ?best"
        "\<forall>d' \<in> set ds. accepted ram cpu d' \<longrightarrow> floatLe (d_price ?best) (d_price d')"
      by (auto simp: floatLe_fval)
    show ?thesis
    proof (cases "suits ram cpu maxPrice ?best")
      case True
      with b pick show ?thesis by (auto simp: list_ex_iff suits_def)
    next
      case False
      with b have "\<not> list_ex (suits ram cpu maxPrice) ds"
        by (fastforce simp: list_ex_iff suits_def floatLe_fval)
      with False b pick show ?thesis by (simp add: suits_def)
    qed
  qed
qed

fun instTable :: "providerInst \<Rightarrow> description list" where
  "instTable awsSpotCluster = awsDescriptions"
| "instTable gceCluster = googleDescriptions"
| "instTable azureCluster = azureDescriptions"
| "instTable vagrantCluster = []"

lemma instTable_sized: "list_all (\<lambda>d. d_size d \<noteq> '''') (instTable inst)"
  by (cases inst) (simp_all add: aws_sized google_sized azureDescriptions_def)


definition fourGigs :: dslRange where
  "fourGigs = \<lparr>rg_Min = Dec 4 0, rg_Max = zeroFloat\<rparr>"
definition anyCount :: dslRange where
  "anyCount = \<lparr>rg_Min = zeroFloat, rg_Max = zeroFloat\<rparr>"


end
