(* ===== verification/Reconcile.thy ===== *)
theory Reconcile
  imports Join Db
begin

text \<open>
  The shape that most writers of the database share: join what is wanted with the rows of a table,
  remove the lonely rows, insert a row for every lonely wish, and commit the filled-in pairs.
  The facts about that shape are proved once, in the locale of a kind of rows.
\<close>

context row_kind
begin

lemma join_reconcile:
  assumes inv: "db_inv db"
    and join: "Join ls (filter check (allRows db)) score = (pairs, lefts, rights)"
    and ins: "insertLoop (insertRow mk zero) lefts (removeLoop mk rights db) = (fresh, db2)"
    and rid: "\<And>p. rid (fill p) = rid (snd p)"
    and proj: "\<And>a b. DeepEqual (mk a) (mk b) \<Longrightarrow> proj a = proj b"
  shows "\<exists>db'. commitLoop mk (map fill (pairs @ fresh)) db2 = Some db' \<and> db_inv db' \<and> frame tt db db' \<and>
    mset ls = mset (map fst (pairs @ fresh)) \<and>
    mset (map proj (allRows db')) =
      mset (map proj (filter (\<lambda>x. \<not> check x) (allRows db))) + mset (map (\<lambda>p. proj (fill p)) (pairs @ fresh))"
proof -
  let ?rs = "map fill (pairs @ fresh)"
  have rids: "mset (map rid ?rs) = mset (map rid (map snd pairs)) + mset (map (rid \<circ> snd) fresh)"
    by (simp add: rid comp_def)
  have "map fst fresh = lefts"
    using insertLoop_effect [OF _ ins] removeLoop_effect [OF inv] by blast
  then have ls: "mset ls = mset (map fst (pairs @ fresh))"
    using Join_partition(1) [OF join] by simp
  obtain db' where "commitLoop mk ?rs db2 = Some db'" "db_inv db'" "frame tt db db'"
      "mset (map proj (allRows db')) = mset (map proj (filter (\<lambda>x. \<not> check x) (allRows db))) + mset (map proj ?rs)"
    using reconcile_effect [OF inv Join_partition(2) [OF join] ins rids, of proj] proj by blast
  moreover have "map proj ?rs = map (\<lambda>p. proj (fill p)) (pairs @ fresh)" by simp
  ultimately show ?thesis using ls by (intro exI [of _ db']) (simp only: simp_thms)
qed

text \<open>The other way round: the rows are the left side of the join.\<close>

lemma join_reconcile_left:
  assumes inv: "db_inv db"
    and join: "Join (filter check (allRows db)) rs score = (pairs, lefts, rights)"
    and ins: "insertLoop (insertRow mk zero) rights (removeLoop mk lefts db) = (fresh, db2)"
    and rid: "\<And>p. rid (fill p) = rid (snd p)"
    and proj: "\<And>a b. DeepEqual (mk a) (mk b) \<Longrightarrow> proj a = proj b"
  shows "\<exists>db'. commitLoop mk (map fill (map prod.swap pairs @ fresh)) db2 = Some db' \<and> db_inv db' \<and> frame tt db db' \<and>
    mset rs = mset (map fst (map prod.swap pairs @ fresh)) \<and>
    mset (map proj (allRows db')) =
      mset (map proj (filter (\<lambda>x. \<not> check x) (allRows db))) +
      mset (map (\<lambda>p. proj (fill p)) (map prod.swap pairs @ fresh))"
proof -
  let ?rs = "map fill (map prod.swap pairs @ fresh)"
  have split: "mset (filter check (allRows db)) = mset (map snd (map prod.swap pairs)) + mset lefts"
    using Join_partition(1) [OF join] by (simp add: comp_def)
  have rids: "mset (map rid ?rs) = mset (map rid (map snd (map prod.swap pairs))) + mset (map (rid \<circ> snd) fresh)"
    by (simp add: rid comp_def)
  have "map fst fresh = rights"
    using insertLoop_effect [OF _ ins] removeLoop_effect [OF inv] by blast
  then have ls: "mset rs = mset (map fst (map prod.swap pairs @ fresh))"
    using Join_partition(2) [OF join] by (simp add: comp_def)
  obtain db' where "commitLoop mk ?rs db2 = Some db'" "db_inv db'" "frame tt db db'"
      "mset (map proj (allRows db')) = mset (map proj (filter (\<lambda>x. \<not> check x) (allRows db))) + mset (map proj ?rs)"
    using reconcile_effect [OF inv split ins rids, of proj] proj by blast
  moreover have "map proj ?rs = map (\<lambda>p. proj (fill p)) (map prod.swap pairs @ fresh)" by simp
  ultimately show ?thesis using ls by (intro exI [of _ db']) (simp only: simp_thms)
qed

text \<open>Writers that only commit new versions of some rows.\<close>

lemma commit_kept:
  assumes inv: "db_inv db" and part: "mset (allRows db) = mset kept + mset rest"
    and rids: "map rid rs = map rid kept"
    and proj: "\<And>a b. DeepEqual (mk a) (mk b) \<Longrightarrow> proj a = proj b"
  shows "\<exists>db'. commitLoop mk rs db = Some db' \<and> db_inv db' \<and> frame tt db db' \<and> idAlloc db' = idAlloc db \<and>
    mset (map proj (allRows db')) = mset (map proj rest) + mset (map proj rs)"
proof -
  have "mset (map rid (allRows db)) = mset (map rid (kept @ rest))"
    using arg_cong [OF part, of "image_mset rid"] by simp
  then have "distinct (map rid (kept @ rest))"
    using distinct_rids [OF inv] mset_eq_imp_distinct_iff by blast
  moreover have kept: "rid ` set rs = rid ` set kept" using arg_cong [OF rids, of set] by simp
  ultimately have d: "distinct (map rid rs)" "rid ` set rs \<inter> rid ` set rest = {}"
    unfolding rids by simp_all
  have sub: "rid ` set rs \<subseteq> rid ` set (allRows db)"
    unfolding kept using arg_cong [OF part, of set_mset] by auto
  obtain db' where db': "commitLoop mk rs db = Some db'" "db_inv db'" "frame tt db db'" "idAlloc db' = idAlloc db"
      "allRows db' = map (newest rs) (allRows db)"
    using commitLoop_effect [OF inv d(1) sub] by blast
  let ?other = "\<lambda>x. rid x \<notin> rid ` set rs"
  have "filter ?other (kept @ rest) = rest"
    using d(2) kept by (auto simp: filter_empty_conv filter_id_conv)
  moreover have "mset (filter ?other (allRows db)) = mset (filter ?other (kept @ rest))"
    unfolding mset_filter using part by simp
  ultimately have "mset (filter ?other (allRows db)) = mset rest" by simp
  then have "mset (map proj (filter ?other (allRows db))) = mset (map proj rest)" by (simp only: mset_map)
  then have "mset (map proj (allRows db')) = mset (map proj rest) + mset (map proj rs)"
    using mset_newest [OF distinct_rids [OF inv] d(1) sub, of proj] proj by (simp only: db'(5))
  with db' show ?thesis by blast
qed

end

end
