(* ===== verification/Engine.thy ===== *)
theory Engine
  imports Provider Reconcile Db_Txn
begin

text \<open>
  The controller's policy engine (\<open>src/engine/engine.go\<close>): a transaction that makes the cluster row and
  the machine rows of the database reflect a policy.

  \<open>gh\<close> is the GitHub key service, \<open>myIP\<close> the result of \<open>util.MyIP\<close>, a request to an external
  service (\<open>None\<close> is its error).  Log messages are left out.  \<open>None\<close> is a panic.
\<close>

section \<open>The transactions\<close>

definition noNamespace :: string where
  "noNamespace = ''policy must specify a '' @ [CHR 0x27] @ ''Namespace'' @ [CHR 0x27]"

definition clusterTxn :: "Dsl \<Rightarrow> Database \<Rightarrow> ((string + int) \<times> Database) option" where
  "clusterTxn dsl view =
     (let Namespace = QueryString dsl ''Namespace'' in
      if Namespace = '''' then Some (Inl noNamespace, view)
      else
        (case (case SelectFromCluster view nilCheck of
                 [cluster] \<Rightarrow> Some (cluster, view)
               | [] \<Rightarrow> Some (InsertCluster view)
               | _ \<Rightarrow> None) of
           None \<Rightarrow> None
         | Some (cluster, view1) \<Rightarrow>
             (let cluster = cluster\<lparr>cl_Namespace := Namespace, cl_Spec := Dsl_String dsl\<rparr> in
              case Commit (ClusterRow cluster) view1 of
                None \<Rightarrow> None
              | Some view2 \<Rightarrow> Some (Inr (cl_ID cluster), view2))))"

fun resolveACLs :: "string option \<Rightarrow> string list \<Rightarrow> string list" where
  "resolveACLs myIP [] = []"
| "resolveACLs myIP (acl # acls) =
     (if acl = ''local'' then
        (case myIP of
           None \<Rightarrow> resolveACLs myIP acls
         | Some ip \<Rightarrow> (ip @ ''/32'') # resolveACLs myIP acls)
      else acl # resolveACLs myIP acls)"

definition aclTxn :: "string option \<Rightarrow> Dsl \<Rightarrow> int \<Rightarrow> Database \<Rightarrow> (string option \<times> Database) option" where
  "aclTxn myIP dsl clusterID view =
     (case SelectFromCluster view (\<lambda>c. cl_ID c = clusterID) of
        [] \<Rightarrow> Some (Some (''could not find cluster with ID '' @ itoa clusterID), view)
      | cluster # _ \<Rightarrow>
          (let machines = SelectFromMachine view
                 (\<lambda>m. m_ClusterID m = cl_ID cluster \<and> m_PublicIP m \<noteq> '''');
               acls = sort (resolveACLs myIP (QueryStrSlice dsl ''AdminACL'') @
                        map (\<lambda>m. m_PublicIP m @ ''/32'') machines) in
           if cl_ACLs cluster \<noteq> acls then
             (case Commit (ClusterRow (cluster\<lparr>cl_ACLs := acls\<rparr>)) view of
                None \<Rightarrow> None
              | Some view1 \<Rightarrow> Some (None, view1))
           else Some (None, view)))"

text \<open>One iteration of the loop of \<open>toDBMachine\<close>: no machine if the iteration ends in a \<open>continue\<close>.\<close>

definition toDBMachine1 :: "dslMachine \<Rightarrow> gofloat \<Rightarrow> Machine list option" where
  "toDBMachine1 dslm maxPrice =
     (case ParseRole (dm_Role dslm) of None \<Rightarrow> Some [] | Some role \<Rightarrow>
      (case ParseProvider (dm_Provider dslm) of None \<Rightarrow> Some [] | Some p \<Rightarrow>
       (case (if dm_Size dslm \<noteq> '''' then Some (dm_Size dslm)
              else map_option (\<lambda>inst. PickBestSize inst (dm_RAM dslm) (dm_CPU dslm) maxPrice) (NewProvider p)) of
          None \<Rightarrow> None
        | Some sz \<Rightarrow>
            if sz = '''' then Some []
            else Some [(zeroMachine 0)\<lparr>m_Role := role, m_Provider := p, m_Size := sz,
                   m_SSHKeys := dm_SSHKeys dslm, m_Region := dm_Region dslm, m_DiskSize := dm_DiskSize dslm\<rparr>])))"

fun toDBMachine :: "dslMachine list \<Rightarrow> gofloat \<Rightarrow> Machine list option" where
  "toDBMachine [] maxPrice = Some []"
| "toDBMachine (m # ms) maxPrice =
     (case toDBMachine1 m maxPrice of None \<Rightarrow> None
      | Some xs \<Rightarrow> map_option ((@) xs) (toDBMachine ms maxPrice))"

fun canBootLoop :: "Machine list \<Rightarrow> bool \<Rightarrow> bool \<Rightarrow> bool" where
  "canBootLoop [] hasMaster hasWorker = (hasMaster \<and> hasWorker)"
| "canBootLoop (m # ms) hasMaster hasWorker =
     canBootLoop ms (hasMaster \<or> m_Role m = Master) (hasWorker \<or> m_Role m = Worker)"

definition canBoot :: "Machine list \<Rightarrow> bool" where
  "canBoot machines = canBootLoop machines False False"

definition machineScore :: "Machine \<Rightarrow> Machine \<Rightarrow> int" where
  "machineScore dslMachine dbMachine =
     (if m_Provider dbMachine \<noteq> m_Provider dslMachine then - 1
      else if m_Region dbMachine \<noteq> m_Region dslMachine then - 1
      else if m_Size dbMachine \<noteq> '''' \<and> m_Size dslMachine \<noteq> m_Size dbMachine then - 1
      else if m_Role dbMachine \<noteq> RoleNone \<and> m_Role dbMachine \<noteq> m_Role dslMachine then - 1
      else if m_DiskSize dbMachine \<noteq> m_DiskSize dslMachine then - 1
      else if m_PrivateIP dbMachine = '''' then 2
      else if m_PublicIP dbMachine = '''' then 1
      else 0)"

definition fillMachine :: "int \<Rightarrow> Machine \<times> Machine \<Rightarrow> Machine" where
  "fillMachine clusterID p =
     (case p of (dslMachine, dbMachine) \<Rightarrow>
        dbMachine\<lparr>m_Role := m_Role dslMachine, m_Size := m_Size dslMachine,
          m_DiskSize := m_DiskSize dslMachine, m_Provider := m_Provider dslMachine,
          m_Region := m_Region dslMachine, m_SSHKeys := m_SSHKeys dslMachine, m_ClusterID := clusterID\<rparr>)"

text \<open>\<open>QueryFloat\<close> returns 0 next to its error, which the code ignores.\<close>

definition maxPriceOf :: "Dsl \<Rightarrow> gofloat" where
  "maxPriceOf dsl = (case QueryFloat dsl ''MaxPrice'' of Inl _ \<Rightarrow> zeroFloat | Inr x \<Rightarrow> x)"

text \<open>The part of \<open>machineTxn\<close> that reads the policy.\<close>

definition wantedMachines ::
  "(string \<Rightarrow> string list option) \<Rightarrow> Dsl \<Rightarrow> githubCache \<Rightarrow> (Machine list \<times> githubCache) option" where
  "wantedMachines gh dsl cache =
     (case QueryMachines gh dsl cache of (dslMachinesRaw, cache1) \<Rightarrow>
      (case toDBMachine dslMachinesRaw (maxPriceOf dsl) of
         None \<Rightarrow> None
       | Some dslMachines \<Rightarrow> Some (if \<not> canBoot dslMachines then [] else dslMachines, cache1)))"

definition syncMachines :: "Machine list \<Rightarrow> int \<Rightarrow> Database \<Rightarrow> Database option" where
  "syncMachines dslMachines clusterID view =
     (let dbMachines = SelectFromMachine view (\<lambda>m. m_ClusterID m = clusterID);
          (pairs, bootList, terminateList) = Join dslMachines dbMachines machineScore;
          view1 = removeLoop MachineRow terminateList view;
          (booted, view2) = insertLoop InsertMachine bootList view1 in
      commitLoop MachineRow (map (fillMachine clusterID) (pairs @ booted)) view2)"

definition machineTxn ::
  "(string \<Rightarrow> string list option) \<Rightarrow> Dsl \<Rightarrow> int \<Rightarrow> githubCache \<Rightarrow> Database \<Rightarrow> (githubCache \<times> Database) option" where
  "machineTxn gh dsl clusterID cache view =
     (case wantedMachines gh dsl cache of
        None \<Rightarrow> None
      | Some (dslMachines, cache1) \<Rightarrow> map_option (Pair cache1) (syncMachines dslMachines clusterID view))"

text \<open>The error of the transaction travels with the key cache, which is not part of the database.\<close>

definition updateTxn ::
  "(string \<Rightarrow> string list option) \<Rightarrow> string option \<Rightarrow> Dsl \<Rightarrow> githubCache \<Rightarrow> (string option \<times> githubCache) txn" where
  "updateTxn gh myIP dsl cache view =
     (case clusterTxn dsl view of
        None \<Rightarrow> None
      | Some (Inl err, view1) \<Rightarrow> Some ((Some err, cache), view1)
      | Some (Inr cluster, view1) \<Rightarrow>
          (case machineTxn gh dsl cluster cache view1 of
             None \<Rightarrow> None
           | Some (cache1, view2) \<Rightarrow>
               (case aclTxn myIP dsl cluster view2 of
                  None \<Rightarrow> None
                | Some (err, view3) \<Rightarrow> Some ((err, cache1), view3))))"

definition UpdatePolicy ::
  "(string \<Rightarrow> string list option) \<Rightarrow> string option \<Rightarrow> Dsl \<Rightarrow> githubCache \<Rightarrow> (string option \<times> githubCache) txn" where
  "UpdatePolicy gh myIP dsl cache conn = Transact (updateTxn gh myIP dsl cache) conn"

section \<open>Machines\<close>

lemma NewProvider_known: "ParseProvider s = Some p \<Longrightarrow> \<exists>inst. NewProvider p = Some inst"
  by (auto simp: ParseProvider_def NewProvider_def AmazonSpot_def Google_def Azure_def Vagrant_def
    split: if_splits)

lemma toDBMachine1_total:
  "\<exists>xs. toDBMachine1 m maxPrice = Some xs \<and> list_all (\<lambda>x. m_Size x \<noteq> '''' \<and> m_Role x \<in> {RoleNone, Worker, Master}) xs"
proof -
  have role: "r \<in> {RoleNone, Worker, Master}" if "ParseRole s = Some r" for s r
    using that by (auto simp: ParseRole_def split: if_splits)
  show ?thesis
    by (auto simp: toDBMachine1_def split: option.split dest: NewProvider_known role)
qed

lemma toDBMachine_total:
  "\<exists>xs. toDBMachine ms maxPrice = Some xs \<and> list_all (\<lambda>x. m_Size x \<noteq> '''' \<and> m_Role x \<in> {RoleNone, Worker, Master}) xs"
proof (induction ms)
  case (Cons m ms)
  obtain xs where "toDBMachine1 m maxPrice = Some xs"
      "list_all (\<lambda>x. m_Size x \<noteq> '''' \<and> m_Role x \<in> {RoleNone, Worker, Master}) xs"
    using toDBMachine1_total by blast
  with Cons show ?case by auto
qed simp

lemma canBootLoop_ex:
  "canBootLoop ms a b \<longleftrightarrow>
     (a \<or> (\<exists>m \<in> set ms. m_Role m = Master)) \<and> (b \<or> (\<exists>m \<in> set ms. m_Role m = Worker))"
  by (induction ms arbitrary: a b) auto

lemma canBoot_iff: "canBoot ms \<longleftrightarrow> (\<exists>m \<in> set ms. m_Role m = Master) \<and> (\<exists>m \<in> set ms. m_Role m = Worker)"
  by (simp add: canBoot_def canBootLoop_ex)

lemma wantedMachines_total:
  "\<exists>ms cache1. wantedMachines gh dsl cache = Some (ms, cache1) \<and>
     list_all (\<lambda>x. m_Size x \<noteq> '''' \<and> m_Role x \<in> {RoleNone, Worker, Master}) ms \<and> (ms = [] \<or> canBoot ms)"
proof -
  obtain raw cache1 where q: "QueryMachines gh dsl cache = (raw, cache1)" by force
  obtain xs where "toDBMachine raw (maxPriceOf dsl) = Some xs"
      "list_all (\<lambda>x. m_Size x \<noteq> '''' \<and> m_Role x \<in> {RoleNone, Worker, Master}) xs"
    using toDBMachine_total by blast
  with q show ?thesis by (simp add: wantedMachines_def)
qed

text \<open>What a policy says of a machine, and what the cloud says of it.\<close>

definition machineSpec :: "Machine \<Rightarrow> Role \<times> string \<times> int \<times> Provider \<times> string \<times> string list" where
  "machineSpec m = (m_Role m, m_Size m, m_DiskSize m, m_Provider m, m_Region m, m_SSHKeys m)"

definition machineIdentity :: "Machine \<Rightarrow> int \<times> string \<times> string \<times> string" where
  "machineIdentity m = (m_ID m, m_CloudID m, m_PublicIP m, m_PrivateIP m)"

lemma fillMachine_simps [simp]:
  "machineSpec (fillMachine cid p) = machineSpec (fst p)"
  "machineIdentity (fillMachine cid p) = machineIdentity (snd p)"
  "m_ID (fillMachine cid p) = m_ID (snd p)"
  "m_ClusterID (fillMachine cid p) = cid"
  by (simp_all add: fillMachine_def machineSpec_def machineIdentity_def case_prod_unfold)

abbreviation ofCluster :: "int \<Rightarrow> Database \<Rightarrow> Machine list" where
  "ofCluster cid db \<equiv> SelectFromMachine db (\<lambda>m. m_ClusterID m = cid)"

abbreviation notOfCluster :: "int \<Rightarrow> Database \<Rightarrow> Machine list" where
  "notOfCluster cid db \<equiv> SelectFromMachine db (\<lambda>m. m_ClusterID m \<noteq> cid)"

lemma syncMachines_rows:
  assumes inv: "db_inv db"
    and join: "Join ms (ofCluster cid db) machineScore = (pairs, bootList, terminateList)"
  obtains booted db' where "syncMachines ms cid db = Some db'" "db_inv db'" "frame MachineTable db db'"
    "map fst booted = bootList"
    "mset (ofCluster cid db') = mset (map (fillMachine cid) (pairs @ booted))"
    "mset (notOfCluster cid db') = mset (notOfCluster cid db)"
proof -
  obtain booted db2 where ins: "insertLoop InsertMachine bootList (removeLoop MachineRow terminateList db) = (booted, db2)"
    by force
  let ?rs = "map (fillMachine cid) (pairs @ booted)"
  obtain db' where db': "commitLoop MachineRow ?rs db2 = Some db'" "db_inv db'" "frame MachineTable db db'"
      "mset (machineK.allRows db') =
        mset (filter (\<lambda>m. m_ClusterID m \<noteq> cid) (machineK.allRows db)) + mset ?rs"
    using machineK.join_reconcile [OF inv join [unfolded select_rows] ins [unfolded InsertMachine_def],
        of "fillMachine cid" "\<lambda>x. x"] by auto
  have "mset (ofCluster cid db') = mset ?rs"
    using arg_cong [OF db'(4), of "filter_mset (\<lambda>m. m_ClusterID m = cid)"]
    by (simp add: select_rows filter_mset_image_mset flip: mset_filter)
  moreover have "mset (notOfCluster cid db') = mset (notOfCluster cid db)"
    using arg_cong [OF db'(4), of "filter_mset (\<lambda>m. m_ClusterID m \<noteq> cid)"]
    by (simp add: select_rows filter_mset_image_mset flip: mset_filter)
  moreover have "syncMachines ms cid db = Some db'"
    using join ins db'(1) by (simp add: syncMachines_def Let_def)
  moreover have "map fst booted = bootList"
    using machineK.insertLoop_effect [OF _ ins [unfolded InsertMachine_def]] machineK.removeLoop_effect [OF inv]
    by blast
  ultimately show ?thesis using that db'(2,3) by blast
qed

lemma syncMachines_effect:
  assumes "db_inv db"
  shows "\<exists>db'. syncMachines ms cid db = Some db' \<and> db_inv db' \<and> frame MachineTable db db' \<and>
    mset (map machineSpec (ofCluster cid db')) = mset (map machineSpec ms) \<and>
    mset (notOfCluster cid db') = mset (notOfCluster cid db)"
proof -
  obtain pairs bootList terminateList where
    join: "Join ms (ofCluster cid db) machineScore = (pairs, bootList, terminateList)"
    using prod_cases3 by blast
  from syncMachines_rows [OF assms join] obtain booted db' where
    e: "syncMachines ms cid db = Some db'" "db_inv db'" "frame MachineTable db db'" "map fst booted = bootList"
      "mset (ofCluster cid db') = mset (map (fillMachine cid) (pairs @ booted))"
      "mset (notOfCluster cid db') = mset (notOfCluster cid db)" by blast
  have "mset (map machineSpec (ofCluster cid db')) = image_mset machineSpec (mset (map fst pairs) + mset (map fst booted))"
    using arg_cong [OF e(5), of "image_mset machineSpec"] by (simp add: multiset.map_comp comp_def)
  also have "\<dots> = mset (map machineSpec ms)"
    using Join_partition(1) [OF join] e(4) by simp
  finally show ?thesis using e by blast
qed

text \<open>
  Updating the machines never panics and makes the machine rows of the cluster exactly the machines
  the policy asks for, as a multiset of role, size, disk, provider, region and keys; if the policy
  has no master or no worker, the cluster has no machine.  Rows of other clusters and
  the other tables are not touched.
\<close>

lemma machineTxn_reconciles:
  assumes "db_inv db"
  shows "\<exists>ms cache' db'. wantedMachines gh dsl cache = Some (ms, cache') \<and> (ms = [] \<or> canBoot ms) \<and>
    machineTxn gh dsl cid cache db = Some (cache', db') \<and> db_inv db' \<and> frame MachineTable db db' \<and>
    mset (map machineSpec (ofCluster cid db')) = mset (map machineSpec ms) \<and>
    mset (notOfCluster cid db') = mset (notOfCluster cid db)"
proof -
  obtain ms cache' where "wantedMachines gh dsl cache = Some (ms, cache')" "ms = [] \<or> canBoot ms"
    using wantedMachines_total by blast
  with syncMachines_effect [OF assms, of ms cid] show ?thesis by (auto simp: machineTxn_def)
qed

section \<open>Stability\<close>

text \<open>A machine row whose size and role are known is matched exactly by the machines of the same boot key.\<close>

definition bootKey :: "Machine \<Rightarrow> Provider \<times> string \<times> string \<times> Role \<times> int" where
  "bootKey m = (m_Provider m, m_Region m, m_Size m, m_Role m, m_DiskSize m)"

definition filledIn :: "Machine \<Rightarrow> bool" where
  "filledIn m \<longleftrightarrow> m_Size m \<noteq> '''' \<and> m_Role m \<noteq> RoleNone"

interpretation machineJoin: keyed_join machineScore bootKey bootKey filledIn
  by unfold_locales (auto simp: machineScore_def bootKey_def filledIn_def)

lemma bootKey_machineSpec: "machineSpec a = machineSpec b \<Longrightarrow> bootKey a = bootKey b"
  by (simp add: machineSpec_def bootKey_def)


section \<open>The whole update\<close>

lemma clusterTxn_effect:
  assumes inv: "db_inv db" and ns: "QueryString dsl ''Namespace'' \<noteq> ''''"
    and one: "length (SelectFromCluster db nilCheck) \<le> 1"
  shows "\<exists>c db'. clusterTxn dsl db = Some (Inr (cl_ID c), db') \<and> db_inv db' \<and> frame ClusterTable db db' \<and>
    SelectFromCluster db' nilCheck = [c] \<and> cl_Namespace c = QueryString dsl ''Namespace'' \<and> cl_Spec c = Dsl_String dsl"
proof -
  let ?upd = "\<lambda>c. c\<lparr>cl_Namespace := QueryString dsl ''Namespace'', cl_Spec := Dsl_String dsl\<rparr>"
  have commit: "\<exists>db'. Commit (ClusterRow (?upd c)) db1 = Some db' \<and> db_inv db' \<and> frame ClusterTable db1 db' \<and>
      SelectFromCluster db' nilCheck = [?upd c]"
    if "db_inv db1" "clusterK.allRows db1 = [c]" for c db1
    using clusterK.Commit_sole [OF that, of "?upd c"] by (auto simp: select_rows)
  show ?thesis
  proof (cases "clusterK.allRows db")
    case Nil
    obtain c db1 where ins: "InsertCluster db = (c, db1)" by force
    note e = clusterK.insertRow_effect [OF inv ins [unfolded InsertCluster_def]]
    have "clusterK.allRows db1 = [c]" using e(2) Nil by simp
    from commit [OF e(3) this] obtain db' where "Commit (ClusterRow (?upd c)) db1 = Some db'" "db_inv db'"
        "frame ClusterTable db1 db'" "SelectFromCluster db' nilCheck = [?upd c]" by blast
    then show ?thesis
      using ns Nil ins frame_trans [OF e(4)]
      by (intro exI [of _ "?upd c"] exI [of _ db']) (simp add: clusterTxn_def Let_def select_rows)
  next
    case (Cons c cs)
    with one have "clusterK.allRows db = [c]" by (simp add: select_rows)
    with commit [OF inv this] ns show ?thesis
      by (auto simp: clusterTxn_def Let_def select_rows)
  qed
qed

definition wantedACLs :: "string option \<Rightarrow> Dsl \<Rightarrow> Machine list \<Rightarrow> string list" where
  "wantedACLs myIP dsl ms = sort (resolveACLs myIP (QueryStrSlice dsl ''AdminACL'') @
     map (\<lambda>m. m_PublicIP m @ ''/32'') (filter (\<lambda>m. m_PublicIP m \<noteq> '''') ms))"

lemma aclTxn_effect:
  assumes inv: "db_inv db" and c: "SelectFromCluster db nilCheck = [c]"
  shows "\<exists>db'. aclTxn myIP dsl (cl_ID c) db = Some (None, db') \<and> db_inv db' \<and> frame ClusterTable db db' \<and>
    SelectFromCluster db' nilCheck = [c\<lparr>cl_ACLs := wantedACLs myIP dsl (ofCluster (cl_ID c) db)\<rparr>]"
proof -
  let ?acls = "wantedACLs myIP dsl (ofCluster (cl_ID c) db)" and ?c = "c\<lparr>cl_ACLs := wantedACLs myIP dsl (ofCluster (cl_ID c) db)\<rparr>"
  have rows: "clusterK.allRows db = [c]" using c by (simp add: select_rows)
  have txn: "aclTxn myIP dsl (cl_ID c) db =
      (if cl_ACLs c \<noteq> ?acls then map_option (Pair None) (Commit (ClusterRow ?c) db) else Some (None, db))"
    using rows by (auto simp: aclTxn_def Let_def select_rows wantedACLs_def conj_commute split: option.split)
  show ?thesis
  proof (cases "cl_ACLs c = ?acls")
    case True
    then have "?c = c" by (metis Cluster.surjective Cluster.update_convs(4))
    with True show ?thesis using txn inv c by simp
  next
    case False
    then have "c \<noteq> ?c" by (metis Cluster.select_convs(4) Cluster.surjective Cluster.update_convs(4))
    with clusterK.Commit_sole [OF inv rows, of ?c] False txn show ?thesis
      by (auto simp: select_rows)
  qed
qed

lemma updateTxn_effect:
  assumes inv: "db_inv db" and ns: "QueryString dsl ''Namespace'' \<noteq> ''''"
    and one: "length (SelectFromCluster db nilCheck) \<le> 1"
  shows "\<exists>c ms cache' db'. updateTxn gh myIP dsl cache db = Some ((None, cache'), db') \<and> db_inv db' \<and>
    SelectFromCluster db' nilCheck = [c] \<and>
    cl_Namespace c = QueryString dsl ''Namespace'' \<and> cl_Spec c = Dsl_String dsl \<and>
    cl_ACLs c = wantedACLs myIP dsl (ofCluster (cl_ID c) db') \<and>
    wantedMachines gh dsl cache = Some (ms, cache') \<and>
    mset (map machineSpec (ofCluster (cl_ID c) db')) = mset (map machineSpec ms)"
proof -
  obtain c db1 where 1: "clusterTxn dsl db = Some (Inr (cl_ID c), db1)" "db_inv db1" "SelectFromCluster db1 nilCheck = [c]"
      "cl_Namespace c = QueryString dsl ''Namespace''" "cl_Spec c = Dsl_String dsl"
    using clusterTxn_effect [OF assms] by blast
  obtain ms cache' where w: "wantedMachines gh dsl cache = Some (ms, cache')"
    using wantedMachines_total by blast
  obtain db2 where 2: "syncMachines ms (cl_ID c) db1 = Some db2" "db_inv db2" "frame MachineTable db1 db2"
      "mset (map machineSpec (ofCluster (cl_ID c) db2)) = mset (map machineSpec ms)"
    using syncMachines_effect [OF 1(2)] by blast
  have "SelectFromCluster db2 nilCheck = [c]"
    using 1(3) clusterK.frame_allRows [OF 2(3)] by (simp add: select_rows)
  from aclTxn_effect [OF 2(2) this] obtain db3 where 3: "aclTxn myIP dsl (cl_ID c) db2 = Some (None, db3)" "db_inv db3"
      "frame ClusterTable db2 db3" "SelectFromCluster db3 nilCheck = [c\<lparr>cl_ACLs := wantedACLs myIP dsl (ofCluster (cl_ID c) db2)\<rparr>]"
    by blast
  have same: "ofCluster i db3 = ofCluster i db2" for i
    using machineK.frame_allRows [OF 3(3)] by (simp add: select_rows)
  let ?c = "c\<lparr>cl_ACLs := wantedACLs myIP dsl (ofCluster (cl_ID c) db2)\<rparr>"
  have "updateTxn gh myIP dsl cache db = Some ((None, cache'), db3)"
    using 1(1) w 2(1) 3(1) by (simp add: updateTxn_def machineTxn_def)
  then show ?thesis
    using 1(4,5) 2(4) 3(2,4) w
    by (intro exI [of _ ?c] exI [of _ ms] exI [of _ cache'] exI [of _ db3]) (simp add: same)
qed

text \<open>
  C3: \<open>UpdatePolicy\<close> establishes the policy: with a namespace and at most one cluster row it neither fails nor
  panics, and afterwards there is one cluster, with the policy's namespace and text; its
  machine rows are the machines of the policy; and its ACLs are, sorted, the administrators' ones
  and the public addresses of its machines.
\<close>

theorem UpdatePolicy_establishes:
  assumes "db_inv db" and "QueryString dsl ''Namespace'' \<noteq> ''''" and "length (SelectFromCluster db nilCheck) \<le> 1"
  shows "\<exists>c ms cache' db'. UpdatePolicy gh myIP dsl cache db = Some ((None, cache'), db') \<and> db_inv db' \<and>
    SelectFromCluster db' nilCheck = [c] \<and>
    cl_Namespace c = QueryString dsl ''Namespace'' \<and> cl_Spec c = Dsl_String dsl \<and>
    cl_ACLs c = wantedACLs myIP dsl (ofCluster (cl_ID c) db') \<and>
    wantedMachines gh dsl cache = Some (ms, cache') \<and>
    mset (map machineSpec (ofCluster (cl_ID c) db')) = mset (map machineSpec ms)"
proof -
  obtain c ms cache' db1 where u: "updateTxn gh myIP dsl cache db = Some ((None, cache'), db1)" "db_inv db1"
      "SelectFromCluster db1 nilCheck = [c]" "cl_Namespace c = QueryString dsl ''Namespace''" "cl_Spec c = Dsl_String dsl"
      "cl_ACLs c = wantedACLs myIP dsl (ofCluster (cl_ID c) db1)" "wantedMachines gh dsl cache = Some (ms, cache')"
      "mset (map machineSpec (ofCluster (cl_ID c) db1)) = mset (map machineSpec ms)"
    using updateTxn_effect [OF assms] by blast
  let ?db = "fold alert allTables db1"
  have t: "Transact (updateTxn gh myIP dsl cache) db = Some ((None, cache'), ?db)"
    using u(1) by (simp add: Transact_def)
  show ?thesis
    using u(2-8) t by (intro exI [of _ c] exI [of _ ms] exI [of _ cache'] exI [of _ ?db]) (simp add: UpdatePolicy_def)
qed

section \<open>Concrete policies\<close>

definition enginePolicy :: string where
  "enginePolicy = ''(define Namespace \"n\") (define MaxPrice 1) (define AdminACL (list \"local\" \"1.2.3.4/32\")) (label \"m\" (machine (provider \"AmazonSpot\") (role \"Master\") (size \"s\"))) (label \"w\" (machine (provider \"AmazonSpot\") (role \"Worker\") (ram 4)))''"

definition engineDsl :: Dsl where
  "engineDsl = (case NewDsl 8 [] [] (initScan '''' enginePolicy) of
     Return d \<Rightarrow> d | _ \<Rightarrow> \<lparr>dsl_code = '''', dsl_ctx = EvalCtx 0 0 0 0 0 None, dsl_heap = emptySt\<rparr>)"

definition noGithub :: "string \<Rightarrow> string list option" where
  "noGithub user = None"

lemma engineDsl_loads:
  "QueryString engineDsl ''Namespace'' = ''n'' \<and> maxPriceOf engineDsl = zeroFloat \<and>
   map dm_Role (fst (QueryMachines noGithub engineDsl [])) = [''Master'', ''Worker'']"
proof -
  have "(case NewDsl 8 [] [] (initScan '''' enginePolicy) of
      Return d \<Rightarrow> QueryString d ''Namespace'' = ''n'' \<and> maxPriceOf d = zeroFloat \<and>
        map dm_Role (fst (QueryMachines noGithub d [])) = [''Master'', ''Worker''] | _ \<Rightarrow> False)"
    by code_simp
  then show ?thesis
    by (cases "NewDsl 8 [] [] (initScan '''' enginePolicy)") (simp_all add: engineDsl_def)
qed

theorem UpdatePolicy_establishes_witness:
  "db_inv New \<and> QueryString engineDsl ''Namespace'' \<noteq> '''' \<and> length (SelectFromCluster New nilCheck) \<le> 1 \<and>
   (\<exists>c cache' db'. UpdatePolicy noGithub None engineDsl [] New = Some ((None, cache'), db') \<and>
     SelectFromCluster db' nilCheck = [c] \<and> cl_Namespace c = ''n'')"
proof -
  have one: "length (SelectFromCluster New nilCheck) \<le> 1"
    by code_simp
  have ns: "QueryString engineDsl ''Namespace'' = ''n''" using engineDsl_loads by blast
  then have ne: "QueryString engineDsl ''Namespace'' \<noteq> ''''" by simp
  obtain c cache' db' where "UpdatePolicy noGithub None engineDsl [] New = Some ((None, cache'), db')"
      "SelectFromCluster db' nilCheck = [c]" "cl_Namespace c = ''n''"
    using UpdatePolicy_establishes [OF db_inv_New ne one, of noGithub None "[]"] ns by metis
  then show ?thesis using db_inv_New ne one by blast
qed

text \<open>
  An integer price limit is no limit: \<open>MaxPrice\<close> is only read as a float, so the policy
  \<open>(define MaxPrice 1)\<close> of the language manual allows every price, and \<open>(define MaxPrice 1.0)\<close> does not.
\<close>

lemma MaxPrice_integer_ignored:
  "(case NewDsl 8 [] [] (initScan '''' ''(define MaxPrice 1)'') of
      Return d \<Rightarrow> maxPriceOf d = zeroFloat | _ \<Rightarrow> False) \<and>
   (case NewDsl 8 [] [] (initScan '''' ''(define MaxPrice 1.0)'') of
      Return d \<Rightarrow> maxPriceOf d = Dec 1 0 | _ \<Rightarrow> False)"
  by code_simp

text \<open>A cluster that implements a policy with a master, a worker and a machine without a role.\<close>

definition sampleMachine :: "int \<Rightarrow> Role \<Rightarrow> Machine" where
  "sampleMachine i r = (zeroMachine i)\<lparr>m_ClusterID := 7, m_Role := r, m_Provider := AmazonSpot, m_Size := ''s'',
     m_CloudID := ''sir-'' @ itoa i, m_PublicIP := ''8.8.8.'' @ itoa i, m_PrivateIP := ''10.0.0.'' @ itoa i\<rparr>"

definition runningDb :: "Machine list \<Rightarrow> Database" where
  "runningDb ms = fold (\<lambda>m db. insert_db (MachineRow m) (snd (nextID db))) ms New"

lemma runningDb_ok:
  "db_inv (runningDb [sampleMachine 1 Master, sampleMachine 2 Worker])"
proof -
  have a: "db_inv (snd (nextID New))" using db_inv_nextID [OF db_inv_New] by simp
  have b: "db_inv (insert_db (MachineRow (sampleMachine 1 Master)) (snd (nextID New)))" (is "db_inv ?d")
    by (rule db_inv_insert [OF a]) (auto simp: sampleMachine_def zeroMachine_def keysOf_def nextID_def New_def newTable_def)
  have c: "db_inv (snd (nextID ?d))" using db_inv_nextID [OF b] by simp
  have "db_inv (insert_db (MachineRow (sampleMachine 2 Worker)) (snd (nextID ?d)))"
    by (rule db_inv_insert [OF c])
      (auto simp: sampleMachine_def zeroMachine_def keysOf_def nextID_def New_def newTable_def insert_db_def tables_upd_table)
  then show ?thesis by (simp add: runningDb_def)
qed



end
