(* ===== verification/Strings.thy ===== *)
theory Strings
  imports Prelude
begin

text \<open>The functions of Go's \<open>strings\<close> package that several components use, on byte strings.\<close>

fun splitChar :: "char \<Rightarrow> string \<Rightarrow> string list" where
  "splitChar c [] = [[]]"
| "splitChar c (x # xs) =
     (if x = c then [] # splitChar c xs
      else (case splitChar c xs of [] \<Rightarrow> [[x]] | y # ys \<Rightarrow> (x # y) # ys))"

definition HasPrefix :: "string \<Rightarrow> string \<Rightarrow> bool" where
  "HasPrefix s p \<longleftrightarrow> take (length p) s = p"

definition TrimPrefix :: "string \<Rightarrow> string \<Rightarrow> string" where
  "TrimPrefix s p = (if HasPrefix s p then drop (length p) s else s)"

definition isSpace :: "char \<Rightarrow> bool" where
  "isSpace c \<longleftrightarrow> c \<in> {CHR '' '', CHR 0x09, CHR 0x0A, CHR 0x0B, CHR 0x0C, CHR 0x0D}"

definition TrimSpace :: "string \<Rightarrow> string" where
  "TrimSpace s = rev (dropWhile isSpace (rev (dropWhile isSpace s)))"

lemma splitChar_nonempty [simp]: "splitChar c s \<noteq> []"
  by (induction s) (auto split: list.split)

lemma splitChar_fresh: "c \<notin> set s \<Longrightarrow> splitChar c s = [s]"
  by (induction s) auto

lemma splitChar_append: "c \<notin> set a \<Longrightarrow> splitChar c (a @ c # b) = a # splitChar c b"
  by (induction a) auto

lemma splitChar_parts: "s' \<in> set (splitChar c s) \<Longrightarrow> c \<notin> set s'"
proof (induction s arbitrary: s')
  case (Cons x xs)
  then show ?case by (auto split: if_splits list.splits)
qed simp

lemma joinStr_Cons: "xs \<noteq> [] \<Longrightarrow> joinStr sep (x # xs) = x @ sep @ joinStr sep xs"
  by (cases xs) simp_all

lemma joinStr_head: "joinStr sep ((x # y) # ys) = x # joinStr sep (y # ys)"
  by (cases ys) simp_all

text \<open>Splitting and joining at a character are inverse to each other.\<close>

lemma join_split: "joinStr [c] (splitChar c s) = s"
proof (induction s)
  case (Cons x xs)
  then show ?case
    by (cases "splitChar c xs") (auto simp: joinStr_Cons joinStr_head simp del: joinStr.simps(3))
qed simp

lemma split_join:
  "xs \<noteq> [] \<Longrightarrow> list_all (\<lambda>x. c \<notin> set x) xs \<Longrightarrow> splitChar c (joinStr [c] xs) = xs"
proof (induction xs)
  case (Cons x xs)
  then show ?case
    by (cases "xs = []") (simp_all add: splitChar_fresh joinStr_Cons splitChar_append)
qed simp

lemma HasPrefix_append [simp]: "HasPrefix (p @ s) p"
  by (simp add: HasPrefix_def)

lemma TrimPrefix_append [simp]: "TrimPrefix (p @ s) p = s"
  by (simp add: TrimPrefix_def)

lemma HasPrefix_TrimPrefix: "HasPrefix s p \<Longrightarrow> p @ TrimPrefix s p = s"
  by (simp add: HasPrefix_def TrimPrefix_def) (metis append_take_drop_id)

end
