(* ===== verification/Docker.thy ===== *)
theory Docker
  imports Strings
begin

text \<open>
  The docker client of \<open>src/minion/docker/docker.go\<close>.  The daemon is third-party code: the calls of its
  Go client are the fields of a record \<open>daemon\<close> over an arbitrary state \<open>'d\<close>, and every theorem holds for any such
  record.  The state of the client itself is the set of images its pull server has fetched.
\<close>

section \<open>Labels\<close>

definition labelBase :: string where "labelBase = ''di.''"
definition userLabelPrefix :: string where "userLabelPrefix = labelBase @ ''user.label.''"
definition systemLabelPrefix :: string where "systemLabelPrefix = labelBase @ ''system.label.''"
definition LabelTrueValue :: string where "LabelTrueValue = ''1''"
definition SchedulerLabelKey :: string where "SchedulerLabelKey = systemLabelPrefix @ ''DI''"
definition SchedulerLabelValue :: string where "SchedulerLabelValue = ''Scheduler''"
definition SchedulerLabelPair :: string where
  "SchedulerLabelPair = SchedulerLabelKey @ ''='' @ SchedulerLabelValue"

lemmas label_consts = labelBase_def userLabelPrefix_def systemLabelPrefix_def LabelTrueValue_def
  SchedulerLabelKey_def SchedulerLabelValue_def

definition UserLabel :: "string \<Rightarrow> string" where
  "UserLabel label = userLabelPrefix @ label"

definition IsUserLabel :: "string \<Rightarrow> bool" where
  "IsUserLabel label = HasPrefix label userLabelPrefix"

definition ParseUserLabel :: "string \<Rightarrow> string" where
  "ParseUserLabel label = TrimPrefix label userLabelPrefix"

definition SystemLabel :: "string \<Rightarrow> string" where
  "SystemLabel label = systemLabelPrefix @ label"

section \<open>Containers and the daemon\<close>

record dkContainer =
  dk_ID :: string
  dk_Name :: string
  dk_Image :: string
  dk_IP :: string
  dk_Path :: string
  dk_Args :: "string list"
  dk_Pid :: int
  dk_Env :: "(string, string) gomap"
  dk_Labels :: "(string, string) gomap"

record RunOptions =
  ro_Name :: string
  ro_Image :: string
  ro_Args :: "string list"
  ro_Labels :: "(string, string) gomap"
  ro_Env :: "string list"
  ro_Binds :: "string list"
  ro_NetworkMode :: string
  ro_PidMode :: string
  ro_Privileged :: bool
  ro_VolumesFrom :: "string list"

text \<open>The part of the daemon's description of a container that the client reads.\<close>

record inspected =
  ic_ID :: string
  ic_Name :: string
  ic_IP :: string
  ic_Image :: string
  ic_Path :: string
  ic_Args :: "string list"
  ic_Pid :: int
  ic_Env :: "string list"
  ic_Labels :: "(string, string) gomap"

record createOpts =
  co_Name :: string
  co_Image :: string
  co_Cmd :: "string list"
  co_Labels :: "(string, string) gomap"
  co_Env :: "string list"

record hostConfig =
  hc_Binds :: "string list"
  hc_NetworkMode :: string
  hc_PidMode :: string
  hc_Privileged :: bool
  hc_VolumesFrom :: "string list"

datatype startResult = Started | AlreadyRunning | StartFailed

datatype dkErr = errNoSuchContainer | DaemonError

type_synonym filters = "(string, string list) gomap"

record 'd daemon =
  ListContainers :: "bool \<Rightarrow> filters \<Rightarrow> 'd \<Rightarrow> string list option"
  InspectContainer :: "string \<Rightarrow> 'd \<Rightarrow> inspected option"
  PullImage :: "string \<Rightarrow> 'd \<Rightarrow> bool \<times> 'd"
  CreateContainer :: "createOpts \<Rightarrow> 'd \<Rightarrow> string option \<times> 'd"
  StartContainer :: "string \<Rightarrow> hostConfig \<Rightarrow> 'd \<Rightarrow> startResult \<times> 'd"
  RemoveContainer :: "string \<Rightarrow> 'd \<Rightarrow> bool \<times> 'd"

record 'd docker =
  images :: "string list"
  dmn :: 'd

section \<open>Operations\<close>

fun parseEnv :: "string list \<Rightarrow> (string, string) gomap \<Rightarrow> (string, string) gomap" where
  "parseEnv [] env = env"
| "parseEnv (value # vs) env =
     (case splitChar (CHR ''='') value of
        k # v # _ \<Rightarrow> parseEnv vs (gput k v env)
      | _ \<Rightarrow> parseEnv vs env)"

definition dkGet :: "'d daemon \<Rightarrow> 'd \<Rightarrow> string \<Rightarrow> dkContainer option" where
  "dkGet api d i =
     map_option (\<lambda>c. \<lparr>dk_ID = ic_ID c, dk_Name = ic_Name c, dk_Image = ic_Image c, dk_IP = ic_IP c,
       dk_Path = ic_Path c, dk_Args = ic_Args c, dk_Pid = ic_Pid c, dk_Env = parseEnv (ic_Env c) [],
       dk_Labels = ic_Labels c\<rparr>) (InspectContainer api i d)"

text \<open>A container that cannot be inspected is logged and skipped.\<close>

definition listAll :: "'d daemon \<Rightarrow> 'd \<Rightarrow> filters \<Rightarrow> bool \<Rightarrow> dkContainer list option" where
  "listAll api d filters all =
     (case ListContainers api all filters d of
        None \<Rightarrow> None
      | Some apics \<Rightarrow> Some (List.map_filter (dkGet api d) apics))"

definition dkList :: "'d daemon \<Rightarrow> 'd \<Rightarrow> filters \<Rightarrow> dkContainer list option" where
  "dkList api d filters = listAll api d filters False"

definition dkGetID :: "'d daemon \<Rightarrow> 'd \<Rightarrow> string \<Rightarrow> dkErr + string" where
  "dkGetID api d name =
     (case listAll api d [] True of
        None \<Rightarrow> Inl DaemonError
      | Some containers \<Rightarrow>
          (case find (\<lambda>c. ''/'' @ name = dk_Name c) containers of
             None \<Rightarrow> Inl errNoSuchContainer
           | Some c \<Rightarrow> Inr (dk_ID c)))"

text \<open>One request to the pull server: an image is fetched once.  The result says whether it is there.\<close>

definition dkPull :: "'d daemon \<Rightarrow> string \<Rightarrow> 'd docker \<Rightarrow> bool \<times> 'd docker" where
  "dkPull api img s =
     (if img \<in> set (images s) then (True, s)
      else (case PullImage api img (dmn s) of (ok, d) \<Rightarrow>
        (ok, s\<lparr>images := (if ok then sput img (images s) else images s), dmn := d\<rparr>)))"

text \<open>\<open>make([]string, len(env))\<close> already holds as many empty strings as there are variables.\<close>

definition envList :: "string list \<Rightarrow> string list" where
  "envList env = replicate (length env) '''' @ env"

definition dkCreate :: "'d daemon \<Rightarrow> string \<Rightarrow> string \<Rightarrow> string list \<Rightarrow> (string, string) gomap \<Rightarrow> string list
    \<Rightarrow> 'd docker \<Rightarrow> (dkErr + string) \<times> 'd docker" where
  "dkCreate api name img args labels env s =
     (case dkPull api img s of (ok, s1) \<Rightarrow>
      if \<not> ok then (Inl DaemonError, s1)
      else
        (case dkGetID api (dmn s1) name of
           Inr i \<Rightarrow> (Inr i, s1)
         | Inl _ \<Rightarrow>
             (case CreateContainer api \<lparr>co_Name = name, co_Image = img, co_Cmd = args, co_Labels = labels,
                co_Env = envList env\<rparr> (dmn s1) of
                (None, d) \<Rightarrow> (Inl DaemonError, s1\<lparr>dmn := d\<rparr>)
              | (Some i, d) \<Rightarrow> (Inr i, s1\<lparr>dmn := d\<rparr>))))"

definition removeID :: "'d daemon \<Rightarrow> string \<Rightarrow> 'd docker \<Rightarrow> dkErr option \<times> 'd docker" where
  "removeID api i s =
     (case RemoveContainer api i (dmn s) of (ok, d) \<Rightarrow> (if ok then None else Some DaemonError, s\<lparr>dmn := d\<rparr>))"

definition dkRemoveID :: "'d daemon \<Rightarrow> string \<Rightarrow> 'd docker \<Rightarrow> dkErr option \<times> 'd docker" where
  "dkRemoveID api i s = removeID api i s"

definition dkRemove :: "'d daemon \<Rightarrow> string \<Rightarrow> 'd docker \<Rightarrow> dkErr option \<times> 'd docker" where
  "dkRemove api name s =
     (case dkGetID api (dmn s) name of Inl _ \<Rightarrow> (None, s) | Inr i \<Rightarrow> removeID api i s)"

definition runCreated :: "'d daemon \<Rightarrow> RunOptions \<Rightarrow> 'd docker \<Rightarrow> dkErr option \<times> 'd docker" where
  "runCreated api opts s =
     (case dkCreate api (ro_Name opts) (ro_Image opts) (ro_Args opts) (ro_Labels opts) (ro_Env opts) s of
        (Inl err, s1) \<Rightarrow> (Some err, s1)
      | (Inr i, s1) \<Rightarrow>
          (case StartContainer api i \<lparr>hc_Binds = ro_Binds opts, hc_NetworkMode = ro_NetworkMode opts,
             hc_PidMode = ro_PidMode opts, hc_Privileged = ro_Privileged opts, hc_VolumesFrom = ro_VolumesFrom opts\<rparr> (dmn s1) of
             (Started, d) \<Rightarrow> (None, s1\<lparr>dmn := d\<rparr>)
           | (AlreadyRunning, d) \<Rightarrow> (None, s1\<lparr>dmn := d\<rparr>)
           | (StartFailed, d) \<Rightarrow> (Some DaemonError, snd (removeID api i (s1\<lparr>dmn := d\<rparr>)))))"

definition dkRun :: "'d daemon \<Rightarrow> RunOptions \<Rightarrow> 'd docker \<Rightarrow> dkErr option \<times> 'd docker" where
  "dkRun api opts s =
     (if ro_Name opts \<noteq> '''' then
        (case dkGetID api (dmn s) (ro_Name opts) of
           Inl DaemonError \<Rightarrow> (Some DaemonError, s)
         | _ \<Rightarrow> runCreated api opts s)
      else runCreated api opts s)"

section \<open>Round trips\<close>

lemma ParseUserLabel_UserLabel [simp]: "ParseUserLabel (UserLabel l) = l"
  by (simp add: ParseUserLabel_def UserLabel_def)

lemma IsUserLabel_UserLabel [simp]: "IsUserLabel (UserLabel l)"
  by (simp add: IsUserLabel_def UserLabel_def)

lemma UserLabel_ParseUserLabel: "IsUserLabel l \<Longrightarrow> UserLabel (ParseUserLabel l) = l"
  by (simp add: IsUserLabel_def UserLabel_def ParseUserLabel_def HasPrefix_TrimPrefix)

lemma UserLabel_inject [simp]: "UserLabel a = UserLabel b \<longleftrightarrow> a = b"
  by (simp add: UserLabel_def)

lemma SystemLabel_not_user [simp]: "\<not> IsUserLabel (SystemLabel l)"
  by (simp add: IsUserLabel_def SystemLabel_def HasPrefix_def label_consts)

lemma SchedulerLabelKey_system: "SchedulerLabelKey = SystemLabel ''DI''"
  by (simp add: SchedulerLabelKey_def SystemLabel_def)

lemma parseEnv_entry:
  assumes "CHR ''='' \<notin> set k"
  shows "parseEnv ((k @ ''='' @ v) # vs) env = parseEnv vs (gput k (hd (splitChar (CHR ''='') v)) env)"
  using assms splitChar_append [of "CHR ''=''" k v] by (cases "splitChar (CHR ''='') v") auto

text \<open>The value under which a variable is read back ends at its first \<open>=\<close>.\<close>

lemma parseEnv_keeps:
  assumes "list_all (\<lambda>e. hd (splitChar (CHR ''='') e) \<noteq> k) es"
  shows "gget (parseEnv es env) k = gget env k"
  using assms
proof (induction es arbitrary: env)
  case (Cons e es)
  then show ?case by (auto simp: go_map split: list.split)
qed simp

lemma parseEnv_lookup:
  assumes k: "CHR ''='' \<notin> set k" and mem: "k @ ''='' @ v \<in> set es"
    and only: "\<And>e. e \<in> set es \<Longrightarrow> hd (splitChar (CHR ''='') e) = k \<Longrightarrow> e = k @ ''='' @ v"
  shows "gget (parseEnv es env) k = Some (hd (splitChar (CHR ''='') v))"
  using mem only
proof (induction es arbitrary: env)
  case (Cons e es)
  show ?case
  proof (cases "k @ ''='' @ v \<in> set es")
    case True
    have "gget (parseEnv es env') k = Some (hd (splitChar (CHR ''='') v))" for env'
      by (rule Cons.IH [OF True]) (use Cons.prems(2) in auto)
    then show ?thesis by (simp split: list.split)
  next
    case False
    then have e: "e = k @ ''='' @ v" using Cons.prems(1) by auto
    have "list_all (\<lambda>e. hd (splitChar (CHR ''='') e) \<noteq> k) es"
      unfolding list_all_iff using False Cons.prems(2) by (metis list.set_intros(2))
    then show ?thesis using parseEnv_keeps parseEnv_entry [OF k, of v es env] by (simp add: e go_map)
  qed
qed simp

end
