(* ===== verification/Util.thy ===== *)
theory Util
  imports Prelude
begin

text \<open>
  The pure helpers of \<open>src/util/util.go\<close>.  \<open>EditDistance\<close> keeps the labels of its first argument in a Go
  set and crosses off those it finds in the second.
\<close>

fun editLoop :: "string list \<Rightarrow> string list \<Rightarrow> int \<Rightarrow> int" where
  "editLoop [] amap ed = ed + int (length amap)"
| "editLoop (label # b) amap ed =
     (if label \<in> set amap then editLoop b (filter (\<lambda>x. x \<noteq> label) amap) ed
      else editLoop b amap (ed + 1))"

definition EditDistance :: "string list \<Rightarrow> string list \<Rightarrow> int" where
  "EditDistance a b = editLoop b (fold sput a []) 0"

lemma sput_all: "distinct acc \<Longrightarrow> distinct (fold sput a acc) \<and> set (fold sput a acc) = set acc \<union> set a"
  by (induction a arbitrary: acc) auto

lemma editLoop_counts:
  assumes "distinct amap"
  shows "editLoop b amap ed = ed + int (card (set amap - set b)) + int (length b) - int (card (set amap \<inter> set b))"
  using assms
proof (induction b arbitrary: amap ed)
  case Nil
  then show ?case by (simp add: distinct_card)
next
  case (Cons l b)
  show ?case
  proof (cases "l \<in> set amap")
    case True
    let ?m = "filter (\<lambda>x. x \<noteq> l) amap"
    have s: "set ?m - set b = set amap - set (l # b)" "set amap \<inter> set (l # b) = insert l (set ?m \<inter> set b)"
      using True by auto
    then have "card (set amap \<inter> set (l # b)) = Suc (card (set ?m \<inter> set b))"
      by (simp only: s(2)) (subst card_insert_disjoint, auto)
    then show ?thesis using Cons.IH [of ?m ed] Cons.prems True s(1) by simp
  next
    case False
    then have "set amap - set (l # b) = set amap - set b" "set amap \<inter> set (l # b) = set amap \<inter> set b" by auto
    then show ?thesis using Cons False by simp
  qed
qed

lemma EditDistance_counts:
  "EditDistance a b = int (card (set a - set b)) + int (length b) - int (card (set a \<inter> set b))"
  using editLoop_counts [of "fold sput a []" b 0] sput_all [of "[]" a] by (simp add: EditDistance_def)

lemma EditDistance_nonneg: "0 \<le> EditDistance a b"
proof -
  have "card (set a \<inter> set b) \<le> card (set b)" by (rule card_mono) auto
  also have "\<dots> \<le> length b" by (rule card_length)
  finally show ?thesis by (simp add: EditDistance_counts)
qed

lemma EditDistance_symmetric_difference:
  assumes "distinct b"
  shows "EditDistance a b = int (card (set a - set b)) + int (card (set b - set a))"
proof -
  have "card (set b - set a) = card (set b) - card (set a \<inter> set b)"
    by (simp add: card_Diff_subset_Int Int_commute)
  moreover have "card (set a \<inter> set b) \<le> card (set b)" by (rule card_mono) auto
  ultimately show ?thesis using assms by (simp add: EditDistance_counts distinct_card)
qed

lemma EditDistance_zero:
  assumes "distinct b" shows "EditDistance a b = 0 \<longleftrightarrow> set a = set b"
proof -
  have "EditDistance a b = 0 \<longleftrightarrow> card (set a - set b) = 0 \<and> card (set b - set a) = 0"
    unfolding EditDistance_symmetric_difference [OF assms] by linarith
  then show ?thesis by (auto simp: card_eq_0_iff)
qed

text \<open>
  \<open>EditDistance\<close> is the size of the symmetric difference of its arguments when the second has no
  repetition, and otherwise counts every repetition in the second on top of it.
\<close>

lemma EditDistance_counts_repetitions:
  "EditDistance a b = int (card (set a - set b)) + int (card (set b - set a)) + (int (length b) - int (card (set b)))"
proof -
  have "card (set (remdups b)) = length (remdups b)" by (rule distinct_card) simp
  then have "EditDistance a (remdups b) = EditDistance a b - int (length b) + int (card (set b))"
    by (simp add: EditDistance_counts)
  then show ?thesis using EditDistance_symmetric_difference [of "remdups b" a] by simp
qed

end
