(* ===== verification/Scheduler.thy ===== *)
theory Scheduler
  imports Docker Reconcile Db_Txn Util
begin

text \<open>
  The scheduler of the leading master (\<open>src/minion/scheduler\<close>): it joins the container table with the
  containers that docker swarm runs, writes the identity of the matches into the table, terminates what has no
  row and boots what has no container.  Goroutines that start or stop independent containers are run in
  the order of their slice; sleeping and logging are left out.
\<close>

section \<open>Matching\<close>

definition mapGet :: "(string, string) gomap \<Rightarrow> string \<Rightarrow> string" where
  "mapGet m k = (case gget m k of None \<Rightarrow> '''' | Some v \<Rightarrow> v)"

definition userLabels :: "(string, string) gomap \<Rightarrow> string list" where
  "userLabels m = map (ParseUserLabel \<circ> fst) (filter (\<lambda>(l, v). IsUserLabel l \<and> v = LabelTrueValue) m)"

fun strEq :: "string list \<Rightarrow> string list \<Rightarrow> bool" where
  "strEq a b = (length a = length b \<and> list_all (\<lambda>i. a ! i = b ! i) [0..<length a])"

definition schedScore :: "Container \<Rightarrow> dkContainer \<Rightarrow> int" where
  "schedScore dbc dkc =
     (let cmd1 = dk_Args dkc; cmd2 = dk_Path dkc # dk_Args dkc; dbcCmd = c_Command dbc in
      if list_ex (\<lambda>(k, v). mapGet (dk_Env dkc) k \<noteq> v) (c_Env dbc) then - 1
      else if dk_Image dkc \<noteq> c_Image dbc then - 1
      else if length dbcCmd \<noteq> 0 \<and> \<not> strEq dbcCmd cmd1 \<and> \<not> strEq dbcCmd cmd2 then - 1
      else if dk_ID dkc = c_SchedID dbc then 0
      else EditDistance (c_Labels dbc) (userLabels (dk_Labels dkc)))"

definition assign :: "Container \<times> dkContainer \<Rightarrow> Container" where
  "assign p = (fst p)\<lparr>c_SchedID := dk_ID (snd p)\<rparr>"

definition syncDB :: "dkContainer list \<Rightarrow> Database \<Rightarrow> ((string list \<times> Container list) \<times> Database) option" where
  "syncDB dkcsArg view =
     (let (pairs, dbcs, dkcs) = Join (SelectFromContainer view nilCheck) dkcsArg schedScore in
      case commitLoop ContainerRow (map assign pairs) view of
        None \<Rightarrow> None
      | Some view1 \<Rightarrow> Some ((map dk_ID dkcs, dbcs), view1))"

section \<open>Docker swarm\<close>

definition makeLabels :: "Container \<Rightarrow> (string, string) gomap" where
  "makeLabels dbc = fold (\<lambda>lb m. gput (UserLabel lb) LabelTrueValue m) (c_Labels dbc)
     [(SchedulerLabelKey, SchedulerLabelValue)]"

definition affinityStr :: "string \<Rightarrow> string" where
  "affinityStr l = ''affinity:'' @ UserLabel l @ ''!='' @ LabelTrueValue"

definition affinities :: "Container \<Rightarrow> string list" where
  "affinities dbc = concat (map (\<lambda>label. concat (map (\<lambda>(a, b).
     if a = label then [affinityStr b] else if b = label then [affinityStr a] else []) (c_Exclusive dbc))) (c_Labels dbc))"

definition makeEnv :: "Container \<Rightarrow> string list" where
  "makeEnv dbc = fold sput (affinities dbc @ map (\<lambda>(k, v). k @ ''='' @ v) (c_Env dbc)) []"

definition swarmOptions :: "Container \<Rightarrow> RunOptions" where
  "swarmOptions dbc = \<lparr>ro_Name = '''', ro_Image = c_Image dbc, ro_Args = c_Command dbc, ro_Labels = makeLabels dbc,
     ro_Env = makeEnv dbc, ro_Binds = [], ro_NetworkMode = '''', ro_PidMode = '''', ro_Privileged = False, ro_VolumesFrom = []\<rparr>"

definition boot :: "'d daemon \<Rightarrow> Container list \<Rightarrow> 'd docker \<Rightarrow> 'd docker" where
  "boot api dbcs s = fold (\<lambda>dbc s. snd (dkRun api (swarmOptions dbc) s)) dbcs s"

definition terminate :: "'d daemon \<Rightarrow> string list \<Rightarrow> 'd docker \<Rightarrow> 'd docker" where
  "terminate api ids s = fold (\<lambda>i s. snd (dkRemoveID api i s)) ids s"

definition swarmList :: "'d daemon \<Rightarrow> 'd docker \<Rightarrow> dkContainer list option" where
  "swarmList api s = dkList api (dmn s) [(''label'', [SchedulerLabelPair])]"

section \<open>The loop\<close>

text \<open>The three tries of one wake-up.\<close>

fun syncLoop :: "nat \<Rightarrow> 'd daemon \<Rightarrow> Database \<Rightarrow> 'd docker \<Rightarrow> (Database \<times> 'd docker) option" where
  "syncLoop 0 api db s = Some (db, s)"
| "syncLoop (Suc i) api db s =
     (case swarmList api s of
        None \<Rightarrow> Some (db, s)
      | Some dkc \<Rightarrow>
          (case Transact (syncDB dkc) db of
             None \<Rightarrow> None
           | Some ((term, toBoot), db1) \<Rightarrow>
               if term = [] \<and> toBoot = [] then Some (db1, s)
               else syncLoop i api db1 (boot api toBoot (terminate api term s))))"

text \<open>
  One wake-up: \<open>connect\<close> makes a client for the swarm on an address (a third-party call); \<open>sched\<close> is the client in
  use, if any.
\<close>

definition schedulerStep :: "'d daemon \<Rightarrow> (string \<Rightarrow> 'd docker) \<Rightarrow> Database \<Rightarrow> 'd docker option
    \<Rightarrow> (Database \<times> 'd docker option) option" where
  "schedulerStep api connect db sched =
     (let minions = SelectFromMinion db nilCheck; etcdRows = SelectFromEtcd db nilCheck in
      if length minions \<noteq> 1 \<or> length etcdRows \<noteq> 1 \<or> mi_Role (minions ! 0) \<noteq> Master \<or>
         mi_PrivateIP (minions ! 0) = '''' \<or> \<not> e_Leader (etcdRows ! 0)
      then Some (db, None)
      else
        (let s = (case sched of Some s \<Rightarrow> s | None \<Rightarrow> connect (''tcp://'' @ mi_PrivateIP (minions ! 0) @ '':2377'')) in
         map_option (\<lambda>(db1, s1). (db1, Some s1)) (syncLoop 3 api db s)))"

section \<open>What one synchronisation does\<close>

lemma strEq_eq: "strEq a b \<longleftrightarrow> a = b"
  unfolding strEq.simps list_eq_iff_nth_eq [of a b] by (auto simp: list_all_iff)

lemma DeepEqual_SchedID:
  assumes "DeepEqual (ContainerRow a) (ContainerRow b)" shows "c_SchedID a = c_SchedID b"
proof -
  let ?z = "\<lambda>c. c\<lparr>c_Env := [], c_Exclusive := []\<rparr>"
  have "?z a = ?z b" using assms by simp
  then have "c_SchedID (?z a) = c_SchedID (?z b)" by simp
  then show ?thesis by simp
qed

lemma syncDB_effect:
  assumes inv: "db_inv db"
    and join: "Join (SelectFromContainer db nilCheck) dkcs schedScore = (pairs, dbcs, rest)"
  shows "\<exists>db'. syncDB dkcs db = Some ((map dk_ID rest, dbcs), db') \<and> db_inv db' \<and> frame ContainerTable db db' \<and>
    mset (map c_SchedID (SelectFromContainer db' nilCheck)) = mset (map (dk_ID \<circ> snd) pairs) + mset (map c_SchedID dbcs)"
proof -
  have part: "mset (containerK.allRows db) = mset (map fst pairs) + mset dbcs"
    using Join_partition(1) [OF join] by (simp add: select_rows)
  have rids: "map c_ID (map assign pairs) = map c_ID (map fst pairs)" by (simp add: assign_def)
  have "\<exists>db'. commitLoop ContainerRow (map assign pairs) db = Some db' \<and> db_inv db' \<and> frame ContainerTable db db' \<and>
      idAlloc db' = idAlloc db \<and>
      mset (map c_SchedID (containerK.allRows db')) = mset (map c_SchedID dbcs) + mset (map c_SchedID (map assign pairs))"
    by (rule containerK.commit_kept [OF inv part rids]) (rule DeepEqual_SchedID)
  then obtain db' where db': "commitLoop ContainerRow (map assign pairs) db = Some db'" "db_inv db'"
      "frame ContainerTable db db'"
      "mset (map c_SchedID (containerK.allRows db')) = mset (map c_SchedID dbcs) + mset (map c_SchedID (map assign pairs))"
    by blast
  have ids: "map c_SchedID (map assign pairs) = map (dk_ID \<circ> snd) pairs" by (simp add: assign_def)
  have "syncDB dkcs db = Some ((map dk_ID rest, dbcs), db')"
    using join db'(1) by (simp add: syncDB_def)
  moreover have "mset (map c_SchedID (SelectFromContainer db' nilCheck)) = mset (map (dk_ID \<circ> snd) pairs) + mset (map c_SchedID dbcs)"
    using db'(4) unfolding ids by (simp add: select_rows add.commute)
  ultimately show ?thesis using db'(2,3) by blast
qed

text \<open>
  C5: One synchronisation never panics and loses no container: the containers docker reported are exactly those
  whose identity some row now carries and those handed back for termination, and the rows without a
  match are handed back for booting.  No container is both kept and terminated, and no two rows share one.
\<close>

theorem syncDB_accounts:
  assumes "db_inv db" and "distinct (map dk_ID dkcs)"
  shows "\<exists>kept term toBoot db'. syncDB dkcs db = Some ((term, toBoot), db') \<and> db_inv db' \<and> frame ContainerTable db db' \<and>
    mset (map dk_ID dkcs) = mset kept + mset term \<and> distinct (kept @ term) \<and>
    mset (map c_SchedID (SelectFromContainer db' nilCheck)) = mset kept + mset (map c_SchedID toBoot)"
proof -
  obtain pairs dbcs rest where
    join: "Join (SelectFromContainer db nilCheck) dkcs schedScore = (pairs, dbcs, rest)"
    using prod_cases3 by blast
  from syncDB_effect [OF assms(1) join] obtain db' where db': "syncDB dkcs db = Some ((map dk_ID rest, dbcs), db')"
      "db_inv db'" "frame ContainerTable db db'"
      "mset (map c_SchedID (SelectFromContainer db' nilCheck)) = mset (map (dk_ID \<circ> snd) pairs) + mset (map c_SchedID dbcs)"
    by blast
  have m: "mset (map dk_ID dkcs) = mset (map (dk_ID \<circ> snd) pairs @ map dk_ID rest)"
    using arg_cong [OF Join_partition(2) [OF join], of "image_mset dk_ID"] by (simp add: multiset.map_comp)
  then have "distinct (map (dk_ID \<circ> snd) pairs @ map dk_ID rest)"
    using assms(2) mset_eq_imp_distinct_iff by blast
  with m db' show ?thesis by (metis mset_append)
qed

section \<open>A container that was booted is recognised\<close>

lemma userLabels_spec:
  assumes "wf_gomap m"
  shows "distinct (userLabels m) \<and> set (userLabels m) = {l. gget m (UserLabel l) = Some LabelTrueValue}"
proof
  let ?P = "\<lambda>(l, v). IsUserLabel l \<and> v = LabelTrueValue"
  have "inj_on (ParseUserLabel \<circ> fst) (set (filter ?P m))"
  proof (rule inj_onI)
    fix p q
    assume p: "p \<in> set (filter ?P m)" "q \<in> set (filter ?P m)" "(ParseUserLabel \<circ> fst) p = (ParseUserLabel \<circ> fst) q"
    then have "IsUserLabel (fst p)" "IsUserLabel (fst q)" by auto
    then have "fst p = fst q" using p(3) by (metis UserLabel_ParseUserLabel comp_apply)
    with p(1,2) show "p = q" by (auto simp: prod_eq_iff)
  qed
  moreover have "distinct m" using assms by (simp add: distinct_map)
  ultimately show "distinct (userLabels m)" by (simp add: userLabels_def distinct_map)
  show "set (userLabels m) = {l. gget m (UserLabel l) = Some LabelTrueValue}"
  proof (intro set_eqI iffI)
    fix l
    assume "l \<in> set (userLabels m)"
    then obtain k where k: "(k, LabelTrueValue) \<in> set m" "IsUserLabel k" "l = ParseUserLabel k"
      by (auto simp: userLabels_def)
    then show "l \<in> {l. gget m (UserLabel l) = Some LabelTrueValue}"
      using assms by (simp add: UserLabel_ParseUserLabel)
  next
    fix l
    assume "l \<in> {l. gget m (UserLabel l) = Some LabelTrueValue}"
    then have "(UserLabel l, LabelTrueValue) \<in> set m" using assms by (simp add: map_of_eq_Some_iff)
    then show "l \<in> set (userLabels m)" by (force simp: userLabels_def)
  qed
qed

lemma makeLabels_fold:
  "gget (fold (\<lambda>lb m. gput (UserLabel lb) LabelTrueValue m) ls m) (UserLabel l) =
     (if l \<in> set ls then Some LabelTrueValue else gget m (UserLabel l))"
  by (induction ls arbitrary: m) (auto simp: go_map)

lemma makeLabels_user: "gget (makeLabels dbc) (UserLabel l) = (if l \<in> set (c_Labels dbc) then Some LabelTrueValue else None)"
proof -
  have "SchedulerLabelKey \<noteq> UserLabel l"
    using SystemLabel_not_user IsUserLabel_UserLabel by (metis SchedulerLabelKey_system)
  then show ?thesis by (simp add: makeLabels_def makeLabels_fold)
qed

lemma wf_makeLabels: "wf_gomap (makeLabels dbc)"
proof -
  have "wf_gomap m \<Longrightarrow> wf_gomap (fold (\<lambda>lb m. gput (UserLabel lb) LabelTrueValue m) ls m)" for ls and m :: "(string, string) gomap"
    by (induction ls arbitrary: m) simp_all
  then show ?thesis by (simp add: makeLabels_def)
qed

lemma hd_splitChar: "hd (splitChar c s) = takeWhile (\<lambda>x. x \<noteq> c) s"
  by (induction s) (auto split: list.split)

lemma affinity_prefix: "HasPrefix (hd (splitChar (CHR ''='') (affinityStr l))) ''affinity:''"
  unfolding hd_splitChar affinityStr_def HasPrefix_def by simp

lemma set_makeEnv:
  "set (makeEnv dbc) = set (affinities dbc) \<union> (\<lambda>(k, v). k @ ''='' @ v) ` set (c_Env dbc)"
proof -
  have "set (fold sput xs acc) = set acc \<union> set xs" for xs acc :: "string list"
    by (induction xs arbitrary: acc) auto
  then show ?thesis by (simp add: makeEnv_def)
qed

lemma affinities_form: "e \<in> set (affinities dbc) \<Longrightarrow> \<exists>l. e = affinityStr l"
  by (auto simp: affinities_def split: if_splits)

text \<open>How docker reports a container that was started with given options; it may list the variables in any order.\<close>

definition ranAs :: "string \<Rightarrow> string \<Rightarrow> string list \<Rightarrow> RunOptions \<Rightarrow> dkContainer" where
  "ranAs i path es opts = \<lparr>dk_ID = i, dk_Name = ro_Name opts, dk_Image = ro_Image opts, dk_IP = '''', dk_Path = path,
     dk_Args = ro_Args opts, dk_Pid = 0, dk_Env = parseEnv es [], dk_Labels = ro_Labels opts\<rparr>"

definition plainEnv :: "(string, string) gomap \<Rightarrow> bool" where
  "plainEnv env \<longleftrightarrow> wf_gomap env \<and> list_all (\<lambda>(k, v). k \<noteq> '''' \<and> CHR ''='' \<notin> set k \<and> CHR ''='' \<notin> set v \<and>
     \<not> HasPrefix k ''affinity:'') env"

lemma makeEnv_entry:
  assumes "e \<in> set (envList (makeEnv dbc))"
  obtains "e = ''''" | l where "e = affinityStr l" | a b where "(a, b) \<in> set (c_Env dbc)" "e = a @ ''='' @ b"
proof -
  have "e = '''' \<or> e \<in> set (affinities dbc) \<or> (\<exists>a b. (a, b) \<in> set (c_Env dbc) \<and> e = a @ ''='' @ b)"
    using assms by (auto simp: envList_def set_makeEnv)
  then show ?thesis using that affinities_form by blast
qed

lemma ranAs_env:
  assumes env: "plainEnv (c_Env dbc)" and es: "set es = set (envList (makeEnv dbc))" and kv: "(k, v) \<in> set (c_Env dbc)"
  shows "mapGet (parseEnv es []) k = v"
proof -
  have plain: "a \<noteq> '''' \<and> CHR ''='' \<notin> set a \<and> CHR ''='' \<notin> set b \<and> \<not> HasPrefix a ''affinity:''" if "(a, b) \<in> set (c_Env dbc)" for a b
    using env that by (auto simp: plainEnv_def list_all_iff)
  note k = plain [OF kv]
  have mem: "k @ ''='' @ v \<in> set es"
    using kv by (force simp: es envList_def set_makeEnv)
  have only: "e = k @ ''='' @ v" if e: "e \<in> set es" "hd (splitChar (CHR ''='') e) = k" for e
    using e(1) unfolding es
  proof (cases rule: makeEnv_entry)
    case 1
    then show ?thesis using e(2) k by simp
  next
    case 2
    then show ?thesis using e(2) k affinity_prefix by blast
  next
    case (3 a b)
    then have "a = k" using e(2) splitChar_append [of "CHR ''=''" a b] plain by simp
    moreover have "b = v" using 3(1) kv env \<open>a = k\<close> by (metis map_of_is_SomeI option.inject plainEnv_def)
    ultimately show ?thesis using 3(2) by simp
  qed
  have "gget (parseEnv es []) k = Some (hd (splitChar (CHR ''='') v))"
    by (rule parseEnv_lookup) (use k mem only in auto)
  then show ?thesis using k by (simp add: mapGet_def splitChar_fresh)
qed


definition sampleContainer :: "(string, string) gomap \<Rightarrow> Container" where
  "sampleContainer env = (zeroContainer 3)\<lparr>c_Image := ''img'', c_Command := [''run''], c_Labels := [''a'', ''b''],
     c_Env := env, c_Exclusive := [(''a'', ''b'')]\<rparr>"



definition sampleDkc :: "string \<Rightarrow> dkContainer" where
  "sampleDkc i = ranAs i ''run'' [] (swarmOptions (sampleContainer []))"

theorem syncDB_accounts_witness:
  "db_inv New \<and> distinct (map dk_ID [sampleDkc ''x'', sampleDkc ''y'']) \<and>
   (\<exists>term toBoot db'. syncDB [sampleDkc ''x'', sampleDkc ''y''] New = Some ((term, toBoot), db') \<and> db_inv db')"
proof -
  have d: "distinct (map dk_ID [sampleDkc ''x'', sampleDkc ''y''])" by (simp add: sampleDkc_def ranAs_def)
  show ?thesis using syncDB_accounts [OF db_inv_New d] d db_inv_New by blast
qed

end
