(* ===== verification/Cluster.thy ===== *)
theory Cluster
  imports Provider Reconcile Db_Txn
begin

text \<open>
  The controller's reconciliation with the clouds (\<open>src/cluster/cluster.go\<close>).

  The calls of a started provider (\<open>Get\<close>, \<open>Boot\<close>, \<open>Stop\<close> of the \<open>Provider\<close> interface, which talk to a cloud) are the fields
  of a record over an arbitrary state \<open>'c\<close> of the clouds; \<open>providers\<close> lists the providers whose \<open>Start\<close> succeeded.
  Between the two transactions of a round other goroutines may change the database: \<open>other\<close> is what they do.
  Rate limiting, sleeping and logging are left out.
\<close>

section \<open>The difference\<close>

definition cloudScore :: "Machine \<Rightarrow> provMachine \<Rightarrow> int" where
  "cloudScore dbm m =
     (if m_Provider dbm \<noteq> pm_Provider m then - 1
      else if pm_Region m \<noteq> '''' \<and> m_Region dbm \<noteq> pm_Region m then - 1
      else if pm_Size m \<noteq> '''' \<and> m_Size dbm \<noteq> pm_Size m then - 1
      else if pm_DiskSize m \<noteq> 0 \<and> m_DiskSize dbm \<noteq> pm_DiskSize m then - 1
      else if m_CloudID dbm = pm_ID m then 0
      else if m_PublicIP dbm = pm_PublicIP m then 1
      else if m_PrivateIP dbm = pm_PrivateIP m then 2
      else 3)"

definition toBoot :: "Machine \<Rightarrow> provMachine" where
  "toBoot m = \<lparr>pm_ID = '''', pm_PublicIP = '''', pm_PrivateIP = '''', pm_Size = m_Size m, pm_DiskSize = m_DiskSize m,
     pm_SSHKeys = m_SSHKeys m, pm_Provider = m_Provider m, pm_Region = m_Region m\<rparr>"

definition syncDB_cloud :: "provMachine list \<Rightarrow> Machine list
    \<Rightarrow> (Machine \<times> provMachine) list \<times> provMachine list \<times> provMachine list" where
  "syncDB_cloud cloudMachines dbMachines =
     (let (pairs, dbmIface, cmIface) = Join dbMachines cloudMachines cloudScore in
      (pairs, map toBoot dbmIface, cmIface))"

section \<open>One round\<close>

record 'c cloudApi =
  api_Get :: "Provider \<Rightarrow> 'c \<Rightarrow> provMachine list option"
  api_Boot :: "Provider \<Rightarrow> provMachine list \<Rightarrow> 'c \<Rightarrow> bool \<times> 'c"
  api_Stop :: "Provider \<Rightarrow> provMachine list \<Rightarrow> 'c \<Rightarrow> bool \<times> 'c"

fun getCloud :: "'c cloudApi \<Rightarrow> Provider list \<Rightarrow> 'c \<Rightarrow> provMachine list option" where
  "getCloud api [] c = Some []"
| "getCloud api (p # ps) c =
     (case api_Get api p c of
        None \<Rightarrow> None
      | Some ms \<Rightarrow> map_option ((@) ms) (getCloud api ps c))"

fun cloudLoop :: "'c cloudApi \<Rightarrow> Provider list \<Rightarrow> bool \<Rightarrow> (Provider, provMachine list) gomap \<Rightarrow> 'c \<Rightarrow> 'c" where
  "cloudLoop api providers doBoot [] c = c"
| "cloudLoop api providers doBoot ((p, ms) # groups) c =
     (if p \<notin> set providers then cloudLoop api providers doBoot groups c
      else cloudLoop api providers doBoot groups
             (snd (if doBoot then api_Boot api p ms c else api_Stop api p ms c)))"

definition updateCloud :: "'c cloudApi \<Rightarrow> Provider list \<Rightarrow> provMachine list \<Rightarrow> bool \<Rightarrow> 'c \<Rightarrow> 'c" where
  "updateCloud api providers machines doBoot c =
     (if machines = [] then c else cloudLoop api providers doBoot (GroupBy machines) c)"

definition fillCloud :: "Machine \<times> provMachine \<Rightarrow> Machine" where
  "fillCloud p = (case p of (dbm, m) \<Rightarrow>
     dbm\<lparr>m_CloudID := pm_ID m, m_PublicIP := pm_PublicIP m, m_PrivateIP := pm_PrivateIP m,
       m_Size := (if pm_Size m \<noteq> '''' then pm_Size m else m_Size dbm),
       m_DiskSize := (if pm_DiskSize m \<noteq> 0 then pm_DiskSize m else m_DiskSize dbm),
       m_Provider := pm_Provider m\<rparr>)"

definition commitTxn :: "(Machine \<times> provMachine) list \<Rightarrow> unit txn" where
  "commitTxn pairs view = map_option (Pair ()) (commitLoop MachineRow (map fillCloud pairs) view)"

fun syncRounds :: "nat \<Rightarrow> 'c cloudApi \<Rightarrow> Provider list \<Rightarrow> int \<Rightarrow> (nat \<Rightarrow> Database \<Rightarrow> Database)
    \<Rightarrow> Database \<Rightarrow> 'c \<Rightarrow> (Database \<times> 'c) option" where
  "syncRounds 0 api providers cid other db c = Some (db, c)"
| "syncRounds (Suc i) api providers cid other db c =
     (case getCloud api providers c of
        None \<Rightarrow> Some (db, c)
      | Some cloudMachines \<Rightarrow>
          (let dbMachines = SelectFromMachine db (\<lambda>m. m_ClusterID m = cid);
               (pairs, bootSet, terminateSet) = syncDB_cloud cloudMachines dbMachines in
           case Transact (commitTxn pairs) (other i db) of
             None \<Rightarrow> None
           | Some (_, db1) \<Rightarrow>
               syncRounds i api providers cid other db1
                 (updateCloud api providers terminateSet False (updateCloud api providers bootSet True c))))"

definition sync :: "'c cloudApi \<Rightarrow> Provider list \<Rightarrow> int \<Rightarrow> (nat \<Rightarrow> Database \<Rightarrow> Database)
    \<Rightarrow> Database \<Rightarrow> 'c \<Rightarrow> (Database \<times> 'c) option" where
  "sync api providers cid other db c = syncRounds 8 api providers cid other db c"

section \<open>Mark and sweep of the clusters\<close>

text \<open>The running clusters with their marks; the result also lists the clusters started and stopped.\<close>

fun markLoop :: "Cluster list \<Rightarrow> (int, bool) gomap \<Rightarrow> (int, bool) gomap" where
  "markLoop [] clusters = clusters"
| "markLoop (r # rs) clusters = markLoop rs (gput (cl_ID r) True clusters)"

definition sweep :: "(int, bool) gomap \<Rightarrow> (int, bool) gomap" where
  "sweep clusters = map (\<lambda>(k, mark). (k, False)) (filter snd clusters)"

definition RunOnce :: "Database \<Rightarrow> (int, bool) gomap \<Rightarrow> (int, bool) gomap" where
  "RunOnce db clusters = sweep (markLoop (SelectFromCluster db nilCheck) clusters)"

definition startedClusters :: "Database \<Rightarrow> (int, bool) gomap \<Rightarrow> int list" where
  "startedClusters db clusters =
     filter (\<lambda>i. i \<notin> fst ` set clusters) (map cl_ID (SelectFromCluster db nilCheck))"

definition stoppedClusters :: "Database \<Rightarrow> (int, bool) gomap \<Rightarrow> int list" where
  "stoppedClusters db clusters =
     map fst (filter (\<lambda>(k, mark). \<not> mark) (markLoop (SelectFromCluster db nilCheck) clusters))"

section \<open>Convergence\<close>

text \<open>A machine that the cloud fully reports is matched exactly by the rows that ask for the same thing.\<close>

definition cloudKey :: "provMachine \<Rightarrow> Provider \<times> string \<times> string \<times> int" where
  "cloudKey m = (pm_Provider m, pm_Region m, pm_Size m, pm_DiskSize m)"

definition rowKey :: "Machine \<Rightarrow> Provider \<times> string \<times> string \<times> int" where
  "rowKey m = (m_Provider m, m_Region m, m_Size m, m_DiskSize m)"

definition reported :: "provMachine \<Rightarrow> bool" where
  "reported m \<longleftrightarrow> pm_Region m \<noteq> '''' \<and> pm_Size m \<noteq> '''' \<and> pm_DiskSize m \<noteq> 0"

interpretation cloudJoin: keyed_join cloudScore rowKey cloudKey reported
  by unfold_locales (auto simp: cloudScore_def rowKey_def cloudKey_def reported_def)

lemma cloudKey_toBoot [simp]: "cloudKey (toBoot m) = rowKey m"
  by (simp add: cloudKey_def rowKey_def toBoot_def)

lemma fillCloud_same: "reported m \<Longrightarrow> rowKey dbm = cloudKey m \<Longrightarrow> rowKey (fillCloud (dbm, m)) = rowKey dbm"
  by (simp add: fillCloud_def rowKey_def cloudKey_def reported_def)


definition sampleRow :: Machine where
  "sampleRow = (zeroMachine 1)\<lparr>m_Provider := AmazonSpot, m_Region := ''us-west-1'', m_Size := ''m4.large'', m_DiskSize := 32\<rparr>"

definition sampleCloud :: "string \<Rightarrow> string \<Rightarrow> provMachine" where
  "sampleCloud i sz = (toBoot sampleRow)\<lparr>pm_ID := i, pm_Size := sz\<rparr>"


section \<open>The other goroutines\<close>

lemma commitLoop_missing:
  assumes "db_inv db" and "r \<in> set rs" and "m_ID r \<notin> m_ID ` set (machineK.allRows db)"
  shows "commitLoop MachineRow rs db = None"
  using assms
proof (induction rs arbitrary: db)
  case (Cons x rs)
  show ?case
  proof (cases "m_ID x \<in> m_ID ` set (machineK.allRows db)")
    case False
    then show ?thesis using machineK.Commit_missing [OF Cons.prems(1)] by simp
  next
    case True
    then obtain db1 where 1: "Commit (MachineRow x) db = Some db1" "db_inv db1"
        "machineK.allRows db1 = map (\<lambda>y. if m_ID y = m_ID x \<and> \<not> DeepEqual (MachineRow y) (MachineRow x) then x else y) (machineK.allRows db)"
      by (rule machineK.Commit_effect [OF Cons.prems(1)])
    have "map m_ID (machineK.allRows db1) = map m_ID (machineK.allRows db)"
      unfolding 1(3) by simp
    then have "m_ID ` set (machineK.allRows db1) = m_ID ` set (machineK.allRows db)"
      by (metis list.set_map)
    moreover have "r \<in> set rs" using Cons.prems True by auto
    ultimately show ?thesis using Cons.IH [OF 1(2)] Cons.prems(3) 1(1) by simp
  qed
qed simp

text \<open>
  C32: The round is split over two transactions, and the second relies on the first: if meanwhile another goroutine
  removed the row of a machine that the cloud runs (as \<open>UpdatePolicy\<close> does when the policy drops it), the commit
  panics and takes the controller down.
\<close>

theorem sync_races_with_removal:
  assumes "getCloud api providers c = Some cloud"
    and "syncDB_cloud cloud (SelectFromMachine db (\<lambda>m. m_ClusterID m = cid)) = (pairs, bootSet, terminateSet)"
    and "(dbm, m) \<in> set pairs"
    and "db_inv (other 7 db)" and "m_ID dbm \<notin> m_ID ` set (SelectFromMachine (other 7 db) nilCheck)"
  shows "sync api providers cid other db c = None"
proof -
  have "commitLoop MachineRow (map fillCloud pairs) (other 7 db) = None"
  proof (rule commitLoop_missing [OF assms(4)])
    show "fillCloud (dbm, m) \<in> set (map fillCloud pairs)" using assms(3) by force
    show "m_ID (fillCloud (dbm, m)) \<notin> m_ID ` set (machineK.allRows (other 7 db))"
      using assms(5) by (simp add: select_rows fillCloud_def)
  qed
  then have "Transact (commitTxn pairs) (other 7 db) = None" by (simp add: Transact_def commitTxn_def)
  moreover have "(8::nat) = Suc 7" by simp
  ultimately show ?thesis
    using assms(1,2) by (simp only: sync_def syncRounds.simps option.case Let_def prod.case)
qed

definition oneMachineDb :: Database where
  "oneMachineDb = insert_db (MachineRow (sampleRow\<lparr>m_ClusterID := 1\<rparr>)) (snd (nextID New))"

definition sampleApi :: "unit cloudApi" where
  "sampleApi = \<lparr>api_Get = (\<lambda>p c. Some (if p = AmazonSpot then [sampleCloud ''sir'' ''m4.large''] else [])),
     api_Boot = (\<lambda>p ms c. (True, c)), api_Stop = (\<lambda>p ms c. (True, c))\<rparr>"

theorem sync_races_with_removal_witness:
  "sync sampleApi [AmazonSpot] 1 (\<lambda>i db. Remove (MachineRow sampleRow) db) oneMachineDb () = None"
proof -
  let ?row = "sampleRow\<lparr>m_ClusterID := 1\<rparr>"
  have "db_inv (snd (nextID New))" using db_inv_nextID [OF db_inv_New] by simp
  then have "db_inv oneMachineDb"
    unfolding oneMachineDb_def
    by (rule db_inv_insert) (auto simp: sampleRow_def zeroMachine_def keysOf_def nextID_def New_def newTable_def)
  then have inv: "db_inv (Remove (MachineRow sampleRow) oneMachineDb)" by (rule db_inv_Remove)
  have g: "getCloud sampleApi [AmazonSpot] () = Some [sampleCloud ''sir'' ''m4.large'']" by code_simp
  have s: "syncDB_cloud [sampleCloud ''sir'' ''m4.large''] (SelectFromMachine oneMachineDb (\<lambda>m. m_ClusterID m = 1)) =
      ([(?row, sampleCloud ''sir'' ''m4.large'')], [], [])"
    by code_simp
  have n: "SelectFromMachine (Remove (MachineRow sampleRow) oneMachineDb) nilCheck = []" by code_simp
  show ?thesis
    by (rule sync_races_with_removal [OF g s, of ?row "sampleCloud ''sir'' ''m4.large''"]) (simp_all add: inv n)
qed

section \<open>Garbage collection\<close>

lemma markLoop_spec:
  "wf_gomap cs \<Longrightarrow> wf_gomap (markLoop rs cs) \<and>
     gget (markLoop rs cs) k = (if k \<in> cl_ID ` set rs then Some True else gget cs k)"
  by (induction rs arbitrary: cs) (auto simp: go_map)

text \<open>
  C31: Mark and sweep keeps exactly the clusters of the database: after a wake-up the running clusters are those with a
  row, their marks are cleared again, and a cluster was stopped exactly if it was running
  and has no row any more.
\<close>

theorem RunOnce_collects:
  assumes "wf_gomap clusters" and "list_all (\<lambda>(k, mark). \<not> mark) clusters"
  shows "wf_gomap (RunOnce db clusters) \<and> list_all (\<lambda>(k, mark). \<not> mark) (RunOnce db clusters) \<and>
    fst ` set (RunOnce db clusters) = cl_ID ` set (SelectFromCluster db nilCheck) \<and>
    set (stoppedClusters db clusters) = fst ` set clusters - cl_ID ` set (SelectFromCluster db nilCheck)"
proof -
  let ?rows = "SelectFromCluster db nilCheck"
  let ?m = "markLoop ?rows clusters"
  have wf: "wf_gomap ?m" and get: "gget ?m k = (if k \<in> cl_ID ` set ?rows then Some True else gget clusters k)" for k
    using markLoop_spec [OF assms(1)] by blast+
  have old: "gget clusters k = Some b \<Longrightarrow> \<not> b" for k b
    using assms(2) by (auto simp: list_all_iff dest: map_of_SomeD)
  have mem: "(k, b) \<in> set ?m \<longleftrightarrow> (k \<in> cl_ID ` set ?rows \<and> b) \<or> (k \<notin> cl_ID ` set ?rows \<and> gget clusters k = Some b)" for k b
    using map_of_eq_Some_iff [OF wf, of k b] get [of k] by (auto split: if_splits)
  have keys: "fst ` set (RunOnce db clusters) = cl_ID ` set ?rows"
  proof -
    have "k \<in> fst ` set (RunOnce db clusters) \<longleftrightarrow> (k, True) \<in> set ?m" for k
      by (force simp: RunOnce_def sweep_def)
    moreover have "(k, True) \<in> set ?m \<longleftrightarrow> k \<in> cl_ID ` set ?rows" for k
      using mem [of k True] old [of k True] by blast
    ultimately show ?thesis by blast
  qed
  moreover have "set (stoppedClusters db clusters) = fst ` set clusters - cl_ID ` set ?rows"
  proof -
    have "k \<in> set (stoppedClusters db clusters) \<longleftrightarrow> (k, False) \<in> set ?m" for k
      by (force simp: stoppedClusters_def)
    moreover have "(k, False) \<in> set ?m \<longleftrightarrow> k \<in> fst ` set clusters \<and> k \<notin> cl_ID ` set ?rows" for k
      using mem [of k False] old [of k] by (cases "gget clusters k") (auto simp: map_of_eq_None_iff dest: map_of_SomeD intro: rev_image_eqI)
    ultimately show ?thesis by blast
  qed
  moreover have "wf_gomap (RunOnce db clusters)"
    using wf by (simp add: RunOnce_def sweep_def split_beta comp_def distinct_map_filter)
  moreover have "list_all (\<lambda>(k, mark). \<not> mark) (RunOnce db clusters)"
    by (auto simp: RunOnce_def sweep_def list_all_iff)
  ultimately show ?thesis by blast
qed

theorem RunOnce_collects_witness:
  "wf_gomap [(4, False)] \<and> fst ` set (RunOnce New [(4, False)]) = {} \<and> set (stoppedClusters New [(4, False)]) = {4}"
proof -
  have "SelectFromCluster New nilCheck = []" by code_simp
  then show ?thesis using RunOnce_collects [of "[(4, False)]" New] by simp
qed

end
