(* ===== verification/Minion.thy ===== *)
theory Minion
  imports Dsl Reconcile Db_Txn Util
begin

text \<open>
  The minion's side of a policy: \<open>src/minion/engine.go\<close>, which makes the container and connection tables
  reflect a specification, and the request handlers of \<open>src/minion/server.go\<close>.

  The handlers that change the database do so in a transaction of their own goroutine and answer at once;
  what is modelled is the transaction.  The specification text is loaded by \<open>dsl.New\<close> with no search path;
  \<open>n\<close> is the evaluation depth granted and \<open>fs\<close> the file system.  Panics and non-termination of the evaluation
  are the outcomes \<open>Panic\<close> and \<open>Timeout\<close>.
\<close>

section \<open>Connections\<close>

definition connScore :: "dslConnection \<Rightarrow> Connection \<Rightarrow> int" where
  "connScore dslc dbc =
     (if dc_From dslc = cn_From dbc \<and> dc_To dslc = cn_To dbc \<and>
         dc_MinPort dslc = cn_MinPort dbc \<and> dc_MaxPort dslc = cn_MaxPort dbc then 0 else 1)"

definition fillConnection :: "dslConnection \<times> Connection \<Rightarrow> Connection" where
  "fillConnection p = (case p of (dslc, dbc) \<Rightarrow>
     dbc\<lparr>cn_From := dc_From dslc, cn_To := dc_To dslc, cn_MinPort := dc_MinPort dslc, cn_MaxPort := dc_MaxPort dslc\<rparr>)"

definition updateConnections :: "Dsl \<Rightarrow> Database \<Rightarrow> Database option" where
  "updateConnections spec view =
     (let (pairs, dsls, dbcs) = Join (QueryConnections spec) (SelectFromConnection view nilCheck) connScore;
          view1 = removeLoop ConnectionRow dbcs view;
          (fresh, view2) = insertLoop InsertConnection dsls view1 in
      commitLoop ConnectionRow (map fillConnection (pairs @ fresh)) view2)"

section \<open>Containers\<close>

text \<open>A missing key of a Go map reads as the zero value.\<close>

definition envGet :: "(string, string) gomap \<Rightarrow> string \<Rightarrow> string" where
  "envGet env k = (case gget env k of None \<Rightarrow> '''' | Some v \<Rightarrow> v)"

definition containerScore :: "dslContainer \<Rightarrow> Container \<Rightarrow> int" where
  "containerScore dslc dbc =
     (if c_Image dbc \<noteq> dct_Image dslc \<or> c_Command dbc \<noteq> dct_Command dslc then - 1
      else
        (let score = EditDistance (c_Labels dbc) (dct_labels dslc)
               + 100 * int (length (filter (\<lambda>k. k \<notin> set (dct_Exclusive dslc)) (c_Exclusive dbc)))
               + 100 * int (length (filter (\<lambda>k. k \<notin> set (c_Exclusive dbc)) (dct_Exclusive dslc))) in
         if list_ex (\<lambda>(k, v). v \<noteq> envGet (dct_Env dslc) k) (c_Env dbc) then - 1 else score))"

definition fillContainer :: "dslContainer \<times> Container \<Rightarrow> Container" where
  "fillContainer p = (case p of (dslc, dbc) \<Rightarrow>
     dbc\<lparr>c_Labels := sort (dct_labels dslc), c_Command := dct_Command dslc, c_Image := dct_Image dslc,
       c_Exclusive := dct_Exclusive dslc, c_Env := dct_Env dslc\<rparr>)"

definition updateContainers :: "Dsl \<Rightarrow> Database \<Rightarrow> Database option" where
  "updateContainers spec view =
     (case QueryContainers spec of
        None \<Rightarrow> None
      | Some specContainers \<Rightarrow>
          (let (pairs, dsls, dbcs) = Join specContainers (SelectFromContainer view nilCheck) containerScore;
               view1 = removeLoop ContainerRow dbcs view;
               (fresh, view2) = insertLoop InsertContainer dsls view1 in
           commitLoop ContainerRow (map fillContainer (pairs @ fresh)) view2))"

section \<open>The handlers\<close>

fun orPanic :: "'a option \<Rightarrow> 'a res" where
  "orPanic None = Panic"
| "orPanic (Some x) = Return x"

text \<open>A specification that does not load is logged and ignored.\<close>

definition updatePolicy :: "nat \<Rightarrow> filesys \<Rightarrow> Role \<Rightarrow> string \<Rightarrow> Database \<Rightarrow> Database res" where
  "updatePolicy n fs role spec view =
     (case NewDsl n fs [] (initScan '''' spec) of
        Raise err \<Rightarrow> Return view
      | Panic \<Rightarrow> Panic
      | Timeout \<Rightarrow> Timeout
      | Return compiled \<Rightarrow>
          bindR (if role = Master then orPanic (updateContainers compiled view) else Return view) (\<lambda>view1.
            orPanic (updateConnections compiled view1)))"

record MinionConfig =
  cfg_ID :: string
  cfg_Role :: PBRole
  cfg_PrivateIP :: string
  cfg_Spec :: string

definition GetMinionConfig :: "Database \<Rightarrow> MinionConfig option" where
  "GetMinionConfig db =
     (case SelectFromMinion db nilCheck of
        [] \<Rightarrow> Some \<lparr>cfg_ID = '''', cfg_Role = RoleNone, cfg_PrivateIP = '''', cfg_Spec = ''''\<rparr>
      | [m] \<Rightarrow> Some \<lparr>cfg_ID = mi_MinionID m, cfg_Role = mi_Role m, cfg_PrivateIP = mi_PrivateIP m, cfg_Spec = ''''\<rparr>
      | _ \<Rightarrow> None)"

definition setMinionTxn :: "nat \<Rightarrow> filesys \<Rightarrow> MinionConfig \<Rightarrow> Database \<Rightarrow> Database res" where
  "setMinionTxn n fs msg view =
     (case (case SelectFromMinion view nilCheck of
              [] \<Rightarrow> Some (InsertMinion view)
            | [minion] \<Rightarrow> Some (minion, view)
            | _ \<Rightarrow> None) of
        None \<Rightarrow> Panic
      | Some (minion, view1) \<Rightarrow>
          (let minion = minion\<lparr>mi_MinionID := cfg_ID msg, mi_Role := cfg_Role msg, mi_PrivateIP := cfg_PrivateIP msg\<rparr> in
           bindR (orPanic (Commit (MinionRow minion) view1)) (\<lambda>view2.
             updatePolicy n fs (mi_Role minion) (cfg_Spec msg) view2)))"

definition SetMinionConfig :: "nat \<Rightarrow> filesys \<Rightarrow> MinionConfig \<Rightarrow> Database \<Rightarrow> Database res" where
  "SetMinionConfig n fs msg db =
     bindR (setMinionTxn n fs msg db) (\<lambda>view. Return (fold alert allTables view))"

definition bootEtcdTxn :: "string list \<Rightarrow> Database \<Rightarrow> Database option" where
  "bootEtcdTxn ips view =
     (case (case SelectFromEtcd view nilCheck of
              [] \<Rightarrow> Some (InsertEtcd view)
            | [etcdRow] \<Rightarrow> Some (etcdRow, view)
            | _ \<Rightarrow> None) of
        None \<Rightarrow> None
      | Some (etcdRow, view1) \<Rightarrow> Commit (EtcdRow (etcdRow\<lparr>e_EtcdIPs := sort ips\<rparr>)) view1)"

definition BootEtcd :: "string list \<Rightarrow> Database \<Rightarrow> Database option" where
  "BootEtcd ips db = map_option (fold alert allTables) (bootEtcdTxn ips db)"

section \<open>The connection table\<close>

type_synonym connKey = "string \<times> string \<times> int \<times> int"

definition dslConnKey :: "dslConnection \<Rightarrow> connKey" where
  "dslConnKey c = (dc_From c, dc_To c, dc_MinPort c, dc_MaxPort c)"

definition connKey :: "Connection \<Rightarrow> connKey" where
  "connKey c = (cn_From c, cn_To c, cn_MinPort c, cn_MaxPort c)"

interpretation connJoin: exact_join connScore dslConnKey connKey
  by unfold_locales (auto simp: connScore_def dslConnKey_def connKey_def)

lemma fillConnection_simps [simp]:
  "connKey (fillConnection p) = dslConnKey (fst p)" "cn_ID (fillConnection p) = cn_ID (snd p)"
  by (simp_all add: fillConnection_def connKey_def dslConnKey_def case_prod_unfold)

lemma fillConnection_same: "dslConnKey l = connKey r \<Longrightarrow> fillConnection (l, r) = r"
  by (simp add: fillConnection_def connKey_def dslConnKey_def)

lemma updateConnections_effect:
  assumes inv: "db_inv db"
  shows "\<exists>db'. updateConnections spec db = Some db' \<and> db_inv db' \<and> frame ConnectionTable db db' \<and>
    mset (map connKey (SelectFromConnection db' nilCheck)) = mset (map dslConnKey (QueryConnections spec))"
proof -
  obtain pairs dsls dbcs where
    join: "Join (QueryConnections spec) (SelectFromConnection db nilCheck) connScore = (pairs, dsls, dbcs)"
    using prod_cases3 by blast
  obtain fresh db2 where ins: "insertLoop InsertConnection dsls (removeLoop ConnectionRow dbcs db) = (fresh, db2)"
    by force
  obtain db' where db': "commitLoop ConnectionRow (map fillConnection (pairs @ fresh)) db2 = Some db'" "db_inv db'"
      "frame ConnectionTable db db'" "mset (QueryConnections spec) = mset (map fst (pairs @ fresh))"
      "mset (map connKey (connectionK.allRows db')) = mset (map (\<lambda>p. dslConnKey (fst p)) (pairs @ fresh))"
    using connectionK.join_reconcile [OF inv join [unfolded select_rows] ins [unfolded InsertConnection_def],
        of fillConnection connKey] by auto
  have "mset (map (\<lambda>p. dslConnKey (fst p)) (pairs @ fresh)) = mset (map dslConnKey (QueryConnections spec))"
    using arg_cong [OF db'(4), of "image_mset dslConnKey"] by (simp add: multiset.map_comp comp_def)
  with db' join ins show ?thesis by (simp add: updateConnections_def select_rows)
qed

lemma updateConnections_idle:
  assumes inv: "db_inv db"
    and same: "mset (map dslConnKey (QueryConnections spec)) = mset (map connKey (SelectFromConnection db nilCheck))"
  shows "updateConnections spec db = Some db"
proof -
  obtain pairs dsls dbcs where
    join: "Join (QueryConnections spec) (SelectFromConnection db nilCheck) connScore = (pairs, dsls, dbcs)"
    using prod_cases3 by blast
  have e: "list_all (\<lambda>(l, r). dslConnKey l = connKey r) pairs" "dsls = []" "dbcs = []"
    using connJoin.already_exact [OF join same] by auto
  have "map fillConnection pairs = map snd pairs"
    using e(1) by (auto simp: list_all_iff fillConnection_same)
  moreover have "set (map snd pairs) \<subseteq> set (connectionK.allRows db)"
    using Join_set(2) [OF join] by (auto simp: select_rows)
  ultimately show ?thesis
    using connectionK.commitLoop_same [OF inv] join e(2,3) by (simp add: updateConnections_def)
qed

section \<open>The container table\<close>

text \<open>What a policy says of a container: maps and sets up to the order of iteration.\<close>

type_synonym containerKey = "string \<times> string list \<times> string list \<times> (string \<Rightarrow> string option) \<times> (string \<times> string) set"

definition dslContainerKey :: "dslContainer \<Rightarrow> containerKey" where
  "dslContainerKey c = (dct_Image c, dct_Command c, sort (dct_labels c), gget (dct_Env c), set (dct_Exclusive c))"

definition containerKey :: "Container \<Rightarrow> containerKey" where
  "containerKey c = (c_Image c, c_Command c, c_Labels c, gget (c_Env c), set (c_Exclusive c))"

lemma gomap_eq_gget:
  assumes "gomap_eq m m'" shows "gget m = gget m'"
proof
  fix k
  show "gget m k = gget m' k"
  proof (cases "k \<in> fst ` (set m \<union> set m')")
    case True
    with assms show ?thesis by (auto simp: gomap_eq_def)
  next
    case False
    then have "gget m k = None" "gget m' k = None" by (auto simp: map_of_eq_None_iff image_Un)
    then show ?thesis by simp
  qed
qed

lemma DeepEqual_containerKey:
  assumes "DeepEqual (ContainerRow a) (ContainerRow b)" shows "containerKey a = containerKey b"
proof -
  let ?z = "\<lambda>c. c\<lparr>c_Env := [], c_Exclusive := []\<rparr>"
  have "?z a = ?z b" using assms by simp
  then have "c_Image (?z a) = c_Image (?z b) \<and> c_Command (?z a) = c_Command (?z b) \<and> c_Labels (?z a) = c_Labels (?z b)"
    by simp
  then show ?thesis using assms gomap_eq_gget [of "c_Env a" "c_Env b"] by (simp add: containerKey_def)
qed

lemma fillContainer_simps [simp]:
  "containerKey (fillContainer p) = dslContainerKey (fst p)" "c_ID (fillContainer p) = c_ID (snd p)"
  by (simp_all add: fillContainer_def containerKey_def dslContainerKey_def case_prod_unfold)

lemma updateContainers_effect:
  assumes inv: "db_inv db" and q: "QueryContainers spec = Some cs"
  shows "\<exists>db'. updateContainers spec db = Some db' \<and> db_inv db' \<and> frame ContainerTable db db' \<and>
    mset (map containerKey (SelectFromContainer db' nilCheck)) = mset (map dslContainerKey cs)"
proof -
  obtain pairs dsls dbcs where
    join: "Join cs (SelectFromContainer db nilCheck) containerScore = (pairs, dsls, dbcs)"
    using prod_cases3 by blast
  obtain fresh db2 where ins: "insertLoop InsertContainer dsls (removeLoop ContainerRow dbcs db) = (fresh, db2)"
    by force
  have "\<exists>db'. commitLoop ContainerRow (map fillContainer (pairs @ fresh)) db2 = Some db' \<and> db_inv db' \<and>
      frame ContainerTable db db' \<and> mset cs = mset (map fst (pairs @ fresh)) \<and>
      mset (map containerKey (containerK.allRows db')) =
        mset (map containerKey (filter (\<lambda>x. \<not> nilCheck x) (containerK.allRows db))) +
        mset (map (\<lambda>p. containerKey (fillContainer p)) (pairs @ fresh))"
    by (rule containerK.join_reconcile [OF inv join [unfolded select_rows] ins [unfolded InsertContainer_def]])
      (simp_all add: DeepEqual_containerKey del: DeepEqual.simps)
  then obtain db' where db': "commitLoop ContainerRow (map fillContainer (pairs @ fresh)) db2 = Some db'" "db_inv db'"
      "frame ContainerTable db db'" "mset cs = mset (map fst (pairs @ fresh))"
      "mset (map containerKey (containerK.allRows db')) = mset (map (\<lambda>p. dslContainerKey (fst p)) (pairs @ fresh))"
    by auto
  have "mset (map (\<lambda>p. dslContainerKey (fst p)) (pairs @ fresh)) = mset (map dslContainerKey cs)"
    using arg_cong [OF db'(4), of "image_mset dslContainerKey"] by (simp add: multiset.map_comp comp_def)
  with db' join ins q show ?thesis by (simp add: updateContainers_def select_rows)
qed

section \<open>A configuration is established\<close>

lemma soleMinion:
  assumes inv: "db_inv db" and one: "length (SelectFromMinion db nilCheck) \<le> 1"
  obtains m db1 where "(case SelectFromMinion db nilCheck of [] \<Rightarrow> Some (InsertMinion db) | [m] \<Rightarrow> Some (m, db) | _ \<Rightarrow> None)
      = Some (m, db1)" "db_inv db1" "minionK.allRows db1 = [m]" "frame MinionTable db db1"
proof (cases "SelectFromMinion db nilCheck")
  case Nil
  obtain m db1 where ins: "InsertMinion db = (m, db1)" by force
  note e = minionK.insertRow_effect [OF inv ins [unfolded InsertMinion_def]]
  show ?thesis using Nil ins e by (intro that [of m db1]) (simp_all add: select_rows)
next
  case (Cons m ms)
  then have "SelectFromMinion db nilCheck = [m]" using one by simp
  then show ?thesis using inv by (intro that [of m db]) (simp_all add: select_rows)
qed

lemma updatePolicy_effect:
  assumes inv: "db_inv db" and load: "NewDsl n fs [] (initScan '''' spec) = Return d"
  shows "\<exists>db'. updatePolicy n fs role spec db = Return db' \<and> db_inv db' \<and>
    minionK.allRows db' = minionK.allRows db \<and>
    mset (map connKey (SelectFromConnection db' nilCheck)) = mset (map dslConnKey (QueryConnections d)) \<and>
    (if role = Master
     then \<exists>cs. QueryContainers d = Some cs \<and> mset (map containerKey (SelectFromContainer db' nilCheck)) = mset (map dslContainerKey cs)
     else SelectFromContainer db' nilCheck = SelectFromContainer db nilCheck)"
proof -
  obtain cs where cs: "QueryContainers d = Some cs" using QueryContainers_total [OF load] by blast
  obtain db1 where 1: "(if role = Master then orPanic (updateContainers d db) else Return db) = Return db1" "db_inv db1"
      "frame ContainerTable db db1"
      "if role = Master then mset (map containerKey (SelectFromContainer db1 nilCheck)) = mset (map dslContainerKey cs) else db1 = db"
    using updateContainers_effect [OF inv cs] inv by (cases "role = Master") auto
  obtain db2 where 2: "updateConnections d db1 = Some db2" "db_inv db2" "frame ConnectionTable db1 db2"
      "mset (map connKey (SelectFromConnection db2 nilCheck)) = mset (map dslConnKey (QueryConnections d))"
    using updateConnections_effect [OF 1(2)] by blast
  have "updatePolicy n fs role spec db = Return db2"
    using load 1(1) 2(1) by (simp add: updatePolicy_def)
  moreover have "minionK.allRows db2 = minionK.allRows db"
    using minionK.frame_allRows [OF 2(3)] minionK.frame_allRows [OF 1(3)] by simp
  moreover have "SelectFromContainer db2 nilCheck = SelectFromContainer db1 nilCheck"
    using containerK.frame_allRows [OF 2(3)] by (simp add: select_rows)
  ultimately show ?thesis using 1(4) 2(2,4) cs by (auto split: if_splits)
qed

lemma setMinionTxn_effect:
  assumes inv: "db_inv db" and one: "length (SelectFromMinion db nilCheck) \<le> 1"
    and load: "NewDsl n fs [] (initScan '''' (cfg_Spec msg)) = Return d"
  shows "\<exists>db' m. setMinionTxn n fs msg db = Return db' \<and> db_inv db' \<and> SelectFromMinion db' nilCheck = [m] \<and>
    mi_MinionID m = cfg_ID msg \<and> mi_Role m = cfg_Role msg \<and> mi_PrivateIP m = cfg_PrivateIP msg \<and>
    mset (map connKey (SelectFromConnection db' nilCheck)) = mset (map dslConnKey (QueryConnections d)) \<and>
    (if cfg_Role msg = Master
     then \<exists>cs. QueryContainers d = Some cs \<and> mset (map containerKey (SelectFromContainer db' nilCheck)) = mset (map dslContainerKey cs)
     else SelectFromContainer db' nilCheck = SelectFromContainer db nilCheck)"
proof -
  obtain m db1 where m: "(case SelectFromMinion db nilCheck of [] \<Rightarrow> Some (InsertMinion db) | [m] \<Rightarrow> Some (m, db) | _ \<Rightarrow> None)
      = Some (m, db1)" "db_inv db1" "minionK.allRows db1 = [m]" "frame MinionTable db db1"
    using soleMinion [OF inv one] by metis
  let ?m = "m\<lparr>mi_MinionID := cfg_ID msg, mi_Role := cfg_Role msg, mi_PrivateIP := cfg_PrivateIP msg\<rparr>"
  obtain db2 where 2: "Commit (MinionRow ?m) db1 = Some db2" "db_inv db2" "frame MinionTable db1 db2"
      "minionK.allRows db2 = [?m]"
    using minionK.Commit_sole [OF m(2,3), of ?m] by (auto split: if_splits)
  obtain db3 where 3: "updatePolicy n fs (cfg_Role msg) (cfg_Spec msg) db2 = Return db3" "db_inv db3"
      "minionK.allRows db3 = minionK.allRows db2"
      "mset (map connKey (SelectFromConnection db3 nilCheck)) = mset (map dslConnKey (QueryConnections d))"
      "if cfg_Role msg = Master
       then \<exists>cs. QueryContainers d = Some cs \<and> mset (map containerKey (SelectFromContainer db3 nilCheck)) = mset (map dslContainerKey cs)
       else SelectFromContainer db3 nilCheck = SelectFromContainer db2 nilCheck"
    using updatePolicy_effect [OF 2(2) load] by blast
  have "SelectFromContainer db2 nilCheck = SelectFromContainer db nilCheck"
    using containerK.frame_allRows [OF m(4)] containerK.frame_allRows [OF 2(3)] by (simp add: select_rows)
  moreover have "setMinionTxn n fs msg db = Return db3"
    using m(1) 2(1) 3(1) by (simp add: setMinionTxn_def)
  moreover have "SelectFromMinion db3 nilCheck = [?m]" using 2(4) 3(3) by (simp add: select_rows)
  ultimately show ?thesis using 3 by (intro exI [of _ db3] exI [of _ ?m]) (simp split: if_splits)
qed


definition sampleConfig :: MinionConfig where
  "sampleConfig = \<lparr>cfg_ID = ''i-1'', cfg_Role = Worker, cfg_PrivateIP = ''10.1.2.3'',
     cfg_Spec = ''(label \"a\" (docker \"i\")) (connect 80 \"a\" \"a\")''\<rparr>"

definition sampleSpec :: Dsl where
  "sampleSpec = (case NewDsl 8 [] [] (initScan '''' (cfg_Spec sampleConfig)) of
     Return d \<Rightarrow> d | _ \<Rightarrow> \<lparr>dsl_code = '''', dsl_ctx = EvalCtx 0 0 0 0 0 None, dsl_heap = emptySt\<rparr>)"

lemma sampleSpec_loads: "NewDsl 8 [] [] (initScan '''' (cfg_Spec sampleConfig)) = Return sampleSpec"
proof -
  have "(case NewDsl 8 [] [] (initScan '''' (cfg_Spec sampleConfig)) of Return d \<Rightarrow> True | _ \<Rightarrow> False)"
    by code_simp
  then show ?thesis
    by (cases "NewDsl 8 [] [] (initScan '''' (cfg_Spec sampleConfig))") (simp_all add: sampleSpec_def)
qed

lemma noMinions: "length (SelectFromMinion New nilCheck) \<le> 1"
  by code_simp




text \<open>
  Booting etcd stores the given members, sorted, in the only etcd row and touches nothing else; the
  leadership recorded in the row survives.
\<close>

lemma BootEtcd_stores_members:
  assumes "db_inv db" and "SelectFromEtcd db nilCheck = [e]"
  shows "\<exists>db'. BootEtcd ips db = Some db' \<and> db_inv db' \<and> SelectFromEtcd db' nilCheck = [e\<lparr>e_EtcdIPs := sort ips\<rparr>] \<and>
    SelectFromMinion db' nilCheck = SelectFromMinion db nilCheck"
proof -
  have e: "etcdK.allRows db = [e]" using assms(2) by (simp add: select_rows)
  obtain db1 where 1: "Commit (EtcdRow (e\<lparr>e_EtcdIPs := sort ips\<rparr>)) db = Some db1" "db_inv db1" "frame EtcdTable db db1"
      "etcdK.allRows db1 = [e\<lparr>e_EtcdIPs := sort ips\<rparr>]"
    using etcdK.Commit_sole [OF assms(1) e, of "e\<lparr>e_EtcdIPs := sort ips\<rparr>"] by (auto split: if_splits)
  then show ?thesis
    using assms(2) minionK.frame_allRows [OF 1(3)]
    by (intro exI [of _ "fold alert allTables db1"]) (simp add: BootEtcd_def bootEtcdTxn_def select_rows)
qed

end
