(* ===== verification/Foreman.thy ===== *)
theory Foreman
  imports Minion
begin

text \<open>
  The controller's side of the minion protocol (\<open>src/cluster/foreman.go\<close>): a client per machine, kept by mark and
  sweep, and the distribution of configurations.

  The remote calls are parameters: \<open>newClient ip\<close> says whether a client can be made, \<open>getMinion ip\<close> is the
  configuration a minion reports (\<open>None\<close> on an error) and \<open>setMinion ip cfg\<close> whether it accepts one.  What the
  foreman sends is returned as a list of messages.  The goroutines of \<open>forEachMinion\<close> work on different minions and
  are run one after the other.
\<close>

record minion =
  mn_connected :: bool
  mn_machine :: Machine
  mn_config :: MinionConfig
  mn_mark :: bool

definition zeroConfig :: MinionConfig where
  "zeroConfig = \<lparr>cfg_ID = '''', cfg_Role = 0, cfg_PrivateIP = '''', cfg_Spec = ''''\<rparr>"

definition newMinion :: minion where
  "newMinion = \<lparr>mn_connected = False, mn_machine = zeroMachine 0, mn_config = zeroConfig, mn_mark = False\<rparr>"

datatype message =
    SetMinion string MinionConfig
  | BootEtcdMsg string "string list"

section \<open>The minion map\<close>

fun markMachines :: "(string \<Rightarrow> bool) \<Rightarrow> Machine list \<Rightarrow> (string, minion) gomap \<Rightarrow> (string, minion) gomap" where
  "markMachines newClient [] minions = minions"
| "markMachines newClient (m # ms) minions =
     (case gget minions (m_PublicIP m) of
        Some mn \<Rightarrow> markMachines newClient ms (gput (m_PublicIP m) (mn\<lparr>mn_machine := m, mn_mark := True\<rparr>) minions)
      | None \<Rightarrow>
          if \<not> newClient (m_PublicIP m) then markMachines newClient ms minions
          else markMachines newClient ms (gput (m_PublicIP m) (newMinion\<lparr>mn_machine := m, mn_mark := True\<rparr>) minions))"

definition sweepMinions :: "(string, minion) gomap \<Rightarrow> (string, minion) gomap" where
  "sweepMinions minions = map (\<lambda>(k, mn). (k, mn\<lparr>mn_mark := False\<rparr>)) (filter (\<lambda>(k, mn). mn_mark mn) minions)"

definition updateMinionMap :: "(string \<Rightarrow> bool) \<Rightarrow> Machine list \<Rightarrow> (string, minion) gomap \<Rightarrow> (string, minion) gomap" where
  "updateMinionMap newClient machines minions = sweepMinions (markMachines newClient machines minions)"

definition forEachMinion :: "(string \<Rightarrow> minion \<Rightarrow> minion) \<Rightarrow> (string, minion) gomap \<Rightarrow> (string, minion) gomap" where
  "forEachMinion act minions = map (\<lambda>(k, mn). (k, act k mn)) minions"

text \<open>The body of both requests for the current configuration; on an error \<open>getMinion\<close> returns the zero value.\<close>

definition askConfig :: "(string \<Rightarrow> MinionConfig option) \<Rightarrow> string \<Rightarrow> minion \<Rightarrow> minion" where
  "askConfig getMinion ip mn =
     (case getMinion ip of
        None \<Rightarrow> mn\<lparr>mn_config := zeroConfig, mn_connected := False\<rparr>
      | Some cfg \<Rightarrow> mn\<lparr>mn_config := cfg, mn_connected := True\<rparr>)"

definition booted :: "int \<Rightarrow> Machine \<Rightarrow> bool" where
  "booted clusterID m \<longleftrightarrow> m_ClusterID m = clusterID \<and> m_PublicIP m \<noteq> '''' \<and> m_PrivateIP m \<noteq> '''' \<and> m_CloudID m \<noteq> ''''"

section \<open>Start\<close>

text \<open>\<open>PBToRole\<close> panics on an unknown role.\<close>

fun initRoles :: "minion list \<Rightarrow> Database \<Rightarrow> Database option" where
  "initRoles [] view = Some view"
| "initRoles (mn # mns) view =
     (if mn_connected mn then
        (case PBToRole (cfg_Role (mn_config mn)) of
           None \<Rightarrow> None
         | Some role \<Rightarrow>
             (case Commit (MachineRow ((mn_machine mn)\<lparr>m_Role := role\<rparr>)) view of
                None \<Rightarrow> None
              | Some view1 \<Rightarrow> initRoles mns view1))
      else initRoles mns view)"

definition initForeman :: "(string \<Rightarrow> bool) \<Rightarrow> (string \<Rightarrow> MinionConfig option) \<Rightarrow> int
    \<Rightarrow> (string, minion) gomap \<Rightarrow> (string, minion) gomap txn" where
  "initForeman newClient getMinion clusterID minions view =
     (let minions1 = forEachMinion (askConfig getMinion)
            (updateMinionMap newClient (SelectFromMachine view (booted clusterID)) minions) in
      map_option (Pair minions1) (initRoles (map snd minions1) view))"

section \<open>A wake-up\<close>

definition specOf :: "int \<Rightarrow> Database \<Rightarrow> string" where
  "specOf clusterID view = (case SelectFromCluster view (\<lambda>c. cl_ID c = clusterID) of [c] \<Rightarrow> cl_Spec c | _ \<Rightarrow> '''')"

definition etcdIPs :: "(string, minion) gomap \<Rightarrow> string list" where
  "etcdIPs minions = map (\<lambda>(k, mn). m_PrivateIP (mn_machine mn))
     (filter (\<lambda>(k, mn). m_Role (mn_machine mn) = Master \<and> m_PrivateIP (mn_machine mn) \<noteq> '''') minions)"

definition newConfig :: "string \<Rightarrow> minion \<Rightarrow> MinionConfig option" where
  "newConfig spec mn = map_option (\<lambda>role. \<lparr>cfg_ID = m_CloudID (mn_machine mn), cfg_Role = role,
     cfg_PrivateIP = m_PrivateIP (mn_machine mn), cfg_Spec = spec\<rparr>) (RoleToPB (m_Role (mn_machine mn)))"

definition configure :: "(string \<Rightarrow> MinionConfig \<Rightarrow> bool) \<Rightarrow> string \<Rightarrow> string list \<Rightarrow> string \<times> minion \<Rightarrow> message list option" where
  "configure setMinion spec ips p =
     (case p of (ip, mn) \<Rightarrow>
        if \<not> mn_connected mn then Some []
        else
          (case newConfig spec mn of
             None \<Rightarrow> None
           | Some cfg \<Rightarrow>
               if cfg = mn_config mn then Some []
               else if \<not> setMinion ip cfg then Some [SetMinion ip cfg]
               else Some [SetMinion ip cfg, BootEtcdMsg ip ips]))"

fun configureAll :: "(string \<Rightarrow> MinionConfig \<Rightarrow> bool) \<Rightarrow> string \<Rightarrow> string list \<Rightarrow> (string, minion) gomap \<Rightarrow> message list option" where
  "configureAll setMinion spec ips [] = Some []"
| "configureAll setMinion spec ips (p # ps) =
     (case configure setMinion spec ips p of
        None \<Rightarrow> None
      | Some ms \<Rightarrow> map_option ((@) ms) (configureAll setMinion spec ips ps))"

definition runOnce :: "(string \<Rightarrow> bool) \<Rightarrow> (string \<Rightarrow> MinionConfig option) \<Rightarrow> (string \<Rightarrow> MinionConfig \<Rightarrow> bool) \<Rightarrow> int
    \<Rightarrow> Database \<Rightarrow> (string, minion) gomap \<Rightarrow> ((string, minion) gomap \<times> message list) option" where
  "runOnce newClient getMinion setMinion clusterID view minions =
     (let machines = SelectFromMachine view (booted clusterID);
          spec = specOf clusterID view;
          minions1 = forEachMinion (askConfig getMinion) (updateMinionMap newClient machines minions) in
      if \<not> list_ex (\<lambda>(k, mn). mn_connected mn) minions1 then Some (minions1, [])
      else map_option (Pair minions1) (configureAll setMinion spec (etcdIPs minions1) minions1))"

section \<open>Mark and sweep\<close>

definition swept :: "(string, minion) gomap \<Rightarrow> bool" where
  "swept minions \<longleftrightarrow> wf_gomap minions \<and> list_all (\<lambda>(k, mn). \<not> mn_mark mn) minions"

lemma markMachines_spec:
  "wf_gomap minions \<Longrightarrow> wf_gomap (markMachines newClient ms minions) \<and>
     gget (markMachines newClient ms minions) k =
       (let mine = filter (\<lambda>m. m_PublicIP m = k) ms in
        if mine = [] then gget minions k
        else map_option (\<lambda>mn. mn\<lparr>mn_machine := last mine, mn_mark := True\<rparr>)
          (case gget minions k of Some mn \<Rightarrow> Some mn | None \<Rightarrow> if newClient k then Some newMinion else None))"
proof (induction ms arbitrary: minions)
  case (Cons m ms)
  let ?k = "m_PublicIP m"
  consider mn where "gget minions ?k = Some mn" | "gget minions ?k = None" "newClient ?k" | "gget minions ?k = None" "\<not> newClient ?k"
    by (cases "gget minions ?k") auto
  then show ?case
  proof cases
    case 1
    let ?m = "gput ?k (mn\<lparr>mn_machine := m, mn_mark := True\<rparr>) minions"
    have "wf_gomap ?m" using Cons.prems by simp
    from Cons.IH [OF this] 1 show ?thesis by (auto simp: Let_def go_map split: if_splits)
  next
    case 2
    let ?m = "gput ?k (newMinion\<lparr>mn_machine := m, mn_mark := True\<rparr>) minions"
    have "wf_gomap ?m" using Cons.prems by simp
    from Cons.IH [OF this] 2 show ?thesis by (auto simp: Let_def go_map split: if_splits)
  next
    case 3
    with Cons.IH [OF Cons.prems] show ?thesis by (auto simp: Let_def)
  qed
qed simp

lemma sweepMinions_spec:
  assumes "wf_gomap m"
  shows "swept (sweepMinions m) \<and>
    gget (sweepMinions m) k = (case gget m k of None \<Rightarrow> None | Some mn \<Rightarrow> if mn_mark mn then Some (mn\<lparr>mn_mark := False\<rparr>) else None)"
proof -
  have get: "gget (sweepMinions m) k = (case gget m k of None \<Rightarrow> None | Some mn \<Rightarrow> if mn_mark mn then Some (mn\<lparr>mn_mark := False\<rparr>) else None)"
    using assms
  proof (induction m)
    case (Cons p m)
    obtain a mn where p: "p = (a, mn)" by force
    have "gget m a = None" using Cons.prems p by (simp add: map_of_eq_None_iff)
    then show ?case using Cons by (auto simp: sweepMinions_def p)
  qed (simp add: sweepMinions_def)
  have "map fst (sweepMinions m) = map fst (filter (\<lambda>(k, mn). mn_mark mn) m)"
    by (auto simp: sweepMinions_def)
  then have "wf_gomap (sweepMinions m)" using assms by (simp add: distinct_map_filter)
  with get show ?thesis by (auto simp: swept_def sweepMinions_def list_all_iff)
qed

lemma updateMinionMap_spec:
  assumes "swept minions"
  shows "swept (updateMinionMap newClient machines minions) \<and>
    gget (updateMinionMap newClient machines minions) k =
      (let mine = filter (\<lambda>m. m_PublicIP m = k) machines in
       if mine = [] then None
       else map_option (\<lambda>mn. mn\<lparr>mn_machine := last mine\<rparr>)
         (case gget minions k of Some mn \<Rightarrow> Some mn | None \<Rightarrow> if newClient k then Some newMinion else None))"
proof -
  have wf: "wf_gomap minions" and unmarked: "gget minions k = Some mn \<Longrightarrow> \<not> mn_mark mn" for mn
    using assms by (auto simp: swept_def list_all_iff dest: map_of_SomeD)
  have same: "mn\<lparr>mn_machine := x, mn_mark := False\<rparr> = mn\<lparr>mn_machine := x\<rparr>" if "\<not> mn_mark mn" for mn x
    using that by (cases mn) simp
  note m = markMachines_spec [OF wf, of newClient machines]
  note s = sweepMinions_spec [of "markMachines newClient machines minions"]
  show ?thesis
    using m [of k] s [of k] unmarked same [of newMinion]
    by (auto simp: updateMinionMap_def Let_def same newMinion_def split: option.splits if_splits)
qed

text \<open>
  C33: The minion map tracks the machines: after an update there is a minion for exactly the public
  addresses of running machines for which a client exists or can be made, it knows the newest machine row
  of its address, connections survive, and no mark is left behind.
\<close>

theorem updateMinionMap_tracks:
  assumes "swept minions"
  shows "swept (updateMinionMap newClient machines minions) \<and>
    gget (updateMinionMap newClient machines minions) k =
      (let mine = filter (\<lambda>m. m_PublicIP m = k) machines in
       if mine = [] then None
       else map_option (\<lambda>mn. mn\<lparr>mn_machine := last mine\<rparr>)
         (case gget minions k of Some mn \<Rightarrow> Some mn | None \<Rightarrow> if newClient k then Some newMinion else None))"
  by (rule updateMinionMap_spec [OF assms])

theorem updateMinionMap_tracks_witness:
  "swept [(''1.1.1.1'', newMinion)] \<and>
   gget (updateMinionMap (\<lambda>_. True) [(zeroMachine 4)\<lparr>m_PublicIP := ''2.2.2.2''\<rparr>] [(''1.1.1.1'', newMinion)]) ''1.1.1.1'' = None"
proof -
  have s: "swept [(''1.1.1.1'', newMinion)]" by (simp add: swept_def newMinion_def)
  show ?thesis using updateMinionMap_tracks [OF s, of "\<lambda>_. True" _ "''1.1.1.1''"] s by (simp add: Let_def)
qed

section \<open>What the minions are told\<close>

definition told :: "(string \<Rightarrow> MinionConfig \<Rightarrow> bool) \<Rightarrow> string \<Rightarrow> string list \<Rightarrow> string \<times> minion \<Rightarrow> message list" where
  "told setMinion spec ips p = (let cfg = the (newConfig spec (snd p)) in
     if \<not> mn_connected (snd p) \<or> cfg = mn_config (snd p) then []
     else if setMinion (fst p) cfg then [SetMinion (fst p) cfg, BootEtcdMsg (fst p) ips] else [SetMinion (fst p) cfg])"

lemma configureAll_told:
  "list_all (\<lambda>p. newConfig spec (snd p) \<noteq> None) ps \<Longrightarrow>
     configureAll setMinion spec ips ps = Some (concat (map (told setMinion spec ips) ps))"
  by (induction ps) (auto simp: told_def configure_def Let_def split_beta)

lemma told_set:
  "SetMinion ip cfg \<in> set (told setMinion spec ips p) \<longleftrightarrow>
     fst p = ip \<and> mn_connected (snd p) \<and> cfg = the (newConfig spec (snd p)) \<and> cfg \<noteq> mn_config (snd p)"
  by (auto simp: told_def Let_def)

lemma told_etcd:
  "BootEtcdMsg ip l \<in> set (told setMinion spec ips p) \<Longrightarrow>
     l = ips \<and> (\<exists>cfg. SetMinion ip cfg \<in> set (told setMinion spec ips p) \<and> setMinion ip cfg)"
  by (auto simp: told_def Let_def split: if_splits)

lemma configureAll_spec:
  assumes some: "\<And>ip mn. (ip, mn) \<in> set ps \<Longrightarrow> newConfig spec mn \<noteq> None"
  shows "\<exists>msgs. configureAll setMinion spec ips ps = Some msgs \<and>
    (\<forall>ip cfg. SetMinion ip cfg \<in> set msgs \<longleftrightarrow>
      (\<exists>mn. (ip, mn) \<in> set ps \<and> mn_connected mn \<and> newConfig spec mn = Some cfg \<and> cfg \<noteq> mn_config mn)) \<and>
    (\<forall>ip l. BootEtcdMsg ip l \<in> set msgs \<longrightarrow> l = ips \<and> (\<exists>cfg. SetMinion ip cfg \<in> set msgs \<and> setMinion ip cfg))"
proof -
  let ?msgs = "concat (map (told setMinion spec ips) ps)"
  have mem: "x \<in> set ?msgs \<longleftrightarrow> (\<exists>p \<in> set ps. x \<in> set (told setMinion spec ips p))" for x by simp
  have some': "newConfig spec (snd p) = Some (the (newConfig spec (snd p)))" if "p \<in> set ps" for p
    using some [of "fst p" "snd p"] that by simp
  then have "list_all (\<lambda>p. newConfig spec (snd p) \<noteq> None) ps"
    unfolding list_all_iff by (metis option.discI)
  then have run: "configureAll setMinion spec ips ps = Some ?msgs" by (rule configureAll_told)
  have sets: "SetMinion ip cfg \<in> set ?msgs \<longleftrightarrow>
      (\<exists>mn. (ip, mn) \<in> set ps \<and> mn_connected mn \<and> newConfig spec mn = Some cfg \<and> cfg \<noteq> mn_config mn)" for ip cfg
    unfolding mem told_set
  proof
    assume "\<exists>p \<in> set ps. fst p = ip \<and> mn_connected (snd p) \<and> cfg = the (newConfig spec (snd p)) \<and> cfg \<noteq> mn_config (snd p)"
    then obtain p where p: "p \<in> set ps" "fst p = ip" "mn_connected (snd p)" "cfg = the (newConfig spec (snd p))" "cfg \<noteq> mn_config (snd p)"
      by blast
    then show "\<exists>mn. (ip, mn) \<in> set ps \<and> mn_connected mn \<and> newConfig spec mn = Some cfg \<and> cfg \<noteq> mn_config mn"
      using some' [OF p(1)] by (intro exI [of _ "snd p"]) auto
  qed force
  have etcd: "l = ips \<and> (\<exists>cfg. SetMinion ip cfg \<in> set ?msgs \<and> setMinion ip cfg)" if boot: "BootEtcdMsg ip l \<in> set ?msgs" for ip l
  proof -
    from boot obtain p where p: "p \<in> set ps" "BootEtcdMsg ip l \<in> set (told setMinion spec ips p)" unfolding mem by blast
    then show ?thesis unfolding mem using told_etcd [OF p(2)] by blast
  qed
  show ?thesis
    by (rule exI [of _ ?msgs], rule conjI [OF run], rule conjI, intro allI, rule sets, intro allI impI, rule etcd)
qed

lemma RoleToPB_roles: "m_Role m \<in> {RoleNone, Worker, Master} \<Longrightarrow> RoleToPB (m_Role m) = Some (m_Role m)"
  by (auto simp: RoleToPB_def role_consts)


text \<open>
  C34: The comparison with the reported configuration is never successful on a cluster with a specification:
  minions do not report it, so every connected minion is configured again on every wake-up.
\<close>

theorem configuration_always_resent:
  assumes "GetMinionConfig db = Some cfg" and "getMinion ip = Some cfg" and "spec \<noteq> ''''"
    and "newConfig spec (askConfig getMinion ip mn) = Some new"
  shows "\<exists>msgs. configure setMinion spec ips (ip, askConfig getMinion ip mn) = Some (SetMinion ip new # msgs)"
proof -
  have "cfg_Spec cfg = ''''"
    using assms(1) by (auto simp: GetMinionConfig_def split: list.splits)
  moreover have "cfg_Spec new = spec" using assms(4) by (auto simp: newConfig_def)
  ultimately have "new \<noteq> cfg" using assms(3) by auto
  then show ?thesis using assms(2,4) by (simp add: configure_def askConfig_def)
qed

definition sampleMinion :: minion where
  "sampleMinion = newMinion\<lparr>mn_machine := (zeroMachine 4)\<lparr>m_PublicIP := ''2.2.2.2'', m_PrivateIP := ''10.2.2.2'', m_CloudID := ''i-4'',
     m_ClusterID := 1, m_Role := Master\<rparr>\<rparr>"

theorem configuration_always_resent_witness:
  "GetMinionConfig New = Some zeroConfig \<and>
   (\<exists>new msgs. configure (\<lambda>ip cfg. True) ''(policy)'' [] (''2.2.2.2'', askConfig (\<lambda>ip. Some zeroConfig) ''2.2.2.2'' sampleMinion) =
     Some (SetMinion ''2.2.2.2'' new # msgs) \<and> cfg_Spec new = ''(policy)'')"
proof -
  have g: "GetMinionConfig New = Some zeroConfig" by code_simp
  obtain new where n: "newConfig ''(policy)'' (askConfig (\<lambda>ip. Some zeroConfig) ''2.2.2.2'' sampleMinion) = Some new"
      "cfg_Spec new = ''(policy)''"
    by (simp add: newConfig_def askConfig_def sampleMinion_def newMinion_def RoleToPB_def role_consts)
  show ?thesis
    using configuration_always_resent [OF g, of "\<lambda>ip. Some zeroConfig" "''2.2.2.2''" "''(policy)''" sampleMinion new
      "\<lambda>ip cfg. True" "[]"] n g
    by blast
qed


end
