(* ===== verification/Supervisor.thy ===== *)
theory Supervisor
  imports Docker Reconcile Db_Txn
begin

text \<open>
  The supervisor of a minion (\<open>src/minion/supervisor/supervisor.go\<close>).  On workers it mirrors the
  containers that docker runs into the container table; on every minion it runs the system containers of its role.

  No result of the docker client influences what the supervisor of the system containers does next
  (errors are only logged), so that part returns the sequence of calls it makes.
\<close>

section \<open>Application containers\<close>

definition appScore :: "Container \<Rightarrow> dkContainer \<Rightarrow> int" where
  "appScore dbc dkc = (if c_SchedID dbc \<noteq> dk_ID dkc then - 1 else 0)"

definition fillApp :: "dkContainer \<times> Container \<Rightarrow> Container" where
  "fillApp p = (case p of (dkc, dbc) \<Rightarrow>
     dbc\<lparr>c_SchedID := dk_ID dkc, c_Pid := dk_Pid dkc, c_Image := dk_Image dkc, c_Command := dk_Path dkc # dk_Args dkc\<rparr>)"

definition runAppTransact :: "dkContainer list \<Rightarrow> string list txn" where
  "runAppTransact dkcsArgs view =
     (let (pairs, dbcs, dkcs) = Join (SelectFromContainer view nilCheck) dkcsArgs appScore;
          tearDowns = map c_SchedID dbcs;
          (fresh, view1) = insertLoop InsertContainer dkcs (removeLoop ContainerRow dbcs view) in
      map_option (Pair tearDowns) (commitLoop ContainerRow (map fillApp (map prod.swap pairs @ fresh)) view1))"

text \<open>\<open>dkc.Name[1:]\<close> panics on an empty name.\<close>

fun delStoppedLoop :: "'d daemon \<Rightarrow> dkContainer list \<Rightarrow> 'd docker \<Rightarrow> 'd docker option" where
  "delStoppedLoop api [] s = Some s"
| "delStoppedLoop api (dkc # dkcs) s =
     (case dk_Name dkc of
        [] \<Rightarrow> None
      | _ # name \<Rightarrow> delStoppedLoop api dkcs (snd (dkRemove api name s)))"

definition delStopped :: "'d daemon \<Rightarrow> 'd docker \<Rightarrow> 'd docker option" where
  "delStopped api s =
     (case dkList api (dmn s) [(''status'', [''exited''])] of
        None \<Rightarrow> Some s
      | Some containers \<Rightarrow> delStoppedLoop api containers s)"

text \<open>One wake-up of \<open>runApp\<close>.\<close>

definition runApp :: "'d daemon \<Rightarrow> Database \<Rightarrow> 'd docker \<Rightarrow> (Database \<times> 'd docker) option" where
  "runApp api db s =
     (let minions = SelectFromMinion db nilCheck in
      if length minions \<noteq> 1 \<or> mi_Role (minions ! 0) \<noteq> Worker then Some (db, s)
      else
        (case delStopped api s of
           None \<Rightarrow> None
         | Some s1 \<Rightarrow>
             (case dkList api (dmn s1) [(''label'', [SchedulerLabelPair])] of
                None \<Rightarrow> Some (db, s1)
              | Some dkcs \<Rightarrow> map_option (\<lambda>(_, db1). (db1, s1)) (Transact (runAppTransact dkcs) db))))"

section \<open>System containers\<close>

definition etcdName :: string where "etcdName = ''etcd''"
definition Ovncontroller :: string where "Ovncontroller = ''ovn-controller''"
definition Ovnnorthd :: string where "Ovnnorthd = ''ovn-northd''"
definition Ovsdb :: string where "Ovsdb = ''ovsdb-server''"
definition Ovsvswitchd :: string where "Ovsvswitchd = ''ovs-vswitchd''"
definition Swarm :: string where "Swarm = ''swarm''"

lemmas sysNames = etcdName_def Ovncontroller_def Ovnnorthd_def Ovsdb_def Ovsvswitchd_def Swarm_def

definition sysImages :: "(string, string) gomap" where
  "sysImages =
    [(etcdName, ''quay.io/coreos/etcd:v2.2.4''),
     (Ovncontroller, ''quay.io/netsys/ovn-controller''),
     (Ovnnorthd, ''quay.io/netsys/ovn-northd''),
     (Ovsdb, ''quay.io/netsys/ovsdb-server''),
     (Ovsvswitchd, ''quay.io/netsys/ovs-vswitchd''),
     (Swarm, ''swarm:1.2.0'')]"

definition etcdHeartbeatInterval :: string where "etcdHeartbeatInterval = ''500''"
definition etcdElectionTimeout :: string where "etcdElectionTimeout = ''5000''"

record supervisor =
  sv_role :: Role
  sv_etcdIPs :: "string list"
  sv_leaderIP :: string
  sv_IP :: string
  sv_leader :: bool

definition newSupervisor :: supervisor where
  "newSupervisor = \<lparr>sv_role = RoleNone, sv_etcdIPs = [], sv_leaderIP = '''', sv_IP = '''', sv_leader = False\<rparr>"

datatype dkCall =
    CallRun RunOptions
  | CallRemove string
  | CallExec string "string list"

definition svRun :: "string \<Rightarrow> string list \<Rightarrow> dkCall" where
  "svRun name args = CallRun
     \<lparr>ro_Name = name, ro_Image = (case gget sysImages name of None \<Rightarrow> '''' | Some img \<Rightarrow> img), ro_Args = args,
      ro_Labels = [], ro_Env = [],
      ro_Binds = (if name \<in> {etcdName, Ovsdb} then [''/usr/share/ca-certificates:/etc/ssl/certs''] else []),
      ro_NetworkMode = ''host'', ro_PidMode = '''', ro_Privileged = (name = Ovsvswitchd),
      ro_VolumesFrom = (if name \<in> {Ovsvswitchd, Ovnnorthd, Ovncontroller} then [Ovsdb] else [])\<rparr>"

definition RemoveAll :: "dkCall list" where
  "RemoveAll = map (CallRemove \<circ> fst) sysImages"

definition nodeName :: "string \<Rightarrow> string" where
  "nodeName ip = ''master-'' @ ip"

definition initialClusterString :: "string list \<Rightarrow> string" where
  "initialClusterString ips = joinStr '','' (map (\<lambda>ip. nodeName ip @ ''=http://'' @ ip @ '':2380'') ips)"

definition workerEtcdArgs :: "string list \<Rightarrow> string list" where
  "workerEtcdArgs ips =
    [''--initial-cluster='' @ initialClusterString ips,
     ''--heartbeat-interval='' @ etcdHeartbeatInterval,
     ''--election-timeout='' @ etcdElectionTimeout,
     ''--proxy=on'']"

definition workerSwarmArgs :: "string \<Rightarrow> string list" where
  "workerSwarmArgs ip = [''join'', ''--addr='' @ ip @ '':2375'', ''etcd://127.0.0.1:2379'']"

definition vsctlArgs :: "string \<Rightarrow> string \<Rightarrow> string \<Rightarrow> string list" where
  "vsctlArgs ip leaderIP minionID =
    [''ovs-vsctl'', ''set'', ''Open_vSwitch'', ''.'',
     ''external_ids:ovn-remote=\"tcp:'' @ leaderIP @ '':6640\"'',
     ''external_ids:ovn-encap-ip='' @ ip,
     ''external_ids:ovn-encap-type=\"geneve\"'',
     ''external_ids:api_server=\"http://'' @ leaderIP @ '':9000\"'',
     ''external_ids:system-id=\"di-'' @ minionID @ ''\"'',
     ''--'', ''add-br'', ''di-int'',
     ''--'', ''set'', ''bridge'', ''di-int'', ''fail_mode=secure'']"

text \<open>\<open>updateWorker\<close> reads the minion table again; \<open>db\<close> is the database at that moment.\<close>

definition updateWorker :: "Database \<Rightarrow> supervisor \<Rightarrow> string \<Rightarrow> string \<Rightarrow> string list \<Rightarrow> dkCall list" where
  "updateWorker db sv ip leaderIP ips =
     (if sv_etcdIPs sv \<noteq> ips then [CallRemove etcdName] else []) @
     (if sv_leaderIP sv \<noteq> leaderIP \<or> sv_IP sv \<noteq> ip then [CallRemove Swarm] else []) @
     [svRun etcdName (workerEtcdArgs ips), svRun Ovsdb [], svRun Ovsvswitchd []] @
     (if leaderIP = '''' \<or> ip = '''' then []
      else
        svRun Swarm (workerSwarmArgs ip) #
        (case SelectFromMinion db nilCheck of
           [m] \<Rightarrow> [CallExec Ovsvswitchd (vsctlArgs ip leaderIP (mi_MinionID m)), CallRemove Ovncontroller, svRun Ovncontroller []]
         | _ \<Rightarrow> []))"

definition masterEtcdArgs :: "string \<Rightarrow> string list \<Rightarrow> string list" where
  "masterEtcdArgs ip ips =
    [''--name=master-'' @ ip,
     ''--initial-cluster='' @ initialClusterString ips,
     ''--advertise-client-urls=http://'' @ ip @ '':2379'',
     ''--listen-peer-urls=http://'' @ ip @ '':2380'',
     ''--initial-advertise-peer-urls=http://'' @ ip @ '':2380'',
     ''--listen-client-urls=http://0.0.0.0:2379'',
     ''--heartbeat-interval='' @ etcdHeartbeatInterval,
     ''--initial-cluster-state=new'',
     ''--election-timeout='' @ etcdElectionTimeout]"

definition masterSwarmArgs :: "string \<Rightarrow> string list" where
  "masterSwarmArgs ip =
    (let swarmAddr = ip @ '':2377'' in
     [''manage'', ''--replication'', ''--addr='' @ swarmAddr, ''--host='' @ swarmAddr, ''etcd://127.0.0.1:2379''])"

definition updateMaster :: "supervisor \<Rightarrow> string \<Rightarrow> string list \<Rightarrow> bool \<Rightarrow> dkCall list" where
  "updateMaster sv ip ips leader =
     (if sv_IP sv \<noteq> ip \<or> sv_etcdIPs sv \<noteq> ips then [CallRemove etcdName] else []) @
     (if sv_IP sv \<noteq> ip then [CallRemove Swarm] else []) @
     (if ip = '''' \<or> ips = [] then []
      else
        [svRun etcdName (masterEtcdArgs ip ips), svRun Ovsdb [], svRun Swarm (masterSwarmArgs ip),
         if leader then svRun Ovnnorthd [] else CallRemove Ovnnorthd])"

definition soleRow :: "'r \<Rightarrow> 'r list \<Rightarrow> 'r" where
  "soleRow zero rs = (case rs of [r] \<Rightarrow> r | _ \<Rightarrow> zero)"

definition wantedSupervisor :: "Database \<Rightarrow> supervisor" where
  "wantedSupervisor db =
     (let minion = soleRow (zeroMinion 0) (SelectFromMinion db nilCheck);
          etcdRow = soleRow (zeroEtcd 0) (SelectFromEtcd db nilCheck) in
      \<lparr>sv_role = mi_Role minion, sv_etcdIPs = e_EtcdIPs etcdRow, sv_leaderIP = e_LeaderIP etcdRow,
       sv_IP = mi_PrivateIP minion, sv_leader = e_Leader etcdRow\<rparr>)"

text \<open>
  One wake-up of \<open>runSystem\<close>.  The five fields that are compared are all of the supervisor's
  state, so that after the call the state is what the database asked for.
\<close>

definition runSystemOnce :: "Database \<Rightarrow> supervisor \<Rightarrow> dkCall list \<times> supervisor" where
  "runSystemOnce db sv =
     (let want = wantedSupervisor db in
      if sv = want then ([], sv)
      else
        ((if sv_role want \<noteq> sv_role sv then RemoveAll else []) @
         (if sv_role want = Master then updateMaster sv (sv_IP want) (sv_etcdIPs want) (sv_leader want)
          else if sv_role want = Worker then updateWorker db sv (sv_IP want) (sv_leaderIP want) (sv_etcdIPs want)
          else []),
         want))"

section \<open>The container table mirrors docker\<close>

interpretation appJoin: keyed_join appScore c_SchedID dk_ID "\<lambda>_. True"
  by unfold_locales (auto simp: appScore_def)

definition appKey :: "Container \<Rightarrow> string \<times> int \<times> string \<times> string list" where
  "appKey c = (c_SchedID c, c_Pid c, c_Image c, c_Command c)"

definition dkKey :: "dkContainer \<Rightarrow> string \<times> int \<times> string \<times> string list" where
  "dkKey c = (dk_ID c, dk_Pid c, dk_Image c, dk_Path c # dk_Args c)"

lemma fillApp_simps [simp]:
  "appKey (fillApp p) = dkKey (fst p)" "c_ID (fillApp p) = c_ID (snd p)"
  by (simp_all add: fillApp_def appKey_def dkKey_def case_prod_unfold)

lemma DeepEqual_appKey:
  assumes "DeepEqual (ContainerRow a) (ContainerRow b)" shows "appKey a = appKey b"
proof -
  have "appKey (a\<lparr>c_Env := [], c_Exclusive := []\<rparr>) = appKey (b\<lparr>c_Env := [], c_Exclusive := []\<rparr>)"
    using assms by simp
  then show ?thesis by (simp add: appKey_def)
qed

text \<open>
  C35: The container table of a worker mirrors docker: after the transaction it has exactly one row for
  each container that docker lists, with its process, image and command, and no other; reported for tear-down are
  exactly the identities of rows that no container answers to.
\<close>

theorem runAppTransact_mirrors:
  assumes "db_inv db"
  shows "\<exists>tearDowns db'. runAppTransact dkcs db = Some (tearDowns, db') \<and> db_inv db' \<and> frame ContainerTable db db' \<and>
    mset (map appKey (SelectFromContainer db' nilCheck)) = mset (map dkKey dkcs) \<and>
    mset tearDowns = mset (map c_SchedID (SelectFromContainer db nilCheck)) - mset (map dk_ID dkcs)"
proof -
  obtain pairs dbcs rest where
    join: "Join (SelectFromContainer db nilCheck) dkcs appScore = (pairs, dbcs, rest)"
    using prod_cases3 by blast
  obtain fresh db2 where ins: "insertLoop InsertContainer rest (removeLoop ContainerRow dbcs db) = (fresh, db2)"
    by force
  have "\<exists>db'. commitLoop ContainerRow (map fillApp (map prod.swap pairs @ fresh)) db2 = Some db' \<and> db_inv db' \<and>
      frame ContainerTable db db' \<and> mset dkcs = mset (map fst (map prod.swap pairs @ fresh)) \<and>
      mset (map appKey (containerK.allRows db')) =
        mset (map appKey (filter (\<lambda>x. \<not> nilCheck x) (containerK.allRows db))) +
        mset (map (\<lambda>p. appKey (fillApp p)) (map prod.swap pairs @ fresh))"
    by (rule containerK.join_reconcile_left [OF assms join [unfolded select_rows] ins [unfolded InsertContainer_def]])
      (simp_all add: DeepEqual_appKey del: DeepEqual.simps)
  then obtain db' where db': "commitLoop ContainerRow (map fillApp (map prod.swap pairs @ fresh)) db2 = Some db'" "db_inv db'"
      "frame ContainerTable db db'" "mset dkcs = mset (map fst (map prod.swap pairs @ fresh))"
      "mset (map appKey (containerK.allRows db')) = mset (map (\<lambda>p. dkKey (fst p)) (map prod.swap pairs @ fresh))"
    by auto
  have "mset (map (\<lambda>p. dkKey (fst p)) (map prod.swap pairs @ fresh)) = mset (map dkKey dkcs)"
    using arg_cong [OF db'(4), of "image_mset dkKey"] by (simp add: multiset.map_comp comp_def)
  moreover have "mset (map c_SchedID dbcs) = mset (map c_SchedID (SelectFromContainer db nilCheck)) - mset (map dk_ID dkcs)"
    by (rule appJoin.lefts_keys [OF join]) (simp add: list_all_iff)
  ultimately show ?thesis using db' join ins by (simp add: runAppTransact_def select_rows)
qed

section \<open>The system containers run what the database asked for\<close>

text \<open>
  The system containers as a map from names to the arguments they were started with.  Running a
  container that exists already leaves it alone (\<open>create\<close> in the docker client returns the existing one) and
  may fail; a container may also die at any time.  When the process starts any containers may be left over.
\<close>

type_synonym running = "string \<rightharpoonup> string list"

inductive effects :: "running \<Rightarrow> dkCall list \<Rightarrow> running \<Rightarrow> bool" where
  no_call: "effects S [] S"
| started: "S (ro_Name ro) = None \<Longrightarrow> effects (S(ro_Name ro \<mapsto> ro_Args ro)) calls S' \<Longrightarrow> effects S (CallRun ro # calls) S'"
| not_started: "effects S calls S' \<Longrightarrow> effects S (CallRun ro # calls) S'"
| removed: "effects (S(n := None)) calls S' \<Longrightarrow> effects S (CallRemove n # calls) S'"
| executed: "effects S calls S' \<Longrightarrow> effects S (CallExec n args # calls) S'"

inductive sv_reach :: "supervisor \<Rightarrow> running \<Rightarrow> bool" where
  sv_init: "sv_reach newSupervisor S"
| sv_wake: "sv_reach sv S \<Longrightarrow> runSystemOnce db sv = (calls, sv') \<Longrightarrow> effects S calls S' \<Longrightarrow> sv_reach sv' S'"
| sv_dies: "sv_reach sv S \<Longrightarrow> sv_reach sv (S(n := None))"

definition wantedArgs :: "supervisor \<Rightarrow> string \<Rightarrow> string list option" where
  "wantedArgs sv n =
     (if sv_role sv = Master then
        if n = etcdName then Some (masterEtcdArgs (sv_IP sv) (sv_etcdIPs sv))
        else if n = Swarm then Some (masterSwarmArgs (sv_IP sv))
        else if n = Ovsdb then Some []
        else if n = Ovnnorthd \<and> (sv_leader sv \<or> sv_IP sv = '''' \<or> sv_etcdIPs sv = []) then Some []
        else None
      else if sv_role sv = Worker then
        if n = etcdName then Some (workerEtcdArgs (sv_etcdIPs sv))
        else if n = Swarm then Some (workerSwarmArgs (sv_IP sv))
        else if n \<in> {Ovsdb, Ovsvswitchd, Ovncontroller} then Some []
        else None
      else None)"

definition sv_consistent :: "supervisor \<Rightarrow> running \<Rightarrow> bool" where
  "sv_consistent sv S \<longleftrightarrow>
     sv_role sv \<in> {Master, Worker} \<longrightarrow> (\<forall>n \<in> fst ` set sysImages. S n \<in> {None, wantedArgs sv n})"

text \<open>What can become of a single container.\<close>

fun poss :: "string \<Rightarrow> dkCall \<Rightarrow> string list option set \<Rightarrow> string list option set" where
  "poss n (CallRun ro) X = (if ro_Name ro = n \<and> None \<in> X then insert (Some (ro_Args ro)) X else X)"
| "poss n (CallRemove m) X = (if m = n then {None} else X)"
| "poss n (CallExec m args) X = X"

lemma effects_poss: "effects S calls S' \<Longrightarrow> S n \<in> X \<Longrightarrow> S' n \<in> fold (poss n) calls X"
proof (induction arbitrary: X rule: effects.induct)
  case (started S ro calls S')
  then show ?case by (cases "n = ro_Name ro") (auto split: if_splits)
qed (auto split: if_splits)

lemma poss_svRun [simp]: "poss n (svRun m args) X = (if m = n \<and> None \<in> X then insert (Some args) X else X)"
  by (simp add: svRun_def)

lemma sysImages_names: "fst ` set sysImages = {etcdName, Ovncontroller, Ovnnorthd, Ovsdb, Ovsvswitchd, Swarm}"
  by (auto simp: sysImages_def)

lemma sysNames_neq [simp]:
  "etcdName \<noteq> Ovncontroller" "etcdName \<noteq> Ovnnorthd" "etcdName \<noteq> Ovsdb" "etcdName \<noteq> Ovsvswitchd" "etcdName \<noteq> Swarm"
  "Ovncontroller \<noteq> Ovnnorthd" "Ovncontroller \<noteq> Ovsdb" "Ovncontroller \<noteq> Ovsvswitchd" "Ovncontroller \<noteq> Swarm"
  "Ovnnorthd \<noteq> Ovsdb" "Ovnnorthd \<noteq> Ovsvswitchd" "Ovnnorthd \<noteq> Swarm" "Ovsdb \<noteq> Ovsvswitchd" "Ovsdb \<noteq> Swarm" "Ovsvswitchd \<noteq> Swarm"
  by (simp_all add: sysNames)

declare sysNames_neq [symmetric, simp]

lemma poss_RemoveAll: "n \<in> fst ` set sysImages \<Longrightarrow> fold (poss n) RemoveAll X = {None}"
  unfolding sysImages_names by (auto simp: RemoveAll_def sysImages_def)

lemma poss_updateMaster:
  assumes "c = None \<or> sv_role sv = Master \<and> c = wantedArgs sv n" "sv_role sv' = Master" "n \<in> fst ` set sysImages"
  shows "fold (poss n) (updateMaster sv (sv_IP sv') (sv_etcdIPs sv') (sv_leader sv')) {c} \<subseteq> {None, wantedArgs sv' n}"
proof -
  from assms(3) consider "n = etcdName" | "n = Ovncontroller" | "n = Ovnnorthd" | "n = Ovsdb" | "n = Ovsvswitchd" | "n = Swarm"
    unfolding sysImages_names by blast
  then show ?thesis
    by cases (use assms(1,2) in \<open>elim disjE conjE; simp add: updateMaster_def wantedArgs_def\<close>)+
qed

lemma poss_updateWorker:
  assumes "c = None \<or> sv_role sv = Worker \<and> c = wantedArgs sv n" "sv_role sv' = Worker" "n \<in> fst ` set sysImages"
  shows "fold (poss n) (updateWorker db sv (sv_IP sv') (sv_leaderIP sv') (sv_etcdIPs sv')) {c} \<subseteq> {None, wantedArgs sv' n}"
proof -
  from assms(3) consider "n = etcdName" | "n = Ovncontroller" | "n = Ovnnorthd" | "n = Ovsdb" | "n = Ovsvswitchd" | "n = Swarm"
    unfolding sysImages_names by blast
  then show ?thesis
    by cases (use assms(1,2) in \<open>elim disjE conjE; simp add: updateWorker_def wantedArgs_def role_consts split: list.split\<close>)+
qed

lemma runSystemOnce_poss:
  assumes run: "runSystemOnce db sv = (calls, sv')" and role: "sv_role sv' \<in> {Master, Worker}"
    and n: "n \<in> fst ` set sysImages" and c: "sv_role sv = sv_role sv' \<Longrightarrow> c \<in> {None, wantedArgs sv n}"
  shows "fold (poss n) calls {c} \<subseteq> {None, wantedArgs sv' n}"
proof (cases "sv = wantedSupervisor db")
  case True
  then show ?thesis using run c by (simp add: runSystemOnce_def Let_def)
next
  case False
  let ?c = "if sv_role sv' \<noteq> sv_role sv then None else c"
  let ?update = "if sv_role sv' = Master then updateMaster sv (sv_IP sv') (sv_etcdIPs sv') (sv_leader sv')
    else updateWorker db sv (sv_IP sv') (sv_leaderIP sv') (sv_etcdIPs sv')"
  have "fold (poss n) calls {c} = fold (poss n) ?update {?c}"
    using run role False poss_RemoveAll [OF n] by (auto simp: runSystemOnce_def Let_def)
  also have "\<dots> \<subseteq> {None, wantedArgs sv' n}"
  proof (cases "sv_role sv' = Master")
    case True
    then have "?c = None \<or> sv_role sv = Master \<and> ?c = wantedArgs sv n" using c by auto
    from poss_updateMaster [OF this True n] True show ?thesis by simp
  next
    case False
    then have w: "sv_role sv' = Worker" using role by simp
    then have "?c = None \<or> sv_role sv = Worker \<and> ?c = wantedArgs sv n" using c by auto
    from poss_updateWorker [OF this w n] False show ?thesis by simp
  qed
  finally show ?thesis .
qed


text \<open>A docker daemon under which every call succeeds.\<close>

fun obey :: "dkCall \<Rightarrow> running \<Rightarrow> running" where
  "obey (CallRun ro) S = (if S (ro_Name ro) = None then S(ro_Name ro \<mapsto> ro_Args ro) else S)"
| "obey (CallRemove n) S = S(n := None)"
| "obey (CallExec n args) S = S"

fun obeyCell :: "string \<Rightarrow> dkCall \<Rightarrow> string list option \<Rightarrow> string list option" where
  "obeyCell n (CallRun ro) c = (if ro_Name ro = n \<and> c = None then Some (ro_Args ro) else c)"
| "obeyCell n (CallRemove m) c = (if m = n then None else c)"
| "obeyCell n (CallExec m args) c = c"

lemma obey_effects: "effects S calls (fold obey calls S)"
proof (induction calls arbitrary: S)
  case (Cons call calls)
  then show ?case by (cases call) (auto intro: effects.intros simp: started)
qed (simp add: no_call)

lemma fold_obey: "fold obey calls S n = fold (obeyCell n) calls (S n)"
proof (induction calls arbitrary: S)
  case (Cons call calls)
  then show ?case by (cases call) auto
qed simp

lemma obeyCell_svRun [simp]: "obeyCell n (svRun m args) c = (if m = n \<and> c = None then Some args else c)"
  by (simp add: svRun_def)

lemma obeyCell_RemoveAll: "n \<in> fst ` set sysImages \<Longrightarrow> fold (obeyCell n) RemoveAll c = None"
  unfolding sysImages_names by (auto simp: RemoveAll_def sysImages_def)

lemma obey_updateMaster:
  assumes "c = None \<or> sv_role sv = Master \<and> c = wantedArgs sv n" "sv_role sv' = Master" "n \<in> fst ` set sysImages"
    and "sv_IP sv' \<noteq> ''''" "sv_etcdIPs sv' \<noteq> []"
  shows "fold (obeyCell n) (updateMaster sv (sv_IP sv') (sv_etcdIPs sv') (sv_leader sv')) c = wantedArgs sv' n"
proof -
  from assms(3) consider "n = etcdName" | "n = Ovncontroller" | "n = Ovnnorthd" | "n = Ovsdb" | "n = Ovsvswitchd" | "n = Swarm"
    unfolding sysImages_names by blast
  then show ?thesis
    by cases (use assms(1,2,4,5) in \<open>elim disjE conjE; simp add: updateMaster_def wantedArgs_def\<close>)+
qed

lemma obey_updateWorker:
  assumes "c = None \<or> sv_role sv = Worker \<and> c = wantedArgs sv n" "sv_role sv' = Worker" "n \<in> fst ` set sysImages"
    and "sv_IP sv' \<noteq> ''''" "sv_leaderIP sv' \<noteq> ''''" and "SelectFromMinion db nilCheck = [m]"
  shows "fold (obeyCell n) (updateWorker db sv (sv_IP sv') (sv_leaderIP sv') (sv_etcdIPs sv')) c = wantedArgs sv' n"
proof -
  from assms(3) consider "n = etcdName" | "n = Ovncontroller" | "n = Ovnnorthd" | "n = Ovsdb" | "n = Ovsvswitchd" | "n = Swarm"
    unfolding sysImages_names by blast
  then show ?thesis
    by cases (use assms(1,2,4-6) in \<open>elim disjE conjE; simp add: updateWorker_def wantedArgs_def role_consts\<close>)+
qed

lemma worker_row:
  assumes "sv_role (wantedSupervisor db) = Worker"
  obtains m where "SelectFromMinion db nilCheck = [m]"
  using assms by (auto simp: wantedSupervisor_def soleRow_def Let_def zeroMinion_def role_consts split: list.splits)

text \<open>Whether the addresses a role needs are known.\<close>

definition configured :: "supervisor \<Rightarrow> bool" where
  "configured sv \<longleftrightarrow> sv_IP sv \<noteq> '''' \<and>
     (sv_role sv = Master \<and> sv_etcdIPs sv \<noteq> [] \<or> sv_role sv = Worker \<and> sv_leaderIP sv \<noteq> '''')"


definition svDb :: "Role \<Rightarrow> string list \<Rightarrow> Database" where
  "svDb role ips =
     (let (m, db1) = InsertMinion New; (e, db2) = InsertEtcd db1 in
      the (Option.bind (Commit (MinionRow (m\<lparr>mi_Role := role, mi_PrivateIP := ''10.0.0.2''\<rparr>)) db2)
        (Commit (EtcdRow (e\<lparr>e_EtcdIPs := ips, e_Leader := True\<rparr>)))))"

lemma svDb_wanted:
  "wantedSupervisor (svDb Master [''10.0.0.2'']) =
     \<lparr>sv_role = Master, sv_etcdIPs = [''10.0.0.2''], sv_leaderIP = '''', sv_IP = ''10.0.0.2'', sv_leader = True\<rparr>"
  by code_simp

lemma svDb_run:
  "\<exists>calls. runSystemOnce (svDb Master [''10.0.0.2'']) newSupervisor = (calls, wantedSupervisor (svDb Master [''10.0.0.2'']))"
  by (simp add: runSystemOnce_def Let_def svDb_wanted newSupervisor_def)



theorem runAppTransact_mirrors_witness:
  "db_inv New \<and> (\<exists>db'. runAppTransact [] New = Some ([], db') \<and> SelectFromContainer db' nilCheck = [])"
proof -
  have "SelectFromContainer New nilCheck = []" by code_simp
  then show ?thesis using runAppTransact_mirrors [OF db_inv_New, of "[]"] by (auto simp: db_inv_New)
qed

end
