(* ===== verification/Consensus.thy ===== *)
theory Consensus
  imports Strings "HOL-Library.Sublist"
begin

text \<open>
  The consensus store (\<open>src/minion/consensus\<close>): the interface through which minions share state, and the
  in-memory implementation that stands in for etcd.

  The store is a tree of nodes.  Go passes trees by value but their maps of children by
  reference, so that writing to the children of a node that was looked up changes the store: an operation
  returns the changed tree.  The second implementation forwards every call to the etcd client, a
  third-party package: of it the conversion of the client's nodes to trees is modelled.  Locking is left out.
\<close>

section \<open>Trees and paths\<close>

datatype Tree = Tree (t_Key: string) (t_Value: string) (t_Children: "(string \<times> Tree) list")

datatype storeErr = NodeExist | StoreErr string

text \<open>A node as the etcd client returns it.\<close>

datatype etcdNode = EtcdNode (n_Key: string) (n_Value: string) (n_Nodes: "etcdNode list")

fun treeOf :: "etcdNode \<Rightarrow> Tree" where
  "treeOf (EtcdNode k v ns) =
     Tree (last (splitChar (CHR ''/'') k)) v (fold (\<lambda>ct. gput (t_Key ct) ct) (map treeOf ns) [])"

text \<open>A path that does not begin with a slash panics: \<open>None\<close>.\<close>

definition splitPath :: "string \<Rightarrow> string list option" where
  "splitPath path = (case path of
      [] \<Rightarrow> None
    | c # _ \<Rightarrow> if c \<noteq> CHR ''/'' then None else Some (tl (splitChar (CHR ''/'') path)))"

definition dirPath :: "string \<Rightarrow> (string \<times> string) option" where
  "dirPath path = map_option (\<lambda>slice. (''/'' @ joinStr ''/'' (butlast slice), last slice)) (splitPath path)"

section \<open>The in-memory store\<close>

definition newMock :: Tree where
  "newMock = Tree '''' '''' []"

fun walk :: "string list \<Rightarrow> Tree \<Rightarrow> Tree option" where
  "walk [] t = Some t"
| "walk (dir # dirs) t = (case gget (t_Children t) dir of None \<Rightarrow> None | Some c \<Rightarrow> walk dirs c)"

definition getTree :: "string \<Rightarrow> Tree \<Rightarrow> (storeErr + Tree) option" where
  "getTree path root =
     (if path = ''/'' then Some (Inr root)
      else map_option (\<lambda>dirs. case walk dirs root of None \<Rightarrow> Inl (StoreErr ''no such directory'') | Some t \<Rightarrow> Inr t)
        (splitPath path))"

definition mockGet :: "string \<Rightarrow> Tree \<Rightarrow> (storeErr + string) option" where
  "mockGet path root =
     (case dirPath path of
        None \<Rightarrow> None
      | Some (dir, node) \<Rightarrow>
          (case getTree dir root of
             None \<Rightarrow> None
           | Some (Inl err) \<Rightarrow> Some (Inl err)
           | Some (Inr tree) \<Rightarrow>
               (case gget (t_Children tree) node of
                  None \<Rightarrow> Some (Inl (StoreErr ''undefined key''))
                | Some result \<Rightarrow> Some (Inr (t_Value result)))))"

fun mkdirs :: "string list \<Rightarrow> Tree \<Rightarrow> Tree" where
  "mkdirs [] t = t"
| "mkdirs (p # ps) t =
     (case gget (t_Children t) p of
        None \<Rightarrow> Tree (t_Key t) (t_Value t) (gput p (mkdirs ps (Tree p '''' [])) (t_Children t))
      | Some c \<Rightarrow> Tree (t_Key t) (t_Value t) (gput p (mkdirs ps c) (t_Children t)))"

definition mockMkdir :: "string \<Rightarrow> Tree \<Rightarrow> (storeErr option \<times> Tree) option" where
  "mockMkdir dir root =
     (if dir = ''/'' then Some (None, root)
      else
        (case mockGet dir root of
           None \<Rightarrow> None
         | Some (Inr _) \<Rightarrow> Some (Some (StoreErr ''mkdir: key exists''), root)
         | Some (Inl _) \<Rightarrow> map_option (\<lambda>dirs. (None, mkdirs dirs root)) (splitPath dir)))"

text \<open>Writing to the children of the node at a path.\<close>

fun modify :: "string list \<Rightarrow> ((string \<times> Tree) list \<Rightarrow> (string \<times> Tree) list) \<Rightarrow> Tree \<Rightarrow> Tree" where
  "modify [] f t = Tree (t_Key t) (t_Value t) (f (t_Children t))"
| "modify (p # ps) f t =
     (case gget (t_Children t) p of
        None \<Rightarrow> t
      | Some c \<Rightarrow> Tree (t_Key t) (t_Value t) (gput p (modify ps f c) (t_Children t)))"

definition modifyAt :: "string \<Rightarrow> ((string \<times> Tree) list \<Rightarrow> (string \<times> Tree) list) \<Rightarrow> Tree \<Rightarrow> Tree option" where
  "modifyAt dir f root =
     (if dir = ''/'' then Some (modify [] f root) else map_option (\<lambda>dirs. modify dirs f root) (splitPath dir))"

definition createPrefix :: "string \<Rightarrow> Tree \<Rightarrow> ((storeErr + string \<times> Tree \<times> string) \<times> Tree) option" where
  "createPrefix path root =
     (case dirPath path of
        None \<Rightarrow> None
      | Some (dir, node) \<Rightarrow>
          (case mockMkdir dir root of
             None \<Rightarrow> None
           | Some (_, root1) \<Rightarrow>
               map_option (\<lambda>r. (case r of Inl err \<Rightarrow> Inl err | Inr tree \<Rightarrow> Inr (dir, tree, node), root1)) (getTree dir root1)))"

definition mockCreate :: "string \<Rightarrow> string \<Rightarrow> Tree \<Rightarrow> (storeErr option \<times> Tree) option" where
  "mockCreate path v root =
     (case createPrefix path root of
        None \<Rightarrow> None
      | Some (Inl err, root1) \<Rightarrow> Some (Some err, root1)
      | Some (Inr (dir, tree, node), root1) \<Rightarrow>
          if gget (t_Children tree) node \<noteq> None then Some (Some (StoreErr ''create: key exists''), root1)
          else map_option (Pair None) (modifyAt dir (gput node (Tree node v [])) root1))"

definition mockUpdate :: "string \<Rightarrow> string \<Rightarrow> Tree \<Rightarrow> (storeErr option \<times> Tree) option" where
  "mockUpdate path v root =
     (case createPrefix path root of
        None \<Rightarrow> None
      | Some (Inl err, root1) \<Rightarrow> Some (Some err, root1)
      | Some (Inr (dir, tree, node), root1) \<Rightarrow>
          (case gget (t_Children tree) node of
             None \<Rightarrow> Some (Some (StoreErr ''undefined key''), root1)
           | Some t \<Rightarrow> map_option (Pair None) (modifyAt dir (gput node (Tree (t_Key t) v (t_Children t))) root1)))"

definition mockDelete :: "string \<Rightarrow> Tree \<Rightarrow> (storeErr option \<times> Tree) option" where
  "mockDelete path root =
     (case dirPath path of
        None \<Rightarrow> None
      | Some (dir, node) \<Rightarrow>
          (case getTree dir root of
             None \<Rightarrow> None
           | Some (Inl err) \<Rightarrow> Some (Some err, root)
           | Some (Inr tree) \<Rightarrow>
               if gget (t_Children tree) node = None then Some (Some (StoreErr ''undefined key''), root)
               else map_option (Pair None) (modifyAt dir (gdel node) root)))"

definition mockSet :: "string \<Rightarrow> string \<Rightarrow> Tree \<Rightarrow> (storeErr option \<times> Tree) option" where
  "mockSet path v root =
     (case mockGet path root of
        None \<Rightarrow> None
      | Some (Inl _) \<Rightarrow> mockCreate path v root
      | Some (Inr _) \<Rightarrow> mockUpdate path v root)"

section \<open>Paths are their components\<close>

text \<open>
  The operations are easier to follow on component lists: \<open>pathOf ds\<close> is the path with the components \<open>ds\<close>, none of
  which contains a slash; the last component is the node and the others its directory.
\<close>

definition plain :: "string list \<Rightarrow> bool" where
  "plain ds \<longleftrightarrow> list_all (\<lambda>d. CHR ''/'' \<notin> set d \<and> d \<noteq> '''') ds"

definition pathOf :: "string list \<Rightarrow> string" where
  "pathOf ds = ''/'' @ joinStr ''/'' ds"

lemma plain_append [simp]: "plain (xs @ ys) \<longleftrightarrow> plain xs \<and> plain ys"
  by (simp add: plain_def)

lemma plain_Cons [simp]: "plain (x # xs) \<longleftrightarrow> (CHR ''/'' \<notin> set x \<and> x \<noteq> '''') \<and> plain xs"
  by (simp add: plain_def)

lemma plain_Nil [simp]: "plain []"
  by (simp add: plain_def)

lemma splitPath_pathOf:
  assumes "plain ds" "ds \<noteq> []" shows "splitPath (pathOf ds) = Some ds"
proof -
  have "splitChar (CHR ''/'') (joinStr ''/'' ds) = ds"
    by (rule split_join [OF assms(2)]) (use assms(1) in \<open>auto simp: plain_def list_all_iff\<close>)
  then show ?thesis by (simp add: splitPath_def pathOf_def)
qed

lemma dirPath_pathOf: "plain (ds @ [n]) \<Longrightarrow> dirPath (pathOf (ds @ [n])) = Some (pathOf ds, n)"
  using splitPath_pathOf [of "ds @ [n]"] by (simp add: dirPath_def) (simp add: pathOf_def)

lemma pathOf_root: "plain ds \<Longrightarrow> pathOf ds = ''/'' \<longleftrightarrow> ds = []"
proof (cases ds)
  case (Cons d ds')
  assume "plain ds"
  with Cons show ?thesis by (cases ds'; cases d) (simp_all add: pathOf_def)
qed (simp add: pathOf_def)

lemma getTree_pathOf:
  "plain ds \<Longrightarrow> getTree (pathOf ds) root =
     Some (case walk ds root of None \<Rightarrow> Inl (StoreErr ''no such directory'') | Some t \<Rightarrow> Inr t)"
  by (cases "ds = []") (simp_all add: getTree_def pathOf_root splitPath_pathOf)

lemma modifyAt_pathOf: "plain ds \<Longrightarrow> modifyAt (pathOf ds) f root = Some (modify ds f root)"
  by (cases "ds = []") (simp_all add: modifyAt_def pathOf_root splitPath_pathOf)

text \<open>The value at a node, if there is one.\<close>

definition val :: "string list \<Rightarrow> Tree \<Rightarrow> string option" where
  "val q t = map_option t_Value (walk q t)"

lemma val_Nil [simp]: "val [] t = Some (t_Value t)"
  by (simp add: val_def)

lemma val_Cons: "val (d # ds) t = Option.bind (gget (t_Children t) d) (val ds)"
  by (simp add: val_def split: option.split)

lemma val_None_iff: "val q t = None \<longleftrightarrow> walk q t = None"
  by (simp add: val_def)

lemma walk_snoc: "walk (ds @ [d]) t = Option.bind (walk ds t) (\<lambda>t. gget (t_Children t) d)"
  by (induction ds arbitrary: t) (auto split: option.split)

lemma walk_prefix: "prefix q ds \<Longrightarrow> walk ds t \<noteq> None \<Longrightarrow> walk q t \<noteq> None"
proof (induction q arbitrary: ds t)
  case (Cons d q)
  then show ?case by (cases ds) (auto split: option.splits)
qed simp

lemma mockGet_pathOf:
  assumes "plain (ds @ [n])"
  shows "\<exists>err. mockGet (pathOf (ds @ [n])) root = Some (case val (ds @ [n]) root of None \<Rightarrow> Inl err | Some v \<Rightarrow> Inr v)"
  using assms
  by (cases "walk ds root")
    (auto simp: mockGet_def dirPath_pathOf getTree_pathOf val_def walk_snoc split: option.split)

section \<open>What the writes do\<close>

lemma val_mkdirs:
  "val q (mkdirs ds t) = (if val q t = None \<and> prefix q ds then Some '''' else val q t)"
proof (induction ds arbitrary: q t)
  case (Cons p ps)
  show ?case
  proof (cases q)
    case Nil
    then show ?thesis by (simp split: option.split)
  next
    case (Cons x xs)
    have new: "val xs (Tree p '''' []) = (if xs = [] then Some '''' else None)" by (cases xs) (simp_all add: val_Cons)
    show ?thesis
      by (cases "x = p"; cases "gget (t_Children t) p")
        (simp_all add: Cons val_Cons Cons.IH go_map new)
  qed
qed auto


lemma walk_mkdirs: "walk ds (mkdirs ds t) \<noteq> None"
  using val_mkdirs [of ds ds t] unfolding val_None_iff [symmetric] by auto

lemma val_modify:
  "walk ds t = Some t0 \<Longrightarrow>
     val q (modify ds f t) = (if prefix ds q \<and> q \<noteq> ds
       then Option.bind (gget (f (t_Children t0)) (q ! length ds)) (val (drop (Suc (length ds)) q)) else val q t)"
proof (induction ds arbitrary: q t)
  case Nil
  then show ?case by (cases q) (simp_all add: val_Cons)
next
  case (Cons p ps)
  then obtain c where c: "gget (t_Children t) p = Some c" "walk ps c = Some t0" by (auto split: option.splits)
  show ?case
  proof (cases q)
    case (Cons x xs)
    then show ?thesis using c Cons.IH [OF c(2), of xs] by (cases "x = p") (auto simp: val_Cons go_map)
  qed (simp add: c)
qed

lemma val_append: "walk ds t = Some t0 \<Longrightarrow> val (ds @ q) t = val q t0"
  by (induction ds arbitrary: t) (auto simp: val_Cons split: option.splits)

text \<open>Changing one child of a directory changes only what is below that child.\<close>

lemma val_modify_child:
  assumes "walk ds t = Some t0" and "\<And>x. x \<noteq> n \<Longrightarrow> gget (f (t_Children t0)) x = gget (t_Children t0) x"
  shows "val q (modify ds f t) = (if prefix (ds @ [n]) q
    then Option.bind (gget (f (t_Children t0)) n) (val (drop (Suc (length ds)) q)) else val q t)"
proof (cases "prefix ds q \<and> q \<noteq> ds")
  case True
  then obtain x xs where q: "q = ds @ x # xs" by (metis append_Nil2 neq_Nil_conv prefixE)
  then show ?thesis
    using val_modify [OF assms(1), of q f] assms(2) [of x] val_append [OF assms(1), of "x # xs"]
    by (cases "x = n") (auto simp: val_Cons)
next
  case False
  then have "\<not> prefix (ds @ [n]) q" by (auto simp: prefix_def)
  then show ?thesis using False val_modify [OF assms(1), of q f] by auto
qed

lemma val_leaf: "val q (Tree k v []) = (if q = [] then Some v else None)"
  by (cases q) (simp_all add: val_Cons)

lemma prefix_snoc_drop: "prefix (ds @ [n]) q \<Longrightarrow> length q \<le> Suc (length ds) \<longleftrightarrow> q = ds @ [n]"
  by (auto simp: prefix_def)

lemma val_prefix_split:
  assumes "prefix (ds @ [n]) q" "walk ds t = Some t0"
  shows "val q t = Option.bind (gget (t_Children t0) n) (val (drop (Suc (length ds)) q))"
proof -
  obtain xs where q: "q = ds @ n # xs" using assms(1) by (auto simp: prefix_def)
  then show ?thesis using val_append [OF assms(2), of "n # xs"] by (simp add: val_Cons)
qed

lemma val_create:
  assumes "walk ds t = Some t0" "gget (t_Children t0) n = None"
  shows "val q (modify ds (gput n (Tree n v [])) t) = (if q = ds @ [n] then Some v else val q t)"
  using val_modify_child [OF assms(1), of n "gput n (Tree n v [])" q] val_prefix_split [OF _ assms(1), of n q] assms(2)
  by (auto simp: go_map val_leaf prefix_snoc_drop)

lemma val_update:
  assumes "walk ds t = Some t0" "gget (t_Children t0) n = Some c"
  shows "val q (modify ds (gput n (Tree (t_Key c) v (t_Children c))) t) = (if q = ds @ [n] then Some v else val q t)"
proof (cases "drop (Suc (length ds)) q")
  case Nil
  then show ?thesis
    using val_modify_child [OF assms(1), of n "gput n (Tree (t_Key c) v (t_Children c))" q] prefix_snoc_drop [of ds n q]
    by (auto simp: go_map)
next
  case (Cons x xs)
  then show ?thesis
    using val_modify_child [OF assms(1), of n "gput n (Tree (t_Key c) v (t_Children c))" q] prefix_snoc_drop [of ds n q]
      val_prefix_split [OF _ assms(1), of n q] assms(2)
    by (auto simp: go_map val_Cons)
qed

lemma val_delete:
  assumes "walk ds t = Some t0"
  shows "val q (modify ds (gdel n) t) = (if prefix (ds @ [n]) q then None else val q t)"
  using val_modify_child [OF assms, of n "gdel n" q] by (auto simp: go_map)

lemma mockMkdir_effect:
  assumes "plain ds"
  shows "\<exists>err root1. mockMkdir (pathOf ds) root = Some (err, root1) \<and> walk ds root1 \<noteq> None \<and>
    (\<forall>q. val q root1 = (if val q root = None \<and> prefix q ds then Some '''' else val q root))"
proof (cases ds rule: rev_cases)
  case Nil
  then show ?thesis using pathOf_root [OF assms] by (simp add: mockMkdir_def)
next
  case (snoc ds' n)
  obtain err where get: "mockGet (pathOf ds) root = Some (case val ds root of None \<Rightarrow> Inl err | Some v \<Rightarrow> Inr v)"
    using mockGet_pathOf [of ds' n root] assms snoc by blast
  have root: "pathOf ds \<noteq> ''/''" using pathOf_root [OF assms] snoc by simp
  show ?thesis
  proof (cases "walk ds root")
    case None
    then have "mockMkdir (pathOf ds) root = Some (None, mkdirs ds root)"
      using get root assms snoc by (simp add: mockMkdir_def val_def splitPath_pathOf)
    then show ?thesis using walk_mkdirs [of ds root] val_mkdirs [of _ ds root] by simp
  next
    case (Some t)
    then have "mockMkdir (pathOf ds) root = Some (Some (StoreErr ''mkdir: key exists''), root)"
      using get root by (simp add: mockMkdir_def val_def)
    moreover have "val q root \<noteq> None" if "prefix q ds" for q
      using walk_prefix [OF that, of root] Some by (simp add: val_def)
    ultimately show ?thesis using Some by auto
  qed
qed

lemma createPrefix_effect:
  assumes "plain (ds @ [n])"
  shows "\<exists>root1 tree. createPrefix (pathOf (ds @ [n])) root = Some (Inr (pathOf ds, tree, n), root1) \<and>
    walk ds root1 = Some tree \<and>
    (\<forall>q. val q root1 = (if val q root = None \<and> prefix q ds then Some '''' else val q root))"
proof -
  have ds: "plain ds" using assms by simp
  from mockMkdir_effect [OF ds, of root] obtain err root1 tree where
    "mockMkdir (pathOf ds) root = Some (err, root1)" "walk ds root1 = Some tree"
    "\<forall>q. val q root1 = (if val q root = None \<and> prefix q ds then Some '''' else val q root)"
    by blast
  then show ?thesis using ds by (simp add: createPrefix_def dirPath_pathOf [OF assms] getTree_pathOf)
qed

text \<open>What a store holds afterwards, by path: the value that was written, and empty directories above it.\<close>

definition written :: "(string list \<Rightarrow> 's \<Rightarrow> string option) \<Rightarrow> string list \<Rightarrow> string \<Rightarrow> string \<Rightarrow> 's \<Rightarrow> 's \<Rightarrow> bool" where
  "written content ds n v s s' \<longleftrightarrow> (\<forall>q. content q s' =
     (if q = ds @ [n] then Some v else if content q s = None \<and> prefix q ds then Some '''' else content q s))"

lemma val_snoc: "walk ds root = Some tree \<Longrightarrow> val (ds @ [n]) root = map_option t_Value (gget (t_Children tree) n)"
  by (simp add: val_def walk_snoc)

lemma mockCreate_new:
  assumes "plain (ds @ [n])" "val (ds @ [n]) root = None"
  shows "\<exists>root'. mockCreate (pathOf (ds @ [n])) v root = Some (None, root') \<and> written val ds n v root root'"
proof -
  from createPrefix_effect [OF assms(1), of root] obtain root1 tree where
    c: "createPrefix (pathOf (ds @ [n])) root = Some (Inr (pathOf ds, tree, n), root1)" "walk ds root1 = Some tree"
      "\<forall>q. val q root1 = (if val q root = None \<and> prefix q ds then Some '''' else val q root)"
    by blast
  have "val (ds @ [n]) root1 = None" using c(3) assms(2) by simp
  then have n: "gget (t_Children tree) n = None" using val_snoc [OF c(2)] by simp
  show ?thesis
    using c n assms(1) val_create [OF c(2) n, of _ v] by (simp add: mockCreate_def modifyAt_pathOf written_def)
qed

lemma mockCreate_exists:
  assumes "plain (ds @ [n])" "val (ds @ [n]) root \<noteq> None"
  shows "\<exists>err root'. mockCreate (pathOf (ds @ [n])) v root = Some (Some err, root') \<and> (\<forall>q. val q root' = val q root)"
proof -
  from createPrefix_effect [OF assms(1), of root] obtain root1 tree where
    c: "createPrefix (pathOf (ds @ [n])) root = Some (Inr (pathOf ds, tree, n), root1)" "walk ds root1 = Some tree"
      "\<forall>q. val q root1 = (if val q root = None \<and> prefix q ds then Some '''' else val q root)"
    by blast
  have "val q root \<noteq> None" if "prefix q ds" for q
    using walk_prefix [of q "ds @ [n]" root] that assms(2) by (simp add: val_None_iff)
  moreover have "gget (t_Children tree) n \<noteq> None" using c(3) assms(2) val_snoc [OF c(2), of n] by auto
  ultimately show ?thesis using c by (auto simp: mockCreate_def)
qed

lemma mockUpdate_exists:
  assumes "plain (ds @ [n])" "val (ds @ [n]) root \<noteq> None"
  shows "\<exists>root'. mockUpdate (pathOf (ds @ [n])) v root = Some (None, root') \<and> written val ds n v root root'"
proof -
  from createPrefix_effect [OF assms(1), of root] obtain root1 tree where
    c: "createPrefix (pathOf (ds @ [n])) root = Some (Inr (pathOf ds, tree, n), root1)" "walk ds root1 = Some tree"
      "\<forall>q. val q root1 = (if val q root = None \<and> prefix q ds then Some '''' else val q root)"
    by blast
  obtain t where n: "gget (t_Children tree) n = Some t" using c(3) assms(2) val_snoc [OF c(2), of n] by auto
  show ?thesis
    using c n assms(1) val_update [OF c(2) n, of _ v] by (simp add: mockUpdate_def modifyAt_pathOf written_def)
qed

lemma mockUpdate_new:
  assumes "plain (ds @ [n])" "val (ds @ [n]) root = None"
  shows "\<exists>err root'. mockUpdate (pathOf (ds @ [n])) v root = Some (Some err, root') \<and> val (ds @ [n]) root' = None"
proof -
  from createPrefix_effect [OF assms(1), of root] obtain root1 tree where
    c: "createPrefix (pathOf (ds @ [n])) root = Some (Inr (pathOf ds, tree, n), root1)" "walk ds root1 = Some tree"
      "\<forall>q. val q root1 = (if val q root = None \<and> prefix q ds then Some '''' else val q root)"
    by blast
  have "val (ds @ [n]) root1 = None" using c(3) assms(2) by simp
  then show ?thesis using c val_snoc [OF c(2), of n] by (simp add: mockUpdate_def)
qed

lemma mockSet_effect:
  assumes "plain (ds @ [n])"
  shows "\<exists>root'. mockSet (pathOf (ds @ [n])) v root = Some (None, root') \<and> written val ds n v root root'"
proof (cases "val (ds @ [n]) root")
  case None
  then show ?thesis using mockGet_pathOf [OF assms, of root] mockCreate_new [OF assms None, of v] by (auto simp: mockSet_def)
next
  case (Some w)
  then show ?thesis
    using mockGet_pathOf [OF assms, of root] mockUpdate_exists [OF assms, of root v] by (auto simp: mockSet_def)
qed

lemma mockDelete_effect:
  assumes "plain (ds @ [n])" "val (ds @ [n]) root \<noteq> None"
  shows "\<exists>root'. mockDelete (pathOf (ds @ [n])) root = Some (None, root') \<and>
    (\<forall>q. val q root' = (if prefix (ds @ [n]) q then None else val q root))"
proof -
  obtain tree where t: "walk ds root = Some tree"
    using walk_prefix [of ds "ds @ [n]" root] assms(2) by (auto simp: val_None_iff)
  then have "gget (t_Children tree) n \<noteq> None" using assms(2) val_snoc [OF t, of n] by auto
  then show ?thesis
    using t assms(1) val_delete [OF t, of _ n]
    by (simp add: mockDelete_def dirPath_pathOf getTree_pathOf modifyAt_pathOf)
qed

lemma mockDelete_absent:
  assumes "plain (ds @ [n])" "val (ds @ [n]) root = None"
  shows "\<exists>err. mockDelete (pathOf (ds @ [n])) root = Some (Some err, root)"
proof (cases "walk ds root")
  case (Some tree)
  then show ?thesis
    using assms val_snoc [OF Some, of n] by (simp add: mockDelete_def dirPath_pathOf getTree_pathOf)
qed (use assms in \<open>simp add: mockDelete_def dirPath_pathOf getTree_pathOf\<close>)

section \<open>The store interface\<close>

text \<open>
  What the clients of a store rely on, over an arbitrary state \<open>'s\<close> of the store: \<open>content\<close> is what the store
  holds at the components of a path.
\<close>

record 's storeApi =
  st_Mkdir :: "string \<Rightarrow> 's \<Rightarrow> storeErr option \<times> 's"
  st_GetTree :: "string \<Rightarrow> 's \<Rightarrow> storeErr + Tree"
  st_Get :: "string \<Rightarrow> 's \<Rightarrow> storeErr + string"
  st_Delete :: "string \<Rightarrow> 's \<Rightarrow> storeErr option \<times> 's"
  st_Create :: "string \<Rightarrow> string \<Rightarrow> 's \<Rightarrow> storeErr option \<times> 's"
  st_Update :: "string \<Rightarrow> string \<Rightarrow> 's \<Rightarrow> storeErr option \<times> 's"
  st_Set :: "string \<Rightarrow> string \<Rightarrow> 's \<Rightarrow> storeErr option \<times> 's"

locale kv_store =
  fixes api :: "'s storeApi" and content :: "string list \<Rightarrow> 's \<Rightarrow> string option"
  assumes get_absent: "plain (ds @ [n]) \<Longrightarrow> content (ds @ [n]) s = None \<Longrightarrow> \<exists>err. st_Get api (pathOf (ds @ [n])) s = Inl err"
    and get_present: "plain (ds @ [n]) \<Longrightarrow> content (ds @ [n]) s = Some v \<Longrightarrow> st_Get api (pathOf (ds @ [n])) s = Inr v"
    and create_new: "plain (ds @ [n]) \<Longrightarrow> content (ds @ [n]) s = None \<Longrightarrow>
      \<exists>s'. st_Create api (pathOf (ds @ [n])) v s = (None, s') \<and> written content ds n v s s'"
    and create_exists: "plain (ds @ [n]) \<Longrightarrow> content (ds @ [n]) s \<noteq> None \<Longrightarrow>
      \<exists>err s'. st_Create api (pathOf (ds @ [n])) v s = (Some err, s') \<and> (\<forall>q. content q s' = content q s)"
    and update_exists: "plain (ds @ [n]) \<Longrightarrow> content (ds @ [n]) s \<noteq> None \<Longrightarrow>
      \<exists>s'. st_Update api (pathOf (ds @ [n])) v s = (None, s') \<and> written content ds n v s s'"
    and update_new: "plain (ds @ [n]) \<Longrightarrow> content (ds @ [n]) s = None \<Longrightarrow>
      \<exists>err s'. st_Update api (pathOf (ds @ [n])) v s = (Some err, s') \<and> content (ds @ [n]) s' = None"
    and set_writes: "plain (ds @ [n]) \<Longrightarrow>
      \<exists>s'. st_Set api (pathOf (ds @ [n])) v s = (None, s') \<and> written content ds n v s s'"
    and delete_removes: "plain (ds @ [n]) \<Longrightarrow> content (ds @ [n]) s \<noteq> None \<Longrightarrow>
      \<exists>s'. st_Delete api (pathOf (ds @ [n])) s = (None, s') \<and>
        (\<forall>q. content q s' = (if prefix (ds @ [n]) q then None else content q s))"
begin

lemma set_then_get:
  assumes "plain (ds @ [n])" "st_Set api (pathOf (ds @ [n])) v s = (e, s')"
  shows "st_Get api (pathOf (ds @ [n])) s' = Inr v"
  using set_writes [OF assms(1), of v s] assms(2) by (auto simp: written_def intro: get_present [OF assms(1)])

lemma set_keeps_others:
  assumes "plain (ds @ [n])" "st_Set api (pathOf (ds @ [n])) v s = (e, s')"
    and "plain (ds' @ [n'])" "ds' @ [n'] \<noteq> ds @ [n]" "st_Get api (pathOf (ds' @ [n'])) s = Inr w"
  shows "st_Get api (pathOf (ds' @ [n'])) s' = Inr w"
proof -
  have "content (ds' @ [n']) s = Some w"
    using get_absent [OF assms(3), of s] get_present [OF assms(3), of s] assms(5)
    by (cases "content (ds' @ [n']) s") auto
  then have "content (ds' @ [n']) s' = Some w" using set_writes [OF assms(1), of v s] assms(2,4) by (auto simp: written_def)
  then show ?thesis by (rule get_present [OF assms(3)])
qed

lemma delete_then_get:
  assumes "plain (ds @ [n])" "st_Get api (pathOf (ds @ [n])) s = Inr w" "st_Delete api (pathOf (ds @ [n])) s = (e, s')"
  shows "e = None \<and> (\<exists>err. st_Get api (pathOf (ds @ [n])) s' = Inl err)"
proof -
  have "content (ds @ [n]) s \<noteq> None" using get_absent [OF assms(1), of s] assms(2) by force
  from delete_removes [OF assms(1) this] assms(3) have "e = None" "content (ds @ [n]) s' = None" by auto
  then show ?thesis using get_absent [OF assms(1)] by blast
qed

end

text \<open>
  The in-memory store as an implementation of the interface.  A panic on a path without a leading slash is
  reported as an error here; clients only use paths below \<open>/minion\<close>.
\<close>

definition noPanic :: "Tree \<Rightarrow> (storeErr option \<times> Tree) option \<Rightarrow> storeErr option \<times> Tree" where
  "noPanic root r = (case r of None \<Rightarrow> (Some (StoreErr ''invalid path''), root) | Some x \<Rightarrow> x)"

definition mockApi :: "Tree storeApi" where
  "mockApi = \<lparr>
     st_Mkdir = \<lambda>p s. noPanic s (mockMkdir p s),
     st_GetTree = \<lambda>p s. (case getTree p s of None \<Rightarrow> Inl (StoreErr ''invalid path'') | Some r \<Rightarrow> r),
     st_Get = \<lambda>p s. (case mockGet p s of None \<Rightarrow> Inl (StoreErr ''invalid path'') | Some r \<Rightarrow> r),
     st_Delete = \<lambda>p s. noPanic s (mockDelete p s),
     st_Create = \<lambda>p v s. noPanic s (mockCreate p v s),
     st_Update = \<lambda>p v s. noPanic s (mockUpdate p v s),
     st_Set = \<lambda>p v s. noPanic s (mockSet p v s)\<rparr>"

interpretation mockKv: kv_store mockApi val
proof
  fix ds n and s :: Tree and v
  assume p: "plain (ds @ [n])"
  obtain err where get: "mockGet (pathOf (ds @ [n])) s = Some (case val (ds @ [n]) s of None \<Rightarrow> Inl err | Some v \<Rightarrow> Inr v)"
    using mockGet_pathOf [OF p] by blast
  show "\<exists>err. st_Get mockApi (pathOf (ds @ [n])) s = Inl err" if "val (ds @ [n]) s = None"
    using get that by (simp add: mockApi_def)
  show "st_Get mockApi (pathOf (ds @ [n])) s = Inr v" if "val (ds @ [n]) s = Some v"
    using get that by (simp add: mockApi_def)
  show "\<exists>s'. st_Create mockApi (pathOf (ds @ [n])) v s = (None, s') \<and> written val ds n v s s'"
    if "val (ds @ [n]) s = None"
    using mockCreate_new [OF p that, of v] by (auto simp: mockApi_def noPanic_def)
  show "\<exists>err s'. st_Create mockApi (pathOf (ds @ [n])) v s = (Some err, s') \<and> (\<forall>q. val q s' = val q s)"
    if "val (ds @ [n]) s \<noteq> None"
    using mockCreate_exists [OF p that, of v] by (auto simp: mockApi_def noPanic_def)
  show "\<exists>s'. st_Update mockApi (pathOf (ds @ [n])) v s = (None, s') \<and> written val ds n v s s'"
    if "val (ds @ [n]) s \<noteq> None"
    using mockUpdate_exists [OF p that, of v] by (auto simp: mockApi_def noPanic_def)
  show "\<exists>err s'. st_Update mockApi (pathOf (ds @ [n])) v s = (Some err, s') \<and> val (ds @ [n]) s' = None"
    if "val (ds @ [n]) s = None"
    using mockUpdate_new [OF p that, of v] by (auto simp: mockApi_def noPanic_def)
  show "\<exists>s'. st_Set mockApi (pathOf (ds @ [n])) v s = (None, s') \<and> written val ds n v s s'"
    using mockSet_effect [OF p, of v s] by (auto simp: mockApi_def noPanic_def)
  show "\<exists>s'. st_Delete mockApi (pathOf (ds @ [n])) s = (None, s') \<and>
      (\<forall>q. val q s' = (if prefix (ds @ [n]) q then None else val q s))"
    if "val (ds @ [n]) s \<noteq> None"
    using mockDelete_effect [OF p that] by (auto simp: mockApi_def noPanic_def)
qed

text \<open>
  C36: The in-memory store keeps what it is told: a value that is set is read back, every other value that was
  there is still there, and a deleted key is gone.
\<close>

theorem mock_set_get_delete:
  assumes "plain (ds @ [n])"
  shows "\<exists>root'. mockSet (pathOf (ds @ [n])) v root = Some (None, root') \<and> mockGet (pathOf (ds @ [n])) root' = Some (Inr v) \<and>
    (\<forall>ds' n' w. plain (ds' @ [n']) \<and> ds' @ [n'] \<noteq> ds @ [n] \<and> mockGet (pathOf (ds' @ [n'])) root = Some (Inr w) \<longrightarrow>
      mockGet (pathOf (ds' @ [n'])) root' = Some (Inr w)) \<and>
    (\<exists>root'' err. mockDelete (pathOf (ds @ [n])) root' = Some (None, root'') \<and> mockGet (pathOf (ds @ [n])) root'' = Some (Inl err))"
proof -
  obtain root' where set: "mockSet (pathOf (ds @ [n])) v root = Some (None, root')" "written val ds n v root root'"
    using mockSet_effect [OF assms] by blast
  then have api: "st_Set mockApi (pathOf (ds @ [n])) v root = (None, root')" by (simp add: mockApi_def noPanic_def)
  have get: "mockGet (pathOf (ds @ [n])) t = Some (Inr w) \<longleftrightarrow> st_Get mockApi (pathOf (ds @ [n])) t = Inr w"
    if "plain (ds @ [n])" for ds n t w
    using mockGet_pathOf [OF that, of t] by (auto simp: mockApi_def split: option.splits)
  have "val (ds @ [n]) root' \<noteq> None" using set(2) by (simp add: written_def)
  from mockDelete_effect [OF assms this] obtain root'' where
    del: "mockDelete (pathOf (ds @ [n])) root' = Some (None, root'')" "val (ds @ [n]) root'' = None" by auto
  then have "\<exists>err. mockGet (pathOf (ds @ [n])) root'' = Some (Inl err)" using mockGet_pathOf [OF assms, of root''] by auto
  then show ?thesis
    using set(1) del(1) mockKv.set_then_get [OF assms api] mockKv.set_keeps_others [OF assms api] get assms by auto
qed

theorem mock_set_get_delete_witness:
  "plain ([''minion''] @ [''leader'']) \<and>
   (\<exists>root'. mockSet (pathOf [''minion'', ''leader'']) ''10.0.0.1'' newMock = Some (None, root') \<and>
     mockGet (pathOf [''minion'', ''leader'']) root' = Some (Inr ''10.0.0.1''))"
proof -
  have p: "plain ([''minion''] @ [''leader''])" by (simp add: plain_def)
  then show ?thesis using mock_set_get_delete [OF p, of "''10.0.0.1''" newMock] by auto
qed

end
