(* ===== verification/Elector.thy ===== *)
theory Elector
  imports Consensus Reconcile Db_Txn
begin

text \<open>
  Leader election among the masters (\<open>src/minion/elector/elector.go\<close>): every master tries to create the leader key
  in the consensus store, the one that succeeds keeps renewing it, and each records in its etcd row whether it leads.

  The time to live of the key is a step of its own, in which the store drops the key.  Waiting for a
  wake-up, sleeping and logging are left out; what other goroutines of the minion do to its database while the elector
  sleeps is the parameter \<open>sleep\<close>.
\<close>

definition leaderKey :: string where "leaderKey = ''/minion/leader''"

section \<open>Operations\<close>

definition leaderTxn :: "bool \<Rightarrow> string option \<Rightarrow> unit txn" where
  "leaderTxn leader ip view =
     (case SelectFromEtcd view nilCheck of
        [e] \<Rightarrow> map_option (Pair ()) (Commit (EtcdRow (e\<lparr>e_Leader := leader,
                 e_LeaderIP := (case ip of None \<Rightarrow> e_LeaderIP e | Some a \<Rightarrow> a)\<rparr>)) view)
      | _ \<Rightarrow> Some ((), view))"

text \<open>The variadic parameter of \<open>commitLeader\<close> is an option: no caller passes more than one address.\<close>

definition commitLeader :: "bool \<Rightarrow> string option \<Rightarrow> Database \<Rightarrow> Database option" where
  "commitLeader leader ip db = map_option snd (Transact (leaderTxn leader ip) db)"

text \<open>One iteration of \<open>watchLeader\<close>; an error of \<open>Get\<close> is ignored and leaves the empty string.\<close>

definition watchTxn :: "string \<Rightarrow> unit txn" where
  "watchTxn leader view =
     (case SelectFromEtcd view nilCheck of
        [e] \<Rightarrow> map_option (Pair ()) (Commit (EtcdRow (e\<lparr>e_LeaderIP := leader\<rparr>)) view)
      | _ \<Rightarrow> Some ((), view))"

definition watchLeader :: "'s storeApi \<Rightarrow> 's \<Rightarrow> Database \<Rightarrow> Database option" where
  "watchLeader api s db =
     map_option snd (Transact (watchTxn (case st_Get api leaderKey s of Inl _ \<Rightarrow> '''' | Inr leader \<Rightarrow> leader)) db)"

record node =
  nd_db :: Database
  nd_oldMaster :: bool

definition contend :: "'s storeApi \<Rightarrow> string \<Rightarrow> bool \<Rightarrow> Database \<Rightarrow> 's \<Rightarrow> (Database \<times> 's) option" where
  "contend api ip leader db s =
     (case (if leader then st_Update api leaderKey ip s else st_Create api leaderKey ip s) of (err, s1) \<Rightarrow>
        map_option (\<lambda>db1. (db1, s1))
          (case err of
             None \<Rightarrow> commitLeader True (Some ip) db
           | Some (StoreErr _) \<Rightarrow> commitLeader False (Some '''') db
           | Some NodeExist \<Rightarrow> commitLeader False None db))"

text \<open>
  One iteration of \<open>campaign\<close>.  After the delay of a new master the minion row is read again, the etcd
  row is not.
\<close>

definition campaign :: "'s storeApi \<Rightarrow> (Database \<Rightarrow> Database) \<Rightarrow> node \<Rightarrow> 's \<Rightarrow> (node \<times> 's) option" where
  "campaign api sleep nd s =
     (let db = nd_db nd; minions = SelectFromMinion db nilCheck; etcdRows = SelectFromEtcd db nilCheck;
          master = (length minions = 1 \<and> length etcdRows = 1 \<and> mi_Role (minions ! 0) = Master) in
      if nd_oldMaster nd \<and> \<not> master
      then map_option (\<lambda>db1. (\<lparr>nd_db = db1, nd_oldMaster = False\<rparr>, s)) (commitLeader False (Some '''') db)
      else
        (let waits = (\<not> nd_oldMaster nd \<and> master);
             db1 = (if waits then sleep db else db);
             minions1 = (if waits then SelectFromMinion db1 nilCheck else minions);
             master1 = (if waits then length minions1 = 1 \<and> mi_Role (minions1 ! 0) = Master else master) in
         if \<not> master1 \<or> mi_PrivateIP (minions1 ! 0) = '''' then Some (\<lparr>nd_db = db1, nd_oldMaster = master1\<rparr>, s)
         else map_option (\<lambda>(db2, s1). (\<lparr>nd_db = db2, nd_oldMaster = True\<rparr>, s1))
                (contend api (mi_PrivateIP (minions1 ! 0)) (e_Leader (etcdRows ! 0)) db1 s)))"

section \<open>The cluster of masters\<close>

definition leaderOf :: "Database \<Rightarrow> bool" where
  "leaderOf db = (case SelectFromEtcd db nilCheck of [e] \<Rightarrow> e_Leader e | _ \<Rightarrow> False)"

text \<open>Only the elector writes the leader flag: everybody else keeps it.\<close>

definition keepsLeader :: "(Database \<Rightarrow> Database) \<Rightarrow> bool" where
  "keepsLeader f \<longleftrightarrow> (\<forall>db. db_inv db \<longrightarrow> db_inv (f db) \<and> leaderOf (f db) = leaderOf db)"

inductive elect_step :: "'s storeApi \<Rightarrow> node list \<times> 's \<Rightarrow> node list \<times> 's \<Rightarrow> bool" for api where
  campaigns: "i < length nds \<Longrightarrow> keepsLeader sleep \<Longrightarrow> campaign api sleep (nds ! i) s = Some (nd', s') \<Longrightarrow>
    elect_step api (nds, s) (nds[i := nd'], s')"
| changes: "i < length nds \<Longrightarrow> db_inv db' \<Longrightarrow> leaderOf db' = leaderOf (nd_db (nds ! i)) \<Longrightarrow>
    elect_step api (nds, s) (nds[i := (nds ! i)\<lparr>nd_db := db'\<rparr>], s)"

definition ready :: "node list \<Rightarrow> bool" where
  "ready nds \<longleftrightarrow> list_all (\<lambda>nd. db_inv (nd_db nd) \<and> \<not> leaderOf (nd_db nd)) nds"

definition leaders :: "node list \<Rightarrow> nat list" where
  "leaders nds = filter (\<lambda>i. leaderOf (nd_db (nds ! i))) [0..<length nds]"

section \<open>At most one leader\<close>

lemma leaderKey_path: "leaderKey = pathOf ([''minion''] @ [''leader''])" "plain ([''minion''] @ [''leader''])"
  by (simp_all add: leaderKey_def pathOf_def)

lemma etcdTxn_effect:
  assumes "db_inv db" and e: "SelectFromEtcd db nilCheck = [e]" and same: "e_ID e' = e_ID e"
  shows "\<exists>db'. Commit (EtcdRow e') db = Some db' \<and> db_inv (fold alert allTables db') \<and>
    SelectFromEtcd (fold alert allTables db') nilCheck = [e'] \<and>
    SelectFromMinion (fold alert allTables db') nilCheck = SelectFromMinion db nilCheck"
proof -
  have "etcdK.allRows db = [e]" using e by (simp add: select_rows)
  from etcdK.Commit_sole [OF assms(1) this, of e'] same obtain db' where
    "Commit (EtcdRow e') db = Some db'" "db_inv db'" "etcdK.allRows db' = [e']" "frame EtcdTable db db'"
    by (auto split: if_splits)
  then show ?thesis using minionK.frame_allRows [of EtcdTable db db'] by (simp add: select_rows)
qed

lemma commitLeader_effect:
  assumes "db_inv db"
  shows "\<exists>db'. commitLeader leader ip db = Some db' \<and> db_inv db' \<and> (leaderOf db' \<longrightarrow> leader) \<and>
    (leader \<longrightarrow> leaderOf db' = (length (SelectFromEtcd db nilCheck) = 1))"
proof (cases "\<exists>e. SelectFromEtcd db nilCheck = [e]")
  case True
  then obtain e where e: "SelectFromEtcd db nilCheck = [e]" by blast
  let ?e = "e\<lparr>e_Leader := leader, e_LeaderIP := (case ip of None \<Rightarrow> e_LeaderIP e | Some a \<Rightarrow> a)\<rparr>"
  from etcdTxn_effect [OF assms e, of ?e] obtain db' where
    "Commit (EtcdRow ?e) db = Some db'" "db_inv (fold alert allTables db')"
    "SelectFromEtcd (fold alert allTables db') nilCheck = [?e]" by auto
  then show ?thesis using e by (simp add: commitLeader_def Transact_def leaderTxn_def leaderOf_def)
next
  case False
  then have "\<not> leaderOf db" "leaderTxn leader ip db = Some ((), db)" "length (SelectFromEtcd db nilCheck) \<noteq> 1"
    by (auto simp: leaderOf_def leaderTxn_def length_Suc_conv split: list.splits)
  then show ?thesis using assms by (simp add: commitLeader_def Transact_def leaderOf_def)
qed

text \<open>A node that may campaign.\<close>

definition masterAt :: "node \<Rightarrow> string \<Rightarrow> bool" where
  "masterAt nd ip \<longleftrightarrow> db_inv (nd_db nd) \<and> ip \<noteq> '''' \<and> length (SelectFromEtcd (nd_db nd) nilCheck) = 1 \<and>
     (case SelectFromMinion (nd_db nd) nilCheck of [m] \<Rightarrow> mi_Role m = Master \<and> mi_PrivateIP m = ip | _ \<Rightarrow> False)"

lemma commitLeader_master:
  assumes "masterAt nd ip"
  shows "\<exists>db'. commitLeader leader a (nd_db nd) = Some db' \<and> leaderOf db' = leader \<and>
    masterAt \<lparr>nd_db = db', nd_oldMaster = b\<rparr> ip"
proof -
  obtain e where e: "SelectFromEtcd (nd_db nd) nilCheck = [e]" using assms by (auto simp: masterAt_def length_Suc_conv)
  let ?e = "e\<lparr>e_Leader := leader, e_LeaderIP := (case a of None \<Rightarrow> e_LeaderIP e | Some i \<Rightarrow> i)\<rparr>"
  from etcdTxn_effect [OF _ e, of ?e] assms obtain db' where
    "Commit (EtcdRow ?e) (nd_db nd) = Some db'" "db_inv (fold alert allTables db')"
    "SelectFromEtcd (fold alert allTables db') nilCheck = [?e]"
    "SelectFromMinion (fold alert allTables db') nilCheck = SelectFromMinion (nd_db nd) nilCheck"
    by (auto simp: masterAt_def)
  then show ?thesis using e assms by (simp add: commitLeader_def Transact_def leaderTxn_def leaderOf_def masterAt_def)
qed

lemma watchLeader_keeps:
  assumes "db_inv db" "watchLeader api s db = Some db'"
  shows "db_inv db' \<and> leaderOf db' = leaderOf db"
proof (cases "\<exists>e. SelectFromEtcd db nilCheck = [e]")
  case True
  then obtain e where e: "SelectFromEtcd db nilCheck = [e]" by blast
  let ?e = "e\<lparr>e_LeaderIP := (case st_Get api leaderKey s of Inl _ \<Rightarrow> '''' | Inr leader \<Rightarrow> leader)\<rparr>"
  from etcdTxn_effect [OF assms(1) e, of ?e] obtain db1 where
    "Commit (EtcdRow ?e) db = Some db1" "db_inv (fold alert allTables db1)"
    "SelectFromEtcd (fold alert allTables db1) nilCheck = [?e]" by auto
  then show ?thesis using e assms(2) by (auto simp: watchLeader_def Transact_def watchTxn_def leaderOf_def)
next
  case False
  then have "watchTxn l db = Some ((), db)" for l by (auto simp: watchTxn_def split: list.splits)
  then show ?thesis using assms by (auto simp: watchLeader_def Transact_def leaderOf_def)
qed

context kv_store
begin

lemma lease:
  "content [''minion'', ''leader''] s = None \<Longrightarrow>
     \<exists>s'. st_Create api leaderKey v s = (None, s') \<and> content [''minion'', ''leader''] s' = Some v"
  "content [''minion'', ''leader''] s \<noteq> None \<Longrightarrow>
     \<exists>err s'. st_Create api leaderKey v s = (Some err, s') \<and> content [''minion'', ''leader''] s' \<noteq> None"
  "content [''minion'', ''leader''] s \<noteq> None \<Longrightarrow>
     \<exists>s'. st_Update api leaderKey v s = (None, s') \<and> content [''minion'', ''leader''] s' = Some v"
  using create_new [OF leaderKey_path(2), of s v] create_exists [OF leaderKey_path(2), of s v]
    update_exists [OF leaderKey_path(2), of s v]
  unfolding leaderKey_path(1) by (auto simp: written_def)

lemma contend_effect:
  assumes "db_inv db" and "contend api ip leader db s = Some (db', s')"
    and held: "leader \<Longrightarrow> content [''minion'', ''leader''] s \<noteq> None"
  shows "db_inv db' \<and> (leaderOf db' \<longrightarrow> content [''minion'', ''leader''] s' \<noteq> None) \<and>
    (content [''minion'', ''leader''] s \<noteq> None \<longrightarrow> content [''minion'', ''leader''] s' \<noteq> None) \<and>
    (leaderOf db' \<longrightarrow> leader \<or> content [''minion'', ''leader''] s = None)"
proof -
  obtain err s1 where op: "(if leader then st_Update api leaderKey ip s else st_Create api leaderKey ip s) = (err, s1)"
    by force
  with assms(2) have s': "s' = s1" "(case err of None \<Rightarrow> commitLeader True (Some ip) db
      | Some (StoreErr _) \<Rightarrow> commitLeader False (Some '''') db | Some NodeExist \<Rightarrow> commitLeader False None db) = Some db'"
    by (auto simp: contend_def)
  obtain l a where c: "commitLeader l a db = Some db'" "l \<longleftrightarrow> err = None"
    using s'(2) by (auto split: option.splits storeErr.splits)
  then have e: "db_inv db'" "leaderOf db' \<longrightarrow> err = None" using commitLeader_effect [OF assms(1), of l a] by auto
  show ?thesis
  proof (cases leader)
    case True
    then show ?thesis using e lease(3) [of s ip] held op s'(1) by auto
  next
    case False
    then show ?thesis
      using e lease(1) [of s ip] lease(2) [of s ip] op s'(1) by (cases "content [''minion'', ''leader''] s") auto
  qed
qed

lemma campaign_effect:
  assumes inv: "db_inv (nd_db nd)" and sleep: "keepsLeader sleep" and run: "campaign api sleep nd s = Some (nd', s')"
    and held: "leaderOf (nd_db nd) \<Longrightarrow> content [''minion'', ''leader''] s \<noteq> None"
  shows "db_inv (nd_db nd') \<and> (leaderOf (nd_db nd') \<longrightarrow> content [''minion'', ''leader''] s' \<noteq> None) \<and>
    (content [''minion'', ''leader''] s \<noteq> None \<longrightarrow> content [''minion'', ''leader''] s' \<noteq> None) \<and>
    (leaderOf (nd_db nd') \<longrightarrow> leaderOf (nd_db nd) \<or> content [''minion'', ''leader''] s = None)"
proof -
  let ?db = "nd_db nd"
  let ?master = "length (SelectFromMinion ?db nilCheck) = 1 \<and> length (SelectFromEtcd ?db nilCheck) = 1 \<and>
    mi_Role (SelectFromMinion ?db nilCheck ! 0) = Master"
  let ?db1 = "if \<not> nd_oldMaster nd \<and> ?master then sleep ?db else ?db"
  have db1: "db_inv ?db1" "leaderOf ?db1 = leaderOf ?db" using inv sleep by (auto simp: keepsLeader_def)
  let ?waits = "\<not> nd_oldMaster nd \<and> ?master"
  let ?minions1 = "if ?waits then SelectFromMinion ?db1 nilCheck else SelectFromMinion ?db nilCheck"
  let ?master1 = "if ?waits then length ?minions1 = 1 \<and> mi_Role (?minions1 ! 0) = Master else ?master"
  let ?leader = "e_Leader (SelectFromEtcd ?db nilCheck ! 0)"
  have eq: "campaign api sleep nd s = (if nd_oldMaster nd \<and> \<not> ?master
      then map_option (\<lambda>db1. (\<lparr>nd_db = db1, nd_oldMaster = False\<rparr>, s)) (commitLeader False (Some '''') ?db)
      else if \<not> ?master1 \<or> mi_PrivateIP (?minions1 ! 0) = '''' then Some (\<lparr>nd_db = ?db1, nd_oldMaster = ?master1\<rparr>, s)
      else map_option (\<lambda>(db2, s1). (\<lparr>nd_db = db2, nd_oldMaster = True\<rparr>, s1))
        (contend api (mi_PrivateIP (?minions1 ! 0)) ?leader ?db1 s))"
    unfolding campaign_def Let_def by (rule refl)
  consider
      (down) "nd_oldMaster nd \<and> \<not> ?master"
    | (idle) "\<not> (nd_oldMaster nd \<and> \<not> ?master)" "\<not> ?master1 \<or> mi_PrivateIP (?minions1 ! 0) = ''''"
    | (contends) "\<not> (nd_oldMaster nd \<and> \<not> ?master)" "\<not> (\<not> ?master1 \<or> mi_PrivateIP (?minions1 ! 0) = '''')"
    by blast
  then show ?thesis
  proof cases
    case down
    have "commitLeader False (Some '''') ?db = Some (nd_db nd')" "s' = s"
      using run [unfolded eq if_P [OF down]] by auto
    then show ?thesis using commitLeader_effect [OF inv, of False "Some ''''"] by auto
  next
    case idle
    have "nd_db nd' = ?db1" "s' = s" using run [unfolded eq if_not_P [OF idle(1)] if_P [OF idle(2)]] by auto
    then show ?thesis using db1 held by simp
  next
    case contends
    have c: "contend api (mi_PrivateIP (?minions1 ! 0)) ?leader ?db1 s = Some (nd_db nd', s')"
      using run [unfolded eq if_not_P [OF contends(1)] if_not_P [OF contends(2)]] by auto
    have "?master"
    proof (rule ccontr)
      assume "\<not> ?master"
      with contends show False by (simp only: simp_thms if_False)
    qed
    then have l: "?leader = leaderOf ?db" by (auto simp: leaderOf_def length_Suc_conv)
    show ?thesis by (rule contend_effect [OF db1(1) c, unfolded l]) (rule held)
  qed
qed

lemma campaign_wins:
  assumes "masterAt nd ip" and "leaderOf (nd_db nd) \<longleftrightarrow> content [''minion'', ''leader''] s \<noteq> None"
  shows "\<exists>nd' s'. campaign api id nd s = Some (nd', s') \<and> masterAt nd' ip \<and> leaderOf (nd_db nd') \<and>
    content [''minion'', ''leader''] s' = Some ip"
proof -
  obtain m e where rows: "SelectFromMinion (nd_db nd) nilCheck = [m]" "SelectFromEtcd (nd_db nd) nilCheck = [e]"
    and m: "mi_Role m = Master" "mi_PrivateIP m = ip" "ip \<noteq> ''''"
    using assms(1) by (auto simp: masterAt_def length_Suc_conv split: list.splits)
  obtain s' where "(if e_Leader e then st_Update api leaderKey ip s else st_Create api leaderKey ip s) = (None, s')"
      "content [''minion'', ''leader''] s' = Some ip"
    using lease(1) [of s ip] lease(3) [of s ip] assms(2) rows(2) by (cases "e_Leader e") (auto simp: leaderOf_def)
  then show ?thesis
    using commitLeader_master [OF assms(1), of True "Some ip" True] rows m
    by (auto simp: campaign_def Let_def contend_def)
qed

lemma both_lead:
  assumes "masterAt a ip" "masterAt b ip'" "\<not> leaderOf (nd_db b)" "\<not> leaderOf (nd_db a)"
    and "content [''minion'', ''leader''] s = None"
    and expired: "\<And>s. content [''minion'', ''leader''] (expire s) = None"
  shows "\<exists>a1 s1 b1 s3 a2 s4 b2 s5. campaign api id a s = Some (a1, s1) \<and> campaign api id b (expire s1) = Some (b1, s3) \<and>
    campaign api id a1 s3 = Some (a2, s4) \<and> campaign api id b1 s4 = Some (b2, s5) \<and> leaders [a2, b2] = [0, 1] \<and>
    masterAt a2 ip \<and> masterAt b2 ip'"
proof -
  obtain a1 s1 where a1: "campaign api id a s = Some (a1, s1)" "masterAt a1 ip" "leaderOf (nd_db a1)"
    using campaign_wins [OF assms(1), of s] assms(4,5) by auto
  obtain b1 s3 where b1: "campaign api id b (expire s1) = Some (b1, s3)" "masterAt b1 ip'" "leaderOf (nd_db b1)"
      "content [''minion'', ''leader''] s3 = Some ip'"
    using campaign_wins [OF assms(2), of "expire s1"] assms(3) expired by auto
  obtain a2 s4 where a2: "campaign api id a1 s3 = Some (a2, s4)" "masterAt a2 ip" "leaderOf (nd_db a2)"
      "content [''minion'', ''leader''] s4 = Some ip"
    using campaign_wins [OF a1(2), of s3] a1(3) b1(4) by auto
  obtain b2 s5 where "campaign api id b1 s4 = Some (b2, s5)" "masterAt b2 ip'" "leaderOf (nd_db b2)"
    using campaign_wins [OF b1(2), of s4] b1(3) a2(4) by auto
  moreover from this a2(3) have "leaders [a2, b2] = [0, 1]" by (simp add: leaders_def upt_rec)
  ultimately show ?thesis using a1(1) b1(1) a2(1,2) by blast
qed

definition elect_inv :: "node list \<times> 's \<Rightarrow> bool" where
  "elect_inv c \<longleftrightarrow> (\<forall>i < length (fst c). db_inv (nd_db (fst c ! i)) \<and>
     (leaderOf (nd_db (fst c ! i)) \<longrightarrow> content [''minion'', ''leader''] (snd c) \<noteq> None \<and>
        (\<forall>j < length (fst c). leaderOf (nd_db (fst c ! j)) \<longrightarrow> j = i)))"

lemma elect_invI:
  assumes "\<And>k. k < length (fst c) \<Longrightarrow> db_inv (nd_db (fst c ! k))"
    and "\<And>k. k < length (fst c) \<Longrightarrow> leaderOf (nd_db (fst c ! k)) \<Longrightarrow> content [''minion'', ''leader''] (snd c) \<noteq> None"
    and "\<And>k j. k < length (fst c) \<Longrightarrow> leaderOf (nd_db (fst c ! k)) \<Longrightarrow> j < length (fst c) \<Longrightarrow>
      leaderOf (nd_db (fst c ! j)) \<Longrightarrow> j = k"
  shows "elect_inv c"
  unfolding elect_inv_def using assms by blast

lemma elect_invD:
  assumes "elect_inv c" "k < length (fst c)"
  shows "db_inv (nd_db (fst c ! k))"
    and "leaderOf (nd_db (fst c ! k)) \<Longrightarrow> content [''minion'', ''leader''] (snd c) \<noteq> None"
    and "leaderOf (nd_db (fst c ! k)) \<Longrightarrow> j < length (fst c) \<Longrightarrow> leaderOf (nd_db (fst c ! j)) \<Longrightarrow> j = k"
  using assms unfolding elect_inv_def by blast+

lemma elect_step_inv:
  "elect_step api c c' \<Longrightarrow> elect_inv c \<Longrightarrow> elect_inv c'"
proof (induction rule: elect_step.induct)
  case (campaigns i nds sleep s nd' s')
  note e = campaign_effect [OF _ campaigns.hyps(2,3)]
  have "db_inv (nd_db (nds ! i))" "leaderOf (nd_db (nds ! i)) \<Longrightarrow> content [''minion'', ''leader''] s \<noteq> None"
    using campaigns.hyps(1) campaigns.prems by (auto simp: elect_inv_def)
  note e = e [OF this]
  show ?case
  proof (rule elect_invI)
    fix k assume k: "k < length (fst (nds[i := nd'], s'))"
    show "db_inv (nd_db (fst (nds[i := nd'], s') ! k))"
      using e campaigns.hyps(1) elect_invD(1) [OF campaigns.prems, of k] k by (cases "k = i") auto
    assume l: "leaderOf (nd_db (fst (nds[i := nd'], s') ! k))"
    show "content [''minion'', ''leader''] (snd (nds[i := nd'], s')) \<noteq> None"
      using e l campaigns.hyps(1) elect_invD(2) [OF campaigns.prems, of k] k by (cases "k = i") auto
    fix j assume j: "j < length (fst (nds[i := nd'], s'))" and lj: "leaderOf (nd_db (fst (nds[i := nd'], s') ! j))"
    show "j = k"
    proof (cases "j = i \<or> k = i")
      case True
      then show ?thesis
        using e l lj k j campaigns.hyps(1) elect_invD(2) [OF campaigns.prems, of k] elect_invD(2) [OF campaigns.prems, of j]
          elect_invD(3) [OF campaigns.prems, of j i] elect_invD(3) [OF campaigns.prems, of k i]
        by (cases "j = k") (auto simp: nth_list_update split: if_splits)
    next
      case False
      then show ?thesis using l lj k j elect_invD(3) [OF campaigns.prems, of j k] by simp
    qed
  qed
next
  case (changes i nds db' s)
  have same: "leaderOf (nd_db (nds[i := (nds ! i)\<lparr>nd_db := db'\<rparr>] ! k)) = leaderOf (nd_db (nds ! k))" if "k < length nds" for k
    using changes.hyps that by (cases "k = i") auto
  show ?case
  proof (rule elect_invI)
    fix k assume k: "k < length (fst (nds[i := (nds ! i)\<lparr>nd_db := db'\<rparr>], s))"
    show "db_inv (nd_db (fst (nds[i := (nds ! i)\<lparr>nd_db := db'\<rparr>], s) ! k))"
      using changes.hyps elect_invD(1) [OF changes.prems, of k] k by (cases "k = i") auto
    assume l: "leaderOf (nd_db (fst (nds[i := (nds ! i)\<lparr>nd_db := db'\<rparr>], s) ! k))"
    then show "content [''minion'', ''leader''] (snd (nds[i := (nds ! i)\<lparr>nd_db := db'\<rparr>], s)) \<noteq> None"
      using same k elect_invD(2) [OF changes.prems, of k] by simp
    fix j assume "j < length (fst (nds[i := (nds ! i)\<lparr>nd_db := db'\<rparr>], s))"
      "leaderOf (nd_db (fst (nds[i := (nds ! i)\<lparr>nd_db := db'\<rparr>], s) ! j))"
    then show "j = k" using l k same elect_invD(3) [OF changes.prems, of j k] by simp
  qed
qed

lemma elected_alone:
  assumes "(elect_step api)\<^sup>*\<^sup>* (nds0, s0) (nds, s)" "ready nds0"
  shows "length (leaders nds) \<le> 1"
proof -
  have "elect_inv (nds0, s0)" using assms(2) by (auto simp: ready_def elect_inv_def list_all_length)
  with assms(1) have "elect_inv (nds, s)"
    by (induction rule: rtranclp_induct) (simp, erule elect_step_inv)
  then have same: "i = j" if "i \<in> set (leaders nds)" "j \<in> set (leaders nds)" for i j
    using that elect_invD(3) [of "(nds, s)" j i] by (simp add: leaders_def)
  have "card (set (leaders nds)) \<le> 1"
    by (rule card_le_Suc0_iff_eq [THEN iffD2, simplified One_nat_def [symmetric]]) (simp, use same in blast)
  moreover have "distinct (leaders nds)" by (simp add: leaders_def)
  ultimately show ?thesis using distinct_card by fastforce
qed

end

text \<open>
  C7: As long as the key does not expire there is at most one leader: however the masters' campaigns interleave, with
  each other and with other writers of their databases, at most one of them ever has its leader flag set.
\<close>

theorem at_most_one_leader:
  assumes "(elect_step mockApi)\<^sup>*\<^sup>* (nds0, s0) (nds, s)" and "ready nds0"
  shows "length (leaders nds) \<le> 1"
  by (rule mockKv.elected_alone [OF assms])

definition masterNode :: "string \<Rightarrow> node" where
  "masterNode ip =
     (let (m, db1) = InsertMinion New; (e, db2) = InsertEtcd db1 in
      \<lparr>nd_db = the (Commit (MinionRow (m\<lparr>mi_Role := Master, mi_PrivateIP := ip\<rparr>)) db2), nd_oldMaster = False\<rparr>)"

text \<open>The time to live of the leader key runs out.\<close>

definition expireLeader :: "Tree \<Rightarrow> Tree" where
  "expireLeader s = (case mockDelete leaderKey s of Some (None, s') \<Rightarrow> s' | _ \<Rightarrow> s)"

lemma val_expireLeader: "val [''minion'', ''leader''] (expireLeader s) = None"
proof (cases "val [''minion'', ''leader''] s")
  case (Some v)
  then show ?thesis
    using mockDelete_effect [OF leaderKey_path(2), of s] unfolding leaderKey_path(1) [symmetric]
    by (auto simp: expireLeader_def)
next
  case None
  then show ?thesis
    using mockDelete_absent [OF leaderKey_path(2), of s] unfolding leaderKey_path(1) [symmetric]
    by (auto simp: expireLeader_def)
qed

text \<open>
  C37: Once the key has expired while its owner was delayed, two masters lead at the same time and keep doing so: the
  second one creates the key, and each renews it from then on, because a renewal only asks that the key exists and
  not that it is the owner's.
\<close>

theorem two_leaders_after_expiry:
  assumes "masterAt a ip" and "masterAt b ip'" and "leaders [a, b] = []" and "val [''minion'', ''leader''] s = None"
  shows "\<exists>a1 s1 b1 s3 a2 s4 b2 s5. campaign mockApi id a s = Some (a1, s1) \<and>
    campaign mockApi id b (expireLeader s1) = Some (b1, s3) \<and>
    campaign mockApi id a1 s3 = Some (a2, s4) \<and> campaign mockApi id b1 s4 = Some (b2, s5) \<and>
    leaders [a2, b2] = [0, 1] \<and> masterAt a2 ip \<and> masterAt b2 ip'"
proof (rule mockKv.both_lead [OF assms(1,2) _ _ assms(4) val_expireLeader])
  show "\<not> leaderOf (nd_db b)" "\<not> leaderOf (nd_db a)" using assms(3) by (auto simp: leaders_def upt_rec split: if_splits)
qed

lemma masterNode_ok: "masterAt (masterNode ''10.0.0.1'') ''10.0.0.1''" "masterAt (masterNode ''10.0.0.2'') ''10.0.0.2''"
  "leaders [masterNode ''10.0.0.1'', masterNode ''10.0.0.2''] = []"
proof -
  have inv: "db_inv (nd_db (masterNode ip))" for ip
  proof -
    obtain m db1 where 1: "InsertMinion New = (m, db1)" by force
    obtain e db2 where 2: "InsertEtcd db1 = (e, db2)" by force
    note i1 = minionK.insertRow_effect [OF db_inv_New 1 [unfolded InsertMinion_def]]
    note i2 = etcdK.insertRow_effect [OF _ 2 [unfolded InsertEtcd_def]]
    have "SelectFromMinion New nilCheck = []" by code_simp
    then have r: "minionK.allRows db2 = [m]" "db_inv db2"
      using i1 i2 minionK.frame_allRows [of EtcdTable db1 db2] by (auto simp: select_rows)
    from minionK.Commit_sole [OF r(2,1), of "m\<lparr>mi_Role := Master, mi_PrivateIP := ip\<rparr>"] show ?thesis
      using 1 2 by (auto simp: masterNode_def)
  qed
  have rows:
    "length (SelectFromEtcd (nd_db (masterNode ''10.0.0.1'')) nilCheck) = 1"
    "length (SelectFromEtcd (nd_db (masterNode ''10.0.0.2'')) nilCheck) = 1"
    "case SelectFromMinion (nd_db (masterNode ''10.0.0.1'')) nilCheck of [m] \<Rightarrow> mi_Role m = Master \<and> mi_PrivateIP m = ''10.0.0.1'' | _ \<Rightarrow> False"
    "case SelectFromMinion (nd_db (masterNode ''10.0.0.2'')) nilCheck of [m] \<Rightarrow> mi_Role m = Master \<and> mi_PrivateIP m = ''10.0.0.2'' | _ \<Rightarrow> False"
    by code_simp+
  show "masterAt (masterNode ''10.0.0.1'') ''10.0.0.1''" "masterAt (masterNode ''10.0.0.2'') ''10.0.0.2''"
    unfolding masterAt_def using inv rows by simp_all
  show "leaders [masterNode ''10.0.0.1'', masterNode ''10.0.0.2''] = []" by code_simp
qed

theorem two_leaders_after_expiry_witness:
  "masterAt (masterNode ''10.0.0.1'') ''10.0.0.1'' \<and> masterAt (masterNode ''10.0.0.2'') ''10.0.0.2'' \<and>
   (\<exists>a1 s1 b1 s3. campaign mockApi id (masterNode ''10.0.0.1'') newMock = Some (a1, s1) \<and>
     campaign mockApi id (masterNode ''10.0.0.2'') (expireLeader s1) = Some (b1, s3))"
proof -
  have "val [''minion'', ''leader''] newMock = None" by code_simp
  from two_leaders_after_expiry [OF masterNode_ok this] masterNode_ok show ?thesis by blast
qed

theorem at_most_one_leader_witness:
  "ready [masterNode ''10.0.0.1'', masterNode ''10.0.0.2''] \<and>
   (\<exists>a1 s1. (elect_step mockApi)\<^sup>*\<^sup>* ([masterNode ''10.0.0.1'', masterNode ''10.0.0.2''], newMock)
       ([a1, masterNode ''10.0.0.2''], s1) \<and> leaderOf (nd_db a1) \<and> length (leaders [a1, masterNode ''10.0.0.2'']) \<le> 1)"
proof -
  have no: "\<not> leaderOf (nd_db (masterNode ''10.0.0.1''))" "\<not> leaderOf (nd_db (masterNode ''10.0.0.2''))"
    using masterNode_ok(3) by (auto simp: leaders_def upt_rec split: if_splits)
  then have r: "ready [masterNode ''10.0.0.1'', masterNode ''10.0.0.2'']"
    using masterNode_ok by (simp add: ready_def masterAt_def)
  have "val [''minion'', ''leader''] newMock = None" by code_simp
  then obtain a1 s1 where a1: "campaign mockApi id (masterNode ''10.0.0.1'') newMock = Some (a1, s1)" "leaderOf (nd_db a1)"
    using mockKv.campaign_wins [OF masterNode_ok(1), of newMock] no by auto
  have "elect_step mockApi ([masterNode ''10.0.0.1'', masterNode ''10.0.0.2''], newMock) ([a1, masterNode ''10.0.0.2''], s1)"
    using campaigns [of 0 "[masterNode ''10.0.0.1'', masterNode ''10.0.0.2'']" id mockApi newMock a1 s1] a1(1)
    by (simp add: keepsLeader_def)
  then have "(elect_step mockApi)\<^sup>*\<^sup>* ([masterNode ''10.0.0.1'', masterNode ''10.0.0.2''], newMock) ([a1, masterNode ''10.0.0.2''], s1)"
    by (rule r_into_rtranclp)
  from at_most_one_leader [OF this r] this a1(2) r show ?thesis by blast
qed

end
