(* ===== verification/Net.thy ===== *)
theory Net
  imports Strings "HOL-Library.Word"
begin

unbundle bit_operations_syntax

text \<open>
  The parts of Go's \<open>net\<close> and \<open>encoding/binary\<close> packages that the network code uses: parsing and printing of
  addresses, and the conversion between four bytes and a 32-bit integer.
\<close>

section \<open>Bytes and integers\<close>

type_synonym byte = "8 word"

definition beUint32 :: "byte \<times> byte \<times> byte \<times> byte \<Rightarrow> 32 word" where
  "beUint32 p = (case p of (a, b, c, d) \<Rightarrow>
     ucast d OR push_bit 8 (ucast c) OR push_bit 16 (ucast b) OR push_bit 24 (ucast a))"

definition bePutUint32 :: "32 word \<Rightarrow> byte \<times> byte \<times> byte \<times> byte" where
  "bePutUint32 w = (ucast (drop_bit 24 w), ucast (drop_bit 16 w), ucast (drop_bit 8 w), ucast w)"

lemma beUint32_put [simp]: "beUint32 (bePutUint32 w) = w"
proof (rule bit_word_eqI)
  fix n assume "n < LENGTH(32)"
  then consider "n < 8" | "8 \<le> n" "n < 16" | "16 \<le> n" "n < 24" | "24 \<le> n" "n < 32" by fastforce
  then show "bit (beUint32 (bePutUint32 w)) n = bit w n"
    by cases (auto simp: beUint32_def bePutUint32_def bit_or_iff bit_push_bit_iff bit_ucast_iff bit_drop_bit_eq)
qed

lemma bePutUint32_inject: "bePutUint32 v = bePutUint32 w \<Longrightarrow> v = w"
  by (metis beUint32_put)

section \<open>Parsing\<close>

text \<open>\<open>dtoi\<close> and \<open>xtoi\<close>: the number at the start of a string and the rest; numbers beyond \<open>0xFFFFFF\<close> are refused.\<close>

definition dtoi :: "string \<Rightarrow> (nat \<times> string) option" where
  "dtoi s = (let ds = takeWhile isDigit s in
     if ds = [] \<or> digitsVal ds \<ge> 0xFFFFFF then None else Some (digitsVal ds, dropWhile isDigit s))"

definition hexDigit :: "char \<Rightarrow> nat option" where
  "hexDigit c = (let n = of_char c in
     if 48 \<le> n \<and> n \<le> 57 then Some (n - 48)
     else if 97 \<le> n \<and> n \<le> 102 then Some (n - 87)
     else if 65 \<le> n \<and> n \<le> 70 then Some (n - 55)
     else None)"

definition xtoi :: "string \<Rightarrow> (nat \<times> string) option" where
  "xtoi s = (let ds = takeWhile (\<lambda>c. hexDigit c \<noteq> None) s; n = foldl (\<lambda>n c. 16 * n + the (hexDigit c)) 0 ds in
     if ds = [] \<or> n \<ge> 0xFFFFFF then None else Some (n, dropWhile (\<lambda>c. hexDigit c \<noteq> None) s))"

text \<open>The four numbers of a dotted address: the dot is expected before every number but the first.\<close>

fun parseDots :: "nat \<Rightarrow> bool \<Rightarrow> string \<Rightarrow> byte list option" where
  "parseDots 0 first s = (if s = [] then Some [] else None)"
| "parseDots (Suc j) first s =
     (case (if first then Some s else (case s of [] \<Rightarrow> None | c # s' \<Rightarrow> if c = CHR ''.'' then Some s' else None)) of
        None \<Rightarrow> None
      | Some s1 \<Rightarrow>
          (case dtoi s1 of
             None \<Rightarrow> None
           | Some (n, s2) \<Rightarrow> if n > 255 then None else map_option ((#) (of_nat n)) (parseDots j False s2)))"

definition parseIPv4 :: "string \<Rightarrow> byte list option" where
  "parseIPv4 s = parseDots 4 True s"

text \<open>
  \<open>parseIPv6\<close>: the groups read so far, the position of the ellipsis among their bytes, and the rest of the string.
\<close>

definition expand :: "nat option \<Rightarrow> byte list \<Rightarrow> byte list option" where
  "expand ellipsis ip =
     (case ellipsis of
        None \<Rightarrow> if length ip = 16 then Some ip else None
      | Some e \<Rightarrow> if length ip < 16 then Some (take e ip @ replicate (16 - length ip) 0 @ drop e ip) else None)"

fun groups :: "nat \<Rightarrow> nat option \<Rightarrow> byte list \<Rightarrow> string \<Rightarrow> byte list option" where
  "groups 0 ellipsis ip s = (if s = [] then expand ellipsis ip else None)"
| "groups (Suc k) ellipsis ip s =
     (case xtoi s of
        None \<Rightarrow> None
      | Some (n, s1) \<Rightarrow>
          if n > 0xFFFF then None
          else if s1 \<noteq> [] \<and> hd s1 = CHR ''.'' then
            (if ellipsis = None \<and> length ip \<noteq> 12 \<or> length ip + 4 > 16 then None
             else Option.bind (parseIPv4 s) (\<lambda>ip4. expand ellipsis (ip @ ip4)))
          else
            (let ip1 = ip @ [of_nat (n div 256), of_nat n] in
             case s1 of
               [] \<Rightarrow> expand ellipsis ip1
             | [c] \<Rightarrow> None
             | c # d # s2 \<Rightarrow>
                 if c \<noteq> CHR '':'' then None
                 else if d = CHR '':'' then
                   (if ellipsis \<noteq> None then None
                    else if s2 = [] then expand (Some (length ip1)) ip1
                    else groups k (Some (length ip1)) ip1 s2)
                 else groups k ellipsis ip1 (d # s2)))"

definition parseIPv6 :: "string \<Rightarrow> byte list option" where
  "parseIPv6 s =
     (if HasPrefix s ''::'' then
        (if length s = 2 then Some (replicate 16 0) else groups 8 (Some 0) [] (drop 2 s))
      else groups 8 None [] s)"

text \<open>The first dot or colon decides; addresses have sixteen bytes.\<close>

definition ParseIP :: "string \<Rightarrow> byte list option" where
  "ParseIP s =
     (case dropWhile (\<lambda>c. c \<noteq> CHR ''.'' \<and> c \<noteq> CHR '':'') s of
        [] \<Rightarrow> None
      | c # _ \<Rightarrow>
          if c = CHR ''.'' then map_option ((@) (replicate 10 0 @ [255, 255])) (parseIPv4 s)
          else parseIPv6 s)"

definition To4 :: "byte list \<Rightarrow> (byte \<times> byte \<times> byte \<times> byte) option" where
  "To4 ip =
     (if length ip = 16 \<and> take 12 ip = replicate 10 0 @ [255, 255]
      then Some (ip ! 12, ip ! 13, ip ! 14, ip ! 15) else None)"

definition parse4 :: "string \<Rightarrow> (byte \<times> byte \<times> byte \<times> byte) option" where
  "parse4 s = Option.bind (ParseIP s) To4"

definition IP_String :: "byte \<times> byte \<times> byte \<times> byte \<Rightarrow> string" where
  "IP_String p = (case p of (a, b, c, d) \<Rightarrow> joinStr ''.'' (map (natStr \<circ> unat) [a, b, c, d]))"

section \<open>Printing and parsing are inverse\<close>

lemma dtoi_natStr:
  assumes "n < 0xFFFFFF" and "s = [] \<or> \<not> isDigit (hd s)"
  shows "dtoi (natStr n @ s) = Some (n, s)"
proof -
  have d: "\<And>c. c \<in> set (natStr n) \<Longrightarrow> isDigit c" and ne: "natStr n \<noteq> []"
    using natStr_digits [of n] by (auto simp: list_all_iff)
  have "takeWhile isDigit (natStr n @ s) = natStr n" "dropWhile isDigit (natStr n @ s) = s"
    using d assms(2) by (cases s; simp add: takeWhile_append dropWhile_append)+
  then show ?thesis using assms(1) ne by (simp add: dtoi_def Let_def)
qed

lemma unat_byte: "unat (b :: byte) < 256"
  using unsigned_less [of b] by simp

lemma parseDots_byte:
  assumes "s = [] \<or> hd s = CHR ''.''"
  shows "parseDots (Suc j) True (natStr (unat (b :: byte)) @ s) = map_option ((#) b) (parseDots j False s)"
    and "parseDots (Suc j) False (CHR ''.'' # natStr (unat b) @ s) = map_option ((#) b) (parseDots j False s)"
proof -
  have "s = [] \<or> \<not> isDigit (hd s)" using assms by (auto simp: isDigit_def)
  then have "dtoi (natStr (unat b) @ s) = Some (unat b, s)" using unat_byte [of b] by (intro dtoi_natStr) simp_all
  then show "parseDots (Suc j) True (natStr (unat b) @ s) = map_option ((#) b) (parseDots j False s)"
      "parseDots (Suc j) False (CHR ''.'' # natStr (unat b) @ s) = map_option ((#) b) (parseDots j False s)"
    using unat_byte [of b] by simp_all
qed

lemma parseIPv4_String: "parseIPv4 (IP_String (a, b, c, d)) = Some [a, b, c, d]"
proof -
  note p = parseDots_byte
  have "parseDots 1 False (CHR ''.'' # natStr (unat d)) = Some [d]"
    using p(2) [of "[]" 0 d] by simp
  then have "parseDots 2 False (CHR ''.'' # natStr (unat c) @ CHR ''.'' # natStr (unat d)) = Some [c, d]"
    using p(2) [of "CHR ''.'' # natStr (unat d)" 1 c] by (simp add: numeral_2_eq_2)
  then have "parseDots 3 False (CHR ''.'' # natStr (unat b) @ CHR ''.'' # natStr (unat c) @ CHR ''.'' # natStr (unat d)) = Some [b, c, d]"
    using p(2) [of "CHR ''.'' # natStr (unat c) @ CHR ''.'' # natStr (unat d)" 2 b] by (simp add: numeral_2_eq_2 numeral_3_eq_3)
  then show ?thesis
    using p(1) [of "CHR ''.'' # natStr (unat b) @ CHR ''.'' # natStr (unat c) @ CHR ''.'' # natStr (unat d)" 3 a]
    by (simp add: parseIPv4_def IP_String_def eval_nat_numeral del: parseDots.simps)
qed

lemma parse4_String [simp]: "parse4 (IP_String p) = Some p"
proof (cases p)
  case (fields a b c d)
  have "\<And>x. x \<in> set (natStr (unat a)) \<Longrightarrow> x \<noteq> CHR ''.'' \<and> x \<noteq> CHR '':''"
    using natStr_digits [of "unat a"] by (auto simp: list_all_iff isDigit_def)
  then have "dropWhile (\<lambda>c. c \<noteq> CHR ''.'' \<and> c \<noteq> CHR '':'') (IP_String p) =
      CHR ''.'' # joinStr ''.'' (map (natStr \<circ> unat) [b, c, d])"
    by (simp add: fields IP_String_def dropWhile_append)
  then show ?thesis
    using parseIPv4_String [of a b c d] by (simp add: parse4_def ParseIP_def fields To4_def numeral_eq_Suc)
qed

end
