(* ===== verification/Json.thy ===== *)
theory Json
  imports Net
begin

text \<open>
  Go's \<open>encoding/json\<close> on lists of strings, which is how the labels of a container travel through the
  consensus store.  Bytes from 128 on are copied (valid UTF-8 text); surrogate pairs and values that are not lists
  of strings, which \<open>Marshal\<close> does not produce from labels, are treated as errors by the decoder.
\<close>

section \<open>Encoding\<close>

definition hexChar :: "nat \<Rightarrow> char" where
  "hexChar n = (if n < 10 then digitChar n else char_of (87 + n))"

definition escape :: "char \<Rightarrow> string" where
  "escape c =
     (if c \<in> {CHR 0x5C, CHR 0x22} then [CHR 0x5C, c]
      else if c = CHR 0x0A then [CHR 0x5C, CHR ''n'']
      else if c = CHR 0x0D then [CHR 0x5C, CHR ''r'']
      else if c = CHR 0x09 then [CHR 0x5C, CHR ''t'']
      else if of_char c < (0x20 :: nat) \<or> c \<in> {CHR ''<'', CHR ''>'', CHR ''&''} then
        [CHR 0x5C, CHR ''u'', CHR ''0'', CHR ''0'', hexChar (of_char c div 16), hexChar (of_char c mod 16)]
      else [c])"

definition quoteJson :: "string \<Rightarrow> string" where
  "quoteJson s = CHR 0x22 # concat (map escape s) @ [CHR 0x22]"

definition marshalStrings :: "string list \<Rightarrow> string" where
  "marshalStrings ss = ''['' @ joinStr '','' (map quoteJson ss) @ '']''"

section \<open>Decoding\<close>

definition utf8 :: "nat \<Rightarrow> string option" where
  "utf8 n =
     (if n < 0x80 then Some [char_of n]
      else if n < 0x800 then Some [char_of (0xC0 + n div 64), char_of (0x80 + n mod 64)]
      else if 0xD800 \<le> n \<and> n < 0xE000 then None
      else if n < 0x10000 then Some [char_of (0xE0 + n div 4096), char_of (0x80 + n div 64 mod 64), char_of (0x80 + n mod 64)]
      else None)"

definition hex4 :: "char \<Rightarrow> char \<Rightarrow> char \<Rightarrow> char \<Rightarrow> nat option" where
  "hex4 a b c d =
     (case (hexDigit a, hexDigit b, hexDigit c, hexDigit d) of
        (Some a', Some b', Some c', Some d') \<Rightarrow> Some (4096 * a' + 256 * b' + 16 * c' + d')
      | _ \<Rightarrow> None)"

definition unescape :: "char \<Rightarrow> char option" where
  "unescape c =
     (if c \<in> {CHR 0x22, CHR 0x5C, CHR ''/''} then Some c
      else if c = CHR ''b'' then Some (CHR 0x08) else if c = CHR ''f'' then Some (CHR 0x0C)
      else if c = CHR ''n'' then Some (CHR 0x0A) else if c = CHR ''r'' then Some (CHR 0x0D)
      else if c = CHR ''t'' then Some (CHR 0x09) else None)"

definition prepend :: "string \<Rightarrow> (string \<times> string) option \<Rightarrow> (string \<times> string) option" where
  "prepend p = map_option (\<lambda>(s, rest). (p @ s, rest))"

text \<open>The contents of a string after its opening quote, and what follows the closing one.\<close>

fun unquote :: "string \<Rightarrow> (string \<times> string) option" where
  "unquote [] = None"
| "unquote (x # s) =
     (if x = CHR 0x22 then Some ([], s)
      else if x = CHR 0x5C then
        (case s of
           [] \<Rightarrow> None
         | c # s1 \<Rightarrow>
             if c = CHR ''u'' then
               (case s1 of
                  h1 # h2 # h3 # h4 # s2 \<Rightarrow>
                    (case Option.bind (hex4 h1 h2 h3 h4) utf8 of None \<Rightarrow> None | Some bs \<Rightarrow> prepend bs (unquote s2))
                | _ \<Rightarrow> None)
             else (case unescape c of None \<Rightarrow> None | Some b \<Rightarrow> prepend [b] (unquote s1)))
      else if of_char x < (0x20 :: nat) then None
      else prepend [x] (unquote s))"

definition jsonSpace :: "char \<Rightarrow> bool" where
  "jsonSpace c \<longleftrightarrow> c \<in> {CHR '' '', CHR 0x09, CHR 0x0A, CHR 0x0D}"

text \<open>The elements of a list, up to the end of the text; \<open>n\<close> bounds their number.\<close>

fun elements :: "nat \<Rightarrow> string \<Rightarrow> string list option" where
  "elements 0 s = None"
| "elements (Suc n) s =
     (case dropWhile jsonSpace s of
        [] \<Rightarrow> None
      | q # s1 \<Rightarrow>
          if q \<noteq> CHR 0x22 then None
          else
            (case unquote s1 of
               None \<Rightarrow> None
             | Some (e, s2) \<Rightarrow>
                 (case dropWhile jsonSpace s2 of
                    [] \<Rightarrow> None
                  | c # s3 \<Rightarrow>
                      if c = CHR '','' then map_option ((#) e) (elements n s3)
                      else if c = CHR '']'' \<and> list_all jsonSpace s3 then Some [e]
                      else None)))"

definition unmarshalStrings :: "string \<Rightarrow> string list option" where
  "unmarshalStrings js =
     (case dropWhile jsonSpace js of
        [] \<Rightarrow> None
      | c # s \<Rightarrow>
          if c \<noteq> CHR ''['' then None
          else
            (case dropWhile jsonSpace s of
               [] \<Rightarrow> None
             | d # s1 \<Rightarrow>
                 if d = CHR '']'' then (if list_all jsonSpace s1 then Some [] else None)
                 else elements (length js) s))"

section \<open>Round trip\<close>

lemma hexDigit_hexChar:
  assumes "n < 16" shows "hexDigit (hexChar n) = Some n"
proof -
  have "n \<in> {0..<16}" using assms by simp
  then show ?thesis
    by (auto simp: hexDigit_def hexChar_def digitChar_def of_char_of Let_def take_bit_nat_def)
qed

lemma hexDigit_zero: "hexDigit (CHR ''0'') = Some 0"
  by (simp add: hexDigit_def)

lemma unquote_escape:
  "unquote (escape c @ s) = prepend [c] (unquote s)"
proof (cases "of_char c < (0x20 :: nat) \<or> c \<in> {CHR ''<'', CHR ''>'', CHR ''&''}")
  case True
  have n: "(of_char c :: nat) < 128" using True by auto
  then have "(of_char c :: nat) div 16 < 16" "(of_char c :: nat) mod 16 < 16" by simp_all
  then have "hex4 (CHR ''0'') (CHR ''0'') (hexChar (of_char c div 16)) (hexChar (of_char c mod 16)) = Some (of_char c)"
    by (simp add: hex4_def hexDigit_hexChar hexDigit_zero)
  then show ?thesis using n True by (auto simp: escape_def unescape_def utf8_def)
next
  case False
  then show ?thesis by (auto simp: escape_def unescape_def)
qed

lemma unquote_escapes: "unquote (concat (map escape s) @ CHR 0x22 # rest) = Some (s, rest)"
  by (induction s) (simp_all add: unquote_escape prepend_def del: unquote.simps(2), simp)

lemma elements_marshal:
  "ss \<noteq> [] \<Longrightarrow> length ss \<le> n \<Longrightarrow> elements n (joinStr '','' (map quoteJson ss) @ '']'') = Some ss"
proof (induction n arbitrary: ss)
  case (Suc n)
  then obtain s ss' where ss: "ss = s # ss'" by (cases ss) auto
  have sp: "\<not> jsonSpace (CHR 0x22)" "\<not> jsonSpace (CHR '','')" "\<not> jsonSpace (CHR '']'')" by (simp_all add: jsonSpace_def)
  show ?case
  proof (cases ss')
    case Nil
    then show ?thesis using ss sp unquote_escapes [of s "'']''"] by (simp add: quoteJson_def)
  next
    case (Cons t ts)
    then have "elements n (joinStr '','' (map quoteJson ss') @ '']'') = Some ss'"
      using Suc.IH [of ss'] Suc.prems ss by simp
    moreover have "joinStr '','' (map quoteJson ss) = quoteJson s @ '','' @ joinStr '','' (map quoteJson ss')"
      using joinStr_Cons [of "map quoteJson ss'" "'',''" "quoteJson s"] ss Cons by simp
    ultimately show ?thesis
      using ss sp unquote_escapes [of s "'','' @ joinStr '','' (map quoteJson ss') @ '']''"] by (simp add: quoteJson_def [of s])
  qed
qed simp

lemma length_joined: "length ss \<le> length (joinStr '','' (map quoteJson ss))"
proof (induction ss rule: induct_list012)
  case (3 x y zs)
  then show ?case by (simp add: quoteJson_def)
qed (simp_all add: quoteJson_def)

text \<open>The encoding is lossless, whatever characters the strings contain.\<close>

lemma unmarshal_strings: "unmarshalStrings (marshalStrings ss) = Some ss"
proof (cases ss)
  case Nil
  then show ?thesis by (simp add: marshalStrings_def unmarshalStrings_def jsonSpace_def)
next
  case (Cons s ss')
  let ?body = "joinStr '','' (map quoteJson ss) @ '']''"
  have list: "unmarshalStrings js = elements (length js) s" if "js = CHR ''['' # s" "s = CHR 0x22 # r" for js s r
    by (simp add: that unmarshalStrings_def jsonSpace_def del: elements.simps)
  have "\<exists>r. ?body = CHR 0x22 # r" by (cases ss') (simp_all add: Cons quoteJson_def)
  then have "unmarshalStrings (marshalStrings ss) = elements (length (marshalStrings ss)) ?body"
    using list [of "marshalStrings ss" ?body] by (metis marshalStrings_def append_Cons append_Nil)
  also have "elements (length (marshalStrings ss)) (joinStr '','' (map quoteJson ss) @ '']'') = Some ss"
    by (rule elements_marshal) (use Cons length_joined [of ss] in \<open>simp_all add: marshalStrings_def\<close>)
  finally show ?thesis .
qed

end
