(* ===== verification/NetStore.thy ===== *)
theory NetStore
  imports Json Consensus Reconcile Db_Txn Util
begin

unbundle bit_operations_syntax

text \<open>
  The part of the network service that goes through the consensus store (\<open>src/minion/network/store.go\<close>): the leader
  writes a directory entry with an address and labels for every container and every label, and all minions read them
  into their tables.

  The store is any implementation of the interface in \<open>Consensus\<close>.  The random generator is a sequence of 32-bit
  values and the number of those already drawn.  Waking up and logging are left out.
\<close>

definition labelDir :: string where "labelDir = ''/minion/labels''"
definition containerDir :: string where "containerDir = ''/minion/containers''"
definition gatewayIP :: string where "gatewayIP = ''10.0.0.1''"

section \<open>Directories\<close>

text \<open>Reading a missing key of a Go map, or any key of a map that is not there, gives the zero value.\<close>

type_synonym directory = "(string, (string, string) gomap) gomap"

definition inner :: "directory \<Rightarrow> string \<Rightarrow> (string, string) gomap" where
  "inner dir k = (case gget dir k of None \<Rightarrow> [] | Some m \<Rightarrow> m)"

definition entry :: "directory \<Rightarrow> string \<Rightarrow> string \<Rightarrow> string" where
  "entry dir k f = (case gget (inner dir k) f of None \<Rightarrow> '''' | Some v \<Rightarrow> v)"

definition dirPut :: "string \<Rightarrow> string \<Rightarrow> string \<Rightarrow> directory \<Rightarrow> directory" where
  "dirPut k f v dir = gput k (gput f v (inner dir k)) dir"

definition dirDel :: "string \<Rightarrow> string \<Rightarrow> directory \<Rightarrow> directory" where
  "dirDel k f dir = (case gget dir k of None \<Rightarrow> dir | Some m \<Rightarrow> gput k (gdel f m) dir)"

definition dirOf :: "Tree \<Rightarrow> directory" where
  "dirOf tree = fold (\<lambda>(_, l1). gput (t_Key l1) (fold (\<lambda>(_, l2). gput (t_Key l2) (t_Value l2)) (t_Children l1) []))
     (t_Children tree) []"

definition getDirectory :: "'s storeApi \<Rightarrow> string \<Rightarrow> 's \<Rightarrow> storeErr + directory" where
  "getDirectory api path s = (case st_GetTree api path s of Inl err \<Rightarrow> Inl err | Inr tree \<Rightarrow> Inr (dirOf tree))"

definition dirScore :: "string \<Rightarrow> string \<Rightarrow> int" where
  "dirScore l r = (if l \<noteq> r then - 1 else 0)"

fun deleteKeys :: "'s storeApi \<Rightarrow> string \<Rightarrow> string list \<Rightarrow> directory \<times> 's \<Rightarrow> directory \<times> 's" where
  "deleteKeys api path [] st = st"
| "deleteKeys api path (k # ks) (dir, s) =
     deleteKeys api path ks (gdel k dir, snd (st_Delete api (path @ ''/'' @ k) s))"

fun createKeys :: "'s storeApi \<Rightarrow> string \<Rightarrow> string list \<Rightarrow> directory \<times> 's \<Rightarrow> directory \<times> 's" where
  "createKeys api path [] st = st"
| "createKeys api path (k # ks) (dir, s) =
     (if gget dir k \<noteq> None then createKeys api path ks (dir, s)
      else
        (case st_Mkdir api (path @ ''/'' @ k) s of
           (Some err, s1) \<Rightarrow> createKeys api path ks (dir, s1)
         | (None, s1) \<Rightarrow> createKeys api path ks (gput k [] dir, s1)))"

definition syncDir :: "'s storeApi \<Rightarrow> string \<Rightarrow> string list \<Rightarrow> directory \<times> 's \<Rightarrow> directory \<times> 's" where
  "syncDir api path idsArg st =
     (let (_, dirKeys, ids) = Join (map fst (fst st)) idsArg dirScore in
      createKeys api path ids (deleteKeys api path dirKeys st))"

section \<open>Addresses\<close>

definition parseIP :: "string \<Rightarrow> 32 word \<Rightarrow> 32 word \<Rightarrow> 32 word" where
  "parseIP ipStr pfx msk =
     (case parse4 ipStr of
        None \<Rightarrow> 0
      | Some ip \<Rightarrow> let ip32 = beUint32 ip in if ip32 AND msk \<noteq> pfx then 0 else ip32)"

fun randomLoop :: "nat \<Rightarrow> (nat \<Rightarrow> 32 word) \<Rightarrow> 32 word list \<Rightarrow> 32 word \<Rightarrow> 32 word \<Rightarrow> nat \<Rightarrow> 32 word \<times> nat" where
  "randomLoop 0 rand32 conflicts pfx msk n = (0, n)"
| "randomLoop (Suc i) rand32 conflicts pfx msk n =
     (let ip32 = (rand32 n AND NOT msk) OR (pfx AND msk) in
      if ip32 \<notin> set conflicts then (ip32, Suc n) else randomLoop i rand32 conflicts pfx msk (Suc n))"

definition randomIP :: "(nat \<Rightarrow> 32 word) \<Rightarrow> 32 word list \<Rightarrow> 32 word \<Rightarrow> 32 word \<Rightarrow> nat \<Rightarrow> 32 word \<times> nat" where
  "randomIP = randomLoop 256"

fun assignIPs :: "'s storeApi \<Rightarrow> (nat \<Rightarrow> 32 word) \<Rightarrow> string \<Rightarrow> 32 word \<Rightarrow> 32 word \<Rightarrow> string list \<Rightarrow> 32 word list
    \<Rightarrow> directory \<times> 's \<times> nat \<Rightarrow> directory \<times> 's \<times> nat" where
  "assignIPs api rand32 path pfx msk [] ipSet st = st"
| "assignIPs api rand32 path pfx msk (k # ks) ipSet (dir, s, n) =
     (let (ip32, n1) = randomIP rand32 ipSet pfx msk n; ipPath = path @ ''/'' @ k @ ''/IP'' in
      if ip32 = 0 then
        assignIPs api rand32 path pfx msk ks ipSet (dirDel k ''IP'' dir, snd (st_Delete api ipPath s), n1)
      else
        (let ipStr = IP_String (bePutUint32 ip32) in
         case st_Set api ipPath ipStr s of
           (Some err, s1) \<Rightarrow> assignIPs api rand32 path pfx msk ks ipSet (dir, s1, n1)
         | (None, s1) \<Rightarrow> assignIPs api rand32 path pfx msk ks (sput ip32 ipSet) (dirPut k ''IP'' ipStr dir, s1, n1)))"

definition subnetMask :: "32 word" where "subnetMask = 0xffff0000"

definition ipOf :: "32 word \<Rightarrow> directory \<Rightarrow> string \<Rightarrow> 32 word" where
  "ipOf pfx dir k = parseIP (entry dir k ''IP'') pfx subnetMask"

definition syncIPs :: "'s storeApi \<Rightarrow> (nat \<Rightarrow> 32 word) \<Rightarrow> string \<Rightarrow> byte \<times> byte \<times> byte \<times> byte
    \<Rightarrow> directory \<times> 's \<times> nat \<Rightarrow> directory \<times> 's \<times> nat" where
  "syncIPs api rand32 path prefixIP st =
     (let pfx = beUint32 prefixIP; dir = fst st;
          ipSet = fold sput (filter (\<lambda>ip. ip \<noteq> 0) (map (ipOf pfx dir) (map fst dir))) [];
          unassigned = filter (\<lambda>k. ipOf pfx dir k = 0) (map fst dir) in
      assignIPs api rand32 path pfx subnetMask unassigned (sput (parseIP gatewayIP pfx subnetMask) ipSet) st)"

section \<open>Labels of containers\<close>

definition idLabelMap :: "Container list \<Rightarrow> (string, string list) gomap" where
  "idLabelMap containers =
     fold (\<lambda>c m. if c_SchedID c \<noteq> '''' then gput (c_SchedID c) (c_Labels c) m else m) containers []"

fun labelLoop :: "'s storeApi \<Rightarrow> string \<Rightarrow> (string, string list) gomap \<Rightarrow> string list \<Rightarrow> directory \<times> 's \<Rightarrow> directory \<times> 's" where
  "labelLoop api path m [] st = st"
| "labelLoop api path m (k # ks) (dir, s) =
     (let js = marshalStrings (sort (case gget m k of None \<Rightarrow> [] | Some ls \<Rightarrow> ls)) in
      if js = entry dir k ''Labels'' then labelLoop api path m ks (dir, s)
      else
        (case st_Set api (path @ ''/'' @ k @ ''/Labels'') js s of
           (Some err, s1) \<Rightarrow> labelLoop api path m ks (dir, s1)
         | (None, s1) \<Rightarrow> labelLoop api path m ks (dirPut k ''Labels'' js dir, s1)))"

definition syncLabels :: "'s storeApi \<Rightarrow> string \<Rightarrow> Container list \<Rightarrow> directory \<times> 's \<Rightarrow> directory \<times> 's" where
  "syncLabels api path containers st = labelLoop api path (idLabelMap containers) (map fst (fst st)) st"

section \<open>Writing\<close>

definition writeStoreContainers :: "'s storeApi \<Rightarrow> (nat \<Rightarrow> 32 word) \<Rightarrow> Container list \<Rightarrow> 's \<times> nat
    \<Rightarrow> storeErr option \<times> 's \<times> nat" where
  "writeStoreContainers api rand32 containers st =
     (let (s, n) = st;
          ids = filter (\<lambda>i. i \<noteq> '''') (map c_SchedID containers);
          s1 = snd (st_Mkdir api containerDir s) in
      case getDirectory api containerDir s1 of
        Inl err \<Rightarrow> (Some err, s1, n)
      | Inr dir \<Rightarrow>
          (let (dir1, s2) = syncDir api containerDir ids (dir, s1);
               (dir2, s3, n1) = syncIPs api rand32 containerDir (10, 0, 0, 0) (dir1, s2, n);
               (dir3, s4) = syncLabels api containerDir containers (dir2, s3) in
           (None, s4, n1)))"

definition labelMap :: "Container list \<Rightarrow> (string, Container list) gomap" where
  "labelMap containers = fold (\<lambda>(l, c) m. gput l ((case gget m l of None \<Rightarrow> [] | Some cs \<Rightarrow> cs) @ [c]) m)
     (concat (map (\<lambda>c. map (\<lambda>l. (l, c)) (c_Labels c)) containers)) []"

text \<open>Writing to the entry of a label that is not in the directory writes to a nil map: a panic.\<close>

fun multiHostLoop :: "'s storeApi \<Rightarrow> (string, Container list) gomap \<Rightarrow> directory \<times> 's \<Rightarrow> (directory \<times> 's) option" where
  "multiHostLoop api [] st = Some st"
| "multiHostLoop api ((label, dbcs) # ls) (dir, s) =
     (let isMH = (length dbcs > 1); path = labelDir @ ''/'' @ label @ ''/MultiHost'' in
      if (gget (inner dir label) ''MultiHost'' \<noteq> None) = isMH then multiHostLoop api ls (dir, s)
      else if isMH then
        (if gget dir label = None then None
         else multiHostLoop api ls (dirPut label ''MultiHost'' ''true'' dir, snd (st_Set api path ''true'' s)))
      else multiHostLoop api ls (dirDel label ''MultiHost'' dir, snd (st_Delete api path s)))"

fun labelIPLoop :: "'s storeApi \<Rightarrow> directory \<Rightarrow> (string, Container list) gomap \<Rightarrow> 's \<Rightarrow> 's" where
  "labelIPLoop api dir [] s = s"
| "labelIPLoop api dir ((label, dbcs) # ls) s =
     (case dbcs of
        [dbc] \<Rightarrow>
          if c_IP dbc = '''' \<or> entry dir (c_IP dbc) ''IP'' = c_IP dbc then labelIPLoop api dir ls s
          else labelIPLoop api dir ls (snd (st_Set api (labelDir @ ''/'' @ label @ ''/IP'') (c_IP dbc) s))
      | _ \<Rightarrow> labelIPLoop api dir ls s)"

definition writeStoreLabels :: "'s storeApi \<Rightarrow> (nat \<Rightarrow> 32 word) \<Rightarrow> Container list \<Rightarrow> 's \<times> nat
    \<Rightarrow> (storeErr option \<times> 's \<times> nat) option" where
  "writeStoreLabels api rand32 containers st =
     (let (s, n) = st; s1 = snd (st_Mkdir api labelDir s) in
      case getDirectory api labelDir s1 of
        Inl err \<Rightarrow> Some (Some err, s1, n)
      | Inr dir \<Rightarrow>
          (let ids = concat (map c_Labels containers);
               m = labelMap containers in
           map_option (\<lambda>(dir2, s3).
               (let s4 = labelIPLoop api dir2 m s3;
                    dir3 = filter (\<lambda>(label, mp). gget mp ''MultiHost'' \<noteq> None) dir2;
                    (dir4, s5, n1) = syncIPs api rand32 labelDir (10, 1, 0, 0) (dir3, s4, n) in
                (None, s5, n1)))
             (multiHostLoop api m (syncDir api labelDir ids (dir, s1)))))"

text \<open>One wake-up of \<open>writeStoreRun\<close>.\<close>

definition writeStore :: "'s storeApi \<Rightarrow> (nat \<Rightarrow> 32 word) \<Rightarrow> Database \<Rightarrow> 's \<times> nat \<Rightarrow> ('s \<times> nat) option" where
  "writeStore api rand32 db st =
     (let leader = (case SelectFromEtcd db nilCheck of [e] \<Rightarrow> e_Leader e | _ \<Rightarrow> False);
          containers = SelectFromContainer db nilCheck in
      if \<not> leader then Some st
      else map_option snd (writeStoreLabels api rand32 containers (snd (writeStoreContainers api rand32 containers st))))"

section \<open>Reading\<close>

definition hex2 :: "byte \<Rightarrow> string" where
  "hex2 b = [hexChar (unat b div 16), hexChar (unat b mod 16)]"

definition macOf :: "byte \<times> byte \<times> byte \<times> byte \<Rightarrow> string" where
  "macOf ip = (case ip of (a, b, c, d) \<Rightarrow> joinStr '':'' [''02'', ''00'', hex2 a, hex2 b, hex2 c, hex2 d])"

definition fillStored :: "bool \<Rightarrow> directory \<Rightarrow> Container \<Rightarrow> Container" where
  "fillStored worker dir c =
     (let stored = (gget dir (c_SchedID c) \<noteq> None);
          ip = (if stored then entry dir (c_SchedID c) ''IP'' else '''');
          labels = (if stored then (case unmarshalStrings (entry dir (c_SchedID c) ''Labels'') of None \<Rightarrow> [] | Some ls \<Rightarrow> ls) else []) in
      c\<lparr>c_IP := ip,
        c_Mac := (case parse4 ip of Some a \<Rightarrow> if stored then macOf a else c_Mac c | None \<Rightarrow> c_Mac c),
        c_Labels := (if worker then labels else c_Labels c)\<rparr>)"

definition readContainerTransact :: "directory \<Rightarrow> Database \<Rightarrow> Database option" where
  "readContainerTransact dir view =
     (let worker = (case SelectFromMinion view nilCheck of [m] \<Rightarrow> mi_Role m = Worker | _ \<Rightarrow> False) in
      commitLoop ContainerRow (map (fillStored worker dir) (SelectFromContainer view nilCheck)) view)"

definition labelScore :: "Label \<Rightarrow> string \<Rightarrow> int" where
  "labelScore l r = (if l_Label l = r then 0 else 1)"

definition fillLabel :: "directory \<Rightarrow> string \<times> Label \<Rightarrow> Label" where
  "fillLabel dir p = (case p of (k, dbl) \<Rightarrow>
     dbl\<lparr>l_Label := k, l_IP := entry dir k ''IP'', l_MultiHost := (gget (inner dir k) ''MultiHost'' \<noteq> None)\<rparr>)"

definition readLabelTransact :: "directory \<Rightarrow> Database \<Rightarrow> Database option" where
  "readLabelTransact dir view =
     (let (pairs, dbls, dirKeys) = Join (SelectFromLabel view nilCheck) (map fst dir) labelScore;
          (fresh, view1) = insertLoop InsertLabel dirKeys (removeLoop LabelRow dbls view) in
      commitLoop LabelRow (map (fillLabel dir) (map prod.swap pairs @ fresh)) view1)"

text \<open>One wake-up of the second loop of \<open>readStoreRun\<close>.\<close>

definition readStore :: "'s storeApi \<Rightarrow> 's \<Rightarrow> Database \<Rightarrow> Database option" where
  "readStore api s db =
     (case (getDirectory api labelDir s, getDirectory api containerDir s) of
        (Inr labels, Inr containers) \<Rightarrow>
          map_option snd (Transact (\<lambda>view. map_option (Pair ())
            (Option.bind (readContainerTransact containers view) (readLabelTransact labels))) db)
      | _ \<Rightarrow> Some db)"

section \<open>Addresses are unique\<close>

lemma inner_dirPut: "inner (dirPut k f v dir) k' = (if k' = k then gput f v (inner dir k) else inner dir k')"
  by (simp add: inner_def dirPut_def go_map)

lemma entry_dirPut: "entry (dirPut k f v dir) k' f' = (if k' = k \<and> f' = f then v else entry dir k' f')"
  by (simp add: entry_def inner_dirPut go_map)

lemma entry_dirDel: "entry (dirDel k f dir) k' f' = (if k' = k \<and> f' = f then '''' else entry dir k' f')"
  by (auto simp: entry_def inner_def dirDel_def go_map split: option.splits)

lemma keys_dirPut: "k \<in> fst ` set dir \<Longrightarrow> map fst (dirPut k f v dir) = map fst dir"
  by (simp add: dirPut_def update_keys)

lemma keys_dirDel: "k \<in> fst ` set dir \<Longrightarrow> map fst (dirDel k f dir) = map fst dir"
  by (auto simp: dirDel_def update_keys split: option.split)

lemma parseIP_empty: "parseIP '''' pfx msk = 0"
  by (simp add: parseIP_def parse4_def ParseIP_def)

lemma parseIP_printed: "ip AND msk = pfx \<Longrightarrow> parseIP (IP_String (bePutUint32 ip)) pfx msk = ip"
  by (simp add: parseIP_def)

lemma parseIP_subnet: "parseIP s pfx msk \<noteq> 0 \<Longrightarrow> parseIP s pfx msk AND msk = pfx"
  by (auto simp: parseIP_def Let_def split: option.splits if_splits)

lemma masked: "((r AND NOT m) OR (p AND m)) AND m = p AND (m :: 32 word)"
  by (rule bit_word_eqI) (auto simp: bit_and_iff bit_or_iff bit_not_iff)

lemma randomLoop_spec:
  "randomLoop i rand32 conflicts pfx msk n = (ip, n') \<Longrightarrow> ip \<noteq> 0 \<Longrightarrow> ip \<notin> set conflicts \<and> ip AND msk = pfx AND msk"
proof (induction i arbitrary: n)
  case (Suc i)
  then show ?case using masked [of "rand32 n" msk pfx] by (auto simp: Let_def split: if_splits)
qed simp

lemma assignIPs_step:
  assumes pfx: "pfx AND subnetMask = pfx" and k: "k \<in> fst ` set dir" "ipOf pfx dir k = 0"
  shows "\<exists>dir1 s1 n1 ipSet1. assignIPs api rand32 path pfx subnetMask (k # ks) ipSet (dir, s, n) =
      assignIPs api rand32 path pfx subnetMask ks ipSet1 (dir1, s1, n1) \<and>
    map fst dir1 = map fst dir \<and> (\<forall>k' f. k' \<noteq> k \<or> f \<noteq> ''IP'' \<longrightarrow> entry dir1 k' f = entry dir k' f) \<and>
    set ipSet \<subseteq> set ipSet1 \<and> (ipOf pfx dir1 k = 0 \<or> ipOf pfx dir1 k \<notin> set ipSet \<and> ipOf pfx dir1 k \<in> set ipSet1)"
proof -
  obtain ip n1 where r: "randomIP rand32 ipSet pfx subnetMask n = (ip, n1)" by force
  show ?thesis
  proof (cases "ip = 0")
    case True
    let ?dir = "dirDel k ''IP'' dir"
    have "assignIPs api rand32 path pfx subnetMask (k # ks) ipSet (dir, s, n) =
        assignIPs api rand32 path pfx subnetMask ks ipSet (?dir, snd (st_Delete api (path @ ''/'' @ k @ ''/IP'') s), n1)"
      by (simp add: r True)
    moreover have "ipOf pfx ?dir k = 0" by (simp add: ipOf_def entry_dirDel parseIP_empty)
    ultimately show ?thesis
      by (intro exI [of _ ?dir] exI [of _ "snd (st_Delete api (path @ ''/'' @ k @ ''/IP'') s)"] exI [of _ n1] exI [of _ ipSet])
        (simp add: keys_dirDel [OF k(1)] entry_dirDel del: assignIPs.simps)
  next
    case False
    obtain err s1 where set: "st_Set api (path @ ''/'' @ k @ ''/IP'') (IP_String (bePutUint32 ip)) s = (err, s1)" by force
    show ?thesis
    proof (cases err)
      case (Some e)
      then have "assignIPs api rand32 path pfx subnetMask (k # ks) ipSet (dir, s, n) =
          assignIPs api rand32 path pfx subnetMask ks ipSet (dir, s1, n1)"
        using False set by (simp add: r)
      then show ?thesis
        by (intro exI [of _ dir] exI [of _ s1] exI [of _ n1] exI [of _ ipSet]) (simp add: k(2) del: assignIPs.simps)
    next
      case None
      let ?dir = "dirPut k ''IP'' (IP_String (bePutUint32 ip)) dir"
      have "assignIPs api rand32 path pfx subnetMask (k # ks) ipSet (dir, s, n) =
          assignIPs api rand32 path pfx subnetMask ks (sput ip ipSet) (?dir, s1, n1)"
        using False set None by (simp add: r)
      moreover have "ip \<notin> set ipSet" "ip AND subnetMask = pfx"
        using randomLoop_spec [OF r [unfolded randomIP_def] False] pfx by auto
      moreover from this have "ipOf pfx ?dir k = ip" by (simp add: ipOf_def entry_dirPut parseIP_printed)
      ultimately show ?thesis
        by (intro exI [of _ ?dir] exI [of _ s1] exI [of _ n1] exI [of _ "sput ip ipSet"])
          (simp add: keys_dirPut [OF k(1)] entry_dirPut subset_insertI del: assignIPs.simps)
    qed
  qed
qed

text \<open>No two entries have the same address of the subnet.\<close>

definition uniqueIPs :: "32 word \<Rightarrow> directory \<Rightarrow> bool" where
  "uniqueIPs pfx dir \<longleftrightarrow> inj_on (ipOf pfx dir) {k \<in> fst ` set dir. ipOf pfx dir k \<noteq> 0}"

lemma assignIPs_spec:
  assumes pfx: "pfx AND subnetMask = pfx"
  shows "assignIPs api rand32 path pfx subnetMask ks ipSet (dir, s, n) = (dir', s', n') \<Longrightarrow>
    distinct ks \<Longrightarrow> \<forall>k \<in> set ks. k \<in> fst ` set dir \<and> ipOf pfx dir k = 0 \<Longrightarrow>
    uniqueIPs pfx dir \<Longrightarrow> \<forall>k \<in> fst ` set dir. ipOf pfx dir k \<in> insert 0 (set ipSet) \<Longrightarrow>
    map fst dir' = map fst dir \<and> uniqueIPs pfx dir' \<and>
    (\<forall>k f. k \<notin> set ks \<or> f \<noteq> ''IP'' \<longrightarrow> entry dir' k f = entry dir k f) \<and>
    (\<forall>k \<in> set ks. ipOf pfx dir' k = 0 \<or> ipOf pfx dir' k \<notin> set ipSet)"
proof (induction ks arbitrary: dir s n ipSet)
  case (Cons k ks)
  have k: "k \<in> fst ` set dir" "ipOf pfx dir k = 0" using Cons.prems(3) by auto
  from assignIPs_step [OF pfx k, of api rand32 path ks ipSet s n]
  obtain dir1 s1 n1 ipSet1 where 1: "assignIPs api rand32 path pfx subnetMask (k # ks) ipSet (dir, s, n) =
        assignIPs api rand32 path pfx subnetMask ks ipSet1 (dir1, s1, n1)" "map fst dir1 = map fst dir"
      and e0: "\<forall>k' f. k' \<noteq> k \<or> f \<noteq> ''IP'' \<longrightarrow> entry dir1 k' f = entry dir k' f"
      and s1: "set ipSet \<subseteq> set ipSet1"
      and i1: "ipOf pfx dir1 k = 0 \<or> ipOf pfx dir1 k \<notin> set ipSet \<and> ipOf pfx dir1 k \<in> set ipSet1"
    by (elim exE conjE) (rule that)
  have e1: "entry dir1 k' f = entry dir k' f" if "k' \<noteq> k \<or> f \<noteq> ''IP''" for k' f using e0 that by blast
  have keys: "fst ` set dir1 = fst ` set dir" using arg_cong [OF 1(2), of set] by simp
  have ip: "ipOf pfx dir1 k' = ipOf pfx dir k'" if "k' \<noteq> k" for k' using that by (simp add: ipOf_def e1)
  have u1: "uniqueIPs pfx dir1"
    unfolding uniqueIPs_def keys
  proof (rule inj_onI)
    fix a b assume ab: "a \<in> {k \<in> fst ` set dir. ipOf pfx dir1 k \<noteq> 0}" "b \<in> {k \<in> fst ` set dir. ipOf pfx dir1 k \<noteq> 0}"
      "ipOf pfx dir1 a = ipOf pfx dir1 b"
    then show "a = b"
      using ip [of a] ip [of b] i1 Cons.prems(4,5) by (cases "a = k"; cases "b = k") (auto simp: uniqueIPs_def inj_on_def)
  qed
  have "\<forall>k' \<in> set ks. k' \<in> fst ` set dir1 \<and> ipOf pfx dir1 k' = 0"
  proof
    fix k' assume "k' \<in> set ks"
    then show "k' \<in> fst ` set dir1 \<and> ipOf pfx dir1 k' = 0" using Cons.prems(2,3) keys ip [of k'] by auto
  qed
  moreover have "\<forall>k' \<in> fst ` set dir1. ipOf pfx dir1 k' \<in> insert 0 (set ipSet1)"
  proof
    fix k' assume "k' \<in> fst ` set dir1"
    then show "ipOf pfx dir1 k' \<in> insert 0 (set ipSet1)"
      using Cons.prems(5) keys ip [of k'] i1 s1 by (cases "k' = k") auto
  qed
  moreover have d: "distinct ks" using Cons.prems(2) by simp
  ultimately have IH0: "map fst dir' = map fst dir1 \<and> uniqueIPs pfx dir' \<and>
      (\<forall>k' f. k' \<notin> set ks \<or> f \<noteq> ''IP'' \<longrightarrow> entry dir' k' f = entry dir1 k' f) \<and>
      (\<forall>k' \<in> set ks. ipOf pfx dir' k' = 0 \<or> ipOf pfx dir' k' \<notin> set ipSet1)"
    by (intro Cons.IH [OF Cons.prems(1) [unfolded 1(1)] d _ u1])
  then have IH: "map fst dir' = map fst dir1" "uniqueIPs pfx dir'"
      "\<And>k' f. k' \<notin> set ks \<or> f \<noteq> ''IP'' \<Longrightarrow> entry dir' k' f = entry dir1 k' f"
      "\<And>k'. k' \<in> set ks \<Longrightarrow> ipOf pfx dir' k' = 0 \<or> ipOf pfx dir' k' \<notin> set ipSet1"
    by blast+
  have "ipOf pfx dir' k = ipOf pfx dir1 k" using IH(3) [of k] Cons.prems(2) by (simp add: ipOf_def)
  then have "\<forall>k' \<in> set (k # ks). ipOf pfx dir' k' = 0 \<or> ipOf pfx dir' k' \<notin> set ipSet" using i1 IH(4) s1 by auto
  moreover have "entry dir' k' f = entry dir k' f" if "k' \<notin> set (k # ks) \<or> f \<noteq> ''IP''" for k' f
    using that IH(3) [of k' f] e1 [of k' f] by auto
  ultimately show ?case using IH(1,2) 1(2) by simp
qed simp



section \<open>The directory has the wanted entries\<close>

interpretation dirJoin: keyed_join dirScore "\<lambda>l. l" "\<lambda>r. r" "\<lambda>_. True"
  by unfold_locales (auto simp: dirScore_def)

lemma deleteKeys_keys: "fst ` set (fst (deleteKeys api path ks (dir, s))) = fst ` set dir - set ks"
  by (induction ks arbitrary: dir s) (auto simp: set_gdel)

lemma createKeys_keys:
  assumes "\<And>p s. fst (st_Mkdir api p s) = None"
  shows "fst ` set (fst (createKeys api path ks (dir, s))) = fst ` set dir \<union> set ks"
proof (induction ks arbitrary: dir s)
  case (Cons k ks)
  obtain s1 where "st_Mkdir api (path @ ''/'' @ k) s = (None, s1)" using assms by (metis prod.collapse)
  moreover have "gget dir k \<noteq> None \<longleftrightarrow> k \<in> fst ` set dir" by (auto simp: map_of_eq_None_iff)
  ultimately show ?case using Cons.IH by (auto simp: keys_gput)
qed simp

text \<open>
  As long as the store accepts new directories, synchronising makes the entries of the directory exactly the wanted
  ones: stale entries are gone and every wanted entry exists.
\<close>

lemma syncDir_exact:
  assumes "\<And>p s. fst (st_Mkdir api p s) = None" and "wf_gomap dir"
  shows "fst ` set (fst (syncDir api path ids (dir, s))) = set ids"
proof -
  obtain pairs dirKeys rest where j: "Join (map fst dir) ids dirScore = (pairs, dirKeys, rest)" using prod_cases3 by blast
  have v: "list_all (\<lambda>_. True) ids" by (simp add: list_all_iff)
  have m: "mset (map fst dir) = mset (map fst pairs @ dirKeys)" "mset ids = mset (map snd pairs @ rest)"
    using Join_partition [OF j] by simp_all
  have "distinct (map fst pairs @ dirKeys)" using mset_eq_imp_distinct_iff [OF m(1)] assms(2) by simp
  then have disjoint: "fst ` set pairs \<inter> set dirKeys = {}" by auto
  have "set (map ((\<lambda>l. l) \<circ> fst) pairs) = set (map ((\<lambda>r. r) \<circ> snd) pairs)"
    by (rule arg_cong [OF dirJoin.pair_keys [OF j v]])
  then have same: "fst ` set pairs = snd ` set pairs" by (simp add: comp_def)
  obtain dir1 s1 where d: "deleteKeys api path dirKeys (dir, s) = (dir1, s1)" by force
  have "fst ` set dir1 = fst ` set dir - set dirKeys" using deleteKeys_keys [of api path dirKeys dir s] d by simp
  also have "fst ` set dir = fst ` set pairs \<union> set dirKeys" using arg_cong [OF m(1), of set_mset] by simp
  finally have "fst ` set dir1 = fst ` set pairs" using disjoint by blast
  then have "fst ` set (fst (createKeys api path rest (dir1, s1))) = snd ` set pairs \<union> set rest"
    by (simp only: createKeys_keys [OF assms(1)] same)
  also have "\<dots> = set ids" using arg_cong [OF m(2), of set_mset] by simp
  finally show ?thesis by (simp add: syncDir_def j d)
qed

section \<open>What the leader writes is what the others read\<close>

lemma idLabelMap_keep:
  "k \<notin> c_SchedID ` set cs \<Longrightarrow>
     gget (fold (\<lambda>c m. if c_SchedID c \<noteq> '''' then gput (c_SchedID c) (c_Labels c) m else m) cs m) k = gget m k"
  by (induction cs arbitrary: m) (auto simp: go_map)

lemma idLabelMap_get:
  assumes "c \<in> set cs" "c_SchedID c \<noteq> ''''" "distinct (filter (\<lambda>i. i \<noteq> '''') (map c_SchedID cs))"
  shows "gget (idLabelMap cs) (c_SchedID c) = Some (c_Labels c)"
proof -
  obtain xs ys where cs: "cs = xs @ c # ys" using assms(1) by (meson split_list)
  then have "c_SchedID c \<notin> c_SchedID ` set ys" using assms(2,3) by auto
  from idLabelMap_keep [OF this] show ?thesis using assms(2) by (simp add: idLabelMap_def cs go_map)
qed

lemma labelLoop_spec:
  assumes "\<And>p v s. fst (st_Set api p v s) = None"
  shows "labelLoop api path m ks (dir, s) = (dir', s') \<Longrightarrow>
    entry dir' k f = (if k \<in> set ks \<and> f = ''Labels'' then marshalStrings (sort (case gget m k of None \<Rightarrow> [] | Some ls \<Rightarrow> ls)) else entry dir k f)"
proof (induction ks arbitrary: dir s)
  case (Cons x ks)
  let ?js = "marshalStrings (sort (case gget m x of None \<Rightarrow> [] | Some ls \<Rightarrow> ls))"
  obtain s1 where s1: "st_Set api (path @ ''/'' @ x @ ''/Labels'') ?js s = (None, s1)" using assms by (metis prod.collapse)
  show ?case
  proof (cases "?js = entry dir x ''Labels''")
    case True
    then show ?thesis using Cons.prems Cons.IH [of dir s] by auto
  next
    case False
    then show ?thesis using Cons.prems s1 Cons.IH [of "dirPut x ''Labels'' ?js dir" s1] by (auto simp: entry_dirPut)
  qed
qed simp

lemma labelLoop_keys:
  "set ks \<subseteq> fst ` set dir \<Longrightarrow> labelLoop api path m ks (dir, s) = (dir', s') \<Longrightarrow> fst ` set dir' = fst ` set dir"
proof (induction ks arbitrary: dir s)
  case (Cons x ks)
  let ?js = "marshalStrings (sort (case gget m x of None \<Rightarrow> [] | Some ls \<Rightarrow> ls))"
  obtain e s1 where s1: "st_Set api (path @ ''/'' @ x @ ''/Labels'') ?js s = (e, s1)" by force
  have keys: "fst ` set (dirPut x ''Labels'' ?js dir) = fst ` set dir" using Cons.prems(1) by (auto simp: dirPut_def keys_gput)
  have ks: "set ks \<subseteq> fst ` set dir" using Cons.prems(1) by simp
  show ?case
  proof (cases "?js = entry dir x ''Labels'' \<or> e \<noteq> None")
    case True
    then have "\<exists>s. labelLoop api path m ks (dir, s) = (dir', s')"
      using Cons.prems(2) s1 by (cases "?js = entry dir x ''Labels''") auto
    then show ?thesis using Cons.IH [OF ks] by blast
  next
    case False
    then have "labelLoop api path m ks (dirPut x ''Labels'' ?js dir, s1) = (dir', s')" using Cons.prems(2) s1 by simp
    then show ?thesis using Cons.IH [of "dirPut x ''Labels'' ?js dir" s1] ks keys by simp
  qed
qed simp


definition unitApi :: "storeErr option \<Rightarrow> unit storeApi" where
  "unitApi err = \<lparr>st_Mkdir = \<lambda>p s. (err, s), st_GetTree = \<lambda>p s. Inr newMock, st_Get = \<lambda>p s. Inr '''', st_Delete = \<lambda>p s. (None, s),
     st_Create = \<lambda>p v s. (None, s), st_Update = \<lambda>p v s. (None, s), st_Set = \<lambda>p v s. (None, s)\<rparr>"

definition labelled :: "string \<Rightarrow> string list \<Rightarrow> Container" where
  "labelled i ls = (zeroContainer 1)\<lparr>c_SchedID := i, c_Labels := ls\<rparr>"


section \<open>The label table mirrors the directory\<close>

definition labelKey :: "Label \<Rightarrow> string \<times> string \<times> bool" where
  "labelKey l = (l_Label l, l_IP l, l_MultiHost l)"

definition dirKey :: "directory \<Rightarrow> string \<Rightarrow> string \<times> string \<times> bool" where
  "dirKey dir k = (k, entry dir k ''IP'', gget (inner dir k) ''MultiHost'' \<noteq> None)"

lemma fillLabel_simps [simp]:
  "labelKey (fillLabel dir p) = dirKey dir (fst p)" "l_ID (fillLabel dir p) = l_ID (snd p)"
  by (simp_all add: fillLabel_def labelKey_def dirKey_def case_prod_unfold)

text \<open>
  C38: The label table mirrors the directory of labels: after the transaction it has exactly one row for every entry, with
  the stored address and the mark of labels with several containers, and no other row changed.
\<close>

theorem readLabelTransact_mirrors:
  assumes "db_inv db"
  shows "\<exists>db'. readLabelTransact dir db = Some db' \<and> db_inv db' \<and> frame LabelTable db db' \<and>
    mset (map labelKey (SelectFromLabel db' nilCheck)) = mset (map (dirKey dir) (map fst dir))"
proof -
  obtain pairs dbls dirKeys where
    join: "Join (SelectFromLabel db nilCheck) (map fst dir) labelScore = (pairs, dbls, dirKeys)"
    using prod_cases3 by blast
  obtain fresh db2 where ins: "insertLoop InsertLabel dirKeys (removeLoop LabelRow dbls db) = (fresh, db2)" by force
  have "\<exists>db'. commitLoop LabelRow (map (fillLabel dir) (map prod.swap pairs @ fresh)) db2 = Some db' \<and> db_inv db' \<and>
      frame LabelTable db db' \<and> mset (map fst dir) = mset (map fst (map prod.swap pairs @ fresh)) \<and>
      mset (map labelKey (labelK.allRows db')) =
        mset (map labelKey (filter (\<lambda>x. \<not> nilCheck x) (labelK.allRows db))) +
        mset (map (\<lambda>p. labelKey (fillLabel dir p)) (map prod.swap pairs @ fresh))"
    by (rule labelK.join_reconcile_left [OF assms join [unfolded select_rows] ins [unfolded InsertLabel_def]]) simp_all
  then obtain db' where db': "commitLoop LabelRow (map (fillLabel dir) (map prod.swap pairs @ fresh)) db2 = Some db'" "db_inv db'"
      "frame LabelTable db db'" "mset (map fst dir) = mset (map fst (map prod.swap pairs @ fresh))"
      "mset (map labelKey (labelK.allRows db')) = mset (map (\<lambda>p. dirKey dir (fst p)) (map prod.swap pairs @ fresh))"
    by auto
  have "mset (map (\<lambda>p. dirKey dir (fst p)) (map prod.swap pairs @ fresh)) = mset (map (dirKey dir) (map fst dir))"
    using arg_cong [OF db'(4), of "image_mset (dirKey dir)"] by (simp add: multiset.map_comp comp_def)
  with db' join ins show ?thesis by (simp add: readLabelTransact_def select_rows)
qed

theorem readLabelTransact_mirrors_witness:
  "db_inv New \<and> (\<exists>db'. readLabelTransact [(''web'', [(''IP'', ''10.1.0.3''), (''MultiHost'', ''true'')])] New = Some db' \<and>
     mset (map labelKey (SelectFromLabel db' nilCheck)) = {#(''web'', ''10.1.0.3'', True)#})"
proof -
  have "dirKey [(''web'', [(''IP'', ''10.1.0.3''), (''MultiHost'', ''true'')])] ''web'' = (''web'', ''10.1.0.3'', True)" by code_simp
  then show ?thesis
    using readLabelTransact_mirrors [OF db_inv_New, of "[(''web'', [(''IP'', ''10.1.0.3''), (''MultiHost'', ''true'')])]"]
    by (auto simp: db_inv_New)
qed

section \<open>A failing store takes the leader down\<close>

lemma gget_dir_other:
  "k \<noteq> l \<Longrightarrow> gget (dirPut k f v dir) l = gget dir l" "k \<noteq> l \<Longrightarrow> gget (dirDel k f dir) l = gget dir l"
  by (auto simp: dirPut_def dirDel_def go_map split: option.split)

lemma multiHostLoop_panics:
  "gget m l = Some dbcs \<Longrightarrow> length dbcs > 1 \<Longrightarrow> gget dir l = None \<Longrightarrow> multiHostLoop api m (dir, s) = None"
proof (induction m arbitrary: dir s)
  case (Cons e m)
  obtain k cs where e: "e = (k, cs)" by force
  show ?case
  proof (cases "k = l")
    case True
    then show ?thesis using Cons.prems e by (simp add: inner_def)
  next
    case False
    then show ?thesis using Cons e gget_dir_other [OF False] by (simp add: Let_def)
  qed
qed simp

text \<open>
  C39: If a directory for a label with several containers cannot be created, because the store refuses or times out, the
  leader writes to the missing entry and panics, where every other failure of the store is logged and retried.
\<close>

theorem writeStoreLabels_panics:
  assumes "getDirectory api labelDir (snd (st_Mkdir api labelDir s)) = Inr dir"
    and "syncDir api labelDir (concat (map c_Labels containers)) (dir, snd (st_Mkdir api labelDir s)) = (dir1, s1)"
    and "gget dir1 l = None" and "gget (labelMap containers) l = Some dbcs" and "length dbcs > 1"
  shows "writeStoreLabels api rand32 containers (s, n) = None"
  using multiHostLoop_panics [OF assms(4,5,3), of api s1] assms(1,2) by (simp add: writeStoreLabels_def Let_def)

theorem writeStoreLabels_panics_witness:
  "writeStoreLabels (unitApi (Some (StoreErr ''timeout''))) (\<lambda>_. 0) [labelled ''x'' [''web''], labelled ''y'' [''web'']] ((), 0) = None"
proof -
  let ?api = "unitApi (Some (StoreErr ''timeout''))"
  let ?cs = "[labelled ''x'' [''web''], labelled ''y'' [''web'']]"
  have 1: "getDirectory ?api labelDir (snd (st_Mkdir ?api labelDir ())) = Inr []" by code_simp
  have 2: "syncDir ?api labelDir (concat (map c_Labels ?cs)) ([], snd (st_Mkdir ?api labelDir ())) = ([], ())" by code_simp
  have 3: "gget (labelMap ?cs) ''web'' = Some ?cs" by code_simp
  show ?thesis by (rule writeStoreLabels_panics [OF 1 2 _ 3]) simp_all
qed

end
