(* ===== verification/Network.thy ===== *)
theory Network
  imports NetStore "HOL-Library.AList"
begin

text \<open>
  The leader's configuration of the virtual network (\<open>src/minion/network/network.go\<close>): a logical port for every
  container and every label with several containers, and a firewall rule for every connection.

  The calls of \<open>src/ovsdb/ovsdb.go\<close> the leader makes are modelled over the transactions they send to the
  northbound database of the virtual switch.  That database is a service: a parameter of the definitions, a record of
  the transactions, which may fail and then change nothing.
\<close>

section \<open>The database of the virtual switch\<close>

record LPort =
  lp_Name :: string
  lp_Addresses :: "string list"

record Acl =
  acl_Priority :: int
  acl_Direction :: string
  acl_Match :: string
  acl_Action :: string
  acl_Log :: bool

text \<open>
  The transactions on the one logical switch the program uses; rows come with their identifier, and \<open>None\<close> is an
  error.
\<close>

record 's northbound =
  nb_open :: "'s \<Rightarrow> bool"
  nb_switches :: "string \<Rightarrow> 's \<Rightarrow> string list option"
  nb_addSwitch :: "string \<Rightarrow> 's \<Rightarrow> 's option"
  nb_ports :: "'s \<Rightarrow> (string \<times> LPort) list option"
  nb_addPort :: "LPort \<Rightarrow> 's \<Rightarrow> 's option"
  nb_delPort :: "string \<Rightarrow> 's \<Rightarrow> 's option"
  nb_acls :: "'s \<Rightarrow> (string \<times> Acl) list option"
  nb_addAcl :: "Acl \<Rightarrow> 's \<Rightarrow> 's option"
  nb_delAcl :: "string \<Rightarrow> 's \<Rightarrow> 's option"

text \<open>The callers log an error and go on with the database as it is.\<close>

definition orKeep :: "'s \<Rightarrow> 's option \<Rightarrow> 's" where
  "orKeep s r = (case r of None \<Rightarrow> s | Some s' \<Rightarrow> s')"

definition CreateSwitch :: "'s northbound \<Rightarrow> string \<Rightarrow> 's \<Rightarrow> 's" where
  "CreateSwitch api lswitch s =
     (case nb_switches api lswitch s of
        None \<Rightarrow> s
      | Some check \<Rightarrow> if length check > 0 then s else orKeep s (nb_addSwitch api lswitch s))"

definition ListPorts :: "'s northbound \<Rightarrow> 's \<Rightarrow> LPort list option" where
  "ListPorts api s = map_option (map snd) (nb_ports api s)"

definition CreatePort :: "'s northbound \<Rightarrow> string \<Rightarrow> string \<Rightarrow> string \<Rightarrow> 's \<Rightarrow> 's" where
  "CreatePort api name mac ip s =
     (case nb_ports api s of
        None \<Rightarrow> s
      | Some rs \<Rightarrow>
          if length (filter (\<lambda>r. lp_Name (snd r) = name) rs) > 0 then s
          else orKeep s (nb_addPort api \<lparr>lp_Name = name, lp_Addresses = [mac @ '' '' @ ip]\<rparr> s))"

definition DeletePort :: "'s northbound \<Rightarrow> string \<Rightarrow> 's \<Rightarrow> 's" where
  "DeletePort api name s =
     (case nb_ports api s of
        None \<Rightarrow> s
      | Some rs \<Rightarrow>
          (case filter (\<lambda>r. lp_Name (snd r) = name) rs of
             [] \<Rightarrow> s
           | r # _ \<Rightarrow> orKeep s (nb_delPort api (fst r) s)))"

definition ListACLs :: "'s northbound \<Rightarrow> 's \<Rightarrow> Acl list option" where
  "ListACLs api s = map_option (map snd) (nb_acls api s)"

text \<open>A column that is not given has the default of the database, the empty string.\<close>

definition CreateACL :: "'s northbound \<Rightarrow> string \<Rightarrow> int \<Rightarrow> string \<Rightarrow> string \<Rightarrow> bool \<Rightarrow> 's \<Rightarrow> 's" where
  "CreateACL api dir priority match action doLog s =
     orKeep s (nb_addAcl api
       \<lparr>acl_Priority = max 0 priority, acl_Direction = (if dir \<noteq> ''*'' then dir else ''''),
        acl_Match = (if match \<noteq> ''*'' then match else ''''), acl_Action = action, acl_Log = doLog\<rparr> s)"

definition aclSelected :: "string \<Rightarrow> int \<Rightarrow> string \<Rightarrow> Acl \<Rightarrow> bool" where
  "aclSelected dir priority match acl \<longleftrightarrow>
     \<not> (dir \<noteq> ''*'' \<and> acl_Direction acl \<noteq> dir) \<and> \<not> (match \<noteq> ''*'' \<and> acl_Match acl \<noteq> match) \<and>
     \<not> (priority \<ge> 0 \<and> acl_Priority acl \<noteq> priority)"

text \<open>The loop over the listed rules ends at the first transaction that fails.\<close>

fun deleteACLs :: "'s northbound \<Rightarrow> (Acl \<Rightarrow> bool) \<Rightarrow> (string \<times> Acl) list \<Rightarrow> 's \<Rightarrow> 's" where
  "deleteACLs api sel [] s = s"
| "deleteACLs api sel ((uuid, acl) # rs) s =
     (if \<not> sel acl then deleteACLs api sel rs s
      else (case nb_delAcl api uuid s of None \<Rightarrow> s | Some s' \<Rightarrow> deleteACLs api sel rs s'))"

definition DeleteACL :: "'s northbound \<Rightarrow> string \<Rightarrow> int \<Rightarrow> string \<Rightarrow> 's \<Rightarrow> 's" where
  "DeleteACL api dir priority match s =
     (case nb_acls api s of None \<Rightarrow> s | Some rs \<Rightarrow> deleteACLs api (aclSelected dir priority match) rs s)"

section \<open>Firewall rules\<close>

definition matchStr :: "string \<Rightarrow> string \<Rightarrow> string \<Rightarrow> int \<Rightarrow> int \<Rightarrow> string" where
  "matchStr side src dst mn mx =
     ''ip4.src=='' @ src @ '' && ip4.dst=='' @ dst @ '' && (icmp || '' @
     itoa mn @ '' <= udp.'' @ side @ '' <= '' @ itoa mx @ '' || '' @ itoa mn @ '' <= tcp.'' @ side @ '' <= '' @ itoa mx @ '')''"

definition labelIPMap :: "Label list \<Rightarrow> (string, string) gomap" where
  "labelIPMap labels = fold (\<lambda>l. gput (l_Label l) (l_IP l)) labels []"

definition connMatches :: "(string, string) gomap \<Rightarrow> (string, Container list) gomap \<Rightarrow> Connection \<Rightarrow> string list" where
  "connMatches labelIPs labelDbcs conn =
     concat (map (\<lambda>fromDbc.
         (let fromIP = c_IP fromDbc; toIP = (case gget labelIPs (cn_To conn) of None \<Rightarrow> '''' | Some ip \<Rightarrow> ip) in
          [matchStr ''dst'' fromIP toIP (cn_MinPort conn) (cn_MaxPort conn),
           matchStr ''src'' toIP fromIP (cn_MinPort conn) (cn_MaxPort conn)]))
       (case gget labelDbcs (cn_From conn) of None \<Rightarrow> [] | Some dbcs \<Rightarrow> dbcs))"

definition matchSet :: "Connection list \<Rightarrow> Label list \<Rightarrow> Container list \<Rightarrow> string list" where
  "matchSet connections labels containers =
     fold sput (concat (map (connMatches (labelIPMap labels) (labelMap containers)) connections)) []"

definition mkAcl :: "int \<Rightarrow> string \<Rightarrow> string \<Rightarrow> string \<Rightarrow> Acl" where
  "mkAcl prio dir action match =
     \<lparr>acl_Priority = prio, acl_Direction = dir, acl_Match = match, acl_Action = action, acl_Log = False\<rparr>"

definition netACLs :: "string list \<Rightarrow> Acl list" where
  "netACLs matches =
     [mkAcl 0 ''to-lport'' ''drop'' ''ip'', mkAcl 0 ''from-lport'' ''drop'' ''ip''] @
     concat (map (\<lambda>m. [mkAcl 1 ''to-lport'' ''allow'' m, mkAcl 1 ''from-lport'' ''allow'' m]) matches)"

definition aclScore :: "Acl \<Rightarrow> Acl \<Rightarrow> int" where
  "aclScore acl ovsc =
     (if acl_Priority acl = acl_Priority ovsc \<and> acl_Direction acl = acl_Direction ovsc \<and>
         acl_Action acl = acl_Action ovsc \<and> acl_Match acl = acl_Match ovsc then 0 else - 1)"

definition updateACLs :: "'s northbound \<Rightarrow> Connection list \<Rightarrow> Label list \<Rightarrow> Container list \<Rightarrow> 's \<Rightarrow> 's" where
  "updateACLs api connections labels containers s =
     (if \<not> nb_open api s then s
      else case ListACLs api s of
        None \<Rightarrow> s
      | Some ovsdbACLs \<Rightarrow>
          (let (_, lonelyACLS, lonelyOVS) = Join (netACLs (matchSet connections labels containers)) ovsdbACLs aclScore in
           fold (\<lambda>a. DeleteACL api (acl_Direction a) (acl_Priority a) (acl_Match a)) lonelyOVS
             (fold (\<lambda>a. CreateACL api (acl_Direction a) (acl_Priority a) (acl_Match a) (acl_Action a) (acl_Log a))
               lonelyACLS s)))"

section \<open>Logical ports\<close>

definition labelMac :: string where "labelMac = ''0a:00:00:00:00:00''"

text \<open>A wanted port is a name with its hardware and network address.\<close>

type_synonym port = "string \<times> string \<times> string"

definition labelPorts :: "Label list \<Rightarrow> port list" where
  "labelPorts labels = map (\<lambda>l. (l_Label l, labelMac, l_IP l)) (filter l_MultiHost labels)"

definition containerPorts :: "Container list \<Rightarrow> port list" where
  "containerPorts containers = map (\<lambda>c. (c_SchedID c, c_Mac c, c_IP c)) containers"

fun portLoop :: "'s northbound \<Rightarrow> port list \<Rightarrow> string list \<times> 's \<Rightarrow> string list \<times> 's" where
  "portLoop api [] st = st"
| "portLoop api ((name, mac, ip) # ps) (garbage, s) =
     (if name \<in> set garbage then portLoop api ps (removeAll name garbage, s)
      else portLoop api ps (garbage, CreatePort api name mac ip s))"

definition updatePorts :: "'s northbound \<Rightarrow> LPort list \<Rightarrow> Label list \<Rightarrow> Container list \<Rightarrow> 's \<Rightarrow> 's" where
  "updatePorts api lportSlice labels containers s =
     (let garbageMap = fold sput (map lp_Name lportSlice) [];
          (rest, s1) = portLoop api (containerPorts containers) (portLoop api (labelPorts labels) (garbageMap, s)) in
      fold (DeletePort api) rest s1)"

definition netLabels :: "Database \<Rightarrow> Label list" where
  "netLabels db = SelectFromLabel db (\<lambda>l. l_IP l \<noteq> '''')"

definition netContainers :: "Database \<Rightarrow> Container list" where
  "netContainers db = SelectFromContainer db (\<lambda>c. c_SchedID c \<noteq> '''' \<and> c_Mac c \<noteq> '''' \<and> c_IP c \<noteq> '''')"

definition lSwitch :: string where "lSwitch = ''di''"

definition runMaster :: "'s northbound \<Rightarrow> Database \<Rightarrow> 's \<Rightarrow> 's" where
  "runMaster api db s =
     (let etcds = SelectFromEtcd db nilCheck;
          labels = netLabels db; containers = netContainers db;
          connections = SelectFromConnection db nilCheck in
      if length etcds \<noteq> 1 \<or> \<not> e_Leader (etcds ! 0) then s
      else if \<not> nb_open api s then s
      else
        (let s1 = CreateSwitch api lSwitch s in
         case ListPorts api s1 of
           None \<Rightarrow> s1
         | Some lportSlice \<Rightarrow>
             updateACLs api connections labels containers (updatePorts api lportSlice labels containers s1)))"

section \<open>What the database promises\<close>

abbreviation portRows :: "'s northbound \<Rightarrow> 's \<Rightarrow> (string \<times> LPort) list" where
  "portRows api s \<equiv> the (nb_ports api s)"

abbreviation aclRows :: "'s northbound \<Rightarrow> 's \<Rightarrow> (string \<times> Acl) list" where
  "aclRows api s \<equiv> the (nb_acls api s)"

text \<open>
  The database is up and commits every transaction: rows have identifiers of their own, an insertion adds one row under
  a new identifier, a deletion removes the row of that identifier, and neither touches the other table.
\<close>

definition nb_ok :: "'s northbound \<Rightarrow> bool" where
  "nb_ok api \<longleftrightarrow>
     (\<forall>s. nb_open api s) \<and>
     (\<forall>s. \<exists>ps. nb_ports api s = Some ps \<and> distinct (map fst ps)) \<and>
     (\<forall>s. \<exists>as. nb_acls api s = Some as \<and> distinct (map fst as)) \<and>
     (\<forall>n s s'. nb_addSwitch api n s = Some s' \<longrightarrow>
        set (portRows api s') = set (portRows api s) \<and> set (aclRows api s') = set (aclRows api s)) \<and>
     (\<forall>p s. \<exists>u s'. nb_addPort api p s = Some s' \<and> u \<notin> fst ` set (portRows api s) \<and>
        set (portRows api s') = insert (u, p) (set (portRows api s)) \<and> set (aclRows api s') = set (aclRows api s)) \<and>
     (\<forall>u s. \<exists>s'. nb_delPort api u s = Some s' \<and>
        set (portRows api s') = {r \<in> set (portRows api s). fst r \<noteq> u} \<and> set (aclRows api s') = set (aclRows api s)) \<and>
     (\<forall>a s. \<exists>u s'. nb_addAcl api a s = Some s' \<and> u \<notin> fst ` set (aclRows api s) \<and>
        set (aclRows api s') = insert (u, a) (set (aclRows api s)) \<and> set (portRows api s') = set (portRows api s)) \<and>
     (\<forall>u s. \<exists>s'. nb_delAcl api u s = Some s' \<and>
        set (aclRows api s') = {r \<in> set (aclRows api s). fst r \<noteq> u} \<and> set (portRows api s') = set (portRows api s))"

lemma nb_up: "nb_ok api \<Longrightarrow> nb_open api s"
  by (simp add: nb_ok_def)

lemma nb_listed:
  assumes "nb_ok api"
  shows "nb_ports api s = Some (portRows api s)" and "distinct (map fst (portRows api s))"
    and "nb_acls api s = Some (aclRows api s)" and "distinct (map fst (aclRows api s))"
proof -
  have "\<exists>ps. nb_ports api s = Some ps \<and> distinct (map fst ps)" "\<exists>as. nb_acls api s = Some as \<and> distinct (map fst as)"
    using assms by (simp_all add: nb_ok_def)
  then show "nb_ports api s = Some (portRows api s)" and "distinct (map fst (portRows api s))"
    and "nb_acls api s = Some (aclRows api s)" and "distinct (map fst (aclRows api s))"
    by auto
qed

lemma nb_reads:
  assumes "nb_ok api"
  shows "ListPorts api s = Some (map snd (portRows api s))"
    and "ListACLs api s = Some (map snd (aclRows api s))"
    and "CreatePort api n mac ip s =
      (if n \<in> (\<lambda>r. lp_Name (snd r)) ` set (portRows api s) then s
       else orKeep s (nb_addPort api \<lparr>lp_Name = n, lp_Addresses = [mac @ '' '' @ ip]\<rparr> s))"
    and "DeletePort api n s =
      (case filter (\<lambda>r. lp_Name (snd r) = n) (portRows api s) of
         [] \<Rightarrow> s | r # _ \<Rightarrow> orKeep s (nb_delPort api (fst r) s))"
    and "DeleteACL api dir priority match s = deleteACLs api (aclSelected dir priority match) (aclRows api s) s"
  using nb_listed(1,3) [OF assms, of s]
  by (cases "nb_ports api s"; cases "nb_acls api s";
      auto simp: ListPorts_def ListACLs_def CreatePort_def DeletePort_def DeleteACL_def filter_empty_conv)+

lemma nb_addPortE:
  assumes "nb_ok api"
  obtains u s' where "nb_addPort api p s = Some s'" "u \<notin> fst ` set (portRows api s)"
    "set (portRows api s') = insert (u, p) (set (portRows api s))" "set (aclRows api s') = set (aclRows api s)"
proof -
  have "\<exists>u s'. nb_addPort api p s = Some s' \<and> u \<notin> fst ` set (portRows api s) \<and>
    set (portRows api s') = insert (u, p) (set (portRows api s)) \<and> set (aclRows api s') = set (aclRows api s)"
    using assms unfolding nb_ok_def by (elim conjE) (erule allE [of _ p], erule allE [of _ s])
  then show ?thesis by (elim exE conjE) (rule that)
qed

lemma nb_delPortE:
  assumes "nb_ok api"
  obtains s' where "nb_delPort api u s = Some s'"
    "set (portRows api s') = {r \<in> set (portRows api s). fst r \<noteq> u}" "set (aclRows api s') = set (aclRows api s)"
proof -
  have "\<exists>s'. nb_delPort api u s = Some s' \<and>
    set (portRows api s') = {r \<in> set (portRows api s). fst r \<noteq> u} \<and> set (aclRows api s') = set (aclRows api s)"
    using assms unfolding nb_ok_def by simp
  then show ?thesis by (elim exE conjE) (rule that)
qed

lemma nb_addAclE:
  assumes "nb_ok api"
  obtains u s' where "nb_addAcl api a s = Some s'" "u \<notin> fst ` set (aclRows api s)"
    "set (aclRows api s') = insert (u, a) (set (aclRows api s))" "set (portRows api s') = set (portRows api s)"
proof -
  have "\<exists>u s'. nb_addAcl api a s = Some s' \<and> u \<notin> fst ` set (aclRows api s) \<and>
    set (aclRows api s') = insert (u, a) (set (aclRows api s)) \<and> set (portRows api s') = set (portRows api s)"
    using assms unfolding nb_ok_def by simp
  then show ?thesis by (elim exE conjE) (rule that)
qed

lemma nb_delAclE:
  assumes "nb_ok api"
  obtains s' where "nb_delAcl api u s = Some s'"
    "set (aclRows api s') = {r \<in> set (aclRows api s). fst r \<noteq> u}" "set (portRows api s') = set (portRows api s)"
proof -
  have "\<exists>s'. nb_delAcl api u s = Some s' \<and>
    set (aclRows api s') = {r \<in> set (aclRows api s). fst r \<noteq> u} \<and> set (portRows api s') = set (portRows api s)"
    using assms unfolding nb_ok_def by simp
  then show ?thesis by (elim exE conjE) (rule that)
qed

lemma CreateSwitch_keeps:
  assumes "nb_ok api"
  shows "set (portRows api (CreateSwitch api n s)) = set (portRows api s)"
    and "set (aclRows api (CreateSwitch api n s)) = set (aclRows api s)"
proof -
  have "set (portRows api s') = set (portRows api s) \<and> set (aclRows api s') = set (aclRows api s)"
    if "nb_addSwitch api n s = Some s'" for s' using assms that unfolding nb_ok_def by simp
  then show "set (portRows api (CreateSwitch api n s)) = set (portRows api s)"
    and "set (aclRows api (CreateSwitch api n s)) = set (aclRows api s)"
    by (auto simp: CreateSwitch_def orKeep_def split: option.splits)
qed

section \<open>The ports are the wanted ones\<close>

definition portNames :: "'s northbound \<Rightarrow> 's \<Rightarrow> string set" where
  "portNames api s = (\<lambda>r. lp_Name (snd r)) ` set (portRows api s)"

text \<open>No two ports have one name, which the database enforces by an index.\<close>

definition portsIndexed :: "'s northbound \<Rightarrow> 's \<Rightarrow> bool" where
  "portsIndexed api s \<longleftrightarrow> inj_on (\<lambda>r. lp_Name (snd r)) (set (portRows api s))"

lemma CreatePort_spec:
  assumes ok: "nb_ok api" and ix: "portsIndexed api s"
  shows "portNames api (CreatePort api n mac ip s) = insert n (portNames api s)"
    and "portsIndexed api (CreatePort api n mac ip s)"
    and "set (aclRows api (CreatePort api n mac ip s)) = set (aclRows api s)"
proof -
  let ?p = "\<lparr>lp_Name = n, lp_Addresses = [mac @ '' '' @ ip]\<rparr>" and ?s = "CreatePort api n mac ip s"
  obtain u s' where s': "nb_addPort api ?p s = Some s'" "set (portRows api s') = insert (u, ?p) (set (portRows api s))"
    "set (aclRows api s') = set (aclRows api s)" by (rule nb_addPortE [OF ok])
  have run: "?s = (if n \<in> portNames api s then s else s')"
    unfolding nb_reads(3) [OF ok] s'(1) by (simp add: orKeep_def portNames_def)
  have names: "portNames api s' = insert n (portNames api s)" by (simp add: portNames_def s'(2))
  show "portNames api ?s = insert n (portNames api s)" by (simp add: run names insert_absorb)
  have "portsIndexed api s'" if "n \<notin> portNames api s"
    using ix that unfolding portsIndexed_def portNames_def s'(2) by (simp add: image_iff)
  then show "portsIndexed api ?s" using ix by (simp add: run)
  show "set (aclRows api ?s) = set (aclRows api s)" by (simp add: run s'(3))
qed

lemma DeletePort_spec:
  assumes ok: "nb_ok api" and ix: "portsIndexed api s"
  shows "portNames api (DeletePort api n s) = portNames api s - {n}"
    and "portsIndexed api (DeletePort api n s)"
    and "set (aclRows api (DeletePort api n s)) = set (aclRows api s)"
proof -
  have *: "portNames api (DeletePort api n s) = portNames api s - {n} \<and> portsIndexed api (DeletePort api n s) \<and>
    set (aclRows api (DeletePort api n s)) = set (aclRows api s)"
  proof (cases "filter (\<lambda>r. lp_Name (snd r) = n) (portRows api s)")
    case Nil
    then have "DeletePort api n s = s" "n \<notin> portNames api s"
      by (auto simp: nb_reads(4) [OF ok] portNames_def filter_empty_conv)
    with ix show ?thesis by simp
  next
    case (Cons r rs)
    have "r \<in> set (filter (\<lambda>r. lp_Name (snd r) = n) (portRows api s))" unfolding Cons by simp
    then have r: "r \<in> set (portRows api s)" "lp_Name (snd r) = n" by simp_all
    obtain s' where s': "nb_delPort api (fst r) s = Some s'"
      "set (portRows api s') = {x \<in> set (portRows api s). fst x \<noteq> fst r}" "set (aclRows api s') = set (aclRows api s)"
      by (rule nb_delPortE [OF ok])
    have run: "DeletePort api n s = s'" by (simp add: nb_reads(4) [OF ok] Cons s'(1) orKeep_def)
    have inj: "inj_on fst (set (portRows api s))" using nb_listed(2) [OF ok, of s] by (simp add: distinct_map)
    have rows': "set (portRows api s') = set (portRows api s) - {r}"
      unfolding s'(2) using inj_on_eq_iff [OF inj _ r(1)] by auto
    have "portNames api s' = portNames api s - (\<lambda>r. lp_Name (snd r)) ` {r}"
      unfolding portNames_def rows'
      by (rule inj_on_image_set_diff [OF ix [unfolded portsIndexed_def]]) (use r(1) in auto)
    then have "portNames api s' = portNames api s - {n}" using r(2) by simp
    moreover have "portsIndexed api s'"
      using ix unfolding portsIndexed_def rows' by (rule inj_on_subset) blast
    ultimately show ?thesis using s'(3) by (simp add: run)
  qed
  then show "portNames api (DeletePort api n s) = portNames api s - {n}" "portsIndexed api (DeletePort api n s)"
    "set (aclRows api (DeletePort api n s)) = set (aclRows api s)" by blast+
qed

lemma deletePorts_spec:
  assumes "nb_ok api" and "portsIndexed api s"
  shows "portNames api (fold (DeletePort api) ns s) = portNames api s - set ns \<and>
    portsIndexed api (fold (DeletePort api) ns s) \<and> set (aclRows api (fold (DeletePort api) ns s)) = set (aclRows api s)"
  using assms(2)
proof (induction ns arbitrary: s)
  case (Cons n ns)
  note d = DeletePort_spec [OF assms(1) Cons.prems, of n]
  from Cons.IH [OF d(2)] d(1,3) show ?case by auto
qed simp

lemma portLoop_spec:
  assumes "nb_ok api" and "portLoop api ps (garbage, s) = (garbage', s')"
    and "portsIndexed api s" and "set garbage \<subseteq> portNames api s"
  shows "set garbage' = set garbage - fst ` set ps \<and> portsIndexed api s' \<and>
    portNames api s' = portNames api s \<union> fst ` set ps \<and> set (aclRows api s') = set (aclRows api s)"
  using assms(2-)
proof (induction ps arbitrary: garbage s)
  case (Cons p ps)
  obtain n mac ip where p: "p = (n, mac, ip)" using prod_cases3 by blast
  show ?case
  proof (cases "n \<in> set garbage")
    case True
    then have "portLoop api ps (removeAll n garbage, s) = (garbage', s')" using Cons.prems(1) p by simp
    moreover have "set (removeAll n garbage) \<subseteq> portNames api s" using Cons.prems(3) by auto
    moreover have "n \<in> portNames api s" using Cons.prems(3) True by blast
    ultimately show ?thesis using Cons.IH [OF _ Cons.prems(2), of "removeAll n garbage"] by (auto simp: p)
  next
    case False
    then have run: "portLoop api ps (garbage, CreatePort api n mac ip s) = (garbage', s')" using Cons.prems(1) p by simp
    note c = CreatePort_spec [OF assms(1) Cons.prems(2), of n mac ip]
    have "set garbage \<subseteq> portNames api (CreatePort api n mac ip s)" using Cons.prems(3) c(1) by blast
    from Cons.IH [OF run c(2) this] False c(1,3) show ?thesis by (auto simp: p)
  qed
qed simp

lemma updatePorts_spec:
  assumes ok: "nb_ok api" and ix: "portsIndexed api s" and "ListPorts api s = Some lports"
  shows "portNames api (updatePorts api lports labels containers s) =
      fst ` set (labelPorts labels) \<union> fst ` set (containerPorts containers)"
    and "portsIndexed api (updatePorts api lports labels containers s)"
    and "set (aclRows api (updatePorts api lports labels containers s)) = set (aclRows api s)"
proof -
  let ?g = "fold sput (map lp_Name lports) []"
  have "lports = map snd (portRows api s)" using assms(3) by (simp add: nb_reads(1) [OF ok])
  then have g: "set ?g = portNames api s"
    using sput_all [of "[]" "map lp_Name lports"] by (simp add: portNames_def image_image)
  obtain g1 s1 where 1: "portLoop api (labelPorts labels) (?g, s) = (g1, s1)" by (rule prod.exhaust)
  obtain g2 s2 where 2: "portLoop api (containerPorts containers) (g1, s1) = (g2, s2)" by (rule prod.exhaust)
  note p1 = portLoop_spec [OF ok 1 ix equalityD1 [OF g]]
  then have ix1: "portsIndexed api s1" and "set g1 \<subseteq> portNames api s1" using g by auto
  note p2 = portLoop_spec [OF ok 2 this]
  then have ix2: "portsIndexed api s2" by (elim conjE)
  have run: "updatePorts api lports labels containers s = fold (DeletePort api) g2 s2"
    by (simp add: updatePorts_def 1 2)
  note d = deletePorts_spec [OF ok ix2, of g2]
  show "portNames api (updatePorts api lports labels containers s) =
      fst ` set (labelPorts labels) \<union> fst ` set (containerPorts containers)"
    unfolding run using d p1 p2 g by auto
  show "portsIndexed api (updatePorts api lports labels containers s)" using d by (simp add: run)
  show "set (aclRows api (updatePorts api lports labels containers s)) = set (aclRows api s)"
    unfolding run using d p1 p2 by simp
qed

section \<open>The firewall admits what the connections say\<close>

definition aclKey :: "Acl \<Rightarrow> int \<times> string \<times> string \<times> string" where
  "aclKey a = (acl_Priority a, acl_Direction a, acl_Action a, acl_Match a)"

definition aclKeys :: "'s northbound \<Rightarrow> 's \<Rightarrow> (int \<times> string \<times> string \<times> string) set" where
  "aclKeys api s = (\<lambda>r. aclKey (snd r)) ` set (aclRows api s)"

text \<open>
  The rules the leader makes: no wildcards, dropped at priority 0 and allowed above it.  Then direction, priority and
  match, by which rules are deleted, determine the rule.
\<close>

definition madeHere :: "Acl \<Rightarrow> bool" where
  "madeHere a \<longleftrightarrow> acl_Priority a \<ge> 0 \<and> acl_Direction a \<noteq> ''*'' \<and> acl_Match a \<noteq> ''*'' \<and>
     acl_Action a = (if acl_Priority a = 0 then ''drop'' else ''allow'')"

definition aclsOwned :: "'s northbound \<Rightarrow> 's \<Rightarrow> bool" where
  "aclsOwned api s \<longleftrightarrow> inj_on (\<lambda>r. aclKey (snd r)) (set (aclRows api s)) \<and> (\<forall>r \<in> set (aclRows api s). madeHere (snd r))"

abbreviation makeACL :: "'s northbound \<Rightarrow> Acl \<Rightarrow> 's \<Rightarrow> 's" where
  "makeACL api a \<equiv> CreateACL api (acl_Direction a) (acl_Priority a) (acl_Match a) (acl_Action a) (acl_Log a)"

abbreviation dropACL :: "'s northbound \<Rightarrow> Acl \<Rightarrow> 's \<Rightarrow> 's" where
  "dropACL api a \<equiv> DeleteACL api (acl_Direction a) (acl_Priority a) (acl_Match a)"

interpretation aclJoin: keyed_join aclScore aclKey aclKey "\<lambda>_. True"
  by unfold_locales (auto simp: aclScore_def aclKey_def)

lemma selected_iff:
  "madeHere a \<Longrightarrow> madeHere b \<Longrightarrow>
     aclSelected (acl_Direction b) (acl_Priority b) (acl_Match b) a \<longleftrightarrow> aclKey a = aclKey b"
  by (auto simp: madeHere_def aclSelected_def aclKey_def)

lemma makeACL_spec:
  assumes ok: "nb_ok api" and "aclsOwned api s" and "madeHere a" and "aclKey a \<notin> aclKeys api s"
  shows "aclsOwned api (makeACL api a s)" and "aclKeys api (makeACL api a s) = insert (aclKey a) (aclKeys api s)"
    and "set (portRows api (makeACL api a s)) = set (portRows api s)"
proof -
  obtain u s' where s': "nb_addAcl api a s = Some s'" "u \<notin> fst ` set (aclRows api s)"
    "set (aclRows api s') = insert (u, a) (set (aclRows api s))" "set (portRows api s') = set (portRows api s)"
    by (rule nb_addAclE [OF ok])
  have "makeACL api a s = orKeep s (nb_addAcl api a s)"
    using assms(3) by (cases a) (auto simp: CreateACL_def madeHere_def max_def)
  then have run: "makeACL api a s = s'" unfolding s'(1) by (simp add: orKeep_def)
  show "aclKeys api (makeACL api a s) = insert (aclKey a) (aclKeys api s)" unfolding run by (simp add: aclKeys_def s'(3))
  show "set (portRows api (makeACL api a s)) = set (portRows api s)" unfolding run by (rule s'(4))
  show "aclsOwned api (makeACL api a s)"
    using assms(2-4) unfolding run aclsOwned_def aclKeys_def s'(3) by (simp add: image_iff)
qed

lemma makeACLs_spec:
  assumes ok: "nb_ok api" and "aclsOwned api s" and "list_all madeHere as" and "distinct (map aclKey as)"
    and "aclKey ` set as \<inter> aclKeys api s = {}"
  shows "aclsOwned api (fold (makeACL api) as s) \<and> aclKeys api (fold (makeACL api) as s) = aclKey ` set as \<union> aclKeys api s \<and>
    set (portRows api (fold (makeACL api) as s)) = set (portRows api s)"
  using assms(2-)
proof (induction as arbitrary: s)
  case (Cons a as)
  have "madeHere a" "aclKey a \<notin> aclKeys api s" using Cons.prems(2,4) by auto
  note m = makeACL_spec [OF ok Cons.prems(1) this]
  have "aclKey ` set as \<inter> aclKeys api (makeACL api a s) = {}" using Cons.prems(3,4) m(2) by auto
  with Cons.IH [OF m(1)] Cons.prems(2,3) m(2,3) show ?case by auto
qed simp

lemma deleteACLs_rows:
  assumes "nb_ok api"
  shows "set (aclRows api (deleteACLs api sel rs s)) = {r \<in> set (aclRows api s). fst r \<notin> fst ` {x \<in> set rs. sel (snd x)}} \<and>
    set (portRows api (deleteACLs api sel rs s)) = set (portRows api s)"
proof (induction rs arbitrary: s)
  case (Cons x rs)
  obtain u a where x: "x = (u, a)" by (rule prod.exhaust)
  obtain s' where s': "nb_delAcl api u s = Some s'" "set (aclRows api s') = {r \<in> set (aclRows api s). fst r \<noteq> u}"
    "set (portRows api s') = set (portRows api s)" by (rule nb_delAclE [OF assms])
  show ?case
  proof (cases "sel a")
    case True
    then have "deleteACLs api sel (x # rs) s = deleteACLs api sel rs s'" by (simp add: x s'(1))
    moreover have "fst ` {y \<in> set (x # rs). sel (snd y)} = insert u (fst ` {y \<in> set rs. sel (snd y)})"
      using True by (force simp: x)
    ultimately show ?thesis using Cons.IH [of s'] s'(2,3) by auto
  next
    case False
    then have "{y \<in> set (x # rs). sel (snd y)} = {y \<in> set rs. sel (snd y)}" by (auto simp: x)
    moreover have "deleteACLs api sel (x # rs) s = deleteACLs api sel rs s" using False by (simp add: x)
    ultimately show ?thesis using Cons.IH [of s] by simp
  qed
qed simp

lemma dropACL_spec:
  assumes ok: "nb_ok api" and ow: "aclsOwned api s" and b: "madeHere b"
  shows "aclsOwned api (dropACL api b s)" and "aclKeys api (dropACL api b s) = aclKeys api s - {aclKey b}"
    and "set (portRows api (dropACL api b s)) = set (portRows api s)"
proof -
  let ?rs = "set (aclRows api s)" and ?s = "dropACL api b s"
  note d = deleteACLs_rows [OF ok, of "aclSelected (acl_Direction b) (acl_Priority b) (acl_Match b)" "aclRows api s" s,
      folded nb_reads(5) [OF ok]]
  have made: "madeHere (snd r)" if "r \<in> ?rs" for r using ow that by (simp add: aclsOwned_def)
  have inj: "inj_on fst ?rs" using nb_listed(4) [OF ok, of s] by (simp add: distinct_map)
  have "fst r \<in> fst ` {x \<in> ?rs. aclSelected (acl_Direction b) (acl_Priority b) (acl_Match b) (snd x)} \<longleftrightarrow>
    aclKey (snd r) = aclKey b" if "r \<in> ?rs" for r
    using that inj_on_eq_iff [OF inj that] selected_iff [OF made b] by (auto simp: image_iff)
  then have rows': "set (aclRows api ?s) = {r \<in> ?rs. aclKey (snd r) \<noteq> aclKey b}" using d by blast
  show "aclKeys api ?s = aclKeys api s - {aclKey b}" unfolding aclKeys_def rows' by auto
  show "set (portRows api ?s) = set (portRows api s)" using d by blast
  show "aclsOwned api ?s" using ow unfolding aclsOwned_def rows' by (auto intro: inj_on_subset)
qed

lemma dropACLs_spec:
  assumes ok: "nb_ok api" and "aclsOwned api s" and "list_all madeHere bs"
  shows "aclsOwned api (fold (dropACL api) bs s) \<and> aclKeys api (fold (dropACL api) bs s) = aclKeys api s - aclKey ` set bs \<and>
    set (portRows api (fold (dropACL api) bs s)) = set (portRows api s)"
  using assms(2-)
proof (induction bs arbitrary: s)
  case (Cons b bs)
  have "madeHere b" using Cons.prems(2) by simp
  note d = dropACL_spec [OF ok Cons.prems(1) this]
  from Cons.IH [OF d(1)] Cons.prems(2) d(2,3) show ?case by auto
qed simp

lemma set_mset_minus_distinct: "distinct xs \<Longrightarrow> set_mset (mset xs - mset ys) = set xs - set ys"
  by (auto simp: set_eq_iff in_diff_count distinct_count_atmost_1 count_eq_zero_iff not_in_iff simp flip: count_greater_zero_iff)

abbreviation labelIP :: "Label list \<Rightarrow> string \<Rightarrow> string" where
  "labelIP labels l \<equiv> (case gget (labelIPMap labels) l of None \<Rightarrow> '''' | Some ip \<Rightarrow> ip)"

abbreviation dbcsOf :: "(string, Container list) gomap \<Rightarrow> string \<Rightarrow> Container list" where
  "dbcsOf m l \<equiv> (case gget m l of None \<Rightarrow> [] | Some dbcs \<Rightarrow> dbcs)"

lemma labelMap_loop:
  "dbcsOf (fold (\<lambda>(l, c) m. gput l (dbcsOf m l @ [c]) m) ps m) l = dbcsOf m l @ map snd (filter (\<lambda>p. fst p = l) ps)"
  by (induction ps arbitrary: m) (auto simp: go_map)

lemma labelMap_dbcs: "set (dbcsOf (labelMap containers) l) = {c \<in> set containers. l \<in> set (c_Labels c)}"
  unfolding labelMap_def labelMap_loop by (auto simp: go_map image_iff)

text \<open>The traffic the connections admit, in the terms of the policy.\<close>

definition admitted :: "Connection list \<Rightarrow> Label list \<Rightarrow> Container list \<Rightarrow> string set" where
  "admitted connections labels containers =
     {m. \<exists>conn c. conn \<in> set connections \<and> c \<in> set containers \<and> cn_From conn \<in> set (c_Labels c) \<and>
        (m = matchStr ''dst'' (c_IP c) (labelIP labels (cn_To conn)) (cn_MinPort conn) (cn_MaxPort conn) \<or>
         m = matchStr ''src'' (labelIP labels (cn_To conn)) (c_IP c) (cn_MinPort conn) (cn_MaxPort conn))}"

lemma matchSet_admitted:
  "distinct (matchSet connections labels containers)"
  "set (matchSet connections labels containers) = admitted connections labels containers"
proof -
  let ?ms = "concat (map (connMatches (labelIPMap labels) (labelMap containers)) connections)"
  have s: "distinct (matchSet connections labels containers)" "set (matchSet connections labels containers) = set ?ms"
    using sput_all [of "[]" ?ms] by (simp_all add: matchSet_def)
  show "distinct (matchSet connections labels containers)" by (rule s(1))
  have "set (connMatches (labelIPMap labels) (labelMap containers) conn) =
    (\<Union>c \<in> {c \<in> set containers. cn_From conn \<in> set (c_Labels c)}.
       {matchStr ''dst'' (c_IP c) (labelIP labels (cn_To conn)) (cn_MinPort conn) (cn_MaxPort conn),
        matchStr ''src'' (labelIP labels (cn_To conn)) (c_IP c) (cn_MinPort conn) (cn_MaxPort conn)})" for conn
    unfolding connMatches_def Let_def labelMap_dbcs [symmetric] by simp
  then show "set (matchSet connections labels containers) = admitted connections labels containers"
    unfolding s(2) admitted_def by auto
qed

lemma admitted_no_wildcard: "''*'' \<notin> admitted connections labels containers"
  by (auto simp: admitted_def matchStr_def)

text \<open>The keys of the wanted rules.\<close>

definition wantedKeys :: "string set \<Rightarrow> (int \<times> string \<times> string \<times> string) set" where
  "wantedKeys ms = {(0, ''to-lport'', ''drop'', ''ip''), (0, ''from-lport'', ''drop'', ''ip'')} \<union>
     {1} \<times> {''to-lport'', ''from-lport''} \<times> {''allow''} \<times> ms"

lemma netACLs_keys: "aclKey ` set (netACLs ms) = wantedKeys (set ms)"
proof (induction ms)
  case (Cons m ms)
  have "aclKey ` set (netACLs (m # ms)) =
      aclKey ` {mkAcl 1 ''to-lport'' ''allow'' m, mkAcl 1 ''from-lport'' ''allow'' m} \<union> aclKey ` set (netACLs ms)"
    by (auto simp: netACLs_def)
  also have "\<dots> = wantedKeys (set (m # ms))" unfolding Cons.IH by (auto simp: wantedKeys_def aclKey_def mkAcl_def)
  finally show ?case .
qed (simp add: netACLs_def wantedKeys_def aclKey_def mkAcl_def)


lemma netACLs_distinct: "distinct ms \<Longrightarrow> distinct (map aclKey (netACLs ms))"
proof (induction ms)
  case (Cons m ms)
  then show ?case by (auto simp: netACLs_def aclKey_def mkAcl_def)
qed (simp add: netACLs_def aclKey_def mkAcl_def)

lemma netACLs_made: "''*'' \<notin> set ms \<Longrightarrow> list_all madeHere (netACLs ms)"
  by (auto simp: netACLs_def mkAcl_def madeHere_def list_all_iff)

lemma acl_lonely:
  assumes j: "Join ls rs aclScore = (pairs, lefts, rights)" and dl: "distinct (map aclKey ls)" and dr: "distinct (map aclKey rs)"
  shows "aclKey ` set lefts = aclKey ` set ls - aclKey ` set rs"
    and "aclKey ` set rights = aclKey ` set rs - aclKey ` set ls" and "distinct (map aclKey lefts)"
proof -
  have l: "mset (map aclKey lefts) = mset (map aclKey ls) - mset (map aclKey rs)"
    and r: "mset (map aclKey rights) = mset (map aclKey rs) - mset (map aclKey ls)"
    by (rule aclJoin.lefts_keys [OF j], simp add: list_all_iff) (rule aclJoin.rights_keys [OF j], simp add: list_all_iff)
  show "aclKey ` set lefts = aclKey ` set ls - aclKey ` set rs"
    using arg_cong [OF l, of set_mset] set_mset_minus_distinct [OF dl, of "map aclKey rs"] by (simp del: mset_map)
  show "aclKey ` set rights = aclKey ` set rs - aclKey ` set ls"
    using arg_cong [OF r, of set_mset] set_mset_minus_distinct [OF dr, of "map aclKey ls"] by (simp del: mset_map)
  have "mset (map aclKey ls) = mset (map (aclKey \<circ> snd) pairs @ map aclKey lefts)"
    unfolding mset_append by (rule aclJoin.keys_split(1) [OF j]) (simp add: list_all_iff)
  from mset_eq_imp_distinct_iff [OF this] dl show "distinct (map aclKey lefts)" by (simp del: map_map)
qed

lemma updateACLs_spec:
  assumes ok: "nb_ok api" and ow: "aclsOwned api s" and s': "s' = updateACLs api connections labels containers s"
  shows "aclKeys api s' = wantedKeys (admitted connections labels containers)" and "aclsOwned api s'"
    and "set (portRows api s') = set (portRows api s)"
proof -
  let ?ms = "matchSet connections labels containers" and ?ovs = "map snd (aclRows api s)"
  obtain pairs lefts rights where j: "Join (netACLs ?ms) ?ovs aclScore = (pairs, lefts, rights)"
    by (rule prod_cases3)
  have run: "s' = fold (dropACL api) rights (fold (makeACL api) lefts s)"
    by (simp add: s' updateACLs_def nb_up [OF ok] nb_reads(2) [OF ok] j)
  have dw: "distinct (map aclKey (netACLs ?ms))" by (rule netACLs_distinct [OF matchSet_admitted(1)])
  have "distinct (aclRows api s)" using nb_listed(4) [OF ok, of s] by (simp add: distinct_map)
  then have dov: "distinct (map aclKey ?ovs)" using ow by (simp add: aclsOwned_def distinct_map comp_def)
  have ovs: "aclKey ` set ?ovs = aclKeys api s" by (simp add: aclKeys_def image_image)
  have wk: "aclKey ` set (netACLs ?ms) = wantedKeys (admitted connections labels containers)"
    by (simp add: netACLs_keys matchSet_admitted(2))
  note lonely = acl_lonely [OF j dw dov, unfolded ovs wk]
  have "list_all madeHere (netACLs ?ms)"
    by (rule netACLs_made) (simp add: admitted_no_wildcard matchSet_admitted(2))
  then have lm: "list_all madeHere lefts" using Join_set(1) [OF j] by (simp add: list_all_iff)
  have "set rights \<subseteq> set ?ovs" using Join_set(2) [OF j] by blast
  then have rm: "list_all madeHere rights" using ow by (auto simp: list_all_iff aclsOwned_def)
  have "aclKey ` set lefts \<inter> aclKeys api s = {}" using lonely(1) by blast
  note m = makeACLs_spec [OF ok ow lm lonely(3) this]
  note d = dropACLs_spec [OF ok conjunct1 [OF m] rm]
  show "aclKeys api s' = wantedKeys (admitted connections labels containers)"
    unfolding run using d m lonely(1,2) by auto
  show "aclsOwned api s'" "set (portRows api s') = set (portRows api s)" unfolding run using d m by simp_all
qed

section \<open>What the leader establishes\<close>

lemma runMaster_leader:
  assumes ok: "nb_ok api" and "SelectFromEtcd db nilCheck = [e]" and "e_Leader e"
  shows "runMaster api db s =
    (let s1 = CreateSwitch api lSwitch s in
     updateACLs api (SelectFromConnection db nilCheck) (netLabels db) (netContainers db)
       (updatePorts api (map snd (portRows api s1)) (netLabels db) (netContainers db) s1))"
  using assms(2,3) by (simp add: runMaster_def nb_up [OF ok] nb_reads(1) [OF ok] Let_def)

lemma runMaster_idle:
  "\<not> list_ex e_Leader (SelectFromEtcd db nilCheck) \<Longrightarrow> runMaster api db s = s"
  by (cases "SelectFromEtcd db nilCheck") (auto simp: runMaster_def)

lemma runMaster_stages:
  assumes ok: "nb_ok api" and "SelectFromEtcd db nilCheck = [e]" and "e_Leader e" and "portsIndexed api s" and "aclsOwned api s"
  obtains s2 where "runMaster api db s =
      updateACLs api (SelectFromConnection db nilCheck) (netLabels db) (netContainers db) s2"
    and "portsIndexed api s2" and "aclsOwned api s2"
    and "portNames api s2 = fst ` set (labelPorts (netLabels db)) \<union> fst ` set (containerPorts (netContainers db))"
proof -
  let ?s1 = "CreateSwitch api lSwitch s"
  let ?s2 = "updatePorts api (map snd (portRows api ?s1)) (netLabels db) (netContainers db) ?s1"
  have "portsIndexed api ?s1" using assms(4) by (simp add: portsIndexed_def CreateSwitch_keeps [OF ok])
  note p = updatePorts_spec [OF ok this nb_reads(1) [OF ok], of "netLabels db" "netContainers db"]
  have "aclsOwned api ?s2" using assms(5) by (simp add: aclsOwned_def p(3) CreateSwitch_keeps [OF ok])
  with p(1,2) runMaster_leader [OF assms(1-3), of s] show ?thesis by (intro that) (simp_all add: Let_def)
qed



section \<open>An instance\<close>

text \<open>Tables as association lists, with identifiers longer than any in use.\<close>

definition newId :: "(string \<times> 'r) list \<Rightarrow> string" where
  "newId rs = replicate (Suc (sum_list (map (length \<circ> fst) rs))) CHR ''u''"

lemma newId_fresh: "newId rs \<notin> fst ` set rs"
proof
  assume "newId rs \<in> fst ` set rs"
  then obtain r where r: "r \<in> set rs" "newId rs = fst r" by blast
  then have "length (newId rs) \<le> sum_list (map (length \<circ> fst) rs)" using member_le_sum_list [of "length (fst r)"] by force
  then show False by (simp add: newId_def)
qed

definition tableNB :: "((string \<times> LPort) list \<times> (string \<times> Acl) list) northbound" where
  "tableNB = \<lparr>nb_open = \<lambda>s. True, nb_switches = \<lambda>n s. Some [], nb_addSwitch = \<lambda>n s. Some s,
     nb_ports = \<lambda>(ps, as). Some (AList.clearjunk ps), nb_addPort = \<lambda>p (ps, as). Some ((newId ps, p) # ps, as),
     nb_delPort = \<lambda>u (ps, as). Some (AList.delete u ps, as),
     nb_acls = \<lambda>(ps, as). Some (AList.clearjunk as), nb_addAcl = \<lambda>a (ps, as). Some (ps, (newId as, a) # as),
     nb_delAcl = \<lambda>u (ps, as). Some (ps, AList.delete u as)\<rparr>"

lemma table_add: "set (AList.clearjunk ((newId rs, r) # rs)) = insert (newId rs, r) (set (AList.clearjunk rs))"
  and table_fresh: "newId rs \<notin> fst ` set (AList.clearjunk rs)"
  using newId_fresh [of rs] by (auto simp: delete_id AList.dom_clearjunk)

lemma table_insert:
  "\<exists>u. u \<notin> fst ` set (AList.clearjunk rs) \<and>
     insert (newId rs, p) (set (AList.clearjunk rs)) = insert (u, p) (set (AList.clearjunk rs))"
  using table_fresh by blast

lemma table_del: "set (AList.clearjunk (AList.delete u rs)) = {r \<in> set (AList.clearjunk rs). fst r \<noteq> u}"
  unfolding clearjunk_delete by (auto simp: AList.delete_eq)

lemma tableNB_ok: "nb_ok tableNB"
  unfolding nb_ok_def
  by (auto simp: tableNB_def distinct_clearjunk table_add table_del simp del: clearjunk.simps
      intro: table_insert)

definition netDb :: Database where
  "netDb = insert_db (LabelRow \<lparr>l_ID = 4, l_Label = ''db'', l_IP = ''10.1.0.9'', l_MultiHost = True\<rparr>)
     (insert_db (ConnectionRow \<lparr>cn_ID = 3, cn_From = ''web'', cn_To = ''db'', cn_MinPort = 80, cn_MaxPort = 80\<rparr>)
     (insert_db (ContainerRow ((zeroContainer 2)\<lparr>c_SchedID := ''x'', c_Mac := ''m'', c_IP := ''10.0.0.2'', c_Labels := [''web'']\<rparr>))
     (insert_db (EtcdRow ((zeroEtcd 1)\<lparr>e_Leader := True\<rparr>)) New)))"

lemma netDb_rows:
  "SelectFromEtcd netDb nilCheck = [(zeroEtcd 1)\<lparr>e_Leader := True\<rparr>]"
  "netLabels netDb = [\<lparr>l_ID = 4, l_Label = ''db'', l_IP = ''10.1.0.9'', l_MultiHost = True\<rparr>]"
  "netContainers netDb = [(zeroContainer 2)\<lparr>c_SchedID := ''x'', c_Mac := ''m'', c_IP := ''10.0.0.2'', c_Labels := [''web'']\<rparr>]"
  by code_simp+

lemma emptyNB: "portsIndexed tableNB ([], [])" "aclsOwned tableNB ([], [])"
  by (simp_all add: portsIndexed_def aclsOwned_def tableNB_def)



end
