(* ===== verification/Spec2Isabelle.thy ===== *)
theory Spec2Isabelle
  imports Join Db_Txn Dsl Engine Scheduler Cluster Foreman Supervisor Elector Network
begin

text \<open>
  Verification of DI, a controller that deploys containers on machines of several clouds from a policy written in a
  small Lisp (sources under \<open>src/\<close>).

  \<^bold>\<open>The program.\<close>  The controller (\<open>di.go\<close>) reads a policy with the package \<open>dsl\<close>; \<open>engine\<close> turns it into a cluster row
  and machine rows of an in-memory database (\<open>db\<close>); \<open>cluster\<close> compares the machine rows with what the clouds
  (\<open>provider\<close>) run, boots and stops machines, and its foreman sends every machine's minion a configuration that contains the
  policy.  A minion (\<open>minion\<close>) writes the configuration to a database of its own; its supervisor runs the system containers
  of its role; the masters elect a leader through the consensus store (\<open>minion/elector\<close>, \<open>minion/consensus\<close>); the leader
  schedules the policy's containers through docker (\<open>minion/scheduler\<close>, \<open>minion/docker\<close>), publishes addresses and labels in the
  store, and configures the virtual switch (\<open>minion/network\<close>, \<open>ovsdb\<close>).  The parts only communicate through the database, the store
  and the minion protocol; every one is a loop that joins what should be with what is (\<open>join\<close>) and acts on the difference.

  \<^bold>\<open>The theories.\<close>
  \<^item> \<open>Prelude\<close>, \<open>Strings\<close>, \<open>Net\<close>, \<open>Json\<close>: Go's maps, sets, strings, addresses and JSON as far as the sources use them;
    the locale \<open>sort_order\<close> of the row orders.  \<open>Json\<close> shows that lists of strings survive marshalling, \<open>Net\<close> that
    addresses survive printing.
  \<^item> \<open>Join\<close> (\<open>join/join.go\<close>): the greedy matching with its arrays; it loses and duplicates nothing and refines the greedy
    relation of the package comment.  The locales \<open>keyed_join\<close>, \<open>total_join\<close> and \<open>exact_join\<close> say what a client gets from the
    shape of its score function; each client interprets one of them for its own score.
  \<^item> \<open>Db\<close>, \<open>Db_Txn\<close> (\<open>db/*.go\<close>): the seven row types, tables, identifiers, transactions, triggers, orders and the log form.
    The invariant \<open>db_inv\<close> holds of every reachable database, and a transaction that changes a table wakes its
    triggers.  The locale \<open>row_kind\<close> is the interface of a table to its writers, interpreted for all seven row types.
  \<^item> \<open>Reconcile\<close>: the facts on joining, removing, inserting and committing rows that the writers share, in \<open>row_kind\<close>.
  \<^item> \<open>Dsl_Ast\<close>, \<open>Dsl_Monad\<close>, \<open>Dsl_Ctx\<close>, \<open>Dsl_Func\<close>, \<open>Dsl_Eval\<close> (\<open>dsl/ast.go\<close>, \<open>func.go\<close>, \<open>eval.go\<close>): values, the monad of
    errors, panics and the heap that atoms share, the builtins and the evaluator.  \<open>Dsl_Inv\<close> and \<open>Dsl_Safe\<close> prove
    that evaluation keeps the heap well-formed; \<open>Dsl_Fuel\<close> that more fuel changes nothing.
  \<^item> \<open>Dsl_Scan\<close>, \<open>Dsl_Parse\<close>, \<open>Dsl_Print\<close>, \<open>Dsl_Import\<close> (\<open>dsl/parse.go\<close>, \<open>imports.go\<close>): the scanner, the parser, which is total,
    that printing and parsing are inverse up to positions, and imports, which terminate because cycles are detected.
  \<^item> \<open>Dsl\<close> (\<open>dsl/dsl.go\<close>, \<open>key.go\<close>): loading a policy and the queries, their bounds and safety.
  \<^item> \<open>Provider_Tables\<close>, \<open>Provider\<close> (\<open>provider/provider.go\<close>, \<open>constraint*.go\<close>, \<open>gceConstants.go\<close>): the tables of sizes and the
    choice of the cheapest one.
  \<^item> \<open>Engine\<close> (\<open>engine/engine.go\<close>): updating the policy leaves exactly its cluster, machines and ACLs.
  \<^item> \<open>Cluster\<close>, \<open>Foreman\<close> (\<open>cluster/cluster.go\<close>, \<open>foreman.go\<close>): synchronisation with the clouds converges; minions whose
    configuration differs, and only they, are configured.
  \<^item> \<open>Util\<close>, \<open>Minion\<close> (\<open>util/util.go\<close>, \<open>minion/engine.go\<close>, \<open>server.go\<close>): setting a configuration leaves exactly its
    containers and connections.
  \<^item> \<open>Docker\<close>, \<open>Scheduler\<close> (\<open>minion/docker/docker.go\<close>, \<open>minion/scheduler/*.go\<close>): every running container is kept by one row or
    terminated, and a booted container is recognised.
  \<^item> \<open>Supervisor\<close> (\<open>minion/supervisor/supervisor.go\<close>): the step relation \<open>sv_reach\<close> over databases that change and calls that
    fail; only containers of the current role, with current arguments, ever run.
  \<^item> \<open>Consensus\<close>, \<open>Elector\<close> (\<open>minion/consensus/*.go\<close>, \<open>minion/elector/elector.go\<close>): the store on trees, the interface \<open>kv_store\<close> with
    the store as its interpretation, and the interleaved campaigns of the masters as the step relation \<open>elect_step\<close>.
  \<^item> \<open>NetStore\<close>, \<open>Network\<close> (\<open>minion/network/store.go\<close>, \<open>network.go\<close>, \<open>ovsdb/ovsdb.go\<close>): unique addresses, what the leader
    writes is what workers read, and exactly the wanted ports and firewall rules.

  \<^bold>\<open>Conventions.\<close>  Every definition carries the name of the Go function or the part of it that it models.  State is passed
  explicitly; a panic is \<open>None\<close>, or \<open>Panic\<close> in the result type of \<open>dsl\<close>; an error is a value.  A Go map is an association list whose
  order is the one the runtime happens to pick.  A policy's floats are exact decimals, and nil and empty slices are identified.
  Services outside the sources (clouds, docker, the minion connection, the store's server, the database of the
  switch) are records of functions over an arbitrary state, and what is assumed of them is a hypothesis of the theorem that
  needs it; what other goroutines do between two transactions is a parameter where it matters.

  \<^bold>\<open>Bounds.\<close>  The parser's fuel is one more than the length of the text, which is proved enough; that of imports is one
  more than there can be modules, which is proved enough.  The evaluator's fuel is the depth of its
  recursion: policies can recurse for ever, and a result is proved not to depend on it.  The 8 rounds of \<open>sync\<close>,
  the 3 tries of the scheduler and the 256 draws of \<open>randomIP\<close> are the program's own bounds.  Integers wrap around at 64 bits
  in the arithmetic of policies, and addresses are 32-bit words.

  \<^bold>\<open>Not modelled.\<close>  The worker's side of the network (\<open>minion/network/worker.go\<close>, \<open>link.go\<close>) and the clouds (\<open>provider/awsSpot.go\<close>,
  \<open>gce.go\<close>, \<open>azure.go\<close>, \<open>vagrant*.go\<close>, \<open>cloud_config.go\<close>): shell commands, system calls and third-party interfaces.  The
  OpenFlow part of \<open>ovsdb/ovsdb.go\<close>, which only the worker uses; the etcd client of \<open>consensus.go\<close>, which forwards to a third-party
  package; generated code (\<open>minion/pb\<close>); the main programs, \<open>inspect\<close>, log formatting and the input and output
  of \<open>util\<close>; timers, rate limits and the start of goroutines.
\<close>

end
